(* ===== verification/Prelude.thy ===== *)
theory Prelude
  imports Main "HOL-Library.Word" "HOL-Library.AList"
begin

text \<open>
  Shared vocabulary of the development.

  \<^item> Python's \<open>bytes\<close> is a list of 8-bit words, Python's \<open>str\<close> a list of code points
    (natural numbers); \<open>lit\<close> turns an ASCII literal into a \<open>str\<close>.
  \<^item> Python exceptions are values of the type \<open>exc\<close>; code that may raise without touching
    state returns \<open>exc + 'a\<close> (\<open>rbind\<close> sequences it), code that also mutates state is an
    action \<open>'s \<Rightarrow> (exc + 'a) \<times> 's\<close> (\<open>abind\<close>), so that what was mutated before a raise stays
    mutated, as it does in Python.
  \<^item> Python's slices and negative indices, insertion-ordered dicts (association lists with
    the update of \<open>HOL-Library.AList\<close>) and sets (lists without repetition; the list order
    is the iteration order) with the lemmas the components share.
\<close>

section \<open>Types\<close>

type_synonym byte = "8 word"
type_synonym bytes = "8 word list"
type_synonym pychar = nat
type_synonym pystr = "nat list"

named_theorems res_simps \<open>sequencing of results and actions\<close>
named_theorems wire_simps \<open>evaluation of the binary codecs\<close>
named_theorems state_defs \<open>the operations on the connection state\<close>

definition lit :: "string \<Rightarrow> pystr" where
  "lit s = map of_char s"

text \<open>
  The exceptions the source raises or lets through. \<open>UnicodeError\<close> is a subclass of
  \<open>ValueError\<close> in Python, and \<open>ProtocolViolation\<close> one of \<open>PgError\<close>; \<open>is_value_error\<close> and
  \<open>is_pg_error\<close> are the \<open>except\<close> clauses. \<open>OtherError\<close> stands for any other exception a
  session author's code raises, with its text.
\<close>

datatype exc =
    PgError pystr pystr "(pystr \<times> pystr) list"
  | ProtocolViolation pystr pystr
  | ValueError pystr
  | UnicodeError
  | StructError
  | IndexError
  | KeyError
  | TypeError pystr
  | OverflowError
  | AssertionError
  | ConnectionClosed
  | CancelledError
  | OtherError pystr

fun is_value_error :: "exc \<Rightarrow> bool" where
  "is_value_error (ValueError m) = True"
| "is_value_error UnicodeError = True"
| "is_value_error _ = False"

fun is_pg_error :: "exc \<Rightarrow> bool" where
  "is_pg_error (PgError c m fs) = True"
| "is_pg_error (ProtocolViolation c m) = True"
| "is_pg_error _ = False"

section \<open>Results and actions\<close>

definition rbind :: "('e + 'a) \<Rightarrow> ('a \<Rightarrow> 'e + 'b) \<Rightarrow> 'e + 'b" where
  "rbind m f = (case m of Inl e \<Rightarrow> Inl e | Inr x \<Rightarrow> f x)"

lemma rbind_Inl [simp, res_simps]: "rbind (Inl e) f = Inl e"
  by (simp add: rbind_def)

lemma rbind_Inr [simp, res_simps]: "rbind (Inr x) f = f x"
  by (simp add: rbind_def)

lemma rbind_assoc: "rbind (rbind m f) g = rbind m (\<lambda>x. rbind (f x) g)"
  by (simp add: rbind_def split: sum.splits)

lemma rbind_eq_Inr: "rbind m f = Inr y \<longleftrightarrow> (\<exists>x. m = Inr x \<and> f x = Inr y)"
  by (cases m) auto

lemma rbind_eq_InrE [elim!]:
  assumes "rbind m f = Inr y"
  obtains x where "m = Inr x" "f x = Inr y"
  using assms by (auto simp: rbind_eq_Inr)

lemma rbind_eq_Inl: "rbind m f = Inl e \<longleftrightarrow> m = Inl e \<or> (\<exists>x. m = Inr x \<and> f x = Inl e)"
  by (cases m) auto

lemma rbind_neq_Inl:
  assumes "m \<noteq> Inl e" and "\<And>x. m = Inr x \<Longrightarrow> f x \<noteq> Inl e"
  shows "rbind m f \<noteq> Inl e"
  using assms by (cases m) auto

lemma rbind_cong [fundef_cong]:
  assumes "m = m'" and "\<And>x. m' = Inr x \<Longrightarrow> f x = f' x"
  shows "rbind m f = rbind m' f'"
  using assms by (cases m') auto

text \<open>\<open>[f(x) for x in xs]\<close> where \<open>f\<close> may raise: the first exception wins.\<close>

fun rmap :: "('a \<Rightarrow> 'e + 'b) \<Rightarrow> 'a list \<Rightarrow> 'e + 'b list" where
  "rmap f [] = Inr []"
| "rmap f (x # xs) = rbind (f x) (\<lambda>y. rbind (rmap f xs) (\<lambda>ys. Inr (y # ys)))"

lemma rmap_Inr: "(\<And>x. x \<in> set xs \<Longrightarrow> f x = Inr (g x)) \<Longrightarrow> rmap f xs = Inr (map g xs)"
  by (induction xs) auto

lemma rmap_eq_Inr_iff:
  "rmap f xs = Inr ys \<longleftrightarrow> list_all2 (\<lambda>x y. f x = Inr y) xs ys"
  by (induction xs arbitrary: ys) (auto simp: rbind_eq_Inr list_all2_Cons1)

lemma rmap_elem: "rmap f xs = Inr ys \<Longrightarrow> y \<in> set ys \<Longrightarrow> \<exists>x \<in> set xs. f x = Inr y"
  by (induction xs arbitrary: ys) auto

lemma length_rmap: "rmap f xs = Inr ys \<Longrightarrow> length ys = length xs"
  by (auto simp: rmap_eq_Inr_iff dest: list_all2_lengthD)

lemma rmap_cong [fundef_cong]:
  assumes "xs = ys" and "\<And>x. x \<in> set ys \<Longrightarrow> f x = g x"
  shows "rmap f xs = rmap g ys"
  using assms(2) unfolding assms(1) by (induction ys) auto

type_synonym ('s, 'a) act = "'s \<Rightarrow> (exc + 'a) \<times> 's"

definition aret :: "'a \<Rightarrow> ('s, 'a) act" where
  "aret x s = (Inr x, s)"

definition araise :: "exc \<Rightarrow> ('s, 'a) act" where
  "araise e s = (Inl e, s)"

definition abind :: "('s, 'a) act \<Rightarrow> ('a \<Rightarrow> ('s, 'b) act) \<Rightarrow> ('s, 'b) act" where
  "abind m f s = (case m s of (Inl e, s') \<Rightarrow> (Inl e, s') | (Inr x, s') \<Rightarrow> f x s')"

definition amod :: "('s \<Rightarrow> 's) \<Rightarrow> ('s, unit) act" where
  "amod f s = (Inr (), f s)"

definition alift :: "exc + 'a \<Rightarrow> ('s, 'a) act" where
  "alift r s = (r, s)"

lemmas act_defs = aret_def araise_def abind_def amod_def alift_def

fun arun :: "('a \<Rightarrow> ('s, unit) act) \<Rightarrow> 'a list \<Rightarrow> ('s, unit) act" where
  "arun f [] s = (Inr (), s)"
| "arun f (x # xs) s = (case f x s of (Inl e, s') \<Rightarrow> (Inl e, s') | (Inr u, s') \<Rightarrow> arun f xs s')"

section \<open>Slices and indices\<close>

text \<open>A slice bound as Python clips it: a negative one counts from the end.\<close>

definition clip_index :: "nat \<Rightarrow> int \<Rightarrow> nat" where
  "clip_index n i = (if i < 0 then nat (int n + i) else min n (nat i))"

text \<open>\<open>xs[a:b]\<close>\<close>

definition py_slice :: "'a list \<Rightarrow> int \<Rightarrow> int \<Rightarrow> 'a list" where
  "py_slice xs a b =
     (let i = clip_index (length xs) a; j = clip_index (length xs) b in drop i (take j xs))"

lemma clip_index_nat [simp]: "clip_index n (int i) = min n i"
  by (simp add: clip_index_def)

lemma py_slice_mid [simp]:
  "py_slice (pre @ mid @ post) (int (length pre)) (int (length pre) + int (length mid)) = mid"
proof -
  have "int (length pre) + int (length mid) = int (length pre + length mid)" by simp
  then show ?thesis by (simp only: py_slice_def Let_def clip_index_nat) simp
qed

section \<open>Dicts and sets\<close>

text \<open>
  A dict is an association list in insertion order; \<open>d[k] = v\<close> keeps the position of a key
  that is already there (\<open>AList.update\<close>), \<open>d.pop(k, None)\<close> removes it.
\<close>

type_synonym ('k, 'v) dict = "('k \<times> 'v) list"

abbreviation dict_get :: "('k, 'v) dict \<Rightarrow> 'k \<Rightarrow> 'v option" where
  "dict_get \<equiv> map_of"

abbreviation dict_set :: "'k \<Rightarrow> 'v \<Rightarrow> ('k, 'v) dict \<Rightarrow> ('k, 'v) dict" where
  "dict_set \<equiv> AList.update"

definition dict_pop :: "'k \<Rightarrow> ('k, 'v) dict \<Rightarrow> ('k, 'v) dict" where
  "dict_pop k d = filter (\<lambda>p. fst p \<noteq> k) d"

definition dict_has :: "'k \<Rightarrow> ('k, 'v) dict \<Rightarrow> bool" where
  "dict_has k d \<longleftrightarrow> map_of d k \<noteq> None"

lemma dict_get_pop [simp]: "map_of (dict_pop k d) x = (if x = k then None else map_of d x)"
  by (induction d) (auto simp: dict_pop_def)

lemma dict_get_set [simp]: "map_of (dict_set k v d) x = (if x = k then Some v else map_of d x)"
  by (simp add: update_conv')

lemma dict_pop_keys [simp]: "fst ` set (dict_pop k d) = fst ` set d - {k}"
  by (auto simp: dict_pop_def)

lemma dict_has_iff: "dict_has k d \<longleftrightarrow> k \<in> fst ` set d"
  by (auto simp: dict_has_def map_of_eq_None_iff)

definition dict_get_or :: "('k, 'v) dict \<Rightarrow> 'k \<Rightarrow> 'v \<Rightarrow> 'v" where
  "dict_get_or d k v = (case dict_get d k of Some x \<Rightarrow> x | None \<Rightarrow> v)"

text \<open>A dict literal followed by \<open>**fields\<close>: later keys win and keep their place.\<close>

definition dict_update :: "('k, 'v) dict \<Rightarrow> ('k, 'v) dict \<Rightarrow> ('k, 'v) dict" where
  "dict_update d fs = foldl (\<lambda>acc (k, v). dict_set k v acc) d fs"

lemma dict_set_new: "k \<notin> fst ` set d \<Longrightarrow> dict_set k v d = d @ [(k, v)]"
  by (induction d) auto

lemma dict_update_get: "dict_get (dict_update d fs) c = (case map_of (rev fs) c of Some v \<Rightarrow> Some v | None \<Rightarrow> dict_get d c)"
  by (induction fs rule: rev_induct) (auto simp: dict_update_def)

lemma dict_update_keys: "fst ` set fs \<subseteq> fst ` set d \<Longrightarrow> map fst (dict_update d fs) = map fst d"
  by (induction fs rule: rev_induct) (auto simp: dict_update_def update_keys simp flip: set_map)

lemma map_of_rev_distinct: "distinct (map fst xs) \<Longrightarrow> map_of (rev xs) = map_of xs"
  by (metis distinct_rev map_of_inject_set rev_map set_rev)

lemma dict_get_or_mem: "dict_get_or d k v \<in> insert v (snd ` set d)"
  by (force simp: dict_get_or_def split: option.splits dest: map_of_SomeD)

text \<open>A set is a list without repetition; adding an element that is there changes nothing.\<close>

definition set_add :: "'a \<Rightarrow> 'a list \<Rightarrow> 'a list" where
  "set_add x xs = (if x \<in> set xs then xs else xs @ [x])"

definition set_discard :: "'a \<Rightarrow> 'a list \<Rightarrow> 'a list" where
  "set_discard x xs = filter (\<lambda>y. y \<noteq> x) xs"

definition set_diff :: "'a list \<Rightarrow> 'a list \<Rightarrow> 'a list" where
  "set_diff xs ys = filter (\<lambda>x. x \<notin> set ys) xs"

lemma set_set_add [simp]: "set (set_add x xs) = insert x (set xs)"
  by (auto simp: set_add_def)

lemma set_set_discard [simp]: "set (set_discard x xs) = set xs - {x}"
  by (auto simp: set_discard_def)

lemma set_set_diff [simp]: "set (set_diff xs ys) = set xs - set ys"
  by (auto simp: set_diff_def)

lemma distinct_set_ops [simp]:
  "distinct xs \<Longrightarrow> distinct (set_add x xs)"
  "distinct xs \<Longrightarrow> distinct (set_discard x xs)"
  "distinct xs \<Longrightarrow> distinct (set_diff xs ys)"
  by (auto simp: set_add_def set_discard_def set_diff_def)

section \<open>Literals\<close>

lemma lit_inject [simp]: "lit s = lit t \<longleftrightarrow> s = t"
  by (auto simp: lit_def inj_map_eq_map[OF inj_of_char])

lemma lit_Nil [simp]: "lit [] = []"
  by (simp add: lit_def)

lemma lit_eq_Nil [simp]: "lit s = [] \<longleftrightarrow> s = []"
  by (simp add: lit_def)

lemma length_lit [simp]: "length (lit s) = length s"
  by (simp add: lit_def)

lemma lit_ascii: "c \<in> set (lit s) \<Longrightarrow> c < 256"
  by (auto simp: lit_def)

end
