(* ===== verification/PyText.thy ===== *)
theory PyText
  imports Prelude
begin

text \<open>
  What the source uses of Python's \<open>str\<close> and \<open>bytes\<close>: the UTF-8 codec (strict and
  incremental, \<open>codecs.getincrementaldecoder\<close>), white space and \<open>strip\<close>, case mapping,
  decimal and hexadecimal rendering, \<open>join\<close>, \<open>split\<close>, \<open>replace\<close>, \<open>repr\<close>.

  Case mapping is modelled on ASCII letters: every keyword and every name the source compares
  is ASCII. White space is Python's (\<open>str.isspace\<close>), beyond ASCII too.
\<close>

section \<open>UTF-8\<close>

text \<open>Surrogates are code points of a Python \<open>str\<close> but have no UTF-8 encoding.\<close>

definition encodable :: "pychar \<Rightarrow> bool" where
  "encodable c \<longleftrightarrow> c < 0xD800 \<or> (0xE000 \<le> c \<and> c < 0x110000)"

definition to_byte :: "nat \<Rightarrow> byte" where
  [wire_simps]: "to_byte n = word_of_nat n"

definition utf8_char :: "pychar \<Rightarrow> bytes" where
  "utf8_char c =
     (if c < 0x80 then [to_byte c]
      else if c < 0x800 then [to_byte (0xC0 + c div 64), to_byte (0x80 + c mod 64)]
      else if c < 0x10000 then
        [to_byte (0xE0 + c div 4096), to_byte (0x80 + c div 64 mod 64), to_byte (0x80 + c mod 64)]
      else
        [to_byte (0xF0 + c div 262144), to_byte (0x80 + c div 4096 mod 64),
         to_byte (0x80 + c div 64 mod 64), to_byte (0x80 + c mod 64)])"

text \<open>\<open>s.encode("utf-8")\<close>\<close>

definition utf8_encode :: "pystr \<Rightarrow> exc + bytes" where
  "utf8_encode s = (if list_all encodable s then Inr (concat (map utf8_char s)) else Inl UnicodeError)"

datatype utf8_step = U_end | U_char pychar bytes | U_more | U_bad

definition utf8_cont :: "byte \<Rightarrow> bool" where
  "utf8_cont b \<longleftrightarrow> 0x80 \<le> unat b \<and> unat b < 0xC0"

definition utf8_second3 :: "nat \<Rightarrow> byte \<Rightarrow> bool" where
  "utf8_second3 n b \<longleftrightarrow> utf8_cont b \<and> (n = 0xE0 \<longrightarrow> 0xA0 \<le> unat b) \<and> (n = 0xED \<longrightarrow> unat b < 0xA0)"

definition utf8_second4 :: "nat \<Rightarrow> byte \<Rightarrow> bool" where
  "utf8_second4 n b \<longleftrightarrow> utf8_cont b \<and> (n = 0xF0 \<longrightarrow> 0x90 \<le> unat b) \<and> (n = 0xF4 \<longrightarrow> unat b < 0x90)"

text \<open>
  One step of the decoder: the next character, a prefix that more bytes may complete, or a
  byte that no continuation makes valid.
\<close>

fun utf8_next :: "bytes \<Rightarrow> utf8_step" where
  "utf8_next [] = U_end"
| "utf8_next (b0 # r) =
     (let n = unat b0 in
      if n < 0x80 then U_char n r
      else if n < 0xC2 then U_bad
      else if n < 0xE0 then
        (case r of [] \<Rightarrow> U_more
         | b1 # r1 \<Rightarrow> if utf8_cont b1 then U_char ((n - 0xC0) * 64 + (unat b1 - 0x80)) r1 else U_bad)
      else if n < 0xF0 then
        (case r of [] \<Rightarrow> U_more
         | b1 # r1 \<Rightarrow>
             if \<not> utf8_second3 n b1 then U_bad
             else (case r1 of [] \<Rightarrow> U_more
                   | b2 # r2 \<Rightarrow>
                       if utf8_cont b2
                       then U_char ((n - 0xE0) * 4096 + (unat b1 - 0x80) * 64 + (unat b2 - 0x80)) r2
                       else U_bad))
      else if n < 0xF5 then
        (case r of [] \<Rightarrow> U_more
         | b1 # r1 \<Rightarrow>
             if \<not> utf8_second4 n b1 then U_bad
             else (case r1 of [] \<Rightarrow> U_more
                   | b2 # r2 \<Rightarrow>
                       if \<not> utf8_cont b2 then U_bad
                       else (case r2 of [] \<Rightarrow> U_more
                             | b3 # r3 \<Rightarrow>
                                 if utf8_cont b3
                                 then U_char ((n - 0xF0) * 262144 + (unat b1 - 0x80) * 4096
                                              + (unat b2 - 0x80) * 64 + (unat b3 - 0x80)) r3
                                 else U_bad)))
      else U_bad)"

lemma utf8_next_shorter: "utf8_next bs = U_char c r \<Longrightarrow> length r < length bs"
  by (cases bs) (auto simp: Let_def split: if_splits list.splits)

text \<open>
  The incremental decoder: the characters that are complete, and the bytes of an incomplete
  last one.
\<close>

function utf8_feed :: "bytes \<Rightarrow> exc + pystr \<times> bytes" where
  "utf8_feed bs =
     (case utf8_next bs of
        U_end \<Rightarrow> Inr ([], [])
      | U_more \<Rightarrow> Inr ([], bs)
      | U_bad \<Rightarrow> Inl UnicodeError
      | U_char c r \<Rightarrow> rbind (utf8_feed r) (\<lambda>(cs, left). Inr (c # cs, left)))"
  by pat_completeness auto
termination
  by (relation "measure length") (auto dest: utf8_next_shorter)

declare utf8_feed.simps [simp del]

text \<open>\<open>data.decode("utf-8")\<close>: an incomplete last character is an error.\<close>

definition utf8_decode :: "bytes \<Rightarrow> exc + pystr" where
  "utf8_decode bs =
     rbind (utf8_feed bs) (\<lambda>(cs, left). if left = [] then Inr cs else Inl UnicodeError)"

section \<open>White space, case, search\<close>

text \<open>\<open>str.isspace\<close>, which is also the class \<open>\s\<close> of a \<open>str\<close> pattern.\<close>

definition py_isspace :: "pychar \<Rightarrow> bool" where
  "py_isspace c \<longleftrightarrow>
     (9 \<le> c \<and> c \<le> 13) \<or> (28 \<le> c \<and> c \<le> 32) \<or> c = 0x85 \<or> c = 0xA0 \<or> c = 0x1680 \<or>
     (0x2000 \<le> c \<and> c \<le> 0x200A) \<or> c = 0x2028 \<or> c = 0x2029 \<or> c = 0x202F \<or> c = 0x205F \<or> c = 0x3000"

definition py_lstrip :: "pystr \<Rightarrow> pystr" where
  "py_lstrip s = dropWhile py_isspace s"

definition py_rstrip :: "pystr \<Rightarrow> pystr" where
  "py_rstrip s = rev (dropWhile py_isspace (rev s))"

definition py_strip :: "pystr \<Rightarrow> pystr" where
  "py_strip s = py_rstrip (py_lstrip s)"

text \<open>\<open>s.strip(chars)\<close> and \<open>s.rstrip(chars)\<close>\<close>

definition py_rstrip_chars :: "'a list \<Rightarrow> 'a list \<Rightarrow> 'a list" where
  "py_rstrip_chars cs s = rev (dropWhile (\<lambda>c. c \<in> set cs) (rev s))"

definition py_strip_chars :: "'a list \<Rightarrow> 'a list \<Rightarrow> 'a list" where
  "py_strip_chars cs s = py_rstrip_chars cs (dropWhile (\<lambda>c. c \<in> set cs) s)"

definition upper_char :: "pychar \<Rightarrow> pychar" where
  "upper_char c = (if 97 \<le> c \<and> c \<le> 122 then c - 32 else c)"

definition lower_char :: "pychar \<Rightarrow> pychar" where
  "lower_char c = (if 65 \<le> c \<and> c \<le> 90 then c + 32 else c)"

abbreviation py_upper :: "pystr \<Rightarrow> pystr" where
  "py_upper s \<equiv> map upper_char s"

abbreviation py_lower :: "pystr \<Rightarrow> pystr" where
  "py_lower s \<equiv> map lower_char s"

fun starts_with :: "'a list \<Rightarrow> 'a list \<Rightarrow> bool" where
  "starts_with s [] = True"
| "starts_with [] (p # ps) = False"
| "starts_with (c # s) (p # ps) = (c = p \<and> starts_with s ps)"

definition ends_with :: "'a list \<Rightarrow> 'a list \<Rightarrow> bool" where
  "ends_with s p = starts_with (rev s) (rev p)"

text \<open>\<open>s.find(c)\<close> for one character, as an option, and the part before and after it.\<close>

fun find_char :: "'a \<Rightarrow> 'a list \<Rightarrow> nat option" where
  "find_char c [] = None"
| "find_char c (x # xs) = (if x = c then Some 0 else map_option Suc (find_char c xs))"

definition py_join :: "'a list \<Rightarrow> 'a list list \<Rightarrow> 'a list" where
  "py_join sep parts =
     (case parts of [] \<Rightarrow> [] | p # ps \<Rightarrow> p @ concat (map (\<lambda>q. sep @ q) ps))"

text \<open>\<open>s.split(c)\<close> for a one-character separator.\<close>

fun split_on :: "'a \<Rightarrow> 'a list \<Rightarrow> 'a list list" where
  "split_on c [] = [[]]"
| "split_on c (x # xs) =
     (if x = c then [] # split_on c xs
      else (case split_on c xs of [] \<Rightarrow> [[x]] | p # ps \<Rightarrow> (x # p) # ps))"

text \<open>\<open>s.split()\<close>: the maximal runs of characters that are not white space.\<close>

fun split_ws_aux :: "pystr \<Rightarrow> pystr \<Rightarrow> pystr list" where
  "split_ws_aux cur [] = (if cur = [] then [] else [cur])"
| "split_ws_aux cur (c # s) =
     (if py_isspace c then (if cur = [] then split_ws_aux [] s else cur # split_ws_aux [] s)
      else split_ws_aux (cur @ [c]) s)"

definition split_ws :: "pystr \<Rightarrow> pystr list" where
  "split_ws s = split_ws_aux [] s"

text \<open>\<open>s.replace(c, r)\<close> for one character, and \<open>s.replace(cc, c)\<close> for a doubled one.\<close>

definition replace_char :: "'a \<Rightarrow> 'a list \<Rightarrow> 'a list \<Rightarrow> 'a list" where
  "replace_char c r s = concat (map (\<lambda>x. if x = c then r else [x]) s)"

fun undouble :: "'a \<Rightarrow> 'a list \<Rightarrow> 'a list" where
  "undouble c (x # y # s) = (if x = c \<and> y = c then c # undouble c s else x # undouble c (y # s))"
| "undouble c s = s"

section \<open>Numbers as text\<close>

fun nat_str :: "nat \<Rightarrow> pystr" where
  "nat_str n = (if n < 10 then [48 + n] else nat_str (n div 10) @ [48 + n mod 10])"

declare nat_str.simps [simp del]

definition int_str :: "int \<Rightarrow> pystr" where
  "int_str i = (if i < 0 then 45 # nat_str (nat (- i)) else nat_str (nat i))"

definition is_digit :: "pychar \<Rightarrow> bool" where
  "is_digit c \<longleftrightarrow> 48 \<le> c \<and> c \<le> 57"

fun digits_val :: "nat \<Rightarrow> pystr \<Rightarrow> nat" where
  "digits_val acc [] = acc"
| "digits_val acc (c # s) = digits_val (acc * 10 + (c - 48)) s"

text \<open>\<open>f"{n:0wd}"\<close> for a natural number.\<close>

definition zero_pad :: "nat \<Rightarrow> nat \<Rightarrow> pystr" where
  "zero_pad w n = (let s = nat_str n in replicate (w - length s) 48 @ s)"

definition hex_digit :: "nat \<Rightarrow> pychar" where
  "hex_digit n = (if n < 10 then 48 + n else 87 + n)"

definition bytes_hex :: "bytes \<Rightarrow> pystr" where
  "bytes_hex bs = concat (map (\<lambda>b. [hex_digit (unat b div 16), hex_digit (unat b mod 16)]) bs)"

text \<open>
  \<open>repr\<close> of a string: single quotes unless the text has one and no double quote; the
  backslash, the quote and the control characters are escaped.
\<close>

definition repr_char :: "pychar \<Rightarrow> pychar \<Rightarrow> pystr" where
  "repr_char q c =
     (if c = q \<or> c = 92 then [92, c]
      else if c = 10 then lit [CHR 0x5C, CHR ''n'']
      else if c = 13 then lit [CHR 0x5C, CHR ''r'']
      else if c = 9 then lit [CHR 0x5C, CHR ''t'']
      else if c < 32 \<or> (127 \<le> c \<and> c < 161) then [92, 120, hex_digit (c div 16), hex_digit (c mod 16)]
      else [c])"

definition py_repr :: "pystr \<Rightarrow> pystr" where
  "py_repr s =
     (let q = (if 39 \<in> set s \<and> 34 \<notin> set s then 34 else 39) in [q] @ concat (map (repr_char q) s) @ [q])"

section \<open>Facts about UTF-8\<close>

lemma unat_to_byte: "n < 256 \<Longrightarrow> unat (to_byte n) = n"
  by (simp add: to_byte_def unat_of_nat take_bit_nat_eq_self)

lemma utf8_next_3:
  assumes "a < 16" "b < 64" "d < 64" "a = 0 \<longrightarrow> 32 \<le> b" "a = 13 \<longrightarrow> b < 32"
  shows "utf8_next (to_byte (0xE0 + a) # to_byte (0x80 + b) # to_byte (0x80 + d) # rest) =
    U_char (a * 4096 + b * 64 + d) rest"
  using assms by (simp add: unat_to_byte utf8_cont_def utf8_second3_def Let_def)

lemma utf8_next_4:
  assumes "a < 5" "b < 64" "d < 64" "e < 64" "a = 0 \<longrightarrow> 16 \<le> b" "a = 4 \<longrightarrow> b < 16"
  shows "utf8_next (to_byte (0xF0 + a) # to_byte (0x80 + b) # to_byte (0x80 + d) # to_byte (0x80 + e) # rest) =
    U_char (a * 262144 + b * 4096 + d * 64 + e) rest"
  using assms by (simp add: unat_to_byte utf8_cont_def utf8_second4_def Let_def)

lemma utf8_next_char:
  assumes "encodable c"
  shows "utf8_next (utf8_char c @ rest) = U_char c rest"
proof -
  have c: "c < 0x110000" using assms by (auto simp: encodable_def)
  consider "c < 0x80" | "0x80 \<le> c" "c < 0x800" | "0x800 \<le> c" "c < 0x10000" | "0x10000 \<le> c"
    by linarith
  then show ?thesis
  proof cases
    case 1
    then show ?thesis by (simp add: utf8_char_def unat_to_byte)
  next
    case 2
    have r: "c = 64 * (c div 64) + c mod 64" by simp
    have m: "c mod 64 < 64" by simp
    have "2 \<le> c div 64" "c div 64 < 32" using 2 r m by linarith+
    moreover have "c div 64 * 64 + c mod 64 = c" using r by linarith
    ultimately show ?thesis using 2 m by (auto simp: utf8_char_def unat_to_byte utf8_cont_def Let_def)
  next
    case 3
    have d: "c div 4096 = c div 64 div 64" by (simp add: div_mult2_eq[symmetric])
    have q: "c div 64 = 64 * (c div 4096) + c div 64 mod 64" unfolding d by simp
    have r: "c = 64 * (c div 64) + c mod 64" by simp
    have m: "c mod 64 < 64" "c div 64 mod 64 < 64" by simp_all
    have "c div 4096 < 16" using 3 q r m by linarith
    moreover have "c div 4096 = 0 \<longrightarrow> 32 \<le> c div 64 mod 64" using 3 q r m by linarith
    moreover have "c div 4096 = 13 \<longrightarrow> c div 64 mod 64 < 32"
      using 3 assms q r m unfolding encodable_def by linarith
    moreover have "c div 4096 * 4096 + c div 64 mod 64 * 64 + c mod 64 = c" using q r by linarith
    ultimately show ?thesis using 3 m utf8_next_3[of "c div 4096" "c div 64 mod 64" "c mod 64" rest]
      by (simp add: utf8_char_def del: utf8_next.simps)
  next
    case 4
    have d: "c div 4096 = c div 64 div 64" "c div 262144 = c div 4096 div 64"
      by (simp_all add: div_mult2_eq[symmetric])
    have p: "c div 4096 = 64 * (c div 262144) + c div 4096 mod 64" unfolding d(2) by simp
    have q: "c div 64 = 64 * (c div 4096) + c div 64 mod 64" unfolding d(1) by simp
    have r: "c = 64 * (c div 64) + c mod 64" by simp
    have m: "c mod 64 < 64" "c div 64 mod 64 < 64" "c div 4096 mod 64 < 64" by simp_all
    have f: "c div 262144 < 5" using c p q r m by linarith
    have g: "c div 262144 = 0 \<longrightarrow> 16 \<le> c div 4096 mod 64" using 4 p q r m by linarith
    have h: "c div 262144 = 4 \<longrightarrow> c div 4096 mod 64 < 16" using c p q r m by linarith
    have v: "c div 262144 * 262144 + c div 4096 mod 64 * 4096 + c div 64 mod 64 * 64 + c mod 64 = c"
      using p q r by linarith
    show ?thesis using 4 utf8_next_4[OF f m(3) m(2) m(1) g h, of rest]
      unfolding v by (simp add: utf8_char_def del: utf8_next.simps)
  qed
qed

lemma utf8_feed_encoded:
  "list_all encodable s \<Longrightarrow>
   utf8_feed (concat (map utf8_char s) @ rest) = rbind (utf8_feed rest) (\<lambda>(cs, left). Inr (s @ cs, left))"
proof (induction s)
  case Nil
  then show ?case by (simp add: rbind_def split: sum.splits)
next
  case (Cons c s)
  then show ?case
    by (simp add: utf8_feed.simps[of "utf8_char c @ _"] utf8_next_char rbind_assoc)
       (simp add: rbind_def split: sum.splits prod.splits)
qed

lemma utf8_feed_Nil [simp]: "utf8_feed [] = Inr ([], [])"
  by (simp add: utf8_feed.simps)

lemma utf8_decode_encode: "utf8_encode s = Inr bs \<Longrightarrow> utf8_decode bs = Inr s"
  using utf8_feed_encoded[of s "[]"]
  by (auto simp: utf8_encode_def utf8_decode_def split: if_splits)

text \<open>What is decided about a prefix stays decided when more bytes arrive.\<close>

lemma utf8_next_append:
  "utf8_next a = U_char c r \<Longrightarrow> utf8_next (a @ b) = U_char c (r @ b)"
  "utf8_next a = U_bad \<Longrightarrow> utf8_next (a @ b) = U_bad"
  by (cases a; auto simp: Let_def split: if_splits list.splits)+

lemma utf8_next_end [simp]: "utf8_next a = U_end \<longleftrightarrow> a = []"
  by (cases a) (auto simp: Let_def split: list.splits)

lemma utf8_feed_append:
  "utf8_feed (a @ b) =
     rbind (utf8_feed a) (\<lambda>(cs, left). rbind (utf8_feed (left @ b)) (\<lambda>(ds, left'). Inr (cs @ ds, left')))"
proof (induction a rule: utf8_feed.induct)
  case (1 a)
  show ?case
  proof (cases "utf8_next a")
    case U_end
    then show ?thesis by (simp add: rbind_def split: sum.splits)
  next
    case U_more
    then show ?thesis by (simp add: utf8_feed.simps[of a] rbind_def split: sum.splits)
  next
    case U_bad
    then show ?thesis by (simp add: utf8_feed.simps[of a] utf8_feed.simps[of "a @ b"] utf8_next_append)
  next
    case (U_char c r)
    with "1.IH"[OF U_char] show ?thesis
      by (simp add: utf8_feed.simps[of a] utf8_feed.simps[of "a @ b"] utf8_next_append rbind_assoc)
         (simp add: rbind_def split: sum.splits prod.splits)
  qed
qed

text \<open>The bytes held back are a fixed point: fed again alone they still wait for more.\<close>

lemma utf8_feed_left: "utf8_feed a = Inr (cs, left) \<Longrightarrow> utf8_feed left = Inr ([], left)"
proof (induction a arbitrary: cs rule: utf8_feed.induct)
  case (1 a)
  show ?case
  proof (cases "utf8_next a")
    case (U_char c r)
    with "1.prems" obtain cs' where "utf8_feed r = Inr (cs', left)"
      by (auto simp: utf8_feed.simps[of a])
    with "1.IH"[OF U_char] show ?thesis by blast
  qed (use "1.prems" in \<open>auto simp: utf8_feed.simps[of a] utf8_feed.simps[of left]\<close>)
qed

section \<open>Facts about searching, splitting and numbers\<close>

lemma find_char_append:
  "c \<notin> set pre \<Longrightarrow> find_char c (pre @ c # post) = Some (length pre)"
  by (induction pre) auto

lemma find_char_None [simp]: "find_char c xs = None \<longleftrightarrow> c \<notin> set xs"
  by (induction xs) auto

lemma starts_with_append [simp]: "starts_with (p @ s) p"
  by (induction p) auto

lemma starts_with_iff: "starts_with s p \<longleftrightarrow> (\<exists>r. s = p @ r)"
  by (induction s p rule: starts_with.induct) auto

lemma ends_with_iff: "ends_with s p \<longleftrightarrow> (\<exists>r. s = r @ p)"
proof
  assume "ends_with s p"
  then obtain r where "rev s = rev p @ r" by (auto simp: ends_with_def starts_with_iff)
  then have "s = rev r @ p" by (metis rev_append rev_rev_ident)
  then show "\<exists>r. s = r @ p" ..
next
  assume "\<exists>r. s = r @ p"
  then show "ends_with s p" by (auto simp: ends_with_def)
qed

lemma split_on_nonempty [simp]: "split_on c s \<noteq> []"
  by (induction s) (auto split: list.splits)

lemma split_on_no_sep [simp]: "c \<notin> set s \<Longrightarrow> split_on c s = [s]"
  by (induction s) auto

lemma split_on_append: "c \<notin> set p \<Longrightarrow> split_on c (p @ c # s) = p # split_on c s"
  by (induction p) auto

lemma nat_str_digits: "d \<in> set (nat_str n) \<Longrightarrow> is_digit d"
  by (induction n rule: nat_str.induct)
     (subst (asm) (2) nat_str.simps, auto simp: is_digit_def split: if_splits)

lemma digits_val_append: "digits_val acc (a @ b) = digits_val (digits_val acc a) b"
  by (induction a arbitrary: acc) auto

lemma digits_val_nat_str: "digits_val 0 (nat_str n) = n"
proof (induction n rule: nat_str.induct)
  case (1 n)
  show ?case
    by (subst nat_str.simps) (use 1 in \<open>auto simp: digits_val_append\<close>)
qed

lemma nat_str_nonempty [simp]: "nat_str n \<noteq> []"
  by (subst nat_str.simps) simp

end
