(* ===== verification/PyFloat.thy ===== *)
theory PyFloat
  imports Complex_Main PyText
begin

text \<open>
  Python's \<open>float\<close>: an IEEE binary64 number given by its 64 bits. \<open>f64_val\<close> reads the exact
  rational value, \<open>round_bits\<close> is rounding to nearest, ties to even, in a binary format with \<open>p\<close>
  bits of precision and least exponent \<open>emin\<close> (binary64 and binary32). \<open>float_repr\<close> is \<open>repr\<close>: the
  shortest digits that read back as the same number, the closest such digits to it; \<open>float_g\<close> is
  the format \<open>g\<close> with its default six digits; \<open>parse_float\<close> is \<open>float(text)\<close> on the finite
  literals.
\<close>

type_synonym f64 = "64 word"

section \<open>Bits and values\<close>

definition f64_sign :: "f64 \<Rightarrow> bool" where
  "f64_sign w \<longleftrightarrow> 2 ^ 63 \<le> unat w"

definition f64_exp :: "f64 \<Rightarrow> nat" where
  "f64_exp w = unat w div 2 ^ 52 mod 2048"

definition f64_frac :: "f64 \<Rightarrow> nat" where
  "f64_frac w = unat w mod 2 ^ 52"

definition f64_nan :: "f64 \<Rightarrow> bool" where
  "f64_nan w \<longleftrightarrow> f64_exp w = 2047 \<and> f64_frac w \<noteq> 0"

definition f64_inf :: "f64 \<Rightarrow> bool" where
  "f64_inf w \<longleftrightarrow> f64_exp w = 2047 \<and> f64_frac w = 0"

definition f64_finite :: "f64 \<Rightarrow> bool" where
  "f64_finite w \<longleftrightarrow> f64_exp w \<noteq> 2047"

definition pow2 :: "int \<Rightarrow> rat" where
  "pow2 e = (if 0 \<le> e then 2 ^ nat e else 1 / 2 ^ nat (- e))"

definition pow10 :: "int \<Rightarrow> rat" where
  "pow10 e = (if 0 \<le> e then 10 ^ nat e else 1 / 10 ^ nat (- e))"

text \<open>The magnitude of a finite number.\<close>

definition f64_abs :: "f64 \<Rightarrow> rat" where
  "f64_abs w =
     (if f64_exp w = 0 then of_nat (f64_frac w) * pow2 (- 1074)
      else of_nat (2 ^ 52 + f64_frac w) * pow2 (int (f64_exp w) - 1075))"

definition f64_val :: "f64 \<Rightarrow> rat" where
  "f64_val w = (if f64_sign w then - f64_abs w else f64_abs w)"

section \<open>Rounding\<close>

text \<open>The nearest integer of a non-negative rational, ties to even.\<close>

definition round_half_even :: "rat \<Rightarrow> nat" where
  "round_half_even r =
     (let n = nat \<lfloor>r\<rfloor>; d = r - of_nat n in
      if d < 1 / 2 then n else if 1 / 2 < d then n + 1 else if even n then n else n + 1)"

fun bitlen :: "nat \<Rightarrow> nat" where
  "bitlen n = (if n = 0 then 0 else Suc (bitlen (n div 2)))"

declare bitlen.simps [simp del]

text \<open>The \<open>e\<close> with \<open>2 ^ e \<le> r < 2 ^ (e + 1)\<close>, for a positive \<open>r\<close>.\<close>

definition floor_log2 :: "rat \<Rightarrow> int" where
  "floor_log2 r =
     (let (n, d) = quotient_of r; e = int (bitlen (nat n)) - int (bitlen (nat d)) in
      if pow2 e \<le> r then e else e - 1)"

text \<open>
  The bits (exponent and fraction, without the sign) of the number nearest to a positive
  rational in a format with \<open>p\<close> bits of precision: the significand \<open>m\<close> counts units of the last
  place \<open>2 ^ e\<close>; a significand that rounds up to \<open>2 ^ p\<close> carries into the exponent by itself.
\<close>

definition round_bits :: "nat \<Rightarrow> int \<Rightarrow> rat \<Rightarrow> nat" where
  "round_bits p emin r =
     (let e = max (floor_log2 r - (int p - 1)) emin; m = round_half_even (r * pow2 (- e)) in
      nat (e - emin) * 2 ^ (p - 1) + m)"

definition f64_round :: "rat \<Rightarrow> f64" where
  "f64_round r =
     (if r = 0 then 0
      else word_of_nat (min (round_bits 53 (- 1074) \<bar>r\<bar>) (2047 * 2 ^ 52) + (if r < 0 then 2 ^ 63 else 0)))"

definition f64_pinf :: f64 where "f64_pinf = word_of_nat (2047 * 2 ^ 52)"

text \<open>
  binary32, for the \<open>f\<close> format of \<open>struct\<close>: packing rounds and refuses a finite number that
  overflows, unpacking is exact. A NaN keeps its sign and the top bits of its payload.
\<close>

definition f64_to_f32 :: "f64 \<Rightarrow> exc + nat" where
  "f64_to_f32 w =
     (let s = (if f64_sign w then 2 ^ 31 else 0) in
      if f64_nan w then Inr (s + 255 * 2 ^ 23 + (let m = f64_frac w div 2 ^ 29 in if m div 2 ^ 22 = 0 then m + 2 ^ 22 else m))
      else if f64_inf w then Inr (s + 255 * 2 ^ 23)
      else if f64_abs w = 0 then Inr s
      else let b = round_bits 24 (- 149) (f64_abs w) in
        if 255 * 2 ^ 23 \<le> b then Inl OverflowError else Inr (s + b))"

definition f32_to_f64 :: "nat \<Rightarrow> f64" where
  "f32_to_f64 b =
     (let s = (if 2 ^ 31 \<le> b then 2 ^ 63 else 0); e = b div 2 ^ 23 mod 256; f = b mod 2 ^ 23 in
      if e = 255 then word_of_nat (s + 2047 * 2 ^ 52 + (if f = 0 \<or> 2 ^ 22 \<le> f then f else f + 2 ^ 22) * 2 ^ 29)
      else let a = (if e = 0 then of_nat f * pow2 (- 149) else of_nat (2 ^ 23 + f) * pow2 (int e - 150)) in
        word_of_nat (s + (if a = 0 then 0 else round_bits 53 (- 1074) a)))"

section \<open>Text\<close>

text \<open>The \<open>k\<close> with \<open>10 ^ (k - 1) \<le> r < 10 ^ k\<close>, for a positive \<open>r\<close>.\<close>

definition dec_point :: "rat \<Rightarrow> int" where
  "dec_point r =
     (let (n, d) = quotient_of r; k = int (length (nat_str (nat n))) - int (length (nat_str (nat d))) in
      if r < pow10 k then k else k + 1)"

definition strip_zeros :: "pystr \<Rightarrow> pystr" where
  "strip_zeros s = (let t = py_rstrip_chars [48] s in if t = [] then [48] else t)"

text \<open>
  The digits of a positive number and the position of the point before them. \<open>shortest_digits\<close>
  tries one digit, two digits, and so on: of the two neighbours with that many digits it takes
  those that round to the same bits, the closer one first.
\<close>

fun shortest_digits :: "rat \<Rightarrow> f64 \<Rightarrow> int \<Rightarrow> nat \<Rightarrow> nat \<Rightarrow> pystr \<times> int" where
  "shortest_digits v w k n 0 = (nat_str (round_half_even (v * pow10 (int n - k))), k)"
| "shortest_digits v w k n (Suc more) =
     (let x = v * pow10 (int n - k); c = round_half_even x; lo = nat \<lfloor>x\<rfloor>;
          d = (if c = lo then lo + 1 else lo); ok = (\<lambda>m. f64_round (of_nat m * pow10 (k - int n)) = w);
          res = (\<lambda>m. (strip_zeros (nat_str m), k + int (length (nat_str m)) - int n)) in
      if 0 < c \<and> ok c then res c
      else if 0 < d \<and> ok d then res d
      else shortest_digits v w k (Suc n) more)"

definition exp_suffix :: "int \<Rightarrow> pystr" where
  "exp_suffix e = lit ''e'' @ (if e < 0 then lit ''-'' else lit ''+'') @ zero_pad 2 (nat \<bar>e\<bar>)"

text \<open>Digits with the point at \<open>k\<close>: positional notation, or scientific.\<close>

definition positional :: "pystr \<Rightarrow> int \<Rightarrow> pystr" where
  "positional ds k =
     (if k \<le> 0 then lit ''0.'' @ replicate (nat (- k)) 48 @ ds
      else if int (length ds) \<le> k then ds @ replicate (nat k - length ds) 48
      else take (nat k) ds @ lit ''.'' @ drop (nat k) ds)"

definition scientific :: "pystr \<Rightarrow> int \<Rightarrow> pystr" where
  "scientific ds k =
     take 1 ds @ (if length ds \<le> 1 then [] else lit ''.'' @ drop 1 ds) @ exp_suffix (k - 1)"

definition f64_minus :: "f64 \<Rightarrow> pystr" where
  "f64_minus w = (if f64_sign w then lit ''-'' else [])"

definition float_repr :: "f64 \<Rightarrow> pystr" where
  "float_repr w =
     (if f64_nan w then lit ''nan''
      else if f64_inf w then f64_minus w @ lit ''inf''
      else if f64_abs w = 0 then f64_minus w @ lit ''0.0''
      else let (ds, k) = shortest_digits (f64_abs w) (f64_round (f64_abs w)) (dec_point (f64_abs w)) 1 16 in
        f64_minus w @
        (if - 4 < k \<and> k \<le> 16
         then (let s = positional ds k in if 46 \<in> set s then s else s @ lit ''.0'')
         else scientific ds k))"

definition float_g :: "f64 \<Rightarrow> pystr" where
  "float_g w =
     (if f64_nan w then lit ''nan''
      else if f64_inf w then f64_minus w @ lit ''inf''
      else if f64_abs w = 0 then f64_minus w @ lit ''0''
      else let v = f64_abs w; k0 = dec_point v; s = nat_str (round_half_even (v * pow10 (6 - k0)));
               k = k0 + int (length s) - 6; ds = strip_zeros s in
        f64_minus w @ (if - 4 < k \<and> k \<le> 6 then positional ds k else scientific ds k))"

text \<open>
  \<open>float(text)\<close>: white space around, an optional sign, digits with single underscores
  between them, at most one point, an optional exponent; \<open>inf\<close>, \<open>infinity\<close> and \<open>nan\<close> in any case.
\<close>

fun digit_run :: "pystr \<Rightarrow> bool \<Rightarrow> (pystr \<times> pystr) option" where
  "digit_run [] after = (if after then Some ([], []) else None)"
| "digit_run (c # s) after =
     (if is_digit c then map_option (\<lambda>(ds, r). (c # ds, r)) (digit_run s True)
      else if c = 95 \<and> after then (case s of d # t \<Rightarrow> if is_digit d then digit_run s False else None | [] \<Rightarrow> None)
      else if after then Some ([], c # s) else None)"

definition opt_digits :: "pystr \<Rightarrow> (pystr \<times> pystr) option" where
  "opt_digits s = (case s of c # t \<Rightarrow> if is_digit c then digit_run s False else Some ([], s) | [] \<Rightarrow> Some ([], []))"

definition take_sign :: "pystr \<Rightarrow> bool \<times> pystr" where
  "take_sign s = (case s of c # t \<Rightarrow> if c = 45 then (True, t) else if c = 43 then (False, t) else (False, s) | [] \<Rightarrow> (False, []))"

definition parse_exponent :: "pystr \<Rightarrow> int option" where
  "parse_exponent s =
     (case s of [] \<Rightarrow> Some 0
      | c # t \<Rightarrow>
          if c = 101 \<or> c = 69 then
            (let (neg, u) = take_sign t in
             case digit_run u False of Some (ds, []) \<Rightarrow> Some ((if neg then -1 else 1) * int (digits_val 0 ds)) | _ \<Rightarrow> None)
          else None)"

definition parse_unsigned_float :: "pystr \<Rightarrow> rat option" where
  "parse_unsigned_float s =
     (case opt_digits s of None \<Rightarrow> None
      | Some (a, r) \<Rightarrow>
          (case (case r of c # t \<Rightarrow> if c = 46 then opt_digits t else Some ([], r) | [] \<Rightarrow> Some ([], [])) of None \<Rightarrow> None
           | Some (b, u) \<Rightarrow>
               if a = [] \<and> b = [] then None
               else map_option (\<lambda>e. of_nat (digits_val 0 (a @ b)) * pow10 (e - int (length b))) (parse_exponent u)))"

definition f64_neg :: "f64 \<Rightarrow> f64" where
  "f64_neg w = (if f64_sign w then w - 2 ^ 63 else w + 2 ^ 63)"

definition parse_float :: "pystr \<Rightarrow> f64 option" where
  "parse_float text =
     (let (neg, s) = take_sign (py_strip text); sg = (if neg then f64_neg else id); l = py_lower s in
      if l = lit ''inf'' \<or> l = lit ''infinity'' then Some (sg f64_pinf)
      else if l = lit ''nan'' then Some (sg (word_of_nat (2047 * 2 ^ 52 + 2 ^ 51)))
      else map_option (\<lambda>r. sg (f64_round r)) (parse_unsigned_float s))"

end
