(* ===== verification/PyDate.thy ===== *)
theory PyDate
  imports PyText
begin

text \<open>
  Python's \<open>datetime\<close> types as far as the codecs use them. A date is its proleptic Gregorian
  ordinal (\<open>date.toordinal()\<close>, 1 to 3652059); \<open>ord2ymd\<close> is the calendar computation of the
  standard library and \<open>ymd2ord\<close> its inverse. A time of day is its microseconds since midnight, a
  datetime a date and a time, both with an optional UTC offset in microseconds; a timedelta is a
  number of microseconds, with \<open>days\<close>, \<open>seconds\<close> and \<open>microseconds\<close> its normalised fields.
\<close>

section \<open>The calendar\<close>

definition is_leap :: "nat \<Rightarrow> bool" where
  "is_leap y \<longleftrightarrow> y mod 4 = 0 \<and> (y mod 100 \<noteq> 0 \<or> y mod 400 = 0)"

definition days_before_year :: "nat \<Rightarrow> nat" where
  "days_before_year y = (let z = y - 1 in z * 365 + z div 4 - z div 100 + z div 400)"

definition days_in_month :: "nat \<Rightarrow> nat \<Rightarrow> nat" where
  "days_in_month y m =
     (if m = 2 then (if is_leap y then 29 else 28) else if m \<in> {4, 6, 9, 11} then 30 else 31)"

definition days_before_month :: "nat \<Rightarrow> nat \<Rightarrow> nat" where
  "days_before_month y m = sum_list (map (days_in_month y) [1..<m])"

definition ymd2ord :: "nat \<Rightarrow> nat \<Rightarrow> nat \<Rightarrow> nat" where
  "ymd2ord y m d = days_before_year y + days_before_month y m + d"

text \<open>The month of a day of the year, counted from 0, as the last one that starts before it.\<close>

fun month_of :: "nat \<Rightarrow> nat \<Rightarrow> nat \<Rightarrow> nat \<Rightarrow> nat \<times> nat" where
  "month_of y m n 0 = (m, n + 1)"
| "month_of y m n (Suc k) =
     (if n < days_in_month y m then (m, n + 1) else month_of y (m + 1) (n - days_in_month y m) k)"

definition ord2ymd :: "nat \<Rightarrow> nat \<times> nat \<times> nat" where
  "ord2ymd ordinal =
     (let n = ordinal - 1; n400 = n div 146097; r400 = n mod 146097;
          n100 = r400 div 36524; r100 = r400 mod 36524;
          n4 = r100 div 1461; r4 = r100 mod 1461;
          n1 = r4 div 365; r1 = r4 mod 365;
          y = n400 * 400 + n100 * 100 + n4 * 4 + n1 + 1 in
      if n1 = 4 \<or> n100 = 4 then (y - 1, 12, 31)
      else let (m, d) = month_of y 1 r1 11 in (y, m, d))"

definition MAXORDINAL :: int where "MAXORDINAL = 3652059"

definition date_isoformat :: "nat \<Rightarrow> pystr" where
  "date_isoformat ordinal =
     (case ord2ymd ordinal of (y, m, d) \<Rightarrow> zero_pad 4 y @ lit ''-'' @ zero_pad 2 m @ lit ''-'' @ zero_pad 2 d)"

section \<open>Times\<close>

definition DAY_US :: int where "DAY_US = 86400000000"

definition td_days :: "int \<Rightarrow> int" where "td_days us = us div DAY_US"
definition td_seconds :: "int \<Rightarrow> int" where "td_seconds us = us mod DAY_US div 1000000"
definition td_microseconds :: "int \<Rightarrow> int" where "td_microseconds us = us mod DAY_US mod 1000000"

text \<open>A timedelta holds at most 999999999 days either way.\<close>

definition timedelta :: "int \<Rightarrow> exc + int" where
  "timedelta us = (if - 999999999 \<le> td_days us \<and> td_days us \<le> 999999999 then Inr us else Inl OverflowError)"

text \<open>\<open>+HH:MM\<close>, with seconds and microseconds only where they are not zero.\<close>

definition offset_text :: "int option \<Rightarrow> pystr" where
  "offset_text tz =
     (case tz of None \<Rightarrow> []
      | Some off \<Rightarrow>
          let a = nat \<bar>off\<bar>; s = a div 1000000; u = a mod 1000000 in
          (if off < 0 then lit ''-'' else lit ''+'') @ zero_pad 2 (s div 3600) @ lit '':'' @ zero_pad 2 (s div 60 mod 60) @
          (if s mod 60 = 0 \<and> u = 0 then []
           else lit '':'' @ zero_pad 2 (s mod 60) @ (if u = 0 then [] else lit ''.'' @ zero_pad 6 u)))"

definition clock_text :: "nat \<Rightarrow> pystr" where
  "clock_text us =
     (let s = us div 1000000; u = us mod 1000000 in
      zero_pad 2 (s div 3600) @ lit '':'' @ zero_pad 2 (s div 60 mod 60) @ lit '':'' @ zero_pad 2 (s mod 60) @
      (if u = 0 then [] else lit ''.'' @ zero_pad 6 u))"

definition time_isoformat :: "nat \<Rightarrow> int option \<Rightarrow> pystr" where
  "time_isoformat us tz = clock_text us @ offset_text tz"

text \<open>\<open>v.isoformat(sep=" ")\<close>\<close>

definition datetime_isoformat :: "nat \<Rightarrow> nat \<Rightarrow> int option \<Rightarrow> pystr" where
  "datetime_isoformat ordinal us tz = date_isoformat ordinal @ lit '' '' @ clock_text us @ offset_text tz"

text \<open>A naive datetime as microseconds since the start of the calendar, and back.\<close>

definition instant :: "nat \<Rightarrow> nat \<Rightarrow> int" where
  "instant ordinal us = int ordinal * DAY_US + int us"

definition from_instant :: "int \<Rightarrow> exc + nat \<times> nat" where
  "from_instant t =
     (let d = t div DAY_US in
      if 1 \<le> d \<and> d \<le> MAXORDINAL then Inr (nat d, nat (t mod DAY_US)) else Inl OverflowError)"

lemma from_instant_instant:
  "1 \<le> d \<Longrightarrow> int d \<le> MAXORDINAL \<Longrightarrow> int us < DAY_US \<Longrightarrow> from_instant (instant d us) = Inr (d, us)"
  by (simp add: from_instant_def instant_def DAY_US_def Let_def)

end
