(* ===== verification/Wire.thy ===== *)
theory Wire
  imports PyText
begin

text \<open>
  The primitive wire codecs of \<open>pg_mimic/types.py\<close>: Python's \<open>struct\<close> in network byte order
  with its range checks and its treatment of offsets, \<open>pack_int16\<close> and \<open>pack_int32\<close> with their
  inverses, and \<open>read_cstring\<close>.

  The locale \<open>codec\<close> is the contract every positional reader of \<open>pg_mimic/messages.py\<close> relies
  on: a value written anywhere inside a payload is read back from its offset, and the offset
  advances past it. The list lemma proved inside it serves every counted field; the
  interpretations on the 16- and 32-bit integers and on the NUL-terminated string are here.
\<close>

section \<open>struct\<close>

fun be_bytes :: "nat \<Rightarrow> int \<Rightarrow> bytes" where
  "be_bytes 0 v = []"
| "be_bytes (Suc n) v = be_bytes n (v div 256) @ [word_of_int v]"

definition be_val :: "bytes \<Rightarrow> int" where
  "be_val bs = foldl (\<lambda>a b. a * 256 + uint b) 0 bs"

definition in_signed :: "nat \<Rightarrow> int \<Rightarrow> bool" where
  "in_signed n v \<longleftrightarrow> - (2 ^ (8 * n - 1)) \<le> v \<and> v < 2 ^ (8 * n - 1)"

definition in_unsigned :: "nat \<Rightarrow> int \<Rightarrow> bool" where
  "in_unsigned n v \<longleftrightarrow> 0 \<le> v \<and> v < 2 ^ (8 * n)"

text \<open>\<open>struct.pack\<close> of one signed or unsigned field of \<open>n\<close> bytes: out of range is an error.\<close>

definition pack_signed :: "nat \<Rightarrow> int \<Rightarrow> exc + bytes" where
  "pack_signed n v = (if in_signed n v then Inr (be_bytes n v) else Inl StructError)"

definition pack_unsigned :: "nat \<Rightarrow> int \<Rightarrow> exc + bytes" where
  "pack_unsigned n v = (if in_unsigned n v then Inr (be_bytes n v) else Inl StructError)"

definition to_signed :: "nat \<Rightarrow> int \<Rightarrow> int" where
  "to_signed n u = (if u < 2 ^ (8 * n - 1) then u else u - 2 ^ (8 * n))"

text \<open>
  \<open>Struct.unpack_from(data, offset)\<close>: the \<open>n\<close> bytes at the offset. A negative offset counts
  from the end, provided the field lies inside the buffer.
\<close>

definition bytes_at :: "nat \<Rightarrow> bytes \<Rightarrow> int \<Rightarrow> exc + bytes" where
  "bytes_at n data off =
     (if off < 0 \<and> (off + int n > 0 \<or> off + int (length data) < 0) then Inl StructError
      else
        let o' = (if off < 0 then off + int (length data) else off) in
        if int (length data) - o' < int n then Inl StructError
        else Inr (take n (drop (nat o') data)))"

definition unpack_signed :: "nat \<Rightarrow> bytes \<Rightarrow> int \<Rightarrow> exc + int" where
  "unpack_signed n data off = rbind (bytes_at n data off) (\<lambda>b. Inr (to_signed n (be_val b)))"

definition unpack_unsigned :: "nat \<Rightarrow> bytes \<Rightarrow> int \<Rightarrow> exc + int" where
  "unpack_unsigned n data off = rbind (bytes_at n data off) (\<lambda>b. Inr (be_val b))"

text \<open>\<open>struct.unpack(fmt, data)\<close>: the buffer has exactly the size of the format.\<close>

definition unpack_exact_signed :: "nat \<Rightarrow> bytes \<Rightarrow> exc + int" where
  "unpack_exact_signed n data =
     (if length data = n then Inr (to_signed n (be_val data)) else Inl StructError)"

definition unpack_exact_unsigned :: "nat \<Rightarrow> bytes \<Rightarrow> exc + int" where
  "unpack_exact_unsigned n data = (if length data = n then Inr (be_val data) else Inl StructError)"

section \<open>The helpers of types.py\<close>

definition pack_int32 :: "int \<Rightarrow> exc + bytes" where
  "pack_int32 v = pack_signed 4 v"

definition unpack_int32 :: "bytes \<Rightarrow> int \<Rightarrow> exc + int" where
  "unpack_int32 data off = unpack_signed 4 data off"

definition pack_int16 :: "int \<Rightarrow> exc + bytes" where
  "pack_int16 v = pack_signed 2 v"

definition unpack_int16 :: "bytes \<Rightarrow> int \<Rightarrow> exc + int" where
  "unpack_int16 data off = unpack_signed 2 data off"

text \<open>\<open>data.index(b"\x00", offset)\<close>\<close>

definition bytes_index :: "bytes \<Rightarrow> byte \<Rightarrow> int \<Rightarrow> exc + int" where
  "bytes_index data b off =
     (let i = (if off < 0 then nat (int (length data) + off) else nat off) in
      case find_char b (drop i data) of
        None \<Rightarrow> Inl (ValueError (lit ''subsection not found''))
      | Some k \<Rightarrow> Inr (int (i + k)))"

definition read_cstring :: "bytes \<Rightarrow> int \<Rightarrow> exc + pystr \<times> int" where
  "read_cstring data off =
     rbind (bytes_index data 0 off) (\<lambda>e.
     rbind (utf8_decode (py_slice data off e)) (\<lambda>s. Inr (s, e + 1)))"

text \<open>\<open>_cstring\<close> of messages.py\<close>

definition cstring :: "pystr \<Rightarrow> exc + bytes" where
  "cstring s = rbind (utf8_encode s) (\<lambda>b. Inr (b @ [0]))"

text \<open>A read that returns the offset after the field, as every reader of messages.py does inline.\<close>

definition read_int16 :: "bytes \<Rightarrow> int \<Rightarrow> exc + int \<times> int" where
  "read_int16 data off = rbind (unpack_int16 data off) (\<lambda>v. Inr (v, off + 2))"

definition read_int32 :: "bytes \<Rightarrow> int \<Rightarrow> exc + int \<times> int" where
  "read_int32 data off = rbind (unpack_int32 data off) (\<lambda>v. Inr (v, off + 4))"

text \<open>\<open>for _ in range(n): x, offset = read(payload, offset)\<close>\<close>

fun read_n :: "(bytes \<Rightarrow> int \<Rightarrow> exc + 'a \<times> int) \<Rightarrow> nat \<Rightarrow> bytes \<Rightarrow> int \<Rightarrow> exc + 'a list \<times> int" where
  "read_n rd 0 data off = Inr ([], off)"
| "read_n rd (Suc n) data off =
     rbind (rd data off) (\<lambda>(x, off1). rbind (read_n rd n data off1) (\<lambda>(xs, off2). Inr (x # xs, off2)))"

section \<open>Big-endian bytes\<close>

lemma length_be_bytes [simp]: "length (be_bytes n v) = n"
  by (induction n arbitrary: v) auto

lemma be_bytes_eval [wire_simps]:
  "be_bytes 2 v = [word_of_int (v div 256), word_of_int v]"
  "be_bytes 4 v =
     [word_of_int (v div 256 div 256 div 256), word_of_int (v div 256 div 256), word_of_int (v div 256),
      word_of_int v]"
  "be_bytes 8 v =
     [word_of_int (v div 256 div 256 div 256 div 256 div 256 div 256 div 256),
      word_of_int (v div 256 div 256 div 256 div 256 div 256 div 256),
      word_of_int (v div 256 div 256 div 256 div 256 div 256),
      word_of_int (v div 256 div 256 div 256 div 256), word_of_int (v div 256 div 256 div 256),
      word_of_int (v div 256 div 256), word_of_int (v div 256), word_of_int v]"
  by (simp_all add: numeral_eq_Suc)

declare
  pack_signed_def [wire_simps] pack_unsigned_def [wire_simps] in_signed_def [wire_simps]
  in_unsigned_def [wire_simps] unpack_signed_def [wire_simps] unpack_unsigned_def [wire_simps]
  bytes_at_def [wire_simps] be_val_def [wire_simps] to_signed_def [wire_simps]
  unpack_exact_signed_def [wire_simps] unpack_exact_unsigned_def [wire_simps]
  pack_int32_def [wire_simps] pack_int16_def [wire_simps] unpack_int32_def [wire_simps]
  unpack_int16_def [wire_simps]

lemma be_val_append: "be_val (a @ [b]) = be_val a * 256 + uint b"
  by (simp add: be_val_def)

lemma be_val_be_bytes: "be_val (be_bytes n v) = v mod 2 ^ (8 * n)"
proof (induction n arbitrary: v)
  case 0
  then show ?case by (simp add: be_val_def)
next
  case (Suc n)
  have "v div 256 mod 2 ^ (8 * n) * 256 + v mod 256 = v mod (256 * 2 ^ (8 * n))"
    using zmod_zmult2_eq[of "2 ^ (8 * n)" v 256] by simp
  moreover have "(2::int) ^ (8 * Suc n) = 256 * 2 ^ (8 * n)" by (simp add: power_add)
  ultimately show ?case using Suc[of "v div 256"]
    by (simp add: be_val_append uint_word_of_int)
qed

lemma be_val_bounds: "0 \<le> be_val bs \<and> be_val bs < 256 ^ length bs"
proof (induction bs rule: rev_induct)
  case Nil
  then show ?case by (simp add: be_val_def)
next
  case (snoc b bs)
  have "uint b < 256" using uint_bounded[of b] by simp
  with snoc show ?case by (auto simp: be_val_append)
qed

lemma be_bytes_be_val: "be_bytes (length bs) (be_val bs) = bs"
proof (induction bs rule: rev_induct)
  case Nil
  then show ?case by simp
next
  case (snoc b bs)
  have "uint b < 256" "0 \<le> uint b" using uint_bounded[of b] by simp_all
  then have "(be_val bs * 256 + uint b) div 256 = be_val bs" by simp
  moreover have "word_of_int (be_val bs * 256 + uint b) = b"
  proof -
    have "(be_val bs * 256 + uint b) mod 256 = uint b" using \<open>uint b < 256\<close> \<open>0 \<le> uint b\<close> by simp
    then have "uint (word_of_int (be_val bs * 256 + uint b) :: byte) = uint b"
      by (simp only: uint_word_of_int) simp
    then show ?thesis by (simp only: word_uint_eq_iff)
  qed
  ultimately show ?case using snoc by (simp add: be_val_append)
qed

lemma to_signed_mod:
  assumes "in_signed n v" and "0 < n"
  shows "to_signed n (v mod 2 ^ (8 * n)) = v"
proof -
  obtain m where m: "8 * n = Suc m" using assms(2) by (cases "8 * n") auto
  have bounds: "- (2 ^ m) \<le> v" "v < 2 ^ m" using assms(1) by (auto simp: in_signed_def m)
  show ?thesis
  proof (cases "0 \<le> v")
    case True
    with bounds have "v mod 2 ^ (8 * n) = v" by (simp add: m)
    with True bounds show ?thesis by (simp add: to_signed_def m)
  next
    case False
    have "v mod 2 ^ (8 * n) = (v + 2 ^ (8 * n)) mod 2 ^ (8 * n)" by simp
    also have "\<dots> = v + 2 ^ (8 * n)"
      using False bounds by (intro mod_pos_pos_trivial) (simp_all add: m)
    finally show ?thesis using False bounds by (simp add: to_signed_def m)
  qed
qed

lemma bytes_at_mid:
  "length mid = n \<Longrightarrow> bytes_at n (pre @ mid @ post) (int (length pre)) = Inr mid"
  by (auto simp: bytes_at_def)

lemma unpack_signed_mid:
  assumes "in_signed n v" and "0 < n"
  shows "unpack_signed n (pre @ be_bytes n v @ post) (int (length pre)) = Inr v"
  using assms by (simp add: unpack_signed_def bytes_at_mid be_val_be_bytes to_signed_mod)

lemma unpack_unsigned_mid:
  assumes "in_unsigned n v"
  shows "unpack_unsigned n (pre @ be_bytes n v @ post) (int (length pre)) = Inr v"
  using assms by (simp add: unpack_unsigned_def bytes_at_mid be_val_be_bytes in_unsigned_def)

lemma unpack_exact_be_bytes [simp]:
  "in_signed n v \<Longrightarrow> 0 < n \<Longrightarrow> unpack_exact_signed n (be_bytes n v) = Inr v"
  "in_unsigned n v \<Longrightarrow> unpack_exact_unsigned n (be_bytes n v) = Inr v"
  by (simp_all add: unpack_exact_signed_def unpack_exact_unsigned_def be_val_be_bytes to_signed_mod
      in_unsigned_def)

text \<open>What is read is always in the range that can be written: packing is onto.\<close>

lemma in_signed_to_signed:
  assumes "length bs = n" and "0 < n"
  shows "in_signed n (to_signed n (be_val bs))"
proof -
  obtain m where m: "8 * n = Suc m" using assms(2) by (cases "8 * n") auto
  have "(256::int) ^ n = 2 ^ (8 * n)" by (simp add: power_mult)
  with be_val_bounds[of bs] assms(1) have "0 \<le> be_val bs" "be_val bs < 2 ^ (8 * n)" by auto
  then show ?thesis by (auto simp: in_signed_def to_signed_def m)
qed

section \<open>The codec contract\<close>

locale codec =
  fixes enc :: "'a \<Rightarrow> bytes"
    and dec :: "bytes \<Rightarrow> int \<Rightarrow> exc + 'a \<times> int"
    and ok :: "'a \<Rightarrow> bool"
  assumes dec_enc: "ok x \<Longrightarrow>
    dec (pre @ enc x @ post) (int (length pre)) = Inr (x, int (length pre) + int (length (enc x)))"
begin

lemma read_n_enc:
  "list_all ok xs \<Longrightarrow>
   read_n dec (length xs) (pre @ concat (map enc xs) @ post) (int (length pre)) =
     Inr (xs, int (length pre) + int (length (concat (map enc xs))))"
proof (induction xs arbitrary: pre)
  case Nil
  then show ?case by simp
next
  case (Cons x xs)
  have "dec (pre @ enc x @ concat (map enc xs) @ post) (int (length pre)) =
      Inr (x, int (length (pre @ enc x)))"
    using Cons.prems dec_enc[of x pre "concat (map enc xs) @ post"] by simp
  moreover have "read_n dec (length xs) ((pre @ enc x) @ concat (map enc xs) @ post) (int (length (pre @ enc x))) =
      Inr (xs, int (length (pre @ enc x)) + int (length (concat (map enc xs))))"
    using Cons.prems Cons.IH[of "pre @ enc x"] by simp
  ultimately show ?case by simp
qed

text \<open>The law with the position given as an equation, which is how a sequence of reads uses it.\<close>

lemma dec_at:
  assumes "ok x" and "data = pre @ enc x @ post" and "off = int (length pre)"
  shows "dec data off = Inr (x, int (length (pre @ enc x)))"
  using dec_enc[OF assms(1), of pre post] assms(2,3) by simp

text \<open>A list behind a 16-bit count, the shape of every repeated field of the protocol.\<close>

lemma counted_at:
  assumes "list_all ok xs" and "length xs < 32768"
    and "data = pre @ (be_bytes 2 (int (length xs)) @ concat (map enc xs)) @ post"
    and "off = int (length pre)"
  shows "rbind (read_int16 data off) (\<lambda>(n, o1). read_n dec (nat n) data o1) =
    Inr (xs, int (length (pre @ be_bytes 2 (int (length xs)) @ concat (map enc xs))))"
proof -
  let ?c = "be_bytes 2 (int (length xs))"
  have "in_signed 2 (int (length xs))" using assms(2) by (simp add: in_signed_def)
  then have "read_int16 data off = Inr (int (length xs), int (length (pre @ ?c)))"
    using unpack_signed_mid[of 2 "int (length xs)" pre "concat (map enc xs) @ post"] assms(3,4)
    by (simp add: read_int16_def unpack_int16_def)
  moreover have "read_n dec (length xs) data (int (length (pre @ ?c))) =
      Inr (xs, int (length (pre @ ?c)) + int (length (concat (map enc xs))))"
    using read_n_enc[OF assms(1), of "pre @ ?c" post] assms(3) by simp
  ultimately show ?thesis by simp
qed

end

interpretation int16_codec: codec "be_bytes 2" read_int16 "in_signed 2"
proof
  fix x :: int and pre post :: bytes
  assume "in_signed 2 x"
  then show "read_int16 (pre @ be_bytes 2 x @ post) (int (length pre)) =
      Inr (x, int (length pre) + int (length (be_bytes 2 x)))"
    using unpack_signed_mid[of 2 x pre post] by (simp add: read_int16_def unpack_int16_def)
qed

interpretation int32_codec: codec "be_bytes 4" read_int32 "in_signed 4"
proof
  fix x :: int and pre post :: bytes
  assume "in_signed 4 x"
  then show "read_int32 (pre @ be_bytes 4 x @ post) (int (length pre)) =
      Inr (x, int (length pre) + int (length (be_bytes 4 x)))"
    using unpack_signed_mid[of 4 x pre post] by (simp add: read_int32_def unpack_int32_def)
qed

section \<open>NUL-terminated strings\<close>

text \<open>A text a C string can carry: encodable, and without the terminator.\<close>

definition cstring_ok :: "pystr \<Rightarrow> bool" where
  "cstring_ok s \<longleftrightarrow> list_all encodable s \<and> 0 \<notin> set s"

definition utf8_bytes :: "pystr \<Rightarrow> bytes" where
  "utf8_bytes s = concat (map utf8_char s)"

lemma utf8_char_no_nul: "encodable c \<Longrightarrow> c \<noteq> 0 \<Longrightarrow> 0 \<notin> set (utf8_char c)"
proof -
  assume "encodable c" "c \<noteq> 0"
  have nz: "to_byte n \<noteq> 0" if "0 < n" "n < 256" for n
    using that unat_to_byte[of n] by force
  have "c < 0x110000" using \<open>encodable c\<close> by (auto simp: encodable_def)
  then show ?thesis using \<open>c \<noteq> 0\<close>
    by (auto simp: utf8_char_def dest!: sym[of 0] intro!: notI dest: nz[THEN notE, rotated 2])
qed

lemma utf8_bytes_no_nul: "cstring_ok s \<Longrightarrow> 0 \<notin> set (utf8_bytes s)"
  by (induction s) (auto simp: cstring_ok_def utf8_bytes_def dest: utf8_char_no_nul)

lemma utf8_decode_bytes: "list_all encodable s \<Longrightarrow> utf8_decode (utf8_bytes s) = Inr s"
  using utf8_decode_encode by (simp add: utf8_encode_def utf8_bytes_def)

lemma cstring_ok_bytes: "cstring_ok s \<Longrightarrow> cstring s = Inr (utf8_bytes s @ [0])"
  by (simp add: cstring_def utf8_encode_def utf8_bytes_def cstring_ok_def)

interpretation cstring_codec: codec "\<lambda>s. utf8_bytes s @ [0]" read_cstring cstring_ok
proof
  fix s :: pystr and pre post :: bytes
  assume ok: "cstring_ok s"
  let ?data = "pre @ (utf8_bytes s @ [0]) @ post"
  have "find_char 0 (drop (nat (int (length pre))) ?data) = Some (length (utf8_bytes s))"
    using find_char_append[OF utf8_bytes_no_nul[OF ok], of post] by simp
  then have "bytes_index ?data 0 (int (length pre)) = Inr (int (length pre) + int (length (utf8_bytes s)))"
    by (simp add: bytes_index_def Let_def)
  moreover have "py_slice ?data (int (length pre)) (int (length pre) + int (length (utf8_bytes s))) = utf8_bytes s"
    using py_slice_mid[of pre "utf8_bytes s" "[0] @ post"] by simp
  ultimately show "read_cstring ?data (int (length pre)) =
      Inr (s, int (length pre) + int (length (utf8_bytes s @ [0])))"
    using ok by (simp add: read_cstring_def utf8_decode_bytes cstring_ok_def)
qed

end
