(* ===== verification/Values.thy ===== *)
theory Values
  imports PyFloat PyDate Wire
begin

text \<open>
  \<open>pg_mimic/types.py\<close>: the scalar codecs. \<open>pyval\<close> is the Python value a session hands over or
  receives; \<open>encode_scalar\<close> is its text form, \<open>encode_scalar_binary\<close> and
  \<open>decode_scalar_binary\<close> the binary codecs by OID. The array branches of \<open>encode_value\<close>,
  \<open>encode_value_binary\<close> and \<open>decode_binary_param\<close> are added in \<open>Arrays\<close>, which delegates to these per
  element as the source does.

  Values of a subclass of a listed type are treated as the type itself; \<open>POther\<close> is any other
  object, with its type name and its \<open>str()\<close>. The text of an exception that the standard library
  raises is given where the source shows it to the client; elsewhere it is left out.
\<close>

section \<open>Python values\<close>

datatype pydec = DNan | DInf bool | DFin bool nat int

datatype pyval =
    PNone
  | PBool bool
  | PInt int
  | PFloat f64
  | PDecimal pydec
  | PStr pystr
  | PBytes bytes
  | PBytearray bytes
  | PDatetime nat nat "int option"
  | PDate nat
  | PTime nat "int option"
  | PTimedelta int
  | PUuid bytes
  | PList "pyval list"
  | PDict "(pyval \<times> pyval) list"
  | POther pystr pystr

type_synonym row = "pyval list"

fun is_list :: "pyval \<Rightarrow> bool" where
  "is_list (PList xs) = True"
| "is_list _ = False"

fun type_name :: "pyval \<Rightarrow> pystr" where
  "type_name PNone = lit ''NoneType''"
| "type_name (PBool b) = lit ''bool''"
| "type_name (PInt i) = lit ''int''"
| "type_name (PFloat w) = lit ''float''"
| "type_name (PDecimal d) = lit ''Decimal''"
| "type_name (PStr s) = lit ''str''"
| "type_name (PBytes b) = lit ''bytes''"
| "type_name (PBytearray b) = lit ''bytearray''"
| "type_name (PDatetime d t z) = lit ''datetime''"
| "type_name (PDate d) = lit ''date''"
| "type_name (PTime t z) = lit ''time''"
| "type_name (PTimedelta u) = lit ''timedelta''"
| "type_name (PUuid b) = lit ''UUID''"
| "type_name (PList xs) = lit ''list''"
| "type_name (PDict d) = lit ''dict''"
| "type_name (POther n s) = n"

section \<open>OIDs\<close>

definition BOOL :: int where "BOOL = 16"
definition BYTEA :: int where "BYTEA = 17"
definition CHAR_OID :: int where "CHAR_OID = 18"
definition NAME :: int where "NAME = 19"
definition INT8 :: int where "INT8 = 20"
definition INT2 :: int where "INT2 = 21"
definition INT4 :: int where "INT4 = 23"
definition TEXT :: int where "TEXT = 25"
definition OID :: int where "OID = 26"
definition JSON :: int where "JSON = 114"
definition FLOAT4 :: int where "FLOAT4 = 700"
definition FLOAT8 :: int where "FLOAT8 = 701"
definition UNKNOWN :: int where "UNKNOWN = 705"
definition MONEY :: int where "MONEY = 790"
definition MACADDR :: int where "MACADDR = 829"
definition INET :: int where "INET = 869"
definition CIDR :: int where "CIDR = 650"
definition BPCHAR :: int where "BPCHAR = 1042"
definition VARCHAR :: int where "VARCHAR = 1043"
definition DATE :: int where "DATE = 1082"
definition TIME :: int where "TIME = 1083"
definition TIMESTAMP :: int where "TIMESTAMP = 1114"
definition TIMESTAMPTZ :: int where "TIMESTAMPTZ = 1184"
definition INTERVAL :: int where "INTERVAL = 1186"
definition NUMERIC :: int where "NUMERIC = 1700"
definition UUID :: int where "UUID = 2950"
definition JSONB :: int where "JSONB = 3802"
definition RECORD :: int where "RECORD = 2249"

lemmas oid_defs =
  BOOL_def BYTEA_def CHAR_OID_def NAME_def INT8_def INT2_def INT4_def TEXT_def OID_def JSON_def FLOAT4_def
  FLOAT8_def UNKNOWN_def MONEY_def MACADDR_def INET_def CIDR_def BPCHAR_def VARCHAR_def DATE_def TIME_def
  TIMESTAMP_def TIMESTAMPTZ_def INTERVAL_def NUMERIC_def UUID_def JSONB_def RECORD_def

text \<open>\<open>datetime(2000, 1, 1)\<close> and \<open>date(2000, 1, 1)\<close>, by ordinal.\<close>

definition PG_EPOCH :: nat where "PG_EPOCH = 730120"

section \<open>Text forms\<close>

definition bool_out :: "bool \<Rightarrow> pystr" where
  "bool_out v = (if v then lit ''t'' else lit ''f'')"

definition bytes_out :: "bytes \<Rightarrow> pystr" where
  "bytes_out v = [92, 120] @ bytes_hex v"

definition float_out :: "f64 \<Rightarrow> pystr" where
  "float_out v =
     (if f64_nan v then lit ''NaN''
      else if f64_inf v \<and> \<not> f64_sign v then lit ''Infinity''
      else if f64_inf v then lit ''-Infinity''
      else float_repr v)"

definition datetime_out :: "nat \<Rightarrow> nat \<Rightarrow> int option \<Rightarrow> pystr" where
  "datetime_out d t tz = datetime_isoformat d t tz"

definition timedelta_out :: "int \<Rightarrow> pystr" where
  "timedelta_out v =
     (let hours = td_seconds v div 3600; remainder = td_seconds v mod 3600;
          minutes = remainder div 60; seconds = remainder mod 60;
          time_part = zero_pad 2 (nat hours) @ lit '':'' @ zero_pad 2 (nat minutes) @ lit '':'' @ zero_pad 2 (nat seconds) @
            (if td_microseconds v \<noteq> 0 then lit ''.'' @ zero_pad 6 (nat (td_microseconds v)) else []) in
      if td_days v \<noteq> 0
      then int_str (td_days v) @ lit '' day'' @ (if td_days v \<noteq> 1 then lit ''s'' else []) @ lit '' '' @ time_part
      else time_part)"

definition minus_if :: "bool \<Rightarrow> pystr" where
  "minus_if neg = (if neg then lit ''-'' else [])"

text \<open>\<open>format(v, "f")\<close> of a Decimal: all digits, no exponent.\<close>

definition decimal_plain :: "nat \<Rightarrow> int \<Rightarrow> pystr" where
  "decimal_plain c e =
     (if 0 \<le> e then (if c = 0 then lit ''0'' else nat_str c @ replicate (nat e) 48)
      else let k = nat (- e); s = zero_pad (k + 1) c; n = length s - k in
        take n s @ lit ''.'' @ drop n s)"

fun decimal_out :: "pydec \<Rightarrow> pystr" where
  "decimal_out DNan = lit ''NaN''"
| "decimal_out (DInf neg) = minus_if neg @ lit ''Infinity''"
| "decimal_out (DFin neg c e) = minus_if neg @ decimal_plain c e"

definition uuid_str :: "bytes \<Rightarrow> pystr" where
  "uuid_str b =
     (let h = bytes_hex b in
      take 8 h @ lit ''-'' @ take 4 (drop 8 h) @ lit ''-'' @ take 4 (drop 12 h) @ lit ''-'' @
      take 4 (drop 16 h) @ lit ''-'' @ drop 20 h)"

subsection \<open>json.dumps\<close>

definition json_u :: "nat \<Rightarrow> pystr" where
  "json_u n =
     [92, 117, hex_digit (n div 4096), hex_digit (n div 256 mod 16), hex_digit (n div 16 mod 16), hex_digit (n mod 16)]"

definition json_char :: "pychar \<Rightarrow> pystr" where
  "json_char c =
     (if c = 34 \<or> c = 92 then [92, c]
      else if c = 10 then [92, 110] else if c = 13 then [92, 114] else if c = 9 then [92, 116]
      else if c = 12 then [92, 102] else if c = 8 then [92, 98]
      else if 32 \<le> c \<and> c \<le> 126 then [c]
      else if c < 0x10000 then json_u c
      else json_u (0xD800 + (c - 0x10000) div 1024) @ json_u (0xDC00 + (c - 0x10000) mod 1024))"

definition json_str :: "pystr \<Rightarrow> pystr" where
  "json_str s = [34] @ concat (map json_char s) @ [34]"

definition json_float :: "f64 \<Rightarrow> pystr" where
  "json_float w = float_out w"

fun json_key :: "pyval \<Rightarrow> exc + pystr" where
  "json_key (PStr s) = Inr s"
| "json_key (PFloat w) = Inr (json_float w)"
| "json_key (PBool b) = Inr (if b then lit ''true'' else lit ''false'')"
| "json_key PNone = Inr (lit ''null'')"
| "json_key (PInt i) = Inr (int_str i)"
| "json_key v = Inl (TypeError (lit ''keys must be str, int, float, bool or None, not '' @ type_name v))"

fun json_dumps :: "pyval \<Rightarrow> exc + pystr" where
  "json_dumps PNone = Inr (lit ''null'')"
| "json_dumps (PBool b) = Inr (if b then lit ''true'' else lit ''false'')"
| "json_dumps (PInt i) = Inr (int_str i)"
| "json_dumps (PFloat w) = Inr (json_float w)"
| "json_dumps (PStr s) = Inr (json_str s)"
| "json_dumps (PList xs) = rbind (rmap json_dumps xs) (\<lambda>ps. Inr (lit ''['' @ py_join (lit '', '') ps @ lit '']''))"
| "json_dumps (PDict kvs) =
     rbind (rmap (\<lambda>(k, v). rbind (json_key k) (\<lambda>kt. rbind (json_dumps v) (\<lambda>t. Inr (json_str kt @ lit '': '' @ t)))) kvs)
       (\<lambda>ps. Inr ([123] @ py_join (lit '', '') ps @ [125]))"
| "json_dumps v = Inl (TypeError (lit ''Object of type '' @ type_name v @ lit '' is not JSON serializable''))"

definition json_out :: "pyval \<Rightarrow> exc + pystr" where
  "json_out v = json_dumps v"

subsection \<open>str() of a container\<close>

text \<open>\<open>str(list)\<close> and \<open>str(dict)\<close> show the \<open>repr\<close> of what they hold.\<close>

definition comma_join :: "pystr list \<Rightarrow> pystr" where
  "comma_join ps = py_join (lit '', '') ps"

definition call_text :: "string \<Rightarrow> pystr list \<Rightarrow> pystr" where
  "call_text f args = lit f @ lit ''('' @ comma_join args @ lit '')''"

definition bytes_repr :: "bytes \<Rightarrow> pystr" where
  "bytes_repr bs =
     (let s = map unat bs; q = (if 39 \<in> set s \<and> 34 \<notin> set s then 34 else 39) in
      lit ''b'' @ [q] @
      concat (map (\<lambda>c. if 127 \<le> c then [92, 120, hex_digit (c div 16), hex_digit (c mod 16)] else repr_char q c) s) @ [q])"

definition decimal_str :: "bool \<Rightarrow> nat \<Rightarrow> int \<Rightarrow> pystr" where
  "decimal_str neg c e =
     (let ds = nat_str c; n = int (length ds); leftdigits = e + n;
          dotplace = (if e \<le> 0 \<and> - 6 < leftdigits then leftdigits else 1) in
      minus_if neg @
      (if dotplace \<le> 0 then lit ''0.'' @ replicate (nat (- dotplace)) 48 @ ds
       else if n \<le> dotplace then ds @ replicate (nat (dotplace - n)) 48
       else take (nat dotplace) ds @ lit ''.'' @ drop (nat dotplace) ds) @
      (if leftdigits = dotplace then []
       else lit ''E'' @ (if leftdigits < dotplace then [] else lit ''+'') @ int_str (leftdigits - dotplace)))"

fun pydec_str :: "pydec \<Rightarrow> pystr" where
  "pydec_str DNan = lit ''NaN''"
| "pydec_str (DInf neg) = minus_if neg @ lit ''Infinity''"
| "pydec_str (DFin neg c e) = decimal_str neg c e"

definition timedelta_repr :: "int \<Rightarrow> pystr" where
  "timedelta_repr u =
     (let args = (if td_days u \<noteq> 0 then [lit ''days='' @ int_str (td_days u)] else []) @
            (if td_seconds u \<noteq> 0 then [lit ''seconds='' @ int_str (td_seconds u)] else []) @
            (if td_microseconds u \<noteq> 0 then [lit ''microseconds='' @ int_str (td_microseconds u)] else []) in
      call_text ''datetime.timedelta'' (if args = [] then [lit ''0''] else args))"

definition tz_args :: "int option \<Rightarrow> pystr list" where
  "tz_args tz =
     (case tz of None \<Rightarrow> []
      | Some off \<Rightarrow> [lit ''tzinfo='' @ (if off = 0 then lit ''datetime.timezone.utc''
                       else call_text ''datetime.timezone'' [timedelta_repr off])])"

definition clock_args :: "nat \<Rightarrow> pystr list" where
  "clock_args us =
     (let s = us div 1000000; u = us mod 1000000 in
      [nat_str (s div 3600), nat_str (s div 60 mod 60)] @
      (if u \<noteq> 0 then [nat_str (s mod 60), nat_str u] else if s mod 60 \<noteq> 0 then [nat_str (s mod 60)] else []))"

definition date_args :: "nat \<Rightarrow> pystr list" where
  "date_args n = (case ord2ymd n of (y, m, d) \<Rightarrow> [nat_str y, nat_str m, nat_str d])"

fun py_repr_val :: "pyval \<Rightarrow> pystr" where
  "py_repr_val PNone = lit ''None''"
| "py_repr_val (PBool b) = (if b then lit ''True'' else lit ''False'')"
| "py_repr_val (PInt i) = int_str i"
| "py_repr_val (PFloat w) = float_repr w"
| "py_repr_val (PDecimal d) = lit ''Decimal('' @ py_repr (pydec_str d) @ lit '')''"
| "py_repr_val (PStr s) = py_repr s"
| "py_repr_val (PBytes b) = bytes_repr b"
| "py_repr_val (PBytearray b) = lit ''bytearray('' @ bytes_repr b @ lit '')''"
| "py_repr_val (PDatetime d t z) = call_text ''datetime.datetime'' (date_args d @ clock_args t @ tz_args z)"
| "py_repr_val (PDate d) = call_text ''datetime.date'' (date_args d)"
| "py_repr_val (PTime t z) = call_text ''datetime.time'' (clock_args t @ tz_args z)"
| "py_repr_val (PTimedelta u) = timedelta_repr u"
| "py_repr_val (PUuid b) = lit ''UUID('' @ py_repr (uuid_str b) @ lit '')''"
| "py_repr_val (PList xs) = lit ''['' @ comma_join (map py_repr_val xs) @ lit '']''"
| "py_repr_val (PDict kvs) = [123] @ comma_join (map (\<lambda>(k, v). py_repr_val k @ lit '': '' @ py_repr_val v) kvs) @ [125]"
| "py_repr_val (POther n s) = s"

section \<open>encode_value on everything but an array\<close>

text \<open>
  The exact-type table \<open>_TEXT_ENCODERS\<close>, then json for a json OID, then \<open>str()\<close>.
\<close>

fun encode_scalar :: "int \<Rightarrow> pyval \<Rightarrow> exc + pystr" where
  "encode_scalar oid (PBool b) = Inr (bool_out b)"
| "encode_scalar oid (PInt i) = Inr (int_str i)"
| "encode_scalar oid (PFloat w) = Inr (float_out w)"
| "encode_scalar oid (PDecimal d) = Inr (decimal_out d)"
| "encode_scalar oid (PStr s) = Inr s"
| "encode_scalar oid (PBytes b) = Inr (bytes_out b)"
| "encode_scalar oid (PBytearray b) = Inr (bytes_out b)"
| "encode_scalar oid (PDatetime d t z) = Inr (datetime_out d t z)"
| "encode_scalar oid (PDate d) = Inr (date_isoformat d)"
| "encode_scalar oid (PTime t z) = Inr (time_isoformat t z)"
| "encode_scalar oid (PTimedelta u) = Inr (timedelta_out u)"
| "encode_scalar oid (PUuid b) = Inr (uuid_str b)"
| "encode_scalar oid v = (if oid \<in> {JSON, JSONB} then json_out v else Inr (py_repr_val v))"

section \<open>Binary parameters\<close>

definition decode_bool :: "bytes \<Rightarrow> exc + pystr" where
  "decode_bool data = Inr (bool_out (data \<noteq> [0]))"

text \<open>\<open>_decode_int(fmt)\<close> for the formats \<open>h\<close>, \<open>i\<close>, \<open>q\<close> (signed, \<open>n\<close> bytes) and \<open>I\<close>.\<close>

definition decode_int :: "nat \<Rightarrow> bytes \<Rightarrow> exc + pystr" where
  "decode_int n data = rbind (unpack_exact_signed n data) (\<lambda>i. Inr (int_str i))"

definition decode_uint32 :: "bytes \<Rightarrow> exc + pystr" where
  "decode_uint32 data = rbind (unpack_exact_unsigned 4 data) (\<lambda>i. Inr (int_str i))"

definition decode_float8 :: "bytes \<Rightarrow> exc + pystr" where
  "decode_float8 data = rbind (unpack_exact_unsigned 8 data) (\<lambda>i. Inr (float_out (word_of_int i)))"

definition decode_float4 :: "bytes \<Rightarrow> exc + pystr" where
  "decode_float4 data = rbind (unpack_exact_unsigned 4 data) (\<lambda>i. Inr (float_out (f32_to_f64 (nat i))))"

definition decode_bytea :: "bytes \<Rightarrow> exc + pystr" where
  "decode_bytea data = Inr (bytes_out data)"

definition decode_text :: "bytes \<Rightarrow> exc + pystr" where
  "decode_text data = utf8_decode data"

definition decode_date :: "bytes \<Rightarrow> exc + pystr" where
  "decode_date data =
     rbind (unpack_exact_signed 4 data) (\<lambda>days.
     rbind (timedelta (days * DAY_US)) (\<lambda>_.
     rbind (from_instant (instant PG_EPOCH 0 + days * DAY_US)) (\<lambda>(d, _). Inr (date_isoformat d))))"

definition decode_timestamp :: "bytes \<Rightarrow> exc + pystr" where
  "decode_timestamp data =
     rbind (unpack_exact_signed 8 data) (\<lambda>micros.
     rbind (timedelta micros) (\<lambda>_.
     rbind (from_instant (instant PG_EPOCH 0 + micros)) (\<lambda>(d, t). Inr (datetime_out d t None))))"

definition NUMERIC_POS :: int where "NUMERIC_POS = 0"
definition NUMERIC_NEG :: int where "NUMERIC_NEG = 0x4000"
definition NUMERIC_NAN :: int where "NUMERIC_NAN = 0xC000"
definition NUMERIC_PINF :: int where "NUMERIC_PINF = 0xD000"
definition NUMERIC_NINF :: int where "NUMERIC_NINF = 0xF000"

lemmas numeric_signs = NUMERIC_POS_def NUMERIC_NEG_def NUMERIC_NAN_def NUMERIC_PINF_def NUMERIC_NINF_def

text \<open>
  Rounding in Python's \<open>decimal\<close>: \<open>dec_half_even c k\<close> drops \<open>k\<close> digits, ties to even, and
  \<open>dec_fix\<close> rounds a result to the 28 digits of the default context, as \<open>scaleb\<close> and the unary
  minus do.
\<close>

definition dec_half_even :: "nat \<Rightarrow> nat \<Rightarrow> nat" where
  "dec_half_even c k =
     (let q = c div 10 ^ k; r = c mod 10 ^ k in
      if 2 * r < 10 ^ k then q else if 10 ^ k < 2 * r then q + 1 else if even q then q else q + 1)"

definition DECIMAL_PREC :: nat where "DECIMAL_PREC = 28"

definition dec_fix :: "nat \<times> int \<Rightarrow> nat \<times> int" where
  "dec_fix d =
     (case d of (c, e) \<Rightarrow>
       let n = length (nat_str c) in
       if n \<le> DECIMAL_PREC then (c, e)
       else let k = n - DECIMAL_PREC; q = dec_half_even c k in
         if length (nat_str q) \<le> DECIMAL_PREC then (q, e + int k) else (q div 10, e + int k + 1))"

text \<open>\<open>f"{value:.{dscale}f}"\<close>: rescaled to \<open>dscale\<close> places, ties to even.\<close>

definition decimal_places :: "nat \<Rightarrow> nat \<Rightarrow> int \<Rightarrow> pystr" where
  "decimal_places dscale c e =
     (let q = (if - int dscale \<le> e then c * 10 ^ nat (e + int dscale) else dec_half_even c (nat (- int dscale - e))) in
      if dscale = 0 then nat_str q else decimal_plain q (- int dscale))"

fun unpack_groups :: "nat \<Rightarrow> bytes \<Rightarrow> int \<Rightarrow> exc + nat list" where
  "unpack_groups 0 data off = Inr []"
| "unpack_groups (Suc n) data off =
     rbind (unpack_unsigned 2 data off) (\<lambda>g. rbind (unpack_groups n data (off + 2)) (\<lambda>gs. Inr (nat g # gs)))"

definition decode_numeric :: "bytes \<Rightarrow> exc + pystr" where
  "decode_numeric data =
     rbind (unpack_unsigned 2 data 0) (\<lambda>ndigits.
     rbind (unpack_signed 2 data 2) (\<lambda>weight.
     rbind (unpack_unsigned 2 data 4) (\<lambda>sign.
     rbind (unpack_unsigned 2 data 6) (\<lambda>dscale.
       if sign = NUMERIC_NAN then Inr (lit ''NaN'')
       else if sign = NUMERIC_PINF then Inr (lit ''Infinity'')
       else if sign = NUMERIC_NINF then Inr (lit ''-Infinity'')
       else rbind (unpack_groups (nat ndigits) data 8) (\<lambda>groups.
         let text = concat (map (zero_pad 4) groups);
             c = digits_val 0 text;
             (c1, e1) = dec_fix (c, (weight + 1 - ndigits) * 4);
             neg = (sign = NUMERIC_NEG \<and> c1 \<noteq> 0) in
         Inr (minus_if neg @ decimal_places (nat dscale) c1 e1))))))"

definition decode_time :: "bytes \<Rightarrow> exc + pystr" where
  "decode_time data =
     rbind (unpack_exact_signed 8 data) (\<lambda>micros.
       if 0 \<le> micros \<and> micros < DAY_US then Inr (time_isoformat (nat micros) None)
       else Inl (ValueError (lit ''hour must be in 0..23'')))"

definition decode_interval :: "bytes \<Rightarrow> exc + pystr" where
  "decode_interval data =
     (if length data \<noteq> 16 then Inl StructError
      else rbind (unpack_signed 8 data 0) (\<lambda>micros.
      rbind (unpack_signed 4 data 8) (\<lambda>days.
      rbind (unpack_signed 4 data 12) (\<lambda>months.
      rbind (timedelta (days * DAY_US + micros)) (\<lambda>u.
        let time_part = timedelta_out u in
        Inr (if months = 0 then time_part else int_str months @ lit '' mons '' @ time_part))))))"

definition decode_uuid :: "bytes \<Rightarrow> exc + pystr" where
  "decode_uuid data =
     (if length data = 16 then Inr (uuid_str data) else Inl (ValueError (lit ''bytes is not a 16-char string'')))"

definition JSONB_VERSION :: byte where "JSONB_VERSION = 1"

definition decode_json :: "bytes \<Rightarrow> exc + pystr" where
  "decode_json data = utf8_decode data"

definition decode_jsonb :: "bytes \<Rightarrow> exc + pystr" where
  "decode_jsonb data =
     (case data of
        [] \<Rightarrow> Inl (ValueError (lit ''unsupported jsonb wire format version missing''))
      | v # doc \<Rightarrow>
          if v \<noteq> JSONB_VERSION
          then Inl (ValueError (lit ''unsupported jsonb wire format version '' @ nat_str (unat v)))
          else utf8_decode doc)"

text \<open>The table \<open>_BINARY_DECODERS\<close>.\<close>

definition binary_decoder :: "int \<Rightarrow> (bytes \<Rightarrow> exc + pystr) option" where
  "binary_decoder oid =
     map_of [(BOOL, decode_bool), (INT2, decode_int 2), (INT4, decode_int 4), (OID, decode_uint32),
       (INT8, decode_int 8), (FLOAT4, decode_float4), (FLOAT8, decode_float8), (BYTEA, decode_bytea),
       (TEXT, decode_text), (VARCHAR, decode_text), (BPCHAR, decode_text), (NAME, decode_text),
       (DATE, decode_date), (TIMESTAMP, decode_timestamp), (TIMESTAMPTZ, decode_timestamp),
       (INTERVAL, decode_interval), (NUMERIC, decode_numeric), (TIME, decode_time), (UUID, decode_uuid),
       (JSON, decode_json), (JSONB, decode_jsonb)] oid"

section \<open>Binary results\<close>

subsection \<open>Python's conversions\<close>

text \<open>\<open>bool(v)\<close>\<close>

fun py_truthy :: "pyval \<Rightarrow> bool" where
  "py_truthy PNone = False"
| "py_truthy (PBool b) = b"
| "py_truthy (PInt i) = (i \<noteq> 0)"
| "py_truthy (PFloat w) = (f64_nan w \<or> f64_inf w \<or> f64_abs w \<noteq> 0)"
| "py_truthy (PDecimal d) = (case d of DFin neg c e \<Rightarrow> c \<noteq> 0 | _ \<Rightarrow> True)"
| "py_truthy (PStr s) = (s \<noteq> [])"
| "py_truthy (PBytes b) = (b \<noteq> [])"
| "py_truthy (PBytearray b) = (b \<noteq> [])"
| "py_truthy (PTimedelta u) = (u \<noteq> 0)"
| "py_truthy (PList xs) = (xs \<noteq> [])"
| "py_truthy (PDict d) = (d \<noteq> [])"
| "py_truthy _ = True"

definition int_literal_error :: "pystr \<Rightarrow> exc" where
  "int_literal_error shown = ValueError (lit ''invalid literal for int() with base 10: '' @ shown)"

text \<open>\<open>int(text)\<close>: white space around, a sign, decimal digits with single underscores between.\<close>

definition parse_int_text :: "pystr \<Rightarrow> int option" where
  "parse_int_text text =
     (let (neg, s) = take_sign (py_strip text) in
      case digit_run s False of
        Some (ds, []) \<Rightarrow> Some ((if neg then - 1 else 1) * int (digits_val 0 ds))
      | _ \<Rightarrow> None)"

definition f64_trunc :: "f64 \<Rightarrow> int" where
  "f64_trunc w = (if f64_sign w then - \<lfloor>f64_abs w\<rfloor> else \<lfloor>f64_abs w\<rfloor>)"

definition dec_trunc :: "bool \<Rightarrow> nat \<Rightarrow> int \<Rightarrow> int" where
  "dec_trunc neg c e =
     (if neg then - 1 else 1) * int (if 0 \<le> e then c * 10 ^ nat e else c div 10 ^ nat (- e))"

text \<open>The characters of a byte string that is read as a number.\<close>

definition bytes_chars :: "bytes \<Rightarrow> pystr" where
  "bytes_chars b = map unat b"

fun py_int :: "pyval \<Rightarrow> exc + int" where
  "py_int (PBool b) = Inr (if b then 1 else 0)"
| "py_int (PInt i) = Inr i"
| "py_int (PFloat w) =
     (if f64_nan w then Inl (ValueError (lit ''cannot convert float NaN to integer''))
      else if f64_inf w then Inl OverflowError else Inr (f64_trunc w))"
| "py_int (PDecimal d) =
     (case d of DNan \<Rightarrow> Inl (ValueError (lit ''cannot convert NaN to integer''))
      | DInf _ \<Rightarrow> Inl OverflowError | DFin neg c e \<Rightarrow> Inr (dec_trunc neg c e))"
| "py_int (PStr s) =
     (case parse_int_text s of Some i \<Rightarrow> Inr i | None \<Rightarrow> Inl (int_literal_error (py_repr s)))"
| "py_int (PBytes b) =
     (case parse_int_text (bytes_chars b) of Some i \<Rightarrow> Inr i | None \<Rightarrow> Inl (int_literal_error (bytes_repr b)))"
| "py_int (PBytearray b) =
     (case parse_int_text (bytes_chars b) of Some i \<Rightarrow> Inr i
      | None \<Rightarrow> Inl (int_literal_error (lit ''bytearray('' @ bytes_repr b @ lit '')'')))"
| "py_int (PUuid b) = Inr (be_val b)"
| "py_int v = Inl (TypeError (lit ''int() argument must be a string, a bytes-like object or a real number''))"

definition dec_rat :: "bool \<Rightarrow> nat \<Rightarrow> int \<Rightarrow> rat" where
  "dec_rat neg c e = (if neg then - 1 else 1) * of_nat c * pow10 e"

definition float_error :: "pystr \<Rightarrow> exc" where
  "float_error shown = ValueError (lit ''could not convert string to float: '' @ shown)"

fun py_float :: "pyval \<Rightarrow> exc + f64" where
  "py_float (PFloat w) = Inr w"
| "py_float (PBool b) = Inr (f64_round (if b then 1 else 0))"
| "py_float (PInt i) = (if f64_inf (f64_round (of_int i)) then Inl OverflowError else Inr (f64_round (of_int i)))"
| "py_float (PDecimal d) =
     (case d of DNan \<Rightarrow> Inr (word_of_nat (2047 * 2 ^ 52 + 2 ^ 51))
      | DInf neg \<Rightarrow> Inr (if neg then f64_neg f64_pinf else f64_pinf)
      | DFin neg c e \<Rightarrow> Inr (if c = 0 \<and> neg then f64_neg 0 else f64_round (dec_rat neg c e)))"
| "py_float (PStr s) = (case parse_float s of Some w \<Rightarrow> Inr w | None \<Rightarrow> Inl (float_error (py_repr s)))"
| "py_float (PBytes b) =
     (case parse_float (bytes_chars b) of Some w \<Rightarrow> Inr w | None \<Rightarrow> Inl (float_error (bytes_repr b)))"
| "py_float (PBytearray b) =
     (case parse_float (bytes_chars b) of Some w \<Rightarrow> Inr w
      | None \<Rightarrow> Inl (float_error (lit ''bytearray('' @ bytes_repr b @ lit '')'')))"
| "py_float v = Inl (TypeError (lit ''float() argument must be a string or a real number''))"

text \<open>\<open>bytes(v)\<close>: an int is a length, a list its byte values.\<close>

fun byte_of :: "pyval \<Rightarrow> exc + byte" where
  "byte_of (PInt i) =
     (if 0 \<le> i \<and> i < 256 then Inr (word_of_int i) else Inl (ValueError (lit ''bytes must be in range(0, 256)'')))"
| "byte_of (PBool b) = Inr (if b then 1 else 0)"
| "byte_of v = Inl (TypeError (lit ''object cannot be interpreted as an integer''))"

fun py_bytes :: "pyval \<Rightarrow> exc + bytes" where
  "py_bytes (PBytes b) = Inr b"
| "py_bytes (PBytearray b) = Inr b"
| "py_bytes (PInt i) = (if i < 0 then Inl (ValueError (lit ''negative count'')) else Inr (replicate (nat i) 0))"
| "py_bytes (PBool b) = Inr (replicate (if b then 1 else 0) 0)"
| "py_bytes (PList xs) = rmap byte_of xs"
| "py_bytes (PDict kvs) = rmap byte_of (map fst kvs)"
| "py_bytes (PStr s) = Inl (TypeError (lit ''string argument without an encoding''))"
| "py_bytes v = Inl (TypeError (lit ''cannot convert object to bytes''))"

text \<open>\<open>Decimal(text)\<close>\<close>

definition all_digits :: "pystr \<Rightarrow> bool" where
  "all_digits s = list_all is_digit s"

definition parse_unsigned_decimal :: "pystr \<Rightarrow> (nat \<times> int) option" where
  "parse_unsigned_decimal s =
     (let a = takeWhile is_digit s; r = dropWhile is_digit s;
          (b, u) = (case r of c # t \<Rightarrow> if c = 46 then (takeWhile is_digit t, dropWhile is_digit t) else ([], r)
                    | [] \<Rightarrow> ([], [])) in
      if a = [] \<and> b = [] then None
      else map_option (\<lambda>e. (digits_val 0 (a @ b), e - int (length b))) (parse_exponent u))"

definition parse_decimal :: "pystr \<Rightarrow> pydec option" where
  "parse_decimal text =
     (let (neg, s) = take_sign (filter (\<lambda>c. c \<noteq> 95) (py_strip text)); l = py_lower s in
      if l = lit ''inf'' \<or> l = lit ''infinity'' then Some (DInf neg)
      else if (starts_with l (lit ''nan'') \<and> all_digits (drop 3 l)) \<or> (starts_with l (lit ''snan'') \<and> all_digits (drop 4 l))
      then Some DNan
      else map_option (\<lambda>(c, e). DFin neg c e) (parse_unsigned_decimal s))"

text \<open>\<open>str(v)\<close>\<close>

fun py_str_val :: "pyval \<Rightarrow> pystr" where
  "py_str_val (PStr s) = s"
| "py_str_val (PDecimal d) = pydec_str d"
| "py_str_val (PDatetime d t z) = datetime_isoformat d t z"
| "py_str_val (PDate d) = date_isoformat d"
| "py_str_val (PTime t z) = time_isoformat t z"
| "py_str_val (PTimedelta u) =
     (let h = td_seconds u div 3600; m = td_seconds u div 60 mod 60; s = td_seconds u mod 60 in
      (if td_days u = 0 then [] else int_str (td_days u) @ lit '' day'' @ (if \<bar>td_days u\<bar> \<noteq> 1 then lit ''s'' else []) @ lit '', '') @
      int_str h @ lit '':'' @ zero_pad 2 (nat m) @ lit '':'' @ zero_pad 2 (nat s) @
      (if td_microseconds u = 0 then [] else lit ''.'' @ zero_pad 6 (nat (td_microseconds u))))"
| "py_str_val (PUuid b) = uuid_str b"
| "py_str_val v = py_repr_val v"

text \<open>\<open>uuid.UUID(text)\<close>\<close>

definition hex_val :: "pychar \<Rightarrow> nat option" where
  "hex_val c =
     (if is_digit c then Some (c - 48) else if 97 \<le> c \<and> c \<le> 102 then Some (c - 87)
      else if 65 \<le> c \<and> c \<le> 70 then Some (c - 55) else None)"

text \<open>\<open>int(text, 16)\<close>: a sign, a prefix \<open>0x\<close>, hexadecimal digits with single underscores between.\<close>

fun hex_run :: "nat \<Rightarrow> pystr \<Rightarrow> bool \<Rightarrow> nat option" where
  "hex_run acc [] after = (if after then Some acc else None)"
| "hex_run acc (c # s) after =
     (case hex_val c of Some v \<Rightarrow> hex_run (acc * 16 + v) s True
      | None \<Rightarrow> if c = 95 \<and> after then hex_run acc s False else None)"

definition parse_hex_int :: "pystr \<Rightarrow> nat option" where
  "parse_hex_int text =
     (let (neg, s) = take_sign (py_strip text) in
      if starts_with (py_lower s) (lit ''0x'')
      then hex_run 0 (drop 2 s) (length s > 2 \<and> s ! 2 = 95) else hex_run 0 s False)"

fun remove_sub :: "'a list \<Rightarrow> 'a list \<Rightarrow> 'a list" where
  "remove_sub p [] = []"
| "remove_sub p (c # s) =
     (if p \<noteq> [] \<and> starts_with (c # s) p then remove_sub p (drop (length p - 1) s) else c # remove_sub p s)"

definition parse_uuid :: "pystr \<Rightarrow> exc + bytes" where
  "parse_uuid text =
     (let h = filter (\<lambda>c. c \<noteq> 45) (py_strip_chars [123, 125] (remove_sub (lit ''uuid:'') (remove_sub (lit ''urn:'') text))) in
      if length h \<noteq> 32 then Inl (ValueError (lit ''badly formed hexadecimal UUID string''))
      else case parse_hex_int h of Some n \<Rightarrow> Inr (be_bytes 16 (int n))
        | None \<Rightarrow> Inl (ValueError (lit ''invalid literal for int() with base 16: '' @ py_repr h)))"

subsection \<open>The encoders\<close>

definition encode_bool_bin :: "pyval \<Rightarrow> exc + bytes" where
  "encode_bool_bin v = Inr (if py_truthy v then [1] else [0])"

definition encode_int_bin :: "nat \<Rightarrow> pyval \<Rightarrow> exc + bytes" where
  "encode_int_bin n v = rbind (py_int v) (pack_signed n)"

definition encode_uint32_bin :: "pyval \<Rightarrow> exc + bytes" where
  "encode_uint32_bin v = rbind (py_int v) (pack_unsigned 4)"

definition encode_float8_bin :: "pyval \<Rightarrow> exc + bytes" where
  "encode_float8_bin v = rbind (py_float v) (\<lambda>w. Inr (be_bytes 8 (uint w)))"

definition encode_float4_bin :: "pyval \<Rightarrow> exc + bytes" where
  "encode_float4_bin v = rbind (py_float v) (\<lambda>w. rbind (f64_to_f32 w) (\<lambda>b. Inr (be_bytes 4 (int b))))"

definition encode_bytea_bin :: "pyval \<Rightarrow> exc + bytes" where
  "encode_bytea_bin v = py_bytes v"

definition encode_text_bin :: "pyval \<Rightarrow> exc + bytes" where
  "encode_text_bin v = (case v of PStr s \<Rightarrow> utf8_encode s | _ \<Rightarrow> rbind (encode_scalar TEXT v) utf8_encode)"

definition encode_date_bin :: "pyval \<Rightarrow> exc + bytes" where
  "encode_date_bin v =
     (case v of PDate d \<Rightarrow> pack_signed 4 (int d - int PG_EPOCH)
      | PDatetime d t tz \<Rightarrow> pack_signed 4 (int d - int PG_EPOCH)
      | _ \<Rightarrow> Inl (TypeError (lit ''unsupported operand type(s) for -'')))"

text \<open>\<open>_micros_since_epoch\<close> of a naive datetime, given as its instant.\<close>

definition micros_since_epoch :: "int \<Rightarrow> exc + bytes" where
  "micros_since_epoch t =
     (let delta = t - instant PG_EPOCH 0 in
      pack_signed 8 (td_days delta * 86400000000 + td_seconds delta * 1000000 + td_microseconds delta))"

definition no_year :: "pyval \<Rightarrow> exc" where
  "no_year v = OtherError (py_repr (type_name v) @ lit '' object has no attribute '' @ py_repr (lit ''year''))"

definition encode_timestamp_bin :: "pyval \<Rightarrow> exc + bytes" where
  "encode_timestamp_bin v =
     (case v of PDatetime d t tz \<Rightarrow> micros_since_epoch (instant d t)
      | PDate d \<Rightarrow> micros_since_epoch (instant d 0)
      | _ \<Rightarrow> Inl (no_year v))"

definition encode_timestamptz_bin :: "pyval \<Rightarrow> exc + bytes" where
  "encode_timestamptz_bin v =
     (case v of
        PDatetime d t tz \<Rightarrow>
          (case tz of None \<Rightarrow> micros_since_epoch (instant d t)
           | Some off \<Rightarrow> rbind (from_instant (instant d t - off)) (\<lambda>(d', t'). micros_since_epoch (instant d' t')))
      | PDate d \<Rightarrow> micros_since_epoch (instant d 0)
      | _ \<Rightarrow> Inl (no_year v))"

text \<open>Groups of four characters, as the slices \<open>text[i : i + 4]\<close> make them.\<close>

fun chunks4 :: "'a list \<Rightarrow> 'a list list" where
  "chunks4 [] = []"
| "chunks4 (x # xs) = take 4 (x # xs) # chunks4 (drop 3 xs)"

definition rjust0 :: "nat \<Rightarrow> pystr \<Rightarrow> pystr" where
  "rjust0 n s = replicate (n - length s) 48 @ s"

definition ljust0 :: "nat \<Rightarrow> pystr \<Rightarrow> pystr" where
  "ljust0 n s = s @ replicate (n - length s) 48"

text \<open>The two loops that drop insignificant groups.\<close>

fun drop_leading :: "nat list \<Rightarrow> int \<Rightarrow> nat list \<times> int" where
  "drop_leading [] w = ([], w)"
| "drop_leading (g # gs) w = (if g = 0 then drop_leading gs (w - 1) else (g # gs, w))"

definition drop_trailing :: "nat list \<Rightarrow> nat list" where
  "drop_trailing gs = rev (dropWhile (\<lambda>g. g = 0) (rev gs))"

text \<open>Coefficient and exponent to base-10000 groups, weight and display scale.\<close>

definition numeric_groups :: "nat \<Rightarrow> int \<Rightarrow> nat list \<times> int \<times> int" where
  "numeric_groups c e =
     (let dscale = (if e < 0 then - e else 0);
          text = nat_str c;
          padded = rjust0 (nat (- e) + 1) text;
          integer0 = (if 0 \<le> e then text @ replicate (nat e) 48 else take (length padded - nat (- e)) padded);
          fraction0 = (if 0 \<le> e then [] else drop (length padded - nat (- e)) padded);
          integer_part = rjust0 ((length integer0 + 3) div 4 * 4) integer0;
          fraction_part = ljust0 ((length fraction0 + 3) div 4 * 4) fraction0;
          groups0 = map (digits_val 0) (chunks4 integer_part);
          (groups1, weight) = drop_leading (groups0 @ map (digits_val 0) (chunks4 fraction_part)) (int (length groups0) - 1);
          groups = drop_trailing groups1 in
      (groups, (if groups = [] then 0 else weight), dscale))"

definition numeric_special :: "int \<Rightarrow> bytes" where
  "numeric_special sign = be_bytes 2 0 @ be_bytes 2 0 @ be_bytes 2 sign @ be_bytes 2 0"

definition pack_numeric :: "int \<Rightarrow> nat list \<times> int \<times> int \<Rightarrow> exc + bytes" where
  "pack_numeric sign g =
     (case g of (groups, weight, dscale) \<Rightarrow>
       rbind (pack_unsigned 2 (int (length groups))) (\<lambda>a.
       rbind (pack_signed 2 weight) (\<lambda>b.
       rbind (pack_unsigned 2 dscale) (\<lambda>d.
       rbind (rmap (\<lambda>x. pack_unsigned 2 (int x)) groups) (\<lambda>gs.
         Inr (a @ b @ be_bytes 2 sign @ d @ concat gs))))))"

definition encode_decimal_bin :: "pydec \<Rightarrow> exc + bytes" where
  "encode_decimal_bin d =
     (case d of
        DNan \<Rightarrow> Inr (numeric_special NUMERIC_NAN)
      | DInf neg \<Rightarrow> Inr (numeric_special (if neg then NUMERIC_NINF else NUMERIC_PINF))
      | DFin neg c e \<Rightarrow> pack_numeric (if neg then NUMERIC_NEG else NUMERIC_POS) (numeric_groups c e))"

definition encode_numeric_bin :: "pyval \<Rightarrow> exc + bytes" where
  "encode_numeric_bin v =
     (case v of PDecimal d \<Rightarrow> encode_decimal_bin d
      | _ \<Rightarrow> (case parse_decimal (py_str_val v) of Some d \<Rightarrow> encode_decimal_bin d
              | None \<Rightarrow> Inl (OtherError (lit ''decimal.InvalidOperation''))))"

definition encode_time_bin :: "pyval \<Rightarrow> exc + bytes" where
  "encode_time_bin v =
     (case v of PTime us tz \<Rightarrow> pack_signed 8 (int us)
      | _ \<Rightarrow> Inl (ValueError (lit ''expected a time, got '' @ type_name v)))"

definition encode_interval_bin :: "pyval \<Rightarrow> exc + bytes" where
  "encode_interval_bin v =
     (case v of
        PTimedelta u \<Rightarrow>
          rbind (pack_signed 8 (td_seconds u * 1000000 + td_microseconds u)) (\<lambda>a.
          rbind (pack_signed 4 (td_days u)) (\<lambda>b. Inr (a @ b @ be_bytes 4 0)))
      | _ \<Rightarrow> Inl (ValueError (lit ''expected a timedelta for an interval, got '' @ type_name v)))"

definition encode_uuid_bin :: "pyval \<Rightarrow> exc + bytes" where
  "encode_uuid_bin v = (case v of PUuid b \<Rightarrow> Inr b | _ \<Rightarrow> parse_uuid (py_str_val v))"

definition encode_json_bin :: "pyval \<Rightarrow> exc + bytes" where
  "encode_json_bin v = rbind (encode_scalar JSON v) utf8_encode"

definition encode_jsonb_bin :: "pyval \<Rightarrow> exc + bytes" where
  "encode_jsonb_bin v = rbind (encode_json_bin v) (\<lambda>b. Inr ([JSONB_VERSION] @ b))"

text \<open>The table \<open>_BINARY_ENCODERS\<close>.\<close>

definition binary_encoder :: "int \<Rightarrow> (pyval \<Rightarrow> exc + bytes) option" where
  "binary_encoder oid =
     map_of [(BOOL, encode_bool_bin), (INT2, encode_int_bin 2), (INT4, encode_int_bin 4), (OID, encode_uint32_bin),
       (INT8, encode_int_bin 8), (FLOAT4, encode_float4_bin), (FLOAT8, encode_float8_bin), (BYTEA, encode_bytea_bin),
       (TEXT, encode_text_bin), (VARCHAR, encode_text_bin), (BPCHAR, encode_text_bin), (NAME, encode_text_bin),
       (DATE, encode_date_bin), (TIMESTAMP, encode_timestamp_bin), (TIMESTAMPTZ, encode_timestamptz_bin),
       (INTERVAL, encode_interval_bin), (NUMERIC, encode_numeric_bin), (TIME, encode_time_bin), (UUID, encode_uuid_bin),
       (JSON, encode_json_bin), (JSONB, encode_jsonb_bin)] oid"

end
