(* ===== verification/Arrays.thy ===== *)
theory Arrays
  imports Values
begin

text \<open>
  \<open>pg_mimic/arrays.py\<close> and the array branches of \<open>pg_mimic/types.py\<close>: the shape of nested lists,
  the binary array format, array literals and their parser, and on top of them \<open>encode_value\<close>,
  \<open>encode_value_binary\<close>, \<open>decode_binary_param\<close> and \<open>decode_text_param\<close>.

  The parser of literals works on the rest of the text (the index of the source is the length
  already consumed) and spends one unit of fuel per brace or element; the text's length is shown to
  be enough. Binary decoding recurses when the element OID is again an array OID; its fuel is the
  depth Python's stack allows, and running out of it is the exception Python raises.
\<close>

section \<open>Array OIDs\<close>

definition ARRAY_OID :: "(int, int) dict" where
  "ARRAY_OID =
     [(BOOL, 1000), (BYTEA, 1001), (CHAR_OID, 1002), (NAME, 1003), (INT8, 1016), (INT2, 1005), (INT4, 1007),
      (TEXT, 1009), (OID, 1028), (FLOAT4, 1021), (FLOAT8, 1022), (VARCHAR, 1015), (BPCHAR, 1014), (DATE, 1182),
      (TIME, 1183), (TIMESTAMP, 1115), (TIMESTAMPTZ, 1185), (INTERVAL, 1187), (NUMERIC, 1231), (UUID, 2951),
      (JSON, 199), (JSONB, 3807)]"

definition ELEMENT_OID :: "(int, int) dict" where
  "ELEMENT_OID = map (\<lambda>(element, arr). (arr, element)) ARRAY_OID"

definition is_array_oid :: "int \<Rightarrow> bool" where
  "is_array_oid oid = dict_has oid ELEMENT_OID"

definition element_oid_of :: "int \<Rightarrow> exc + int" where
  "element_oid_of oid = (case dict_get ELEMENT_OID oid of Some e \<Rightarrow> Inr e | None \<Rightarrow> Inl KeyError)"

section \<open>Shape\<close>

text \<open>The loop of \<open>_dimensions\<close>: the lengths along the first elements.\<close>

fun first_dims :: "pyval \<Rightarrow> nat list" where
  "first_dims (PList []) = [0]"
| "first_dims (PList (x # xs)) = length (x # xs) # first_dims x"
| "first_dims _ = []"

fun check_rectangular :: "pyval \<Rightarrow> nat list \<Rightarrow> nat \<Rightarrow> exc + unit" where
  "check_rectangular node [] depth =
     (if is_list node then Inl (ValueError (lit ''array is deeper in some branches than others'')) else Inr ())"
| "check_rectangular node (d # ds) depth =
     (case node of
        PList xs \<Rightarrow>
          if length xs \<noteq> d
          then Inl (ValueError (lit ''array is ragged: expected '' @ nat_str d @ lit '' elements at depth '' @
                 nat_str depth @ lit '', got '' @ nat_str (length xs)))
          else rbind (rmap (\<lambda>child. check_rectangular child ds (depth + 1)) xs) (\<lambda>_. Inr ())
      | _ \<Rightarrow> Inl (ValueError (lit ''array is shallower in some branches than others'')))"

definition dimensions :: "pyval list \<Rightarrow> exc + nat list" where
  "dimensions xs =
     (if xs = [] then Inr []
      else let dims = first_dims (PList xs) in rbind (check_rectangular (PList xs) dims 0) (\<lambda>_. Inr dims))"

fun flatten :: "pyval \<Rightarrow> pyval list" where
  "flatten (PList xs) = concat (map flatten xs)"
| "flatten v = [v]"

text \<open>\<open>[flat[i : i + step] for i in range(0, len(flat), step)]\<close> for a positive step.\<close>

function slices :: "nat \<Rightarrow> 'a list \<Rightarrow> 'a list list" where
  "slices step xs = (if step = 0 \<or> xs = [] then [] else take step xs # slices step (drop step xs))"
  by pat_completeness auto
termination by (relation "measure (\<lambda>(step, xs). length xs)") auto

declare slices.simps [simp del]

fun reshape :: "pyval list \<Rightarrow> int list \<Rightarrow> exc + pyval list" where
  "reshape flat [] = Inr flat"
| "reshape flat [d] = Inr flat"
| "reshape flat (d # ds) =
     (let step = prod_list ds in
      if step = 0 then Inl (ValueError (lit ''range() arg 3 must not be zero''))
      else if step < 0 then Inr []
      else rbind (rmap (\<lambda>part. reshape part ds) (slices (nat step) flat)) (\<lambda>parts. Inr (map PList parts)))"

section \<open>Binary format\<close>

definition encode_element_binary :: "int \<Rightarrow> pyval \<Rightarrow> exc + bytes" where
  "encode_element_binary element_oid item =
     (case item of
        PNone \<Rightarrow> pack_signed 4 (- 1)
      | _ \<Rightarrow> (case binary_encoder element_oid of
               None \<Rightarrow> Inl (ValueError (lit ''binary format not supported for result column OID '' @ int_str element_oid))
             | Some f \<Rightarrow> rbind (f item) (\<lambda>encoded.
                 rbind (pack_signed 4 (int (length encoded))) (\<lambda>l. Inr (l @ encoded)))))"

definition expected_list :: "int \<Rightarrow> pyval \<Rightarrow> exc" where
  "expected_list array_oid v =
     ValueError (lit ''expected a list for array OID '' @ int_str array_oid @ lit '', got '' @ type_name v)"

definition encode_array_binary :: "int \<Rightarrow> pyval \<Rightarrow> exc + bytes" where
  "encode_array_binary array_oid v =
     rbind (element_oid_of array_oid) (\<lambda>element_oid.
     case v of
       PList xs \<Rightarrow>
         rbind (dimensions xs) (\<lambda>dims.
           let flat = (if dims = [] then [] else flatten (PList xs));
               has_null = list_ex (\<lambda>item. item = PNone) flat in
           rbind (pack_signed 4 (int (length dims))) (\<lambda>h1.
           rbind (pack_unsigned 4 element_oid) (\<lambda>h3.
           rbind (rmap (\<lambda>size. rbind (pack_signed 4 (int size)) (\<lambda>b. Inr (b @ be_bytes 4 1))) dims) (\<lambda>ds.
           rbind (rmap (encode_element_binary element_oid) flat) (\<lambda>es.
             Inr (h1 @ be_bytes 4 (if has_null then 1 else 0) @ h3 @ concat ds @ concat es))))))
     | _ \<Rightarrow> Inl (expected_list array_oid v))"

fun read_dims :: "nat \<Rightarrow> bytes \<Rightarrow> int \<Rightarrow> exc + int list \<times> int" where
  "read_dims 0 data off = Inr ([], off)"
| "read_dims (Suc n) data off =
     rbind (unpack_signed 4 data off) (\<lambda>size.
     rbind (unpack_signed 4 data (off + 4)) (\<lambda>_.
     rbind (read_dims n data (off + 8)) (\<lambda>(sizes, off'). Inr (size # sizes, off'))))"

fun decode_elements :: "(bytes \<Rightarrow> exc + pyval) \<Rightarrow> nat \<Rightarrow> bytes \<Rightarrow> int \<Rightarrow> exc + pyval list" where
  "decode_elements dec 0 data off = Inr []"
| "decode_elements dec (Suc n) data off =
     rbind (unpack_signed 4 data off) (\<lambda>len.
       if len = - 1 then rbind (decode_elements dec n data (off + 4)) (\<lambda>vs. Inr (PNone # vs))
       else rbind (dec (py_slice data (off + 4) (off + 4 + len))) (\<lambda>v.
         rbind (decode_elements dec n data (off + 4 + len)) (\<lambda>vs. Inr (v # vs))))"

definition decode_array_binary :: "(int \<Rightarrow> bytes \<Rightarrow> exc + pyval) \<Rightarrow> bytes \<Rightarrow> exc + pyval" where
  "decode_array_binary decode_param data =
     rbind (unpack_signed 4 data 0) (\<lambda>ndim.
     rbind (unpack_signed 4 data 4) (\<lambda>_.
     rbind (unpack_unsigned 4 data 8) (\<lambda>element_oid.
       if ndim = 0 then Inr (PList [])
       else if ndim < 0 then Inl (ValueError (lit ''negative array dimension count '' @ int_str ndim))
       else rbind (read_dims (nat ndim) data 12) (\<lambda>(dims, off).
         rbind (decode_elements (decode_param element_oid) (nat (prod_list dims)) data off) (\<lambda>flat.
         rbind (reshape flat dims) (\<lambda>vs. Inr (PList vs)))))))"

definition PY_STACK :: nat where "PY_STACK = 400"

fun decode_param_depth :: "nat \<Rightarrow> int \<Rightarrow> bytes \<Rightarrow> exc + pyval" where
  "decode_param_depth 0 oid data = Inl (OtherError (lit ''maximum recursion depth exceeded''))"
| "decode_param_depth (Suc n) oid data =
     (case binary_decoder oid of
        Some f \<Rightarrow> rbind (f data) (\<lambda>t. Inr (PStr t))
      | None \<Rightarrow>
          if is_array_oid oid then decode_array_binary (decode_param_depth n) data
          else Inl (ValueError (lit ''binary format not supported for parameter OID '' @ int_str oid)))"

definition decode_binary_param :: "int \<Rightarrow> bytes \<Rightarrow> exc + pyval" where
  "decode_binary_param oid data = decode_param_depth PY_STACK oid data"

section \<open>Array literals\<close>

definition NEEDS_QUOTING :: "pychar list" where
  "NEEDS_QUOTING = [123, 125, 44, 34, 92, 32, 9, 10, 13, 11, 12]"

definition quote_element :: "pystr \<Rightarrow> pystr" where
  "quote_element text = [34] @ replace_char 34 [92, 34] (replace_char 92 [92, 92] text) @ [34]"

definition must_quote :: "pystr \<Rightarrow> bool" where
  "must_quote text \<longleftrightarrow> text = [] \<or> py_upper text = lit ''NULL'' \<or> list_ex (\<lambda>ch. ch \<in> set NEEDS_QUOTING) text"

definition format_element :: "int \<Rightarrow> pyval \<Rightarrow> exc + pystr" where
  "format_element element_oid v =
     (case v of
        PNone \<Rightarrow> Inr (lit ''NULL'')
      | _ \<Rightarrow> rbind (encode_scalar element_oid v) (\<lambda>text. Inr (if must_quote text then quote_element text else text)))"

fun format_nested :: "int \<Rightarrow> pyval \<Rightarrow> exc + pystr" where
  "format_nested element_oid (PList xs) =
     rbind (rmap (format_nested element_oid) xs) (\<lambda>ps. Inr ([123] @ py_join [44] ps @ [125]))"
| "format_nested element_oid v = format_element element_oid v"

definition format_array_literal :: "int \<Rightarrow> pyval \<Rightarrow> exc + pystr" where
  "format_array_literal array_oid v =
     rbind (element_oid_of array_oid) (\<lambda>element_oid.
     case v of
       PList xs \<Rightarrow> rbind (dimensions xs) (\<lambda>_. format_nested element_oid v)
     | _ \<Rightarrow> Inl (expected_list array_oid v))"

definition skip_space :: "pystr \<Rightarrow> pystr" where
  "skip_space s = dropWhile py_isspace s"

text \<open>\<open>_parse_quoted\<close> after the opening quote: the element and the rest of the text.\<close>

fun parse_quoted :: "pystr \<Rightarrow> exc + pystr \<times> pystr" where
  "parse_quoted [] = Inl (ValueError (lit ''unterminated quoted element in array literal''))"
| "parse_quoted (c # s) =
     (if c = 92 then
        (case s of [] \<Rightarrow> Inl (ValueError (lit ''array literal ends with a trailing backslash''))
         | d # t \<Rightarrow> rbind (parse_quoted t) (\<lambda>(chars, r). Inr (d # chars, r)))
      else if c = 34 then Inr ([], s)
      else rbind (parse_quoted s) (\<lambda>(chars, r). Inr (c # chars, r)))"

definition parse_bare :: "pystr \<Rightarrow> pyval \<times> pystr" where
  "parse_bare s =
     (let token = py_strip (takeWhile (\<lambda>c. c \<noteq> 44 \<and> c \<noteq> 125) s) in
      ((if py_upper token = lit ''NULL'' then PNone else PStr token), dropWhile (\<lambda>c. c \<noteq> 44 \<and> c \<noteq> 125) s))"

definition unterminated :: exc where
  "unterminated = ValueError (lit ''unterminated array literal'')"

text \<open>
  \<open>parse_braced\<close> is the code after the opening brace, \<open>parse_items\<close> its loop; \<open>n\<close> is the length of
  the whole text, for the positions in messages.
\<close>

fun parse_braced :: "nat \<Rightarrow> nat \<Rightarrow> pystr \<Rightarrow> exc + pyval list \<times> pystr"
  and parse_items :: "nat \<Rightarrow> nat \<Rightarrow> pystr \<Rightarrow> exc + pyval list \<times> pystr" where
  "parse_braced 0 n s = Inl AssertionError"
| "parse_braced (Suc fuel) n s =
     (let r = skip_space s in
      if r \<noteq> [] \<and> hd r = 125 then Inr ([], tl r) else parse_items fuel n r)"
| "parse_items 0 n s = Inl AssertionError"
| "parse_items (Suc fuel) n s =
     (case skip_space s of
        [] \<Rightarrow> Inl unterminated
      | c # t \<Rightarrow>
          rbind (if c = 123 then rbind (parse_braced fuel n t) (\<lambda>(vs, r). Inr (PList vs, r))
                 else if c = 34 then rbind (parse_quoted t) (\<lambda>(chars, r). Inr (PStr chars, r))
                 else Inr (parse_bare (c # t)))
            (\<lambda>(item, r).
              case skip_space r of
                [] \<Rightarrow> Inl unterminated
              | d # u \<Rightarrow>
                  if d = 44 then rbind (parse_items fuel n u) (\<lambda>(items, r'). Inr (item # items, r'))
                  else if d = 125 then Inr ([item], u)
                  else Inl (ValueError (lit ''unexpected '' @ py_repr [d] @ lit '' at position '' @
                         nat_str (n - length (d # u)) @ lit '' in array literal''))))"

definition literal_error :: "string \<Rightarrow> pystr \<Rightarrow> exc" where
  "literal_error what text = ValueError (lit what @ py_repr text)"

definition parse_array_literal :: "pystr \<Rightarrow> exc + pyval" where
  "parse_array_literal text =
     rbind (let body = py_strip text in
            if starts_with body (lit ''['') then
              (case find_char 61 body of
                 None \<Rightarrow> Inl (literal_error ''malformed array literal: '' text)
               | Some equals \<Rightarrow> Inr (py_lstrip (drop (equals + 1) body)))
            else Inr body)
       (\<lambda>body.
         case body of
           [] \<Rightarrow> Inl (literal_error ''malformed array literal, expected '{': '' text)
         | c # t \<Rightarrow>
             if c \<noteq> 123 then Inl (literal_error ''malformed array literal, expected '{': '' text)
             else rbind (parse_braced (2 * length body + 2) (length body) t) (\<lambda>(vs, r).
               if py_strip r = [] then Inr (PList vs)
               else Inl (literal_error ''trailing characters after array literal: '' text)))"

section \<open>The entry points of types.py\<close>

definition encode_value :: "int \<Rightarrow> pyval \<Rightarrow> exc + pystr" where
  "encode_value oid v = (if is_list v \<and> is_array_oid oid then format_array_literal oid v else encode_scalar oid v)"

definition encode_value_binary :: "int \<Rightarrow> pyval \<Rightarrow> exc + bytes" where
  "encode_value_binary oid v =
     (case binary_encoder oid of
        Some f \<Rightarrow> f v
      | None \<Rightarrow>
          if is_array_oid oid then encode_array_binary oid v
          else Inl (ValueError (lit ''binary format not supported for result column OID '' @ int_str oid)))"

definition decode_text_param :: "int \<Rightarrow> pystr \<Rightarrow> exc + pyval" where
  "decode_text_param oid text = (if is_array_oid oid then parse_array_literal text else Inr (PStr text))"

end
