(* ===== verification/Numeric_Codec.thy ===== *)
theory Numeric_Codec
  imports Values
begin

text \<open>
  The binary form of \<open>numeric\<close>: \<open>_decode_numeric\<close> applied to what \<open>_encode_numeric_bin\<close> produces is
  the plain decimal text of the value, for every value of at most seven base-10000 groups. The
  arithmetic goes through \<open>groups_val\<close>, the number a list of groups stands for. A value with more
  digits than the 28 of the default decimal context is rounded by the decoder.
\<close>

section \<open>Digits\<close>

definition groups_val :: "nat list \<Rightarrow> nat" where
  "groups_val gs = foldl (\<lambda>a g. a * 10000 + g) 0 gs"

lemma groups_val_snoc [simp]: "groups_val (gs @ [g]) = groups_val gs * 10000 + g"
  by (simp add: groups_val_def)

lemma groups_val_Nil [simp]: "groups_val [] = 0"
  by (simp add: groups_val_def)

lemma groups_val_Cons: "groups_val (g # gs) = g * 10000 ^ length gs + groups_val gs"
proof (induction gs rule: rev_induct)
  case (snoc x xs)
  have "groups_val (g # xs @ [x]) = groups_val (g # xs) * 10000 + x"
    using groups_val_snoc[of "g # xs" x] by simp
  also have "\<dots> = g * 10000 ^ length (xs @ [x]) + groups_val (xs @ [x])"
    using snoc by (simp add: algebra_simps)
  finally show ?case by simp
qed (simp add: groups_val_def)

lemma groups_val_append: "groups_val (a @ b) = groups_val a * 10000 ^ length b + groups_val b"
  by (induction a) (auto simp: groups_val_Cons power_add algebra_simps)

lemma groups_val_less: "list_all (\<lambda>g. g < 10000) gs \<Longrightarrow> groups_val gs < 10000 ^ length gs"
proof (induction gs)
  case (Cons g gs)
  then have l: "groups_val gs < 10000 ^ length gs" and "g \<le> 9999" by auto
  then have "g * 10000 ^ length gs \<le> 9999 * 10000 ^ length gs" by (intro mult_right_mono) auto
  then show ?case using l unfolding groups_val_Cons length_Cons power_Suc by linarith
qed simp

lemma groups_val_zeros [simp]: "groups_val (replicate k 0) = 0"
  by (induction k) (auto simp: groups_val_Cons)

lemma digits_val_acc: "digits_val acc s = acc * 10 ^ length s + digits_val 0 s"
proof (induction s arbitrary: acc)
  case (Cons c s)
  show ?case
    using Cons[of "acc * 10 + (c - 48)"] Cons[of "c - 48"] by (simp add: algebra_simps)
qed simp

lemma digits_val_app: "digits_val 0 (a @ b) = digits_val 0 a * 10 ^ length b + digits_val 0 b"
  by (subst digits_val_append) (rule digits_val_acc)

lemma digits_val_zeros [simp]: "digits_val 0 (replicate k 48) = 0"
  by (induction k) auto

lemma digits_val_less: "list_all is_digit s \<Longrightarrow> digits_val 0 s < 10 ^ length s"
proof (induction s)
  case (Cons c s)
  then have l: "digits_val 0 s < 10 ^ length s" and "c - 48 \<le> 9" by (auto simp: is_digit_def)
  then have "(c - 48) * 10 ^ length s \<le> 9 * 10 ^ length s" by (intro mult_right_mono) auto
  moreover have "digits_val 0 (c # s) = (c - 48) * 10 ^ length s + digits_val 0 s"
    using digits_val_acc[of "c - 48" s] by simp
  ultimately show ?case using l unfolding length_Cons power_Suc by linarith
qed simp

lemma all_digits_nat_str [simp]: "list_all is_digit (nat_str n)"
  using nat_str_digits by (auto simp: list_all_iff)

lemma nat_str_length_le: "n < 10 ^ k \<Longrightarrow> 0 < k \<Longrightarrow> length (nat_str n) \<le> k"
proof (induction n arbitrary: k rule: nat_str.induct)
  case (1 n)
  show ?case
  proof (cases "n < 10")
    case True
    then show ?thesis using "1.prems" by (subst nat_str.simps) simp
  next
    case False
    then obtain j where k: "k = Suc j" "0 < j" using "1.prems" by (cases k) (auto, cases "k - 1", auto)
    then have "n div 10 < 10 ^ j" using "1.prems" by auto
    then show ?thesis using False k "1.IH"[of j] by (subst nat_str.simps) simp
  qed
qed

lemma nat_str_length:
  assumes "10 ^ k \<le> n" and "n < 10 ^ Suc k"
  shows "length (nat_str n) = Suc k"
proof -
  have "n < 10 ^ length (nat_str n)" using digits_val_less[of "nat_str n"] by (simp add: digits_val_nat_str)
  with assms(1) have "(10::nat) ^ k < 10 ^ length (nat_str n)" by (rule le_less_trans)
  then have "k < length (nat_str n)" by simp
  with nat_str_length_le[OF assms(2)] show ?thesis by simp
qed

lemma nat_str_times10: "0 < c \<Longrightarrow> nat_str (c * 10) = nat_str c @ [48]"
  by (subst nat_str.simps) simp

lemma nat_str_zeros: "0 < c \<Longrightarrow> nat_str (c * 10 ^ e) = nat_str c @ replicate e 48"
proof (induction e)
  case (Suc e)
  then have "nat_str (c * 10 ^ Suc e) = nat_str (c * 10 ^ e) @ [48]"
    using nat_str_times10[of "c * 10 ^ e"] by (simp add: algebra_simps)
  with Suc show ?case by (simp add: replicate_append_same)
qed simp

lemma zero_pad4:
  assumes "g < 10000"
  shows "length (zero_pad 4 g) = 4 \<and> digits_val 0 (zero_pad 4 g) = g"
proof -
  have "length (nat_str g) \<le> 4" using assms by (intro nat_str_length_le) auto
  then show ?thesis by (simp add: zero_pad_def Let_def digits_val_app digits_val_nat_str)
qed

lemma digits_val_groups:
  "list_all (\<lambda>g. g < 10000) gs \<Longrightarrow>
   length (concat (map (zero_pad 4) gs)) = 4 * length gs \<and>
   digits_val 0 (concat (map (zero_pad 4) gs)) = groups_val gs"
proof (induction gs)
  case (Cons g gs)
  have "(10::nat) ^ (4 * length gs) = 10000 ^ length gs" by (simp add: power_mult)
  with Cons zero_pad4[of g] show ?case by (simp add: digits_val_app groups_val_Cons)
qed simp

section \<open>Groups of four digits\<close>

lemma chunks4_Cons4: "length a = 4 \<Longrightarrow> chunks4 (a @ s) = a # chunks4 s"
  by (cases a) auto

lemma chunks4_groups:
  "length s = 4 * n \<Longrightarrow> list_all is_digit s \<Longrightarrow>
   length (chunks4 s) = n \<and> list_all (\<lambda>g. g < 10000) (map (digits_val 0) (chunks4 s)) \<and>
   groups_val (map (digits_val 0) (chunks4 s)) = digits_val 0 s"
proof (induction n arbitrary: s)
  case (Suc n)
  have "s = take 4 s @ drop 4 s" "length (take 4 s) = 4" using Suc.prems(1) by simp_all
  then obtain a b where s: "s = a @ b" "length a = 4" by blast
  have b: "length b = 4 * n" "list_all is_digit b" "list_all is_digit a" using Suc.prems s by auto
  have "digits_val 0 a < 10000" using digits_val_less[OF b(3)] s(2) by simp
  moreover have "(10::nat) ^ length b = 10000 ^ n" using b(1) by (simp add: power_mult)
  ultimately show ?case
    using Suc.IH[OF b(1,2)] s by (simp add: chunks4_Cons4 groups_val_Cons digits_val_app)
qed simp

lemma round_up4: "n \<le> (n + 3) div 4 * (4::nat)"
  using div_mult_mod_eq[of "n + 3" 4] mod_less_divisor[of 4 "n + 3"] by linarith

lemma rjust0_props:
  "list_all is_digit s \<Longrightarrow> list_all is_digit (rjust0 n s)"
  "digits_val 0 (rjust0 n s) = digits_val 0 s"
  "length (rjust0 n s) = max n (length s)"
  by (auto simp: rjust0_def digits_val_app is_digit_def list_all_iff)

lemma ljust0_props:
  "list_all is_digit s \<Longrightarrow> list_all is_digit (ljust0 n s)"
  "digits_val 0 (ljust0 n s) = digits_val 0 s * 10 ^ (n - length s)"
  "length (ljust0 n s) = max n (length s)"
  by (auto simp: ljust0_def digits_val_app is_digit_def list_all_iff)

lemma drop_leading_props:
  "drop_leading gs w = (gs', w') \<Longrightarrow>
   groups_val gs' = groups_val gs \<and> w' - int (length gs') = w - int (length gs) \<and>
   (list_all P gs \<longrightarrow> list_all P gs')"
  by (induction gs arbitrary: w) (auto simp: groups_val_Cons split: if_splits)

lemma drop_trailing_props:
  obtains k where "gs = drop_trailing gs @ replicate k 0"
proof -
  have "rev gs = takeWhile (\<lambda>g. g = 0) (rev gs) @ dropWhile (\<lambda>g. g = 0) (rev gs)" by simp
  then have "gs = drop_trailing gs @ rev (takeWhile (\<lambda>g. g = 0) (rev gs))"
    unfolding drop_trailing_def by (metis rev_append rev_rev_ident)
  moreover have "rev (takeWhile (\<lambda>g. g = 0) (rev gs)) = replicate (length (takeWhile (\<lambda>g. g = 0) (rev gs))) (0::nat)"
    by (metis (mono_tags, lifting) replicate_length_same rev_replicate set_takeWhileD)
  ultimately show ?thesis using that by metis
qed

lemma drop_trailing_Nil: "drop_trailing gs = [] \<Longrightarrow> groups_val gs = 0"
  by (metis append_Nil drop_trailing_props groups_val_zeros)

section \<open>What the groups stand for\<close>

text \<open>
  The groups, read as a number, are the coefficient up to a power of ten that the weight, the
  display scale and the dropped groups account for.
\<close>

lemma padded_parts:
  fixes c :: nat and e :: int
  defines "padded \<equiv> rjust0 (nat (- e) + 1) (nat_str c)"
  defines "i0 \<equiv> (if 0 \<le> e then nat_str c @ replicate (nat e) 48 else take (length padded - nat (- e)) padded)"
    and "f0 \<equiv> (if 0 \<le> e then [] else drop (length padded - nat (- e)) padded)"
  shows "list_all is_digit i0" "list_all is_digit f0" "length f0 = nat (- e)"
    "digits_val 0 i0 * 10 ^ length f0 + digits_val 0 f0 = c * 10 ^ nat e"
proof -
  have p: "list_all is_digit padded" "digits_val 0 padded = c" "nat (- e) + 1 \<le> length padded"
    by (simp_all add: padded_def rjust0_props digits_val_nat_str)
  have d48: "list_all is_digit (replicate n 48)" for n by (simp add: list_all_iff is_digit_def)
  show "list_all is_digit i0" "list_all is_digit f0"
    using p(1) d48[of "nat e"] all_digits_nat_str[of c]
    by (auto simp: i0_def f0_def list_all_iff simp del: all_digits_nat_str dest: in_set_takeD in_set_dropD)
  show l: "length f0 = nat (- e)" using p(3) by (simp add: f0_def)
  have "digits_val 0 (i0 @ f0) = c * 10 ^ nat e"
  proof (cases "0 \<le> e")
    case True
    then show ?thesis by (simp add: i0_def f0_def digits_val_app digits_val_nat_str)
  next
    case False
    then have "i0 @ f0 = padded" by (simp add: i0_def f0_def)
    with False p(2) show ?thesis by simp
  qed
  then show "digits_val 0 i0 * 10 ^ length f0 + digits_val 0 f0 = c * 10 ^ nat e"
    by (simp add: digits_val_app)
qed

lemma numeric_groups_spec:
  assumes "numeric_groups c e = (gs, w, ds)"
  obtains k pad where "list_all (\<lambda>g. g < 10000) gs" "ds = (if e < 0 then - e else 0)"
    "groups_val gs * 10 ^ (4 * k) = c * 10 ^ (pad + nat e)"
    "gs \<noteq> [] \<Longrightarrow> (w + 1 - int (length gs)) * 4 = 4 * int k - (ds + int pad)"
proof -
  define padded where "padded = rjust0 (nat (- e) + 1) (nat_str c)"
  define i0 where "i0 = (if 0 \<le> e then nat_str c @ replicate (nat e) 48 else take (length padded - nat (- e)) padded)"
  define f0 where "f0 = (if 0 \<le> e then [] else drop (length padded - nat (- e)) padded)"
  note parts = padded_parts[where c = c and e = e, folded padded_def, folded i0_def f0_def]
  define a where "a = (length i0 + 3) div 4"
  define b where "b = (length f0 + 3) div 4"
  define ip where "ip = rjust0 (a * 4) i0"
  define fp where "fp = ljust0 (b * 4) f0"
  define pad where "pad = b * 4 - length f0"
  have "length f0 \<le> b * 4" "length i0 \<le> a * 4" using round_up4 by (auto simp: a_def b_def)
  then have len: "length ip = 4 * a" "length fp = 4 * b" "4 * b = length f0 + pad"
    by (auto simp: ip_def fp_def rjust0_props ljust0_props pad_def)
  define g0 where "g0 = map (digits_val 0) (chunks4 ip)"
  define gf where "gf = map (digits_val 0) (chunks4 fp)"
  have gi: "length g0 = a" "list_all (\<lambda>g. g < 10000) g0" "groups_val g0 = digits_val 0 i0"
    using chunks4_groups[OF len(1)] rjust0_props(1,2) parts(1) by (auto simp: g0_def ip_def)
  have gfp: "length gf = b" "list_all (\<lambda>g. g < 10000) gf" "groups_val gf = digits_val 0 f0 * 10 ^ pad"
    using chunks4_groups[OF len(2)] ljust0_props(1,2) parts(2) by (auto simp: gf_def fp_def pad_def)
  obtain g1 w1 where dl: "drop_leading (g0 @ gf) (int (length g0) - 1) = (g1, w1)" by fastforce
  have res: "gs = drop_trailing g1" "w = (if gs = [] then 0 else w1)" "ds = (if e < 0 then - e else 0)"
    using assms[unfolded numeric_groups_def Let_def, folded padded_def, folded i0_def f0_def, folded a_def b_def,
        folded ip_def fp_def, folded g0_def gf_def] dl by auto
  have d1: "groups_val g1 = groups_val (g0 @ gf)" "w1 - int (length g1) = - 1 - int b"
    "list_all (\<lambda>g. g < 10000) g1"
    using drop_leading_props[OF dl, of "\<lambda>g. g < 10000"] gi gfp by auto
  obtain k where k: "g1 = gs @ replicate k 0" using drop_trailing_props[of g1] res(1) by auto
  have p10: "(10000::nat) ^ n = 10 ^ (4 * n)" for n by (simp add: power_mult)
  have "groups_val gs * 10 ^ (4 * k) = groups_val g1" by (simp add: k groups_val_append p10)
  also have "\<dots> = digits_val 0 i0 * 10 ^ (length f0 + pad) + digits_val 0 f0 * 10 ^ pad"
    using d1(1) gi gfp len(3) by (simp add: groups_val_append p10)
  also have "\<dots> = (digits_val 0 i0 * 10 ^ length f0 + digits_val 0 f0) * 10 ^ pad"
    by (simp add: power_add algebra_simps)
  also have "\<dots> = c * 10 ^ (pad + nat e)" using parts(4) by (simp add: power_add)
  finally have val: "groups_val gs * 10 ^ (4 * k) = c * 10 ^ (pad + nat e)" .
  have "int (length g1) = int (length gs) + int k" by (simp add: k)
  then have "w1 + 1 - int (length gs) = int k - int b" using d1(2) by linarith
  moreover have "int (4 * b) = ds + int pad" using len(3) parts(3) res(3) by auto
  ultimately have "(w1 + 1 - int (length gs)) * 4 = 4 * int k - (ds + int pad)" by simp
  then have "(w + 1 - int (length gs)) * 4 = 4 * int k - (ds + int pad)" if "gs \<noteq> []"
    using that res(2) by simp
  then show ?thesis using that val res(3) d1(3) k by auto
qed

section \<open>Decoding what was encoded\<close>

lemma dec_half_even_exact: "dec_half_even (c * 10 ^ k) k = c"
  by (simp add: dec_half_even_def Let_def)

lemma dec_fix_small: "c < 10 ^ 28 \<Longrightarrow> dec_fix (c, e) = (c, e)"
  using nat_str_length_le[of c 28] by (simp add: dec_fix_def Let_def DECIMAL_PREC_def)

text \<open>The decoder's scaled integer shown with \<open>ds\<close> places is the plain text of the coefficient.\<close>

lemma decimal_places_plain:
  assumes "V * 10 ^ (4 * k) = c * 10 ^ (pad + nat e)" and "ds = (if e < 0 then - e else 0)"
    and "V \<noteq> 0 \<Longrightarrow> E = 4 * int k - (ds + int pad)"
  shows "decimal_places (nat ds) V E = decimal_plain c e"
proof -
  define q where "q = (if - ds \<le> E then V * 10 ^ nat (E + ds) else dec_half_even V (nat (- ds - E)))"
  have "q = c * 10 ^ nat e"
  proof (cases "V = 0")
    case True
    then have "c = 0" using assms(1) by simp
    with True show ?thesis using dec_half_even_exact[of 0] by (simp add: q_def)
  next
    case False
    note E = assms(3)[OF False]
    show ?thesis
    proof (cases "- ds \<le> E")
      case True
      then have "4 * k = nat (E + ds) + pad" using E by linarith
      then have "(V * 10 ^ nat (E + ds)) * 10 ^ pad = (c * 10 ^ nat e) * 10 ^ pad"
        using assms(1) by (simp add: power_add algebra_simps)
      with True show ?thesis by (simp add: q_def)
    next
      case False
      then have "pad = 4 * k + nat (- ds - E)" using E by linarith
      then have "V * 10 ^ (4 * k) = (c * 10 ^ nat e * 10 ^ nat (- ds - E)) * 10 ^ (4 * k)"
        using assms(1) by (simp add: power_add algebra_simps)
      then have "V = (c * 10 ^ nat e) * 10 ^ nat (- ds - E)" by simp
      then show ?thesis using False dec_half_even_exact by (simp only: q_def if_False)
    qed
  qed
  moreover have "decimal_places (nat ds) V E = (if ds = 0 then nat_str q else decimal_plain q (- ds))"
    using assms(2) by (auto simp: decimal_places_def q_def Let_def)
  ultimately show ?thesis
    using assms(2) by (cases "c = 0") (auto simp: decimal_plain_def nat_str_zeros nat_str.simps[of 0] lit_def)
qed

lemma unpack_groups_mid:
  "list_all (\<lambda>g. g < 65536) gs \<Longrightarrow>
   unpack_groups (length gs) (pre @ concat (map (\<lambda>g. be_bytes 2 (int g)) gs)) (int (length pre)) = Inr gs"
proof (induction gs arbitrary: pre)
  case (Cons g gs)
  have "unpack_unsigned 2 (pre @ be_bytes 2 (int g) @ concat (map (\<lambda>g. be_bytes 2 (int g)) gs)) (int (length pre)) = Inr (int g)"
    using Cons.prems by (intro unpack_unsigned_mid) (simp add: in_unsigned_def)
  moreover have "unpack_groups (length gs) ((pre @ be_bytes 2 (int g)) @ concat (map (\<lambda>g. be_bytes 2 (int g)) gs))
      (int (length (pre @ be_bytes 2 (int g)))) = Inr gs"
    using Cons by (intro Cons.IH) simp
  ultimately show ?case by (simp add: add.commute)
qed simp

text \<open>The values whose binary form the decoder reads exactly.\<close>

fun numeric_ok :: "pydec \<Rightarrow> bool" where
  "numeric_ok (DFin neg c e) =
     (case numeric_groups c e of (gs, w, ds) \<Rightarrow>
        length gs \<le> 7 \<and> in_signed 2 w \<and> in_unsigned 2 ds \<and> (neg \<longrightarrow> c \<noteq> 0))"
| "numeric_ok _ = True"

lemma numeric_special_decodes:
  "decode_numeric (numeric_special NUMERIC_NAN) = Inr (lit ''NaN'')"
  "decode_numeric (numeric_special NUMERIC_PINF) = Inr (lit ''Infinity'')"
  "decode_numeric (numeric_special NUMERIC_NINF) = Inr (lit ''-Infinity'')"
  by (simp_all add: decode_numeric_def numeric_special_def numeric_signs wire_simps)

lemma pack_numeric_ok:
  assumes "length gs \<le> 7" "in_signed 2 w" "in_unsigned 2 ds" "list_all (\<lambda>g. g < 10000) gs"
  shows "pack_numeric sign (gs, w, ds) =
    Inr (be_bytes 2 (int (length gs)) @ be_bytes 2 w @ be_bytes 2 sign @ be_bytes 2 ds @
         concat (map (\<lambda>g. be_bytes 2 (int g)) gs))"
proof -
  have "rmap (\<lambda>x. pack_unsigned 2 (int x)) gs = Inr (map (\<lambda>g. be_bytes 2 (int g)) gs)"
    using assms(4) by (intro rmap_Inr) (auto simp: pack_unsigned_def in_unsigned_def list_all_iff)
  moreover have "in_unsigned 2 (int (length gs))" using assms(1) by (simp add: in_unsigned_def)
  ultimately show ?thesis using assms by (simp add: pack_numeric_def pack_unsigned_def pack_signed_def)
qed

lemma decode_numeric_packed:
  fixes w sign ds :: int and gs
  defines "d \<equiv> be_bytes 2 (int (length gs)) @ be_bytes 2 w @ be_bytes 2 sign @ be_bytes 2 ds @
         concat (map (\<lambda>g. be_bytes 2 (int g)) gs)"
  assumes "length gs < 65536" "in_signed 2 w" "in_unsigned 2 ds" "in_unsigned 2 sign" "list_all (\<lambda>g. g < 10000) gs"
    and "sign \<notin> {NUMERIC_NAN, NUMERIC_PINF, NUMERIC_NINF}"
    and "dec_fix (groups_val gs, (w + 1 - int (length gs)) * 4) = (c1, e1)"
  shows "decode_numeric d = Inr (minus_if (sign = NUMERIC_NEG \<and> c1 \<noteq> 0) @ decimal_places (nat ds) c1 e1)"
proof -
  have a: "unpack_unsigned 2 d 0 = Inr (int (length gs))"
    using unpack_unsigned_mid[of 2 "int (length gs)" "[]"] assms(2) by (simp add: d_def in_unsigned_def)
  have b: "unpack_signed 2 d 2 = Inr w"
    using unpack_signed_mid[of 2 w "be_bytes 2 (int (length gs))"] assms(3) by (simp add: d_def)
  have c: "unpack_unsigned 2 d 4 = Inr sign"
    using unpack_unsigned_mid[of 2 sign "be_bytes 2 (int (length gs)) @ be_bytes 2 w"] assms(5) by (simp add: d_def)
  have e: "unpack_unsigned 2 d 6 = Inr ds"
    using unpack_unsigned_mid[of 2 ds "be_bytes 2 (int (length gs)) @ be_bytes 2 w @ be_bytes 2 sign"] assms(4)
    by (simp add: d_def)
  have "list_all (\<lambda>g. g < 65536) gs" using assms(6) by (auto simp: list_all_iff)
  then have f: "unpack_groups (length gs) d 8 = Inr gs"
    using unpack_groups_mid[of gs "be_bytes 2 (int (length gs)) @ be_bytes 2 w @ be_bytes 2 sign @ be_bytes 2 ds"]
    by (simp add: d_def)
  show ?thesis
    using a b c e f assms(7,8) digits_val_groups[OF assms(6)] by (simp add: decode_numeric_def Let_def)
qed

lemma numeric_codec:
  assumes "numeric_ok d"
  shows "\<exists>b. encode_decimal_bin d = Inr b \<and> decode_numeric b = Inr (decimal_out d)"
proof (cases d)
  case (DFin neg c e)
  obtain gs w ds where g: "numeric_groups c e = (gs, w, ds)" by (cases "numeric_groups c e")
  have ok: "length gs \<le> 7" "in_signed 2 w" "in_unsigned 2 ds" "neg \<longrightarrow> c \<noteq> 0" using assms DFin g by auto
  obtain k pad where s: "list_all (\<lambda>g. g < 10000) gs" "ds = (if e < 0 then - e else 0)"
    "groups_val gs * 10 ^ (4 * k) = c * 10 ^ (pad + nat e)"
    "gs \<noteq> [] \<Longrightarrow> (w + 1 - int (length gs)) * 4 = 4 * int k - (ds + int pad)"
    using numeric_groups_spec[OF g] by blast
  define sign where "sign = (if neg then NUMERIC_NEG else NUMERIC_POS)"
  have sg: "in_unsigned 2 sign" "sign \<notin> {NUMERIC_NAN, NUMERIC_PINF, NUMERIC_NINF}" "sign = NUMERIC_NEG \<longleftrightarrow> neg"
    by (auto simp: sign_def numeric_signs in_unsigned_def)
  have "groups_val gs \<noteq> 0 \<Longrightarrow> (w + 1 - int (length gs)) * 4 = 4 * int k - (ds + int pad)"
    using s(4) by (cases "gs = []") auto
  then have "decimal_places (nat ds) (groups_val gs) ((w + 1 - int (length gs)) * 4) = decimal_plain c e"
    by (rule decimal_places_plain[OF s(3,2)])
  moreover have "groups_val gs = 0 \<longleftrightarrow> c = 0" using s(3) by (metis mult_is_0 power_not_zero zero_neq_numeral)
  moreover have "groups_val gs < 10 ^ 28"
    using groups_val_less[OF s(1)] power_increasing[OF ok(1), of "10000::nat"] by simp
  then have fx: "dec_fix (groups_val gs, (w + 1 - int (length gs)) * 4) = (groups_val gs, (w + 1 - int (length gs)) * 4)"
    by (rule dec_fix_small)
  have "length gs < 65536" using ok(1) by simp
  ultimately show ?thesis
    using decode_numeric_packed[OF _ ok(2,3) sg(1) s(1) sg(2) fx] pack_numeric_ok[OF ok(1-3) s(1)] ok(4) sg(3)
    by (auto simp: DFin encode_decimal_bin_def g sign_def[symmetric])
qed (auto simp: encode_decimal_bin_def numeric_special_decodes minus_if_def lit_def)

text \<open>
  Beyond 28 digits the decoder rounds to the default decimal context, although the groups
  carry every digit: ten to the 28 plus one loses its last digit.
\<close>

lemma numeric_groups_29: "numeric_groups 10000000000000000000000000001 0 = ([1, 0, 0, 0, 0, 0, 0, 1], 7, 0)"
proof -
  have three: "replicate 3 (48::nat) = [48, 48, 48]" by (simp add: numeral_3_eq_3)
  show ?thesis
    by (simp add: numeric_groups_def nat_str.simps rjust0_def ljust0_def drop_trailing_def three)
qed

lemma decode_numeric_rounds:
  "decode_numeric (be_bytes 2 8 @ be_bytes 2 7 @ be_bytes 2 0 @ be_bytes 2 0 @
     concat (map (\<lambda>g. be_bytes 2 (int g)) [1, 0, 0, 0, 0, 0, 0, 1])) = Inr (nat_str 10000000000000000000000000000)"
proof -
  have "dec_fix (groups_val [1, 0, 0, 0, 0, 0, 0, 1], (7 + 1 - int (length [1, 0, 0, 0, 0, 0, 0, 1 :: nat])) * 4) =
      (1000000000000000000000000000, 1)"
    using nat_str_length[of 28 10000000000000000000000000001] nat_str_length[of 27 1000000000000000000000000000]
    by (simp add: dec_fix_def groups_val_def DECIMAL_PREC_def dec_half_even_def)
  from decode_numeric_packed[OF _ _ _ _ _ _ this, of 0 0] show ?thesis
    by (simp add: in_signed_def in_unsigned_def numeric_signs minus_if_def decimal_places_def)
qed

end
