(* ===== verification/Scalar_Codecs.thy ===== *)
theory Scalar_Codecs
  imports Numeric_Codec
begin

text \<open>
  The binary encoders and decoders of \<open>types.py\<close> agree with the text encoder: for every OID with
  a binary form and every value that form can carry (\<open>binary_ok\<close>), decoding the binary encoding
  gives exactly the text \<open>encode_value\<close> would have sent. One lemma per family of types; \<open>Arrays\<close>
  lifts them to nested lists.
\<close>

section \<open>The values a binary form can carry\<close>

definition naive_datetime_ok :: "nat \<Rightarrow> nat \<Rightarrow> bool" where
  "naive_datetime_ok d t \<longleftrightarrow> 1 \<le> d \<and> int d \<le> MAXORDINAL \<and> int t < DAY_US"

definition json_ok :: "pyval \<Rightarrow> bool" where
  "json_ok v = (case encode_scalar JSON v of Inr t \<Rightarrow> list_all encodable t | Inl _ \<Rightarrow> False)"

definition float4_ok :: "f64 \<Rightarrow> bool" where
  "float4_ok w = (case f64_to_f32 w of Inr b \<Rightarrow> b < 2 ^ 32 \<and> f32_to_f64 b = w | Inl _ \<Rightarrow> False)"

fun binary_ok :: "int \<Rightarrow> pyval \<Rightarrow> bool" where
  "binary_ok oid (PBool b) = (oid = BOOL)"
| "binary_ok oid (PInt i) =
     ((oid = INT2 \<and> in_signed 2 i) \<or> (oid = INT4 \<and> in_signed 4 i) \<or> (oid = INT8 \<and> in_signed 8 i) \<or>
      (oid = OID \<and> in_unsigned 4 i))"
| "binary_ok oid (PFloat w) = (oid = FLOAT8 \<or> (oid = FLOAT4 \<and> float4_ok w))"
| "binary_ok oid (PDecimal d) = (oid = NUMERIC \<and> numeric_ok d)"
| "binary_ok oid (PStr s) = (oid \<in> {TEXT, VARCHAR, BPCHAR, NAME, JSON, JSONB} \<and> list_all encodable s)"
| "binary_ok oid (PBytes b) = (oid = BYTEA)"
| "binary_ok oid (PBytearray b) = (oid = BYTEA)"
| "binary_ok oid (PDatetime d t tz) = (oid \<in> {TIMESTAMP, TIMESTAMPTZ} \<and> tz = None \<and> naive_datetime_ok d t)"
| "binary_ok oid (PDate d) = (oid = DATE \<and> naive_datetime_ok d 0)"
| "binary_ok oid (PTime t tz) = (oid = TIME \<and> tz = None \<and> int t < DAY_US)"
| "binary_ok oid (PTimedelta u) = (oid = INTERVAL \<and> timedelta u = Inr u)"
| "binary_ok oid (PUuid b) = (oid = UUID \<and> length b = 16)"
| "binary_ok oid (PDict kvs) = (oid \<in> {JSON, JSONB} \<and> json_ok (PDict kvs))"
| "binary_ok oid v = False"

section \<open>One lemma per family\<close>

lemma int_agrees:
  "0 < n \<Longrightarrow> in_signed n i \<Longrightarrow> encode_int_bin n (PInt i) = Inr (be_bytes n i) \<and> decode_int n (be_bytes n i) = Inr (int_str i)"
  by (simp add: encode_int_bin_def decode_int_def pack_signed_def)

lemma uint32_agrees:
  "in_unsigned 4 i \<Longrightarrow>
   encode_uint32_bin (PInt i) = Inr (be_bytes 4 i) \<and> decode_uint32 (be_bytes 4 i) = Inr (int_str i)"
  by (simp add: encode_uint32_bin_def decode_uint32_def pack_unsigned_def)

lemma float8_agrees:
  "encode_float8_bin (PFloat w) = Inr (be_bytes 8 (uint w)) \<and> decode_float8 (be_bytes 8 (uint w)) = Inr (float_out w)"
proof -
  have "in_unsigned 8 (uint w)" using uint_bounded[of w] by (simp add: in_unsigned_def)
  then show ?thesis by (simp add: encode_float8_bin_def decode_float8_def)
qed

lemma float4_agrees:
  assumes "float4_ok w"
  shows "\<exists>b. encode_float4_bin (PFloat w) = Inr b \<and> decode_float4 b = Inr (float_out w)"
proof -
  obtain b where b: "f64_to_f32 w = Inr b" "b < 2 ^ 32" "f32_to_f64 b = w"
    using assms by (auto simp: float4_ok_def split: sum.splits)
  then have "in_unsigned 4 (int b)" by (simp add: in_unsigned_def)
  with b show ?thesis by (simp add: encode_float4_bin_def decode_float4_def)
qed

lemma text_agrees:
  "list_all encodable s \<Longrightarrow> \<exists>b. utf8_encode s = Inr b \<and> utf8_decode b = Inr s"
  using utf8_decode_encode by (simp add: utf8_encode_def)

lemma date_agrees:
  assumes "naive_datetime_ok d 0"
  shows "encode_date_bin (PDate d) = Inr (be_bytes 4 (int d - int PG_EPOCH)) \<and>
    decode_date (be_bytes 4 (int d - int PG_EPOCH)) = Inr (date_isoformat d)"
proof -
  have b: "1 \<le> d" "int d \<le> 3652059" using assms by (simp_all add: naive_datetime_ok_def MAXORDINAL_def)
  then have r: "in_signed 4 (int d - int PG_EPOCH)" by (simp add: in_signed_def PG_EPOCH_def)
  have "timedelta ((int d - int PG_EPOCH) * DAY_US) = Inr ((int d - int PG_EPOCH) * DAY_US)"
    using b by (simp add: timedelta_def td_days_def DAY_US_def PG_EPOCH_def)
  moreover have "instant PG_EPOCH 0 + (int d - int PG_EPOCH) * DAY_US = instant d 0"
    by (simp add: instant_def algebra_simps)
  ultimately show ?thesis
    using r assms by (simp add: encode_date_bin_def decode_date_def pack_signed_def from_instant_instant naive_datetime_ok_def)
qed

lemma instant_bounds:
  assumes "naive_datetime_ok d t"
  shows "0 \<le> instant d t" "instant d t < 315537984000000000"
  using assms by (auto simp: naive_datetime_ok_def MAXORDINAL_def instant_def DAY_US_def)

lemma timestamp_agrees:
  assumes "naive_datetime_ok d t"
  shows "\<exists>b. micros_since_epoch (instant d t) = Inr b \<and> decode_timestamp b = Inr (datetime_out d t None)"
proof -
  define m where "m = instant d t - instant PG_EPOCH 0"
  have p: "instant PG_EPOCH 0 = 63082368000000000" by (simp add: instant_def PG_EPOCH_def DAY_US_def)
  have "td_days m * 86400000000 + td_seconds m * 1000000 + td_microseconds m = m"
    by (simp add: td_days_def td_seconds_def td_microseconds_def DAY_US_def)
  moreover have b: "- 63082368000000000 \<le> m" "m < 252455616000000000"
    using instant_bounds[OF assms] by (simp_all add: m_def p)
  then have r: "in_signed 8 m" by (simp add: in_signed_def)
  moreover have "timedelta m = Inr m"
  proof -
    have "- 730121 \<le> m div 86400000000" "m div 86400000000 \<le> 2921940" using b by linarith+
    then show ?thesis by (simp add: timedelta_def td_days_def DAY_US_def)
  qed
  moreover have "instant PG_EPOCH 0 + m = instant d t" by (simp add: m_def)
  ultimately show ?thesis
    using assms by (simp add: micros_since_epoch_def decode_timestamp_def pack_signed_def m_def[symmetric]
        from_instant_instant naive_datetime_ok_def Let_def)
qed

lemma time_agrees:
  assumes "int t < DAY_US"
  shows "encode_time_bin (PTime t None) = Inr (be_bytes 8 (int t)) \<and>
    decode_time (be_bytes 8 (int t)) = Inr (time_isoformat t None)"
proof -
  have "in_signed 8 (int t)" using assms by (simp add: in_signed_def DAY_US_def)
  with assms show ?thesis by (simp add: encode_time_bin_def decode_time_def pack_signed_def)
qed

lemma interval_agrees:
  assumes "timedelta u = Inr u"
  shows "\<exists>b. encode_interval_bin (PTimedelta u) = Inr b \<and> decode_interval b = Inr (timedelta_out u)"
proof -
  define m where "m = td_seconds u * 1000000 + td_microseconds u"
  have mm: "m = u mod DAY_US" by (simp add: m_def td_seconds_def td_microseconds_def)
  have "0 \<le> m" "m < DAY_US" by (simp_all add: mm DAY_US_def)
  then have r: "in_signed 8 m" by (simp add: in_signed_def DAY_US_def)
  have rd: "in_signed 4 (td_days u)" using assms by (auto simp: timedelta_def in_signed_def split: if_splits)
  have r0: "in_signed 4 0" by (simp add: in_signed_def)
  let ?b = "be_bytes 8 m @ be_bytes 4 (td_days u) @ be_bytes 4 0"
  have "unpack_signed 8 ?b 0 = Inr m" using unpack_signed_mid[OF r, of "[]"] by simp
  moreover have "unpack_signed 4 ?b 8 = Inr (td_days u)"
    using unpack_signed_mid[OF rd, of "be_bytes 8 m" "be_bytes 4 0"] by simp
  moreover have "unpack_signed 4 ?b 12 = Inr 0"
    using unpack_signed_mid[OF r0, of "be_bytes 8 m @ be_bytes 4 (td_days u)" "[]"] by simp
  moreover have "td_days u * DAY_US + m = u" by (simp add: mm td_days_def)
  ultimately show ?thesis
    using r rd assms by (simp add: encode_interval_bin_def decode_interval_def pack_signed_def m_def[symmetric] Let_def)
qed

lemma json_agrees:
  assumes "encode_scalar JSON v = Inr t" "list_all encodable t"
  shows "\<exists>b. encode_json_bin v = Inr b \<and> decode_json b = Inr t"
    and "\<exists>b. encode_jsonb_bin v = Inr b \<and> decode_jsonb b = Inr t"
  using assms text_agrees[of t]
  by (auto simp: encode_json_bin_def decode_json_def encode_jsonb_bin_def decode_jsonb_def)

section \<open>All of them\<close>

lemma json_oid_irrelevant: "encode_scalar JSONB v = encode_scalar JSON v"
  by (cases v) (auto simp: oid_defs)

lemma coder_tables:
  "binary_encoder BOOL = Some encode_bool_bin" "binary_decoder BOOL = Some decode_bool"
  "binary_encoder INT2 = Some (encode_int_bin 2)" "binary_decoder INT2 = Some (decode_int 2)"
  "binary_encoder INT4 = Some (encode_int_bin 4)" "binary_decoder INT4 = Some (decode_int 4)"
  "binary_encoder INT8 = Some (encode_int_bin 8)" "binary_decoder INT8 = Some (decode_int 8)"
  "binary_encoder OID = Some encode_uint32_bin" "binary_decoder OID = Some decode_uint32"
  "binary_encoder FLOAT4 = Some encode_float4_bin" "binary_decoder FLOAT4 = Some decode_float4"
  "binary_encoder FLOAT8 = Some encode_float8_bin" "binary_decoder FLOAT8 = Some decode_float8"
  "binary_encoder BYTEA = Some encode_bytea_bin" "binary_decoder BYTEA = Some decode_bytea"
  "binary_encoder TEXT = Some encode_text_bin" "binary_decoder TEXT = Some decode_text"
  "binary_encoder VARCHAR = Some encode_text_bin" "binary_decoder VARCHAR = Some decode_text"
  "binary_encoder BPCHAR = Some encode_text_bin" "binary_decoder BPCHAR = Some decode_text"
  "binary_encoder NAME = Some encode_text_bin" "binary_decoder NAME = Some decode_text"
  "binary_encoder DATE = Some encode_date_bin" "binary_decoder DATE = Some decode_date"
  "binary_encoder TIMESTAMP = Some encode_timestamp_bin" "binary_decoder TIMESTAMP = Some decode_timestamp"
  "binary_encoder TIMESTAMPTZ = Some encode_timestamptz_bin" "binary_decoder TIMESTAMPTZ = Some decode_timestamp"
  "binary_encoder INTERVAL = Some encode_interval_bin" "binary_decoder INTERVAL = Some decode_interval"
  "binary_encoder NUMERIC = Some encode_numeric_bin" "binary_decoder NUMERIC = Some decode_numeric"
  "binary_encoder TIME = Some encode_time_bin" "binary_decoder TIME = Some decode_time"
  "binary_encoder UUID = Some encode_uuid_bin" "binary_decoder UUID = Some decode_uuid"
  "binary_encoder JSON = Some encode_json_bin" "binary_decoder JSON = Some decode_json"
  "binary_encoder JSONB = Some encode_jsonb_bin" "binary_decoder JSONB = Some decode_jsonb"
  by (simp_all add: binary_encoder_def binary_decoder_def oid_defs)

lemma scalar_agrees:
  assumes "binary_ok oid v"
  shows "\<exists>f g b t. binary_encoder oid = Some f \<and> binary_decoder oid = Some g \<and>
    f v = Inr b \<and> encode_scalar oid v = Inr t \<and> g b = Inr t"
proof (cases v)
  case (PBool b)
  with assms show ?thesis by (simp add: coder_tables encode_bool_bin_def decode_bool_def bool_out_def)
next
  case (PInt i)
  with assms show ?thesis using int_agrees[of _ i] uint32_agrees[of i]
    by (auto simp: coder_tables)
next
  case (PFloat w)
  with assms show ?thesis using float8_agrees[of w] float4_agrees[of w] by (auto simp: coder_tables)
next
  case (PDecimal d)
  with assms show ?thesis using numeric_codec[of d] by (auto simp: coder_tables encode_numeric_bin_def)
next
  case (PStr s)
  with assms show ?thesis using text_agrees[of s] json_agrees[of "PStr s" s]
    by (auto simp: coder_tables encode_text_bin_def decode_text_def)
next
  case (PDatetime d t tz)
  with assms show ?thesis using timestamp_agrees[of d t]
    by (auto simp: coder_tables encode_timestamp_bin_def encode_timestamptz_bin_def)
next
  case (PDate d)
  with assms show ?thesis using date_agrees[of d] by (auto simp: coder_tables)
next
  case (PTime t tz)
  with assms show ?thesis using time_agrees[of t] by (auto simp: coder_tables)
next
  case (PTimedelta u)
  with assms show ?thesis using interval_agrees[of u] by (auto simp: coder_tables)
next
  case (PDict kvs)
  with assms obtain t where "encode_scalar JSON v = Inr t" "list_all encodable t" "oid \<in> {JSON, JSONB}"
    by (auto simp: json_ok_def split: sum.splits)
  then show ?thesis using json_agrees[of v t] json_oid_irrelevant[of v] by (auto simp: coder_tables)
qed (use assms in \<open>simp_all add: coder_tables encode_bytea_bin_def decode_bytea_def encode_uuid_bin_def decode_uuid_def\<close>)

end
