(* ===== verification/Array_Codecs.thy ===== *)
theory Array_Codecs
  imports Arrays Scalar_Codecs
begin

text \<open>
  Arrays survive both wire formats: the binary format and the array literal of a rectangular
  nested list of encodable elements decode to the same nested list of element texts.

  The locale \<open>value_codec\<close> is what the array codec relies on: an element encoder and decoder
  that agree with the element's text. The element loop is proved once inside it, and
  it is interpreted for every OID on the tables of \<open>types.py\<close>.
\<close>

section \<open>What a nested list looks like to a session\<close>

text \<open>Every leaf replaced by its text, NULL by None.\<close>

fun texts :: "int \<Rightarrow> pyval \<Rightarrow> pyval" where
  "texts oid (PList xs) = PList (map (texts oid) xs)"
| "texts oid PNone = PNone"
| "texts oid v = (case encode_scalar oid v of Inr t \<Rightarrow> PStr t | Inl _ \<Rightarrow> PNone)"

section \<open>Elements\<close>

locale value_codec =
  fixes enc :: "pyval \<Rightarrow> exc + bytes"
    and dec :: "bytes \<Rightarrow> exc + pyval"
    and shown :: "pyval \<Rightarrow> pyval"
    and ok :: "pyval \<Rightarrow> bool"
  assumes enc_ok: "ok v \<Longrightarrow> \<exists>b. enc v = Inr b \<and> dec b = Inr (shown v)"
    and none_shown: "shown PNone = PNone"
begin

definition element :: "pyval \<Rightarrow> exc + bytes" where
  "element v =
     (if v = PNone then Inr (be_bytes 4 (- 1))
      else rbind (enc v) (\<lambda>b. rbind (pack_signed 4 (int (length b))) (\<lambda>l. Inr (l @ b))))"

definition element_ok :: "pyval \<Rightarrow> bool" where
  "element_ok v \<longleftrightarrow> v = PNone \<or> (ok v \<and> (\<forall>b. enc v = Inr b \<longrightarrow> length b < 2 ^ 31))"

lemma element_at:
  assumes "element_ok v" and "element v = Inr e"
  shows "decode_elements dec (Suc n) (pre @ e @ post) (int (length pre)) =
    rbind (decode_elements dec n (pre @ e @ post) (int (length (pre @ e)))) (\<lambda>vs. Inr (shown v # vs))"
proof (cases "v = PNone")
  case True
  then have e: "e = be_bytes 4 (- 1)" using assms(2) by (simp add: element_def)
  have "unpack_signed 4 (pre @ be_bytes 4 (- 1) @ post) (int (length pre)) = Inr (- 1)"
    by (rule unpack_signed_mid) (simp_all add: in_signed_def)
  with True show ?thesis by (simp add: e none_shown)
next
  case False
  then obtain b where b: "enc v = Inr b" "dec b = Inr (shown v)" "length b < 2 ^ 31"
    using assms(1) enc_ok by (auto simp: element_ok_def)
  then have r: "in_signed 4 (int (length b))" by (simp add: in_signed_def)
  then have e: "e = be_bytes 4 (int (length b)) @ b"
    using assms(2) False b by (simp add: element_def pack_signed_def)
  have u: "unpack_signed 4 (pre @ be_bytes 4 (int (length b)) @ b @ post) (int (length pre)) = Inr (int (length b))"
    using unpack_signed_mid[OF r, of pre "b @ post"] by simp
  have "py_slice (pre @ be_bytes 4 (int (length b)) @ b @ post) (int (length pre) + 4) (int (length pre) + 4 + int (length b)) = b"
    using py_slice_mid[of "pre @ be_bytes 4 (int (length b))" b post] by simp
  with u b show ?thesis by (simp add: e algebra_simps)
qed

lemma elements_at:
  "list_all element_ok vs \<Longrightarrow> rmap element vs = Inr es \<Longrightarrow>
   decode_elements dec (length vs) (pre @ concat es @ post) (int (length pre)) = Inr (map shown vs)"
proof (induction vs arbitrary: es pre)
  case (Cons v vs)
  then obtain e es' where e: "es = e # es'" "element v = Inr e" "rmap element vs = Inr es'" by auto
  have "decode_elements dec (length vs) ((pre @ e) @ concat es' @ post) (int (length (pre @ e))) = Inr (map shown vs)"
    using Cons e by (intro Cons.IH) auto
  with element_at[OF _ e(2), of "length vs" pre "concat es' @ post"] Cons.prems(1) show ?case
    by (simp add: e(1))
qed simp

lemma elements_encode: "list_all element_ok vs \<Longrightarrow> \<exists>es. rmap element vs = Inr es"
proof (induction vs)
  case (Cons v vs)
  then obtain es where "rmap element vs = Inr es" by auto
  moreover have "\<exists>e. element v = Inr e"
    using Cons.prems enc_ok[of v] by (auto simp: element_ok_def element_def pack_signed_def in_signed_def)
  ultimately show ?case by auto
qed simp

end

section \<open>The element codec of an OID\<close>

definition element_fits :: "int \<Rightarrow> pyval \<Rightarrow> bool" where
  "element_fits oid v \<longleftrightarrow>
     v = PNone \<or> (binary_ok oid v \<and> (case encode_value_binary oid v of Inr b \<Rightarrow> length b < 2 ^ 31 | Inl _ \<Rightarrow> False))"

lemma binary_ok_coder:
  assumes "binary_ok oid v"
  shows "\<exists>b. encode_value_binary oid v = Inr b \<and> decode_param_depth (Suc n) oid b = Inr (texts oid v)"
proof -
  obtain f g b t where "binary_encoder oid = Some f" "binary_decoder oid = Some g" "f v = Inr b"
    "encode_scalar oid v = Inr t" "g b = Inr t"
    using scalar_agrees[OF assms] by blast
  moreover from this assms have "texts oid v = PStr t" by (cases v) auto
  ultimately show ?thesis by (simp add: encode_value_binary_def)
qed

interpretation oid_codec: value_codec "encode_value_binary oid" "decode_param_depth (Suc n) oid" "texts oid" "binary_ok oid"
  for oid :: int and n :: nat
  by unfold_locales (rule binary_ok_coder, assumption, simp)

lemma element_oid_tables:
  "list_all (\<lambda>(arr, el). binary_encoder arr = None) ELEMENT_OID"
  "list_all (\<lambda>(arr, el). binary_decoder arr = None) ELEMENT_OID"
  "list_all (\<lambda>(arr, el). in_unsigned 4 el) ELEMENT_OID"
  "list_all (\<lambda>(arr, el). \<not> is_array_oid el) ELEMENT_OID"
  by (simp_all add: ELEMENT_OID_def ARRAY_OID_def oid_defs binary_encoder_def binary_decoder_def in_unsigned_def
      is_array_oid_def dict_has_def)

lemma element_oid_scalar:
  assumes "element_oid_of arr = Inr el"
  shows "binary_encoder arr = None" "binary_decoder arr = None" "in_unsigned 4 el" "is_array_oid arr" "\<not> is_array_oid el"
proof -
  have m: "map_of ELEMENT_OID arr = Some el"
    using assms by (simp add: element_oid_of_def split: option.splits)
  then have "(arr, el) \<in> set ELEMENT_OID" by (rule map_of_SomeD)
  then show "binary_encoder arr = None" "binary_decoder arr = None" "in_unsigned 4 el" "\<not> is_array_oid el"
    using element_oid_tables by (auto simp: list_all_iff)
  show "is_array_oid arr" using m by (simp add: is_array_oid_def dict_has_def)
qed

lemma encode_element_is_element:
  assumes "\<not> is_array_oid oid"
  shows "encode_element_binary oid v = oid_codec.element oid v"
  using assms
  by (auto simp: encode_element_binary_def oid_codec.element_def encode_value_binary_def pack_signed_def in_signed_def
      split: pyval.splits option.splits)

lemma element_fits_ok: "element_fits oid v \<Longrightarrow> oid_codec.element_ok oid v"
  by (auto simp: element_fits_def oid_codec.element_ok_def split: sum.splits)

section \<open>Shapes\<close>

fun shaped :: "nat list \<Rightarrow> pyval \<Rightarrow> bool" where
  "shaped [] v = (\<not> is_list v)"
| "shaped (d # ds) v = (case v of PList xs \<Rightarrow> length xs = d \<and> (\<forall>x \<in> set xs. shaped ds x) | _ \<Rightarrow> False)"

lemma rmap_unit: "(\<exists>us. rmap f xs = Inr us) \<longleftrightarrow> (\<forall>x \<in> set xs. \<exists>u. f x = Inr u)"
  by (induction xs) (auto simp: rbind_eq_Inr)

lemma check_rectangular_shaped: "check_rectangular v ds n = Inr () \<longleftrightarrow> shaped ds v"
proof (induction v ds n rule: check_rectangular.induct)
  case (2 node d ds depth)
  show ?case
  proof (cases node)
    case (PList xs)
    have "(\<exists>us. rmap (\<lambda>c. check_rectangular c ds (depth + 1)) xs = Inr us) \<longleftrightarrow> (\<forall>x \<in> set xs. shaped ds x)"
      if "length xs = d" unfolding rmap_unit using "2.IH"[OF PList] that by auto
    then show ?thesis using PList by (auto simp: rbind_eq_Inr)
  qed auto
qed auto

lemma dimensions_shaped:
  assumes "dimensions xs = Inr dims" and "xs \<noteq> []"
  shows "shaped dims (PList xs)" and "\<exists>ds. dims = length xs # ds"
proof -
  have d: "dims = first_dims (PList xs)" "check_rectangular (PList xs) dims 0 = Inr ()"
    using assms by (auto simp: dimensions_def Let_def)
  then show "shaped dims (PList xs)" by (simp add: check_rectangular_shaped)
  show "\<exists>ds. dims = length xs # ds" using d(1) assms(2) by (cases xs) auto
qed

lemma flatten_leaf: "\<not> is_list v \<Longrightarrow> flatten v = [v]"
  by (cases v) auto

lemma length_flatten: "shaped ds v \<Longrightarrow> length (flatten v) = prod_list ds"
proof (induction ds arbitrary: v)
  case (Cons d ds)
  then obtain xs where v: "v = PList xs" "length xs = d" "\<forall>x \<in> set xs. shaped ds x"
    by (auto split: pyval.splits)
  have "sum_list (map (\<lambda>x. length (flatten x)) xs) = length xs * prod_list ds"
    using v(3) Cons.IH by (induction xs) auto
  then show ?case by (simp add: v(1,2) length_concat comp_def)
qed (simp add: flatten_leaf)

lemma slices_concat:
  "(\<forall>b \<in> set bs. length b = step) \<Longrightarrow> 0 < step \<Longrightarrow> slices step (concat bs) = bs"
  by (induction bs) (auto simp: slices.simps[of step "[]"] slices.simps[of step "_ @ _"])

lemma reshape_shaped:
  "shaped (d # ds) (PList xs) \<Longrightarrow> 0 \<notin> set ds \<Longrightarrow>
   reshape (map (texts oid) (flatten (PList xs))) (map int (d # ds)) = Inr (map (texts oid) xs)"
proof (induction ds arbitrary: d xs)
  case Nil
  then have "concat (map flatten xs) = xs" by (induction xs arbitrary: d) (auto simp: flatten_leaf)
  then show ?case by simp
next
  case (Cons d2 ds)
  have len: "\<forall>x \<in> set xs. length (flatten x) = prod_list (d2 # ds)"
    using Cons.prems length_flatten[of "d2 # ds"] by auto
  have pos: "0 < prod_list (d2 # ds)" using Cons.prems(2) by (auto simp: prod_list_zero_iff intro!: gr0I)
  have step: "prod_list (map int (d2 # ds)) = int (prod_list (d2 # ds))"
    by (induction ds) auto
  have sl: "slices (prod_list (d2 # ds)) (map (texts oid) (flatten (PList xs))) =
      map (\<lambda>x. map (texts oid) (flatten x)) xs"
    using slices_concat[of "map (\<lambda>x. map (texts oid) (flatten x)) xs" "prod_list (d2 # ds)"] len pos
    by (simp add: map_concat comp_def)
  define kids where "kids = (\<lambda>x. case texts oid x of PList ys \<Rightarrow> ys | _ \<Rightarrow> [])"
  have kid: "reshape (map (texts oid) (flatten x)) (map int (d2 # ds)) = Inr (kids x) \<and> PList (kids x) = texts oid x"
    if "x \<in> set xs" for x
  proof -
    have sh: "shaped (d2 # ds) x" using that Cons.prems(1) by simp
    then obtain ys where x: "x = PList ys" by (cases x) auto
    show ?thesis using Cons.IH[of d2 ys] sh Cons.prems(2) unfolding x kids_def by simp
  qed
  then have "rmap (\<lambda>part. reshape part (map int (d2 # ds))) (map (\<lambda>x. map (texts oid) (flatten x)) xs) = Inr (map kids xs)"
    by (induction xs) (simp_all del: flatten.simps reshape.simps)
  moreover have "map PList (map kids xs) = map (texts oid) xs" using kid by simp
  ultimately show ?case
    using pos step sl by (simp del: prod_list.Cons flatten.simps add: Let_def)
qed

section \<open>The binary format\<close>

definition array_fits :: "int \<Rightarrow> pyval list \<Rightarrow> bool" where
  "array_fits arr xs =
     (case (element_oid_of arr, dimensions xs) of
        (Inr el, Inr dims) \<Rightarrow>
          0 \<notin> set dims \<and> length dims < 2 ^ 31 \<and> list_all (\<lambda>d. d < 2 ^ 31) dims \<and>
          list_all (element_fits el) (flatten (PList xs))
      | _ \<Rightarrow> False)"

lemma read_dims_at:
  "list_all (\<lambda>d. d < 2 ^ 31) dims \<Longrightarrow>
   read_dims (length dims) (pre @ concat (map (\<lambda>d. be_bytes 4 (int d) @ be_bytes 4 1) dims) @ post) (int (length pre)) =
     Inr (map int dims, int (length pre) + 8 * int (length dims))"
proof (induction dims arbitrary: pre)
  case (Cons d dims)
  let ?c = "concat (map (\<lambda>d. be_bytes 4 (int d) @ be_bytes 4 1) dims)"
  have "in_signed 4 (int d)" "in_signed 4 1" using Cons.prems by (simp_all add: in_signed_def)
  then have "unpack_signed 4 (pre @ be_bytes 4 (int d) @ (be_bytes 4 1 @ ?c @ post)) (int (length pre)) = Inr (int d)"
    "unpack_signed 4 ((pre @ be_bytes 4 (int d)) @ be_bytes 4 1 @ (?c @ post)) (int (length (pre @ be_bytes 4 (int d)))) = Inr 1"
    by (intro unpack_signed_mid; simp)+
  moreover have "read_dims (length dims) ((pre @ be_bytes 4 (int d) @ be_bytes 4 1) @ ?c @ post)
      (int (length (pre @ be_bytes 4 (int d) @ be_bytes 4 1))) =
      Inr (map int dims, int (length (pre @ be_bytes 4 (int d) @ be_bytes 4 1)) + 8 * int (length dims))"
    using Cons by (intro Cons.IH) simp
  ultimately show ?case by (simp add: algebra_simps)
qed simp

lemma array_header_at:
  assumes "length dims < 2 ^ 31" "in_unsigned 4 el" "fl = 0 \<or> fl = 1"
  defines "h \<equiv> be_bytes 4 (int (length dims)) @ be_bytes 4 fl @ be_bytes 4 el"
  shows "unpack_signed 4 (h @ post) 0 = Inr (int (length dims))" "unpack_signed 4 (h @ post) 4 = Inr fl"
    "unpack_unsigned 4 (h @ post) 8 = Inr el"
proof -
  have "in_signed 4 (int (length dims))" "in_signed 4 fl" using assms(1,3) by (auto simp: in_signed_def)
  then show "unpack_signed 4 (h @ post) 0 = Inr (int (length dims))" "unpack_signed 4 (h @ post) 4 = Inr fl"
    using unpack_signed_mid[of 4 "int (length dims)" "[]" "be_bytes 4 fl @ be_bytes 4 el @ post"]
      unpack_signed_mid[of 4 fl "be_bytes 4 (int (length dims))" "be_bytes 4 el @ post"]
    by (simp_all add: h_def)
  show "unpack_unsigned 4 (h @ post) 8 = Inr el"
    using unpack_unsigned_mid[OF assms(2), of "be_bytes 4 (int (length dims)) @ be_bytes 4 fl" post]
    by (simp add: h_def)
qed

lemma prod_list_int: "prod_list (map int ds) = int (prod_list ds)"
  by (induction ds) auto

lemma array_decodes:
  assumes el: "element_oid_of arr = Inr el" and dims: "dimensions xs = Inr dims" "0 \<notin> set dims"
    "length dims < 2 ^ 31" "list_all (\<lambda>d. d < 2 ^ 31) dims" and fits: "list_all (element_fits el) (flatten (PList xs))"
    and es: "rmap (encode_element_binary el) (flatten (PList xs)) = Inr es" and fl: "fl = 0 \<or> fl = 1"
    and ne: "xs \<noteq> []"
  shows "decode_array_binary (decode_param_depth (Suc n))
     (be_bytes 4 (int (length dims)) @ be_bytes 4 fl @ be_bytes 4 el @
      concat (map (\<lambda>d. be_bytes 4 (int d) @ be_bytes 4 1) dims) @ concat es) = Inr (texts el (PList xs))"
proof -
  define h where "h = be_bytes 4 (int (length dims)) @ be_bytes 4 fl @ be_bytes 4 el"
  define ds where "ds = concat (map (\<lambda>d. be_bytes 4 (int d) @ be_bytes 4 1) dims)"
  note head = array_header_at[OF dims(3) element_oid_scalar(3)[OF el] fl, folded h_def]
  obtain d1 ds1 where d: "dims = d1 # ds1" using dimensions_shaped(2)[OF dims(1) ne] by blast
  have sh: "shaped dims (PList xs)" using dimensions_shaped(1)[OF dims(1) ne] .
  have lenh: "length h = 12" by (simp add: h_def)
  have "read_dims (length dims) (h @ ds @ concat es) 12 = Inr (map int dims, 12 + 8 * int (length dims))"
    using read_dims_at[OF dims(4), of h "concat es", folded ds_def] lenh by simp
  moreover have lends: "int (length (h @ ds)) = 12 + 8 * int (length dims)"
    by (simp add: ds_def lenh length_concat comp_def sum_list_triv)
  have "rmap (oid_codec.element el) (flatten (PList xs)) = Inr es"
    using es by (simp only: encode_element_is_element[OF element_oid_scalar(5)[OF el], abs_def])
  then have "decode_elements (decode_param_depth (Suc n) el) (length (flatten (PList xs))) ((h @ ds) @ concat es @ [])
      (int (length (h @ ds))) = Inr (map (texts el) (flatten (PList xs)))"
    using fits by (intro oid_codec.elements_at) (auto simp: list_all_iff element_fits_ok)
  moreover have "length (flatten (PList xs)) = prod_list dims" using sh by (rule length_flatten)
  moreover have "reshape (map (texts el) (flatten (PList xs))) (map int dims) = Inr (map (texts el) xs)"
    using reshape_shaped[of d1 ds1 xs el] sh dims(2) unfolding d by simp
  ultimately have main: "decode_array_binary (decode_param_depth (Suc n)) (h @ ds @ concat es) = Inr (texts el (PList xs))"
    using head[of "ds @ concat es"] lends d[THEN arg_cong[of _ _ "\<lambda>l. l \<noteq> []"]]
    by (simp add: decode_array_binary_def prod_list_int del: decode_param_depth.simps flatten.simps read_dims.simps)
  then show ?thesis by (simp only: h_def ds_def append_assoc)
qed

lemma array_encodes:
  assumes el: "element_oid_of arr = Inr el" and dims: "dimensions xs = Inr dims" "length dims < 2 ^ 31"
    "list_all (\<lambda>d. d < 2 ^ 31) dims" and ne: "xs \<noteq> []"
    and es: "rmap (encode_element_binary el) (flatten (PList xs)) = Inr es"
  shows "\<exists>fl. (fl = 0 \<or> fl = 1) \<and> encode_value_binary arr (PList xs) =
    Inr (be_bytes 4 (int (length dims)) @ be_bytes 4 fl @ be_bytes 4 el @
      concat (map (\<lambda>d. be_bytes 4 (int d) @ be_bytes 4 1) dims) @ concat es)"
proof -
  have "rmap (\<lambda>size. rbind (pack_signed 4 (int size)) (\<lambda>b. Inr (b @ be_bytes 4 1))) dims =
      Inr (map (\<lambda>d. be_bytes 4 (int d) @ be_bytes 4 1) dims)"
    using dims(3) by (intro rmap_Inr) (auto simp: pack_signed_def in_signed_def list_all_iff)
  moreover have "pack_signed 4 (int (length dims)) = Inr (be_bytes 4 (int (length dims)))"
    using dims(2) by (simp add: pack_signed_def in_signed_def)
  moreover have "pack_unsigned 4 el = Inr (be_bytes 4 el)"
    using element_oid_scalar(3)[OF el] by (simp add: pack_unsigned_def)
  moreover have "dims \<noteq> []" using dimensions_shaped(2)[OF dims(1) ne] by auto
  ultimately show ?thesis
    using element_oid_scalar(1,4)[OF el] el dims(1) es
    by (simp add: encode_value_binary_def encode_array_binary_def Let_def del: flatten.simps) auto
qed

text \<open>
  An array sent in the binary format arrives as the session would see its text form:
  for every array OID and every rectangular nested list (any depth, NULLs included) of
  elements the element type can carry, encode_value_binary succeeds and decode_binary_param
  returns the same nesting with every element replaced by its text.
\<close>
theorem array_binary_roundtrip:
  assumes "array_fits arr xs" and "element_oid_of arr = Inr el"
  shows "\<exists>b. encode_value_binary arr (PList xs) = Inr b \<and> decode_binary_param arr b = Inr (texts el (PList xs))"
proof -
  obtain dims where dims: "dimensions xs = Inr dims" "0 \<notin> set dims" "length dims < 2 ^ 31"
    "list_all (\<lambda>d. d < 2 ^ 31) dims" and fits: "list_all (element_fits el) (flatten (PList xs))"
    using assms by (auto simp: array_fits_def simp del: flatten.simps split: sum.splits)
  have dec: "decode_binary_param arr b = decode_array_binary (decode_param_depth (Suc 398)) b" for b
    using element_oid_scalar(2,4)[OF assms(2)]
    by (simp add: decode_binary_param_def PY_STACK_def numeral_eq_Suc del: decode_param_depth.simps)
       (simp only: decode_param_depth.simps option.case if_True)
  show ?thesis
  proof (cases "xs = []")
    case True
    with dims(1) have "encode_value_binary arr (PList xs) = Inr (be_bytes 4 0 @ be_bytes 4 0 @ be_bytes 4 el)"
      using element_oid_scalar[OF assms(2)] assms(2)
      by (simp add: encode_value_binary_def encode_array_binary_def dimensions_def pack_signed_def pack_unsigned_def in_signed_def)
    moreover have "decode_binary_param arr (be_bytes 4 0 @ be_bytes 4 0 @ be_bytes 4 el) = Inr (PList [])"
      using array_header_at[of "[]" el 0 "[]"] element_oid_scalar(3)[OF assms(2)]
      unfolding dec by (simp add: decode_array_binary_def)
    ultimately show ?thesis using True by simp
  next
    case False
    have "list_all (oid_codec.element_ok el) (flatten (PList xs))"
      using fits element_fits_ok by (auto simp: list_all_iff simp del: flatten.simps)
    then obtain es where es: "rmap (encode_element_binary el) (flatten (PList xs)) = Inr es"
      using oid_codec.elements_encode encode_element_is_element[OF element_oid_scalar(5)[OF assms(2)], abs_def]
      by (auto simp del: flatten.simps)
    obtain fl where fl: "fl = 0 \<or> fl = 1" "encode_value_binary arr (PList xs) =
        Inr (be_bytes 4 (int (length dims)) @ be_bytes 4 fl @ be_bytes 4 el @
          concat (map (\<lambda>d. be_bytes 4 (int d) @ be_bytes 4 1) dims) @ concat es)"
      using array_encodes[OF assms(2) dims(1,3,4) False es] by blast
    then show ?thesis using array_decodes[OF assms(2) dims(1-4) fits es fl(1) False, of 398] dec by simp
  qed
qed

theorem array_binary_roundtrip_witness:
  "\<exists>b. encode_value_binary 1007 (PList [PList [PInt 1, PNone], PList [PInt 2, PInt 3]]) = Inr b \<and>
     decode_binary_param 1007 b =
       Inr (PList [PList [PStr (lit ''1''), PNone], PList [PStr (lit ''2''), PStr (lit ''3'')]])"
proof -
  have e: "element_oid_of 1007 = Inr INT4"
    by (simp add: element_oid_of_def ELEMENT_OID_def ARRAY_OID_def oid_defs)
  have f: "element_fits INT4 (PInt i)" if "\<bar>i\<bar> < 100" for i
  proof -
    have "in_signed 4 i" using that by (auto simp: in_signed_def)
    then show ?thesis using int_agrees[of 4 i] by (simp add: element_fits_def encode_value_binary_def coder_tables)
  qed
  have a: "array_fits 1007 [PList [PInt 1, PNone], PList [PInt 2, PInt 3]]"
    by (simp add: array_fits_def e dimensions_def f) (simp add: element_fits_def)
  show ?thesis
    using array_binary_roundtrip[OF a e] by (simp add: int_str_def nat_str.simps lit_def)
qed



section \<open>Array literals\<close>

text \<open>
  A leaf is clean when every white space character of its text is one the formatter
  quotes; the parser strips the others from an unquoted element.
\<close>

definition clean_text :: "pystr \<Rightarrow> bool" where
  "clean_text t = list_all (\<lambda>c. py_isspace c \<longrightarrow> c \<in> set NEEDS_QUOTING) t"

definition clean_leaf :: "int \<Rightarrow> pyval \<Rightarrow> bool" where
  "clean_leaf oid v = (case encode_scalar oid v of Inr t \<Rightarrow> clean_text t | Inl _ \<Rightarrow> True)"

lemma parse_quoted_inverse:
  "parse_quoted (replace_char 34 [92, 34] (replace_char 92 [92, 92] t) @ 34 # rest) = Inr (t, rest)"
  by (induction t) (auto simp: replace_char_def)

lemma strip_unspaced: "list_all (\<lambda>c. \<not> py_isspace c) t \<Longrightarrow> py_strip t = t"
proof -
  assume "list_all (\<lambda>c. \<not> py_isspace c) t"
  then have a: "\<forall>c \<in> set t. \<not> py_isspace c" by (simp add: list_all_iff)
  have "dropWhile py_isspace t = t" "dropWhile py_isspace (rev t) = rev t"
    using a by (auto simp: dropWhile_eq_self_iff hd_rev)
  then show ?thesis by (simp add: py_strip_def py_lstrip_def py_rstrip_def)
qed

text \<open>One element of the loop, as a function of its own.\<close>

definition parse_item :: "nat \<Rightarrow> nat \<Rightarrow> pystr \<Rightarrow> exc + pyval \<times> pystr" where
  "parse_item fuel n s =
     (case s of [] \<Rightarrow> Inl unterminated
      | c # t \<Rightarrow>
          if c = 123 then rbind (parse_braced fuel n t) (\<lambda>(vs, r). Inr (PList vs, r))
          else if c = 34 then rbind (parse_quoted t) (\<lambda>(chars, r). Inr (PStr chars, r))
          else Inr (parse_bare (c # t)))"

definition item_start :: "pystr \<Rightarrow> bool" where
  "item_start s \<longleftrightarrow> s \<noteq> [] \<and> \<not> py_isspace (hd s) \<and> hd s \<noteq> 125"

lemma parse_items_unfold:
  assumes "item_start s"
  shows "parse_items (Suc fuel) n s =
    rbind (parse_item fuel n s) (\<lambda>(item, r).
      case skip_space r of
        [] \<Rightarrow> Inl unterminated
      | d # u \<Rightarrow>
          if d = 44 then rbind (parse_items fuel n u) (\<lambda>(items, r'). Inr (item # items, r'))
          else if d = 125 then Inr ([item], u)
          else Inl (ValueError (lit ''unexpected '' @ py_repr [d] @ lit '' at position '' @
                 nat_str (n - length (d # u)) @ lit '' in array literal'')))"
  using assms by (cases s) (auto simp: item_start_def parse_item_def skip_space_def)

lemma leaf_parses:
  assumes "\<not> is_list v" "format_nested oid v = Inr s" "clean_leaf oid v" "rest \<noteq> []" "hd rest = 44 \<or> hd rest = 125"
  shows "parse_item fuel n (s @ rest) = Inr (texts oid v, rest) \<and> item_start s"
proof -
  obtain r0 rs where rest: "rest = r0 # rs" "r0 = 44 \<or> r0 = 125" using assms(4,5) by (cases rest) auto
  have bare: "parse_bare (t @ rest) = ((if py_upper t = lit ''NULL'' then PNone else PStr t), rest)"
    if "list_all (\<lambda>c. \<not> py_isspace c) t" "44 \<notin> set t" "125 \<notin> set t" for t
  proof -
    have "takeWhile (\<lambda>c. c \<noteq> 44 \<and> c \<noteq> 125) (t @ rest) = t" "dropWhile (\<lambda>c. c \<noteq> 44 \<and> c \<noteq> 125) (t @ rest) = rest"
      using that(2,3) rest by (auto simp: takeWhile_append dropWhile_append)
    with that(1) show ?thesis by (simp add: parse_bare_def strip_unspaced)
  qed
  show ?thesis
  proof (cases "v = PNone")
    case True
    then have s: "s = lit ''NULL''" using assms(2) by (simp add: format_element_def)
    show ?thesis
      using bare[of "lit ''NULL''"] True
      by (simp add: s parse_item_def item_start_def lit_def py_isspace_def upper_char_def)
  next
    case False
    then obtain t where t: "encode_scalar oid v = Inr t" "s = (if must_quote t then quote_element t else t)"
      using assms(1,2) by (cases v) (auto simp: format_element_def)
    have tv: "texts oid v = PStr t" using t False assms(1) by (cases v) auto
    show ?thesis
    proof (cases "must_quote t")
      case True
      then show ?thesis using t tv parse_quoted_inverse[of t rest]
        by (simp add: quote_element_def parse_item_def item_start_def py_isspace_def)
    next
      case False
      then have nq: "t \<noteq> []" "py_upper t \<noteq> lit ''NULL''" "\<forall>c \<in> set t. c \<notin> set NEEDS_QUOTING"
        by (auto simp: must_quote_def list_ex_iff)
      have ns: "list_all (\<lambda>c. \<not> py_isspace c) t"
        using assms(3) nq(3) t(1) by (auto simp: clean_leaf_def clean_text_def list_all_iff)
      have c: "44 \<notin> set t" "125 \<notin> set t" "123 \<notin> set t" "34 \<notin> set t" using nq(3) by (auto simp: NEEDS_QUOTING_def)
      obtain c0 t' where tc: "t = c0 # t'" using nq(1) by (cases t) auto
      then have "c0 \<noteq> 123" "c0 \<noteq> 34" "c0 \<noteq> 125" "\<not> py_isspace c0" using c ns by auto
      then show ?thesis using bare[OF ns c(1,2)] nq(2) t(2) tv False tc by (simp add: parse_item_def item_start_def)
    qed
  qed
qed

lemma join_Cons: "py_join [44] (p # ps) = (if ps = [] then p else p @ [44] @ py_join [44] ps)"
  by (cases ps) (auto simp: py_join_def)

lemma items_parse:
  assumes "xs \<noteq> []" "list_all2 (\<lambda>v s. format_nested oid v = Inr s) xs ps"
    and "\<And>v s rest fuel. v \<in> set xs \<Longrightarrow> format_nested oid v = Inr s \<Longrightarrow> rest \<noteq> [] \<Longrightarrow>
      hd rest = 44 \<or> hd rest = 125 \<Longrightarrow> 2 * length s \<le> fuel \<Longrightarrow>
      parse_item fuel n (s @ rest) = Inr (texts oid v, rest) \<and> item_start s"
    and "2 * length (py_join [44] ps) + 1 \<le> fuel"
  shows "parse_items fuel n (py_join [44] ps @ 125 # rest) = Inr (map (texts oid) xs, rest) \<and> item_start (py_join [44] ps)"
  using assms
proof (induction xs arbitrary: ps fuel)
  case (Cons v vs)
  from Cons.prems(2) obtain p ps' where ps: "ps = p # ps'" "format_nested oid v = Inr p"
    "list_all2 (\<lambda>v s. format_nested oid v = Inr s) vs ps'" by (auto simp: list_all2_Cons1)
  obtain f where f: "fuel = Suc f" using Cons.prems(4) by (cases fuel) auto
  have lp: "2 * length p \<le> f" using Cons.prems(4) by (auto simp: ps join_Cons f split: if_splits)
  have ns: "skip_space (44 # r) = 44 # r" "skip_space (125 # r) = 125 # r" for r
    by (simp_all add: skip_space_def py_isspace_def)
  show ?case
  proof (cases "vs = []")
    case True
    then have "ps' = []" using ps(3) by simp
    moreover have "parse_item f n (p @ 125 # rest) = Inr (texts oid v, 125 # rest)" "item_start p"
      using Cons.prems(3)[of v p "125 # rest" f] ps(2) lp by auto
    moreover from this(2) have "item_start (p @ 125 # rest)" by (auto simp: item_start_def)
    ultimately show ?thesis using True by (simp add: ps(1) f parse_items_unfold join_Cons ns del: parse_items.simps)
  next
    case False
    then have ps': "ps' \<noteq> []" using ps(3) by auto
    let ?j = "py_join [44] ps' @ 125 # rest"
    have it: "parse_item f n (p @ 44 # ?j) = Inr (texts oid v, 44 # ?j)" "item_start p"
      using Cons.prems(3)[of v p "44 # ?j" f] ps(2) lp by auto
    have "2 * length (py_join [44] ps') + 1 \<le> f" using Cons.prems(4) by (simp add: ps(1) join_Cons ps' f)
    then have "parse_items f n ?j = Inr (map (texts oid) vs, rest)"
      using Cons.IH[OF False ps(3), of f] Cons.prems(3) by auto
    moreover have "item_start (p @ 44 # ?j)" using it(2) by (auto simp: item_start_def)
    ultimately show ?thesis
      using it by (auto simp: ps(1) f parse_items_unfold join_Cons ps' ns item_start_def simp del: parse_items.simps)
  qed
qed simp

lemma braced_parses:
  assumes "rmap (format_nested oid) xs = Inr ps"
    and "\<And>v s rest fuel. v \<in> set xs \<Longrightarrow> format_nested oid v = Inr s \<Longrightarrow> rest \<noteq> [] \<Longrightarrow>
      hd rest = 44 \<or> hd rest = 125 \<Longrightarrow> 2 * length s \<le> fuel \<Longrightarrow>
      parse_item fuel n (s @ rest) = Inr (texts oid v, rest) \<and> item_start s"
    and "2 * length (py_join [44] ps) + 2 \<le> fuel"
  shows "parse_braced fuel n (py_join [44] ps @ 125 # rest) = Inr (map (texts oid) xs, rest)"
proof -
  obtain f where f: "fuel = Suc f" using assms(3) by (cases fuel) auto
  show ?thesis
  proof (cases "xs = []")
    case True
    then have "ps = []" using assms(1) by simp
    then show ?thesis using True by (simp add: f py_join_def skip_space_def py_isspace_def)
  next
    case False
    have l: "list_all2 (\<lambda>v s. format_nested oid v = Inr s) xs ps" using assms(1) by (simp add: rmap_eq_Inr_iff)
    have "2 * length (py_join [44] ps) + 1 \<le> f" using assms(3) f by simp
    from items_parse[OF False l assms(2) this, of rest]
    have it: "parse_items f n (py_join [44] ps @ 125 # rest) = Inr (map (texts oid) xs, rest)" "item_start (py_join [44] ps)"
      by auto
    then obtain c t where "py_join [44] ps = c # t" "\<not> py_isspace c" "c \<noteq> 125"
      by (cases "py_join [44] ps") (auto simp: item_start_def)
    with it(1) show ?thesis by (simp add: f skip_space_def)
  qed
qed

lemma item_parses:
  "format_nested oid v = Inr s \<Longrightarrow> list_all (clean_leaf oid) (flatten v) \<Longrightarrow> rest \<noteq> [] \<Longrightarrow>
   hd rest = 44 \<or> hd rest = 125 \<Longrightarrow> 2 * length s \<le> fuel \<Longrightarrow>
   parse_item fuel n (s @ rest) = Inr (texts oid v, rest) \<and> item_start s"
proof (induction v arbitrary: s rest fuel)
  case (PList xs)
  obtain ps where ps: "rmap (format_nested oid) xs = Inr ps" "s = [123] @ py_join [44] ps @ [125]"
    using PList.prems(1) by auto
  have "parse_braced fuel n (py_join [44] ps @ 125 # rest) = Inr (map (texts oid) xs, rest)"
  proof (rule braced_parses[OF ps(1)])
    show "2 * length (py_join [44] ps) + 2 \<le> fuel" using PList.prems(5) by (simp add: ps(2))
  qed (use PList.IH PList.prems(2) in \<open>auto simp: list_all_iff\<close>)
  then show ?case by (simp add: ps(2) parse_item_def item_start_def py_isspace_def)
qed (rule leaf_parses; simp)+

text \<open>
  C19: an array literal reads back as what was written: whenever format_array_literal renders a
  nested list whose element texts hold no white space beyond what it quotes, parse_array_literal
  of the literal returns the same nesting with every element replaced by its text, so quotes,
  backslashes, commas, braces, empty strings and the string NULL all survive.
\<close>
theorem array_literal_roundtrip:
  assumes "format_array_literal arr (PList xs) = Inr s" and "element_oid_of arr = Inr el"
    and "list_all (clean_leaf el) (flatten (PList xs))"
  shows "parse_array_literal s = Inr (texts el (PList xs))"
proof -
  obtain ps where ps: "rmap (format_nested el) xs = Inr ps" "s = [123] @ py_join [44] ps @ [125]"
    using assms(1,2) by (auto simp: format_array_literal_def)
  have strip: "py_strip s = s"
    by (simp add: ps(2) py_strip_def py_lstrip_def py_rstrip_def py_isspace_def)
  have "parse_braced (2 * length s + 2) (length s) (py_join [44] ps @ 125 # []) = Inr (map (texts el) xs, [])"
  proof (rule braced_parses[OF ps(1)])
    show "2 * length (py_join [44] ps) + 2 \<le> 2 * length s + 2" by (simp add: ps(2))
  qed (rule item_parses, use assms(3) in \<open>auto simp: list_all_iff\<close>)
  then show ?thesis
    unfolding parse_array_literal_def strip
    by (simp add: ps(2) lit_def py_strip_def py_lstrip_def py_rstrip_def)
qed

theorem array_literal_roundtrip_witness:
  "parse_array_literal (lit ''{{1,NULL},{2,3}}'') =
     Inr (PList [PList [PStr (lit ''1''), PNone], PList [PStr (lit ''2''), PStr (lit ''3'')]])"
proof -
  let ?xs = "[PList [PInt 1, PNone], PList [PInt 2, PInt 3]]"
  have e: "element_oid_of 1007 = Inr INT4"
    by (simp add: element_oid_of_def ELEMENT_OID_def ARRAY_OID_def oid_defs)
  have f: "format_array_literal 1007 (PList ?xs) = Inr (lit ''{{1,NULL},{2,3}}'')"
    by (simp add: format_array_literal_def e dimensions_def format_element_def int_str_def nat_str.simps must_quote_def
        NEEDS_QUOTING_def py_join_def lit_def upper_char_def)
  have c: "list_all (clean_leaf INT4) (flatten (PList ?xs))"
    by (simp add: clean_leaf_def clean_text_def int_str_def nat_str.simps py_isspace_def lit_def NEEDS_QUOTING_def oid_defs)
  show ?thesis
    using array_literal_roundtrip[OF f e c] by (simp add: int_str_def nat_str.simps lit_def)
qed

text \<open>
  White space that the formatter does not quote is lost: a text element that is a single
  no-break space is dropped altogether, and the array comes back empty.
\<close>

lemma array_literal_loses_nbsp:
  "format_array_literal 1009 (PList [PStr [0xA0]]) = Inr [123, 0xA0, 125]"
  "parse_array_literal [123, 0xA0, 125] = Inr (PList [])"
proof -
  show "format_array_literal 1009 (PList [PStr [0xA0]]) = Inr [123, 0xA0, 125]"
    by (simp add: format_array_literal_def element_oid_of_def ELEMENT_OID_def ARRAY_OID_def oid_defs dimensions_def
        format_element_def must_quote_def NEEDS_QUOTING_def py_join_def lit_def upper_char_def)
  have "parse_braced (Suc 7) n [0xA0, 125] = Inr ([], [])" for n
    by (subst parse_braced.simps) (simp add: skip_space_def py_isspace_def)
  then show "parse_array_literal [123, 0xA0, 125] = Inr (PList [])"
    by (simp add: parse_array_literal_def py_isspace_def py_strip_def py_lstrip_def py_rstrip_def lit_def)
qed

section \<open>The parser ends\<close>

lemma parse_quoted_shorter: "parse_quoted s = Inr (t, r) \<Longrightarrow> length r < length s"
proof (induction s arbitrary: t rule: parse_quoted.induct)
  case (2 c s)
  consider "c = 92" | "c \<noteq> 92" "c = 34" | "c \<noteq> 92" "c \<noteq> 34" by blast
  then show ?case
  proof cases
    case 1
    then obtain d u v where "s = d # u" "parse_quoted u = Inr (v, r)" using "2.prems" by (cases s) auto
    with "2.IH"(1)[OF 1] show ?thesis by fastforce
  next
    case 2
    then show ?thesis using "2.prems" by simp
  next
    case 3
    then obtain v where "parse_quoted s = Inr (v, r)" using "2.prems" by auto
    with "2.IH"(2)[OF 3] show ?thesis by fastforce
  qed
qed simp

lemma parse_quoted_no_assert: "parse_quoted s \<noteq> Inl AssertionError"
proof (induction s rule: parse_quoted.induct)
  case (2 c s)
  have "parse_quoted t \<noteq> Inl AssertionError" if "c = 92" "s = d # t" for d t using "2.IH"(1)[OF that] .
  moreover have "parse_quoted s \<noteq> Inl AssertionError" if "c \<noteq> 92" "c \<noteq> 34" using "2.IH"(2)[OF that] .
  ultimately show ?case
    by (cases s; simp only: parse_quoted.simps(2)[of c] list.case split: if_split)
       (auto simp: rbind_eq_Inl simp del: parse_quoted.simps)
qed simp

lemma skip_space_shorter: "length (skip_space s) \<le> length s"
  by (simp add: skip_space_def length_dropWhile_le)

definition ends_shorter :: "nat \<Rightarrow> (exc + 'a \<times> pystr) \<Rightarrow> bool" where
  "ends_shorter n res = (case res of Inl e \<Rightarrow> e \<noteq> AssertionError | Inr p \<Rightarrow> length (snd p) < n)"

lemma ends_shorter_bind:
  assumes "ends_shorter n m" and "\<And>x r. m = Inr (x, r) \<Longrightarrow> length r < n \<Longrightarrow> ends_shorter k (f (x, r))"
  shows "ends_shorter k (rbind m f)"
  using assms by (cases m) (auto simp: ends_shorter_def split: prod.splits)

lemma parse_enough_fuel:
  "2 * length s + 2 \<le> fuel \<Longrightarrow> ends_shorter (length s) (parse_braced fuel n s)"
  "2 * length s + 1 \<le> fuel \<Longrightarrow> ends_shorter (length s) (parse_items fuel n s)"
proof (induction fuel n s and fuel n s rule: parse_braced_parse_items.induct)
  case (2 fuel n s)
  define r where "r = skip_space s"
  have l: "length r \<le> length s" using skip_space_shorter r_def by simp
  show ?case
  proof (cases "r \<noteq> [] \<and> hd r = 125")
    case True
    then have "length (tl r) < length s" using l by (cases r) auto
    with True show ?thesis by (simp add: r_def[symmetric] ends_shorter_def)
  next
    case False
    have "2 * length r + 1 \<le> fuel" using l "2.prems" by simp
    have "parse_braced (Suc fuel) n s = parse_items fuel n r" using False by (auto simp: r_def[symmetric])
    with "2.IH"[OF r_def False \<open>2 * length r + 1 \<le> fuel\<close>] l show ?thesis
      by (cases "parse_items fuel n r") (auto simp: ends_shorter_def)
  qed
next
  case (4 fuel n s)
  show ?case
  proof (cases "skip_space s")
    case Nil
    then show ?thesis by (simp add: ends_shorter_def unterminated_def)
  next
    case (Cons c t)
    have l: "length (c # t) \<le> length s" using skip_space_shorter[of s] Cons by simp
    define item where "item = (if c = 123 then rbind (parse_braced fuel n t) (\<lambda>(vs, r). Inr (PList vs, r))
        else if c = 34 then rbind (parse_quoted t) (\<lambda>(chars, r). Inr (PStr chars, r)) else Inr (parse_bare (c # t)))"
    have "ends_shorter (length s + 1) item"
    proof -
      have "c = 123 \<Longrightarrow> ends_shorter (length t) (parse_braced fuel n t)"
        using "4.IH"(1)[OF Cons] "4.prems" l by simp
      moreover have "ends_shorter (length t) (parse_quoted t)"
        using parse_quoted_shorter parse_quoted_no_assert[of t]
        by (cases "parse_quoted t") (auto simp: ends_shorter_def)
      moreover have "length (snd (parse_bare (c # t))) \<le> length (c # t)"
        unfolding parse_bare_def Let_def snd_conv by (rule length_dropWhile_le)
      ultimately show ?thesis
        using l by (auto simp: item_def ends_shorter_def intro!: ends_shorter_bind split: sum.splits prod.splits)
    qed
    moreover have "ends_shorter (length s) (case skip_space r of [] \<Rightarrow> Inl unterminated
        | d # u \<Rightarrow> if d = 44 then rbind (parse_items fuel n u) (\<lambda>(items, r'). Inr (x # items, r'))
                  else if d = 125 then Inr ([x], u)
                  else Inl (ValueError (lit ''unexpected '' @ py_repr [d] @ lit '' at position '' @
                         nat_str (n - length (d # u)) @ lit '' in array literal'')))"
      if x: "item = Inr (x, r)" "length r < length s + 1" for x r
    proof (cases "skip_space r")
      case Nil
      then show ?thesis by (simp add: ends_shorter_def unterminated_def)
    next
      case (Cons d u)
      have lu: "length u < length s" using skip_space_shorter[of r] Cons x(2) by simp
      have "d = 44 \<Longrightarrow> ends_shorter (length u) (parse_items fuel n u)"
        using "4.IH"(2)[OF \<open>skip_space s = c # t\<close> x(1)[unfolded item_def] refl Cons] lu "4.prems" by simp
      then show ?thesis
        using lu Cons by (auto simp: ends_shorter_def rbind_def split: sum.splits prod.splits)
    qed
    ultimately show ?thesis
      by (simp only: parse_items.simps Cons list.case item_def[symmetric])
         (rule ends_shorter_bind[where n = "length s + 1"], auto)
  qed
qed (auto simp: ends_shorter_def)

text \<open>
  The array literal parser always ends with a value or a Python exception of its own: on
  every input text the fuel it is given suffices, so the assertion that stands for running out
  of it is never the result.
\<close>
theorem parse_array_literal_ends: "parse_array_literal text \<noteq> Inl AssertionError"
proof -
  have braced: "parse_braced (2 * length (c # t) + 2) k t \<noteq> Inl AssertionError" for c t k
    using parse_enough_fuel(1)[of t "2 * length (c # t) + 2" k] by (auto simp: ends_shorter_def)
  have lit_err: "literal_error w x \<noteq> AssertionError" for w x by (simp add: literal_error_def)
  show ?thesis
    unfolding parse_array_literal_def
  proof (rule rbind_neq_Inl)
    show "(let body = py_strip text in if starts_with body (lit ''['') then
        (case find_char 61 body of None \<Rightarrow> Inl (literal_error ''malformed array literal: '' text)
         | Some equals \<Rightarrow> Inr (py_lstrip (drop (equals + 1) body))) else Inr body) \<noteq> Inl AssertionError"
      by (simp add: Let_def lit_err split: option.split)
  next
    fix body
    show "(case body of [] \<Rightarrow> Inl (literal_error ''malformed array literal, expected '{': '' text)
        | c # t \<Rightarrow> if c \<noteq> 123 then Inl (literal_error ''malformed array literal, expected '{': '' text)
            else rbind (parse_braced (2 * length body + 2) (length body) t) (\<lambda>(vs, r).
               if py_strip r = [] then Inr (PList vs)
               else Inl (literal_error ''trailing characters after array literal: '' text))) \<noteq> Inl AssertionError"
    proof (cases body)
      case (Cons c t)
      have "rbind (parse_braced (2 * length (c # t) + 2) (length (c # t)) t) (\<lambda>(vs, r).
          if py_strip r = [] then Inr (PList vs)
          else Inl (literal_error ''trailing characters after array literal: '' text)) \<noteq> Inl AssertionError"
        by (rule rbind_neq_Inl[OF braced]) (simp add: lit_err split: prod.split)
      then show ?thesis by (simp only: Cons list.case lit_err sum.inject split: if_split) (simp add: lit_err)
    qed (simp add: lit_err)
  qed
qed

end
