(* ===== verification/Copy_Codec.thy ===== *)
theory Copy_Codec
  imports Arrays
begin

text \<open>
  The COPY data formats of \<open>pg_mimic/copy.py\<close>: the options, \<open>CopyEncoder\<close> (rows to the payload of a
  CopyData message, text and CSV), and \<open>CopyInDecoder\<close> (payloads to rows, incrementally). The
  decoder's state is what the object keeps between calls: the bytes of an unfinished UTF-8
  character, the text of an unfinished record, whether the end-of-data marker was seen and
  whether the header is still to be skipped.

  Delimiter, quote and escape are single characters, which \<open>_single_character\<close> guarantees.
\<close>

section \<open>Options\<close>

record copy_options =
  co_format :: pystr
  co_delimiter :: pychar
  co_null_string :: pystr
  co_header :: bool
  co_quote :: pychar
  co_escape :: pychar

definition CopyOptions :: copy_options where
  "CopyOptions =
     \<lparr>co_format = lit ''text'', co_delimiter = 9, co_null_string = [92, 78], co_header = False,
      co_quote = 34, co_escape = 34\<rparr>"

definition is_csv :: "copy_options \<Rightarrow> bool" where
  "is_csv opts \<longleftrightarrow> co_format opts = lit ''csv''"

section \<open>Encoding\<close>

definition TEXT_ESCAPES :: "(pychar, pystr) dict" where
  "TEXT_ESCAPES =
     [(92, [92, 92]), (8, [92, 98]), (12, [92, 102]), (10, [92, 110]), (13, [92, 114]), (9, [92, 116]), (11, [92, 118])]"

definition text_char :: "pychar \<Rightarrow> pychar \<Rightarrow> pystr" where
  "text_char delimiter c =
     (case dict_get TEXT_ESCAPES c of
        Some escaped \<Rightarrow> escaped
      | None \<Rightarrow> if c = delimiter then [92, c] else [c])"

definition text_field :: "copy_options \<Rightarrow> pystr option \<Rightarrow> pystr" where
  "text_field opts v =
     (case v of None \<Rightarrow> co_null_string opts | Some s \<Rightarrow> concat (map (text_char (co_delimiter opts)) s))"

definition csv_needs_quotes :: "copy_options \<Rightarrow> pystr \<Rightarrow> bool" where
  "csv_needs_quotes opts s \<longleftrightarrow>
     s = co_null_string opts \<or> list_ex (\<lambda>c. c \<in> {co_delimiter opts, co_quote opts, 10, 13}) s"

definition csv_field :: "copy_options \<Rightarrow> pystr option \<Rightarrow> pystr" where
  "csv_field opts v =
     (case v of
        None \<Rightarrow> co_null_string opts
      | Some s \<Rightarrow>
          if csv_needs_quotes opts s
          then [co_quote opts] @
               concat (map (\<lambda>c. if c \<in> {co_quote opts, co_escape opts} then [co_escape opts, c] else [c]) s) @
               [co_quote opts]
          else s)"

definition line_text :: "copy_options \<Rightarrow> pystr option list \<Rightarrow> pystr" where
  "line_text opts flds =
     py_join [co_delimiter opts] (map (if is_csv opts then csv_field opts else text_field opts) flds) @ [10]"

definition line :: "copy_options \<Rightarrow> pystr option list \<Rightarrow> exc + bytes" where
  "line opts flds = utf8_encode (line_text opts flds)"

definition FEATURE_NOT_SUPPORTED :: pystr where "FEATURE_NOT_SUPPORTED = lit ''0A000''"

definition copy_text :: "pyval \<Rightarrow> exc + pystr" where
  "copy_text v =
     (case v of
        PList xs \<Rightarrow> Inl (PgError FEATURE_NOT_SUPPORTED
          (lit ''COPY cannot encode a list without a declared column type: yield it already formatted (an array literal, or a JSON string) from copy_out() instead'') [])
      | PDict kvs \<Rightarrow> Inl (PgError FEATURE_NOT_SUPPORTED
          (lit ''COPY cannot encode a dict without a declared column type: yield it already formatted (an array literal, or a JSON string) from copy_out() instead'') [])
      | _ \<Rightarrow> encode_value UNKNOWN v)"

definition header_line :: "copy_options \<Rightarrow> pystr list \<Rightarrow> exc + bytes" where
  "header_line opts names = line opts (map Some names)"

definition row_line :: "copy_options \<Rightarrow> pyval list \<Rightarrow> exc + bytes" where
  "row_line opts r =
     rbind (rmap (\<lambda>v. if v = PNone then Inr None else rbind (copy_text v) (\<lambda>t. Inr (Some t))) r) (line opts)"

section \<open>Decoding fields\<close>

definition TEXT_UNESCAPES :: "(pychar, pychar) dict" where
  "TEXT_UNESCAPES = [(98, 8), (102, 12), (110, 10), (114, 13), (116, 9), (118, 11)]"

definition is_octal :: "pychar \<Rightarrow> bool" where
  "is_octal c \<longleftrightarrow> 48 \<le> c \<and> c \<le> 55"

text \<open>\<open>_take_digits\<close>: at most \<open>limit\<close> leading characters of the allowed class.\<close>

fun take_digits :: "(pychar \<Rightarrow> bool) \<Rightarrow> nat \<Rightarrow> pystr \<Rightarrow> pystr" where
  "take_digits allowed 0 s = []"
| "take_digits allowed (Suc n) [] = []"
| "take_digits allowed (Suc n) (c # s) = (if allowed c then c # take_digits allowed n s else [])"

definition is_hex :: "pychar \<Rightarrow> bool" where
  "is_hex c \<longleftrightarrow> hex_val c \<noteq> None"

definition hex_number :: "pystr \<Rightarrow> nat" where
  "hex_number ds = foldl (\<lambda>a c. a * 16 + (case hex_val c of Some v \<Rightarrow> v | None \<Rightarrow> 0)) 0 ds"

definition octal_number :: "pystr \<Rightarrow> nat" where
  "octal_number ds = foldl (\<lambda>a c. a * 8 + (c - 48)) 0 ds"

function unescape_text :: "pystr \<Rightarrow> pystr" where
  "unescape_text [] = []"
| "unescape_text (c # s) =
     (if c \<noteq> 92 then c # unescape_text s
      else case s of
        [] \<Rightarrow> [c]
      | marker # t \<Rightarrow>
          (case dict_get TEXT_UNESCAPES marker of
             Some v \<Rightarrow> v # unescape_text t
           | None \<Rightarrow>
               let hex = take_digits is_hex 2 t; oct = take_digits is_octal 3 s in
               if marker = 120 \<and> hex \<noteq> [] then hex_number hex # unescape_text (drop (length hex) t)
               else if is_octal marker then octal_number oct # unescape_text (drop (length oct) s)
               else marker # unescape_text t))"
  by pat_completeness auto
termination
  by (relation "measure length") (auto split: if_splits)

text \<open>
  The splitting loop of \<open>_text_fields\<close>: raw fields, an escaped character staying with its backslash.
\<close>

fun raw_fields :: "pychar \<Rightarrow> pystr \<Rightarrow> pystr \<Rightarrow> pystr list" where
  "raw_fields d cur [] = [cur]"
| "raw_fields d cur (c # s) =
     (if c = 92 \<and> s \<noteq> [] then raw_fields d (cur @ [c, hd s]) (tl s)
      else if c = d then cur # raw_fields d [] s
      else raw_fields d (cur @ [c]) s)"

definition text_fields :: "copy_options \<Rightarrow> pystr \<Rightarrow> pystr option list" where
  "text_fields opts record =
     map (\<lambda>f. if f = co_null_string opts then None else Some (unescape_text f))
       (raw_fields (co_delimiter opts) [] record)"

definition csv_value :: "copy_options \<Rightarrow> pystr \<Rightarrow> bool \<Rightarrow> pystr option" where
  "csv_value opts text quoted = (if \<not> quoted \<and> text = co_null_string opts then None else Some text)"

text \<open>The loop of \<open>_csv_fields\<close>: the characters so far, whether any was quoted, whether inside quotes.\<close>

fun csv_fields_from :: "copy_options \<Rightarrow> pystr \<Rightarrow> bool \<Rightarrow> bool \<Rightarrow> pystr \<Rightarrow> pystr option list" where
  "csv_fields_from opts cur quoted inq [] = [csv_value opts cur quoted]"
| "csv_fields_from opts cur quoted inq (c # s) =
     (let q = co_quote opts; e = co_escape opts in
      if inq then
        if e \<noteq> q \<and> c = e \<and> s \<noteq> [] then csv_fields_from opts (cur @ [hd s]) quoted True (tl s)
        else if c = q then
          if e = q \<and> s \<noteq> [] \<and> hd s = q then csv_fields_from opts (cur @ [q]) quoted True (tl s)
          else csv_fields_from opts cur quoted False s
        else csv_fields_from opts (cur @ [c]) quoted True s
      else if c = q then csv_fields_from opts cur True True s
      else if c = co_delimiter opts then csv_value opts cur quoted # csv_fields_from opts [] False False s
      else csv_fields_from opts (cur @ [c]) quoted False s)"

definition csv_fields :: "copy_options \<Rightarrow> pystr \<Rightarrow> pystr option list" where
  "csv_fields opts record = csv_fields_from opts [] False False record"

section \<open>The incremental decoder\<close>

record copy_decoder =
  cd_utf8 :: bytes
  cd_pending :: pystr
  cd_ended :: bool
  cd_skip_header :: bool

definition CopyInDecoder :: "copy_options \<Rightarrow> copy_decoder" where
  "CopyInDecoder opts = \<lparr>cd_utf8 = [], cd_pending = [], cd_ended = False, cd_skip_header = co_header opts\<rparr>"

text \<open>\<open>_split_csv_record\<close>: the record before the first newline outside quotes, and what follows it.\<close>

definition keep_text :: "pystr \<Rightarrow> (pystr \<times> pystr) option \<Rightarrow> (pystr \<times> pystr) option" where
  "keep_text pre found = (case found of None \<Rightarrow> None | Some (r, rest) \<Rightarrow> Some (pre @ r, rest))"

lemma keep_text_cong [fundef_cong]: "a = b \<Longrightarrow> x = y \<Longrightarrow> keep_text a x = keep_text b y"
  by simp

fun split_csv_record :: "pychar \<Rightarrow> pychar \<Rightarrow> bool \<Rightarrow> pystr \<Rightarrow> (pystr \<times> pystr) option" where
  "split_csv_record q e inq [] = None"
| "split_csv_record q e inq (c # s) =
     (if \<not> inq then
        if c = q then keep_text [c] (split_csv_record q e True s)
        else if c = 10 then Some ([], s)
        else keep_text [c] (split_csv_record q e False s)
      else if e \<noteq> q \<and> c = e then
        (case s of [] \<Rightarrow> None | d # t \<Rightarrow> keep_text [c, d] (split_csv_record q e True t))
      else if c = q then
        if e \<noteq> q then keep_text [c] (split_csv_record q e False s)
        else (case s of [] \<Rightarrow> None
              | d # t \<Rightarrow> if d = q then keep_text [c, d] (split_csv_record q e True t)
                        else keep_text [c] (split_csv_record q e False s))
      else keep_text [c] (split_csv_record q e True s))"

lemma keep_text_Some: "keep_text pre x = Some (r, rest) \<longleftrightarrow> (\<exists>r'. x = Some (r', rest) \<and> r = pre @ r')"
  by (auto simp: keep_text_def split: option.splits)

definition split_record :: "copy_options \<Rightarrow> pystr \<Rightarrow> (pystr \<times> pystr) option" where
  "split_record opts buffer =
     (if \<not> is_csv opts then
        (case find_char 10 buffer of None \<Rightarrow> None | Some i \<Rightarrow> Some (take i buffer, drop (Suc i) buffer))
      else split_csv_record (co_quote opts) (co_escape opts) False buffer)"

definition decode_record :: "copy_options \<Rightarrow> pystr \<Rightarrow> copy_decoder \<Rightarrow> pystr option list list \<times> copy_decoder" where
  "decode_record opts rec0 st =
     (let rec = (if ends_with rec0 [13] then butlast rec0 else rec0) in
      if rec = [92, 46] then ([], st\<lparr>cd_ended := True\<rparr>)
      else if cd_skip_header st then ([], st\<lparr>cd_skip_header := False\<rparr>)
      else ([if is_csv opts then csv_fields opts rec else text_fields opts rec], st))"

lemma find_char_less: "find_char c s = Some i \<Longrightarrow> i < length s"
  by (induction s arbitrary: i) (auto split: if_splits)

lemma split_csv_shorter: "split_csv_record q e inq s = Some (r, rest) \<Longrightarrow> length rest < length s"
proof (induction s arbitrary: inq r rest rule: length_induct)
  case (1 s)
  have ih: "length rest' < length t" if "split_csv_record q e i t = Some (r', rest')" "length t < length s" for t i r' rest'
    using "1.IH" that by blast
  show ?case
  proof (cases s)
    case (Cons c s1)
    have "length rest < length (c # s1)" if "split_csv_record q e i s1 = Some (r', rest)" for i r'
      using ih[OF that] Cons by simp
    moreover have "length rest < length (c # d # t)" if "s1 = d # t" "split_csv_record q e i t = Some (r', rest)" for i r' d t
      using ih[OF that(2)] that(1) Cons by simp
    ultimately show ?thesis
      using "1.prems" unfolding Cons
      by (cases s1; simp only: split_csv_record.simps(2)[of q e inq c] list.case split: if_splits)
         (auto simp: keep_text_Some simp del: split_csv_record.simps)
  qed (use "1.prems" in simp)
qed

lemma split_record_shorter: "split_record opts s = Some (r, rest) \<Longrightarrow> length rest < length s"
  by (auto simp: split_record_def dest: split_csv_shorter find_char_less split: if_splits option.splits)

text \<open>The loop of \<open>_consume\<close>.\<close>

function consume_loop :: "copy_options \<Rightarrow> copy_decoder \<Rightarrow> pystr option list list \<times> copy_decoder" where
  "consume_loop opts st =
     (if cd_ended st then ([], st)
      else case split_record opts (cd_pending st) of
        None \<Rightarrow> ([], st)
      | Some (rec, remainder) \<Rightarrow>
          let (rows1, st1) = decode_record opts rec (st\<lparr>cd_pending := remainder\<rparr>);
              (rows2, st2) = consume_loop opts st1 in
          (rows1 @ rows2, st2))"
  by pat_completeness auto
termination
  by (relation "measure (\<lambda>(opts, st). length (cd_pending st))")
     (auto simp: decode_record_def Let_def dest: split_record_shorter split: if_splits)

declare consume_loop.simps [simp del]

definition consume :: "copy_options \<Rightarrow> pystr \<Rightarrow> copy_decoder \<Rightarrow> pystr option list list \<times> copy_decoder" where
  "consume opts text st =
     (let (rows, st1) = consume_loop opts (st\<lparr>cd_pending := cd_pending st @ text\<rparr>) in
      (rows, if cd_ended st1 then st1\<lparr>cd_pending := []\<rparr> else st1))"

definition feed :: "copy_options \<Rightarrow> bytes \<Rightarrow> copy_decoder \<Rightarrow> exc + pystr option list list \<times> copy_decoder" where
  "feed opts data st =
     rbind (utf8_feed (cd_utf8 st @ data)) (\<lambda>(text, left). Inr (consume opts text (st\<lparr>cd_utf8 := left\<rparr>)))"

definition finish :: "copy_options \<Rightarrow> copy_decoder \<Rightarrow> exc + pystr option list list \<times> copy_decoder" where
  "finish opts st =
     (if cd_utf8 st \<noteq> [] then Inl UnicodeError
      else let (rows, st1) = consume opts [] st;
               leftover = py_rstrip_chars [13, 10] (cd_pending st1);
               st2 = st1\<lparr>cd_pending := []\<rparr> in
        if leftover \<noteq> [] \<and> \<not> cd_ended st2
        then (let (more, st3) = decode_record opts leftover st2 in Inr (rows @ more, st3))
        else Inr (rows, st2))"

text \<open>A whole copy-in: the payloads of the CopyData messages in order, then CopyDone.\<close>

fun feed_all :: "copy_options \<Rightarrow> bytes list \<Rightarrow> copy_decoder \<Rightarrow> exc + pystr option list list \<times> copy_decoder" where
  "feed_all opts [] st = Inr ([], st)"
| "feed_all opts (p # ps) st =
     rbind (feed opts p st) (\<lambda>(rows1, st1). rbind (feed_all opts ps st1) (\<lambda>(rows2, st2). Inr (rows1 @ rows2, st2)))"

definition decode_copy :: "copy_options \<Rightarrow> bytes list \<Rightarrow> exc + pystr option list list" where
  "decode_copy opts payloads =
     rbind (feed_all opts payloads (CopyInDecoder opts)) (\<lambda>(rows1, st).
     rbind (finish opts st) (\<lambda>(rows2, _). Inr (rows1 @ rows2)))"

end
