(* ===== verification/Copy_Roundtrip.thy ===== *)
theory Copy_Roundtrip
  imports Copy_Codec
begin

text \<open>
  What COPY promises: how a client cuts the data stream into CopyData messages makes no
  difference to the rows (\<open>decode_copy_chunking\<close>), and the rows that the encoder writes, in text
  or CSV format, are the rows that the decoder reads (\<open>copy_text_roundtrip\<close>,
  \<open>copy_csv_roundtrip\<close>).

  The locale \<open>line_format\<close> is the contract between the record splitter, the field decoder and the
  encoder of one format; the stream lemma is proved once inside it and interpreted for both.
\<close>

section \<open>Cutting the stream anywhere\<close>

lemma find_char_append_Some: "find_char c a = Some i \<Longrightarrow> find_char c (a @ b) = Some i"
  by (induction a arbitrary: i) (auto split: if_splits)

lemma split_csv_append:
  "split_csv_record q e inq a = Some (r, rest) \<Longrightarrow> split_csv_record q e inq (a @ b) = Some (r, rest @ b)"
proof (induction a arbitrary: inq r rest rule: length_induct)
  case (1 a)
  have ih: "split_csv_record q e i (t @ b) = Some (r', rest' @ b)"
    if "split_csv_record q e i t = Some (r', rest')" "length t < length a" for t i r' rest'
    using "1.IH" that by blast
  show ?case
  proof (cases a)
    case (Cons c s)
    have tail: "split_csv_record q e i (s @ b) = Some (r', rest @ b)"
      if "split_csv_record q e i s = Some (r', rest)" for i r'
      using ih[OF that] Cons by simp
    have tail2: "split_csv_record q e i (t @ b) = Some (r', rest @ b)"
      if "s = d # t" "split_csv_record q e i t = Some (r', rest)" for i r' d t
      using ih[OF that(2)] that(1) Cons by simp
    show ?thesis
      using "1.prems" tail tail2 unfolding Cons
      by (cases s; simp only: append_Cons append_Nil split_csv_record.simps(2)[of q e inq c] list.case split: if_splits)
         (auto simp: keep_text_Some simp del: split_csv_record.simps)
  qed (use "1.prems" in simp)
qed

lemma split_record_append:
  assumes "split_record opts a = Some (r, rest)"
  shows "split_record opts (a @ b) = Some (r, rest @ b)"
proof (cases "is_csv opts")
  case True
  then show ?thesis using assms split_csv_append by (simp add: split_record_def)
next
  case False
  then obtain i where i: "find_char 10 a = Some i" "r = take i a" "rest = drop (Suc i) a"
    using assms by (auto simp: split_record_def split: option.splits)
  have "i < length a" by (rule find_char_less[OF i(1)])
  with i(2,3) find_char_append_Some[OF i(1), of b] False show ?thesis by (simp add: split_record_def)
qed

lemma decode_record_frame:
  assumes "decode_record opts r st = (rows, st')"
  shows "cd_pending st' = cd_pending st" "cd_utf8 st' = cd_utf8 st"
    "decode_record opts r (st\<lparr>cd_pending := p\<rparr>) = (rows, st'\<lparr>cd_pending := p\<rparr>)"
    "decode_record opts r (st\<lparr>cd_utf8 := u\<rparr>) = (rows, st'\<lparr>cd_utf8 := u\<rparr>)"
  using assms by (auto simp: decode_record_def Let_def split: if_splits)

lemma cd_commute: "st\<lparr>cd_utf8 := u, cd_pending := p\<rparr> = st\<lparr>cd_pending := p, cd_utf8 := u\<rparr>"
  by (cases st) simp

lemma consume_loop_ended: "cd_ended st \<Longrightarrow> consume_loop opts st = ([], st)"
  by (simp add: consume_loop.simps)

lemma consume_loop_append:
  "consume_loop opts st = (r1, st1) \<Longrightarrow>
   consume_loop opts (st\<lparr>cd_pending := cd_pending st @ b\<rparr>) =
     (case consume_loop opts (st1\<lparr>cd_pending := cd_pending st1 @ b\<rparr>) of (r2, st2) \<Rightarrow> (r1 @ r2, st2))"
proof (induction opts st arbitrary: r1 st1 rule: consume_loop.induct)
  case (1 opts st)
  show ?case
  proof (cases "cd_ended st \<or> split_record opts (cd_pending st) = None")
    case True
    then have "r1 = []" "st1 = st" using "1.prems" by (auto simp: consume_loop.simps[of opts st] split: if_splits)
    then show ?thesis by (simp split: prod.splits)
  next
    case False
    then obtain rec rem where s: "split_record opts (cd_pending st) = Some (rec, rem)" by auto
    obtain rows1 sta where d: "decode_record opts rec (st\<lparr>cd_pending := rem\<rparr>) = (rows1, sta)" by fastforce
    obtain rows2 stb where c: "consume_loop opts sta = (rows2, stb)" by fastforce
    have res: "r1 = rows1 @ rows2" "st1 = stb" using "1.prems" False s d c by (auto simp: consume_loop.simps[of opts st])
    have "cd_pending sta = rem" using decode_record_frame(1)[OF d] by simp
    then have ih: "consume_loop opts (sta\<lparr>cd_pending := rem @ b\<rparr>) =
        (case consume_loop opts (stb\<lparr>cd_pending := cd_pending stb @ b\<rparr>) of (r2, st2) \<Rightarrow> (rows2 @ r2, st2))"
      using "1.IH"[of "(rec, rem)" rec rem "(rows1, sta)" rows1 sta rows2 stb] False s d c by simp
    have "decode_record opts rec (st\<lparr>cd_pending := rem @ b\<rparr>) = (rows1, sta\<lparr>cd_pending := rem @ b\<rparr>)"
      using decode_record_frame(3)[OF d, of "rem @ b"] by simp
    then show ?thesis
      using False split_record_append[OF s, of b] ih res
      by (simp add: consume_loop.simps[of opts "st\<lparr>cd_pending := cd_pending st @ b\<rparr>"] split: prod.splits)
  qed
qed

lemma consume_loop_utf8:
  "consume_loop opts st = (r, st') \<Longrightarrow> consume_loop opts (st\<lparr>cd_utf8 := u\<rparr>) = (r, st'\<lparr>cd_utf8 := u\<rparr>) \<and> cd_utf8 st' = cd_utf8 st"
proof (induction opts st arbitrary: r st' rule: consume_loop.induct)
  case (1 opts st)
  show ?case
  proof (cases "cd_ended st \<or> split_record opts (cd_pending st) = None")
    case True
    then show ?thesis
      using "1.prems" by (auto simp: consume_loop.simps[of opts st] consume_loop.simps[of opts "st\<lparr>cd_utf8 := u\<rparr>"])
  next
    case False
    then obtain rec rem where s: "split_record opts (cd_pending st) = Some (rec, rem)" by auto
    obtain rows1 sta where d: "decode_record opts rec (st\<lparr>cd_pending := rem\<rparr>) = (rows1, sta)" by fastforce
    obtain rows2 stb where c: "consume_loop opts sta = (rows2, stb)" by fastforce
    have res: "r = rows1 @ rows2" "st' = stb" using "1.prems" False s d c by (auto simp: consume_loop.simps[of opts st])
    have "consume_loop opts (sta\<lparr>cd_utf8 := u\<rparr>) = (rows2, stb\<lparr>cd_utf8 := u\<rparr>) \<and> cd_utf8 stb = cd_utf8 sta"
      using "1.IH"[of "(rec, rem)" rec rem "(rows1, sta)" rows1 sta rows2 stb] False s d c by simp
    moreover have "decode_record opts rec (st\<lparr>cd_utf8 := u, cd_pending := rem\<rparr>) = (rows1, sta\<lparr>cd_utf8 := u\<rparr>)"
      "cd_utf8 sta = cd_utf8 st"
      using decode_record_frame(2,4)[OF d] by (simp_all add: cd_commute)
    ultimately show ?thesis
      using False s res by (simp add: consume_loop.simps[of opts "st\<lparr>cd_utf8 := u\<rparr>"] cd_commute)
  qed
qed

lemma consume_append:
  assumes "consume opts a st = (r1, st1)"
  shows "consume opts (a @ b) st = (case consume opts b st1 of (r2, st2) \<Rightarrow> (r1 @ r2, st2))"
proof -
  obtain sta where l: "consume_loop opts (st\<lparr>cd_pending := cd_pending st @ a\<rparr>) = (r1, sta)"
    and st1: "st1 = (if cd_ended sta then sta\<lparr>cd_pending := []\<rparr> else sta)"
    using assms by (auto simp: consume_def split: prod.splits)
  have ab: "consume_loop opts (st\<lparr>cd_pending := cd_pending st @ a @ b\<rparr>) =
      (case consume_loop opts (sta\<lparr>cd_pending := cd_pending sta @ b\<rparr>) of (r2, st2) \<Rightarrow> (r1 @ r2, st2))"
    using consume_loop_append[OF l, of b] by simp
  show ?thesis
  proof (cases "cd_ended sta")
    case True
    then show ?thesis using ab st1 by (simp add: consume_def consume_loop_ended)
  next
    case False
    then show ?thesis using ab st1 by (simp add: consume_def split: prod.splits)
  qed
qed

lemma consume_utf8:
  assumes "consume opts a st = (r, st')"
  shows "consume opts a (st\<lparr>cd_utf8 := u\<rparr>) = (r, st'\<lparr>cd_utf8 := u\<rparr>)" "cd_utf8 st' = cd_utf8 st"
proof -
  obtain sta where l: "consume_loop opts (st\<lparr>cd_pending := cd_pending st @ a\<rparr>) = (r, sta)"
    and st': "st' = (if cd_ended sta then sta\<lparr>cd_pending := []\<rparr> else sta)"
    using assms by (auto simp: consume_def split: prod.splits)
  from consume_loop_utf8[OF l, of u] st'
  show "consume opts a (st\<lparr>cd_utf8 := u\<rparr>) = (r, st'\<lparr>cd_utf8 := u\<rparr>)" "cd_utf8 st' = cd_utf8 st"
    by (auto simp: consume_def cd_commute)
qed

lemma feed_append:
  "feed opts (x @ y) st =
     rbind (feed opts x st) (\<lambda>(r1, s1). rbind (feed opts y s1) (\<lambda>(r2, s2). Inr (r1 @ r2, s2)))"
proof (cases "utf8_feed (cd_utf8 st @ x)")
  case (Inl e)
  then show ?thesis using utf8_feed_append[of "cd_utf8 st @ x" y] by (simp add: feed_def)
next
  case (Inr p)
  obtain cs left where p: "p = (cs, left)" by fastforce
  obtain r1 s1 where c1: "consume opts cs (st\<lparr>cd_utf8 := left\<rparr>) = (r1, s1)" by fastforce
  have u: "cd_utf8 s1 = left" using consume_utf8(2)[OF c1] by simp
  have ap: "consume opts (cs @ ds) (st\<lparr>cd_utf8 := left'\<rparr>) =
      (case consume opts ds (s1\<lparr>cd_utf8 := left'\<rparr>) of (r2, s2) \<Rightarrow> (r1 @ r2, s2))" for ds left'
    using consume_append[OF consume_utf8(1)[OF c1, of left'], of ds] by simp
  show ?thesis
    using utf8_feed_append[of "cd_utf8 st @ x" y] Inr p c1 u
    by (cases "utf8_feed (left @ y)") (auto simp: feed_def ap split: prod.splits)
qed

lemma feed_all_concat: "feed_all opts (p # ps) st = feed opts (concat (p # ps)) st"
proof (induction ps arbitrary: p st)
  case Nil
  then show ?case by (simp add: rbind_def split: sum.splits)
next
  case (Cons q ps)
  show ?case
    using feed_append[of opts p "concat (q # ps)" st] Cons[of q]
    by (simp add: rbind_def split: sum.splits prod.splits)
qed

text \<open>
  C20: the cut of the data stream does not matter: however a client distributes the same bytes
  over CopyData messages (a record, a quoted field or a single UTF-8 character may be split
  between two of them), the decoder returns the same rows, or the same error, as for one
  message holding all of them.
\<close>
theorem decode_copy_chunking: "decode_copy opts payloads = decode_copy opts [concat payloads]"
proof (cases payloads)
  case Nil
  have "consume_loop opts (CopyInDecoder opts) = ([], CopyInDecoder opts)"
    by (simp add: consume_loop.simps CopyInDecoder_def split_record_def split: option.splits)
  then have "feed opts [] (CopyInDecoder opts) = Inr ([], CopyInDecoder opts)"
    by (simp add: feed_def consume_def CopyInDecoder_def)
  then show ?thesis by (simp add: Nil decode_copy_def)
next
  case (Cons p ps)
  then show ?thesis
    using feed_all_concat[of opts p ps] feed_all_concat[of opts "concat payloads" "[]"] by (simp add: decode_copy_def)
qed

section \<open>A stream of well-formed lines\<close>

definition record_text :: "copy_options \<Rightarrow> pystr option list \<Rightarrow> pystr" where
  "record_text opts flds =
     py_join [co_delimiter opts] (map (if is_csv opts then csv_field opts else text_field opts) flds)"

lemma line_text_record: "line_text opts flds = record_text opts flds @ [10]"
  by (simp add: line_text_def record_text_def)

locale line_format =
  fixes opts :: copy_options
    and ok :: "pystr option list \<Rightarrow> bool"
  assumes split_line: "ok flds \<Longrightarrow> split_record opts (record_text opts flds @ 10 # rest) = Some (record_text opts flds, rest)"
    and no_cr: "ok flds \<Longrightarrow> \<not> ends_with (record_text opts flds) [13]"
    and no_marker: "ok flds \<Longrightarrow> record_text opts flds \<noteq> [92, 46]"
    and fields_line: "ok flds \<Longrightarrow>
      (if is_csv opts then csv_fields opts (record_text opts flds) else text_fields opts (record_text opts flds)) = flds"
begin

lemma decode_line:
  "ok flds \<Longrightarrow> decode_record opts (record_text opts flds) st =
     (if cd_skip_header st then ([], st\<lparr>cd_skip_header := False\<rparr>) else ([flds], st))"
  using no_cr[of flds] no_marker[of flds] fields_line[of flds] by (auto simp: decode_record_def)

lemma consume_lines:
  assumes "list_all ok rows" and "\<not> cd_ended st" and "\<not> cd_skip_header st"
    and "cd_pending st = concat (map (line_text opts) rows)"
  shows "consume_loop opts st = (rows, st\<lparr>cd_pending := []\<rparr>)"
  using assms
proof (induction rows arbitrary: st)
  case Nil
  have "split_record opts [] = None" by (auto simp: split_record_def)
  with Nil show ?case by (simp add: consume_loop.simps)
next
  case (Cons r rows)
  have "split_record opts (cd_pending st) = Some (record_text opts r, concat (map (line_text opts) rows))"
    using Cons.prems split_line[of r] by (simp add: line_text_record[of opts r])
  moreover have "consume_loop opts (st\<lparr>cd_pending := concat (map (line_text opts) rows)\<rparr>) = (rows, st\<lparr>cd_pending := []\<rparr>)"
    using Cons.prems Cons.IH[of "st\<lparr>cd_pending := concat (map (line_text opts) rows)\<rparr>"] by simp
  ultimately show ?case
    using Cons.prems by (simp add: consume_loop.simps[of opts st] decode_line)
qed

lemma consume_stream:
  assumes "list_all ok (hdr @ rows)" and "hdr = [] \<longleftrightarrow> \<not> co_header opts" and "length hdr \<le> 1"
    and "st = (CopyInDecoder opts)\<lparr>cd_pending := concat (map (line_text opts) (hdr @ rows))\<rparr>"
  shows "consume_loop opts st = (rows, st\<lparr>cd_pending := [], cd_skip_header := False\<rparr>)"
proof (cases hdr)
  case Nil
  then show ?thesis
    using consume_lines[of rows st] assms by (simp add: CopyInDecoder_def)
next
  case (Cons h t)
  then have h: "hdr = [h]" using assms(3) by simp
  let ?st = "st\<lparr>cd_pending := concat (map (line_text opts) rows), cd_skip_header := False\<rparr>"
  have "split_record opts (cd_pending st) = Some (record_text opts h, concat (map (line_text opts) rows))"
    using assms(1,4) h split_line[of h] by (simp add: line_text_record[of opts h])
  moreover have "consume_loop opts ?st = (rows, ?st\<lparr>cd_pending := []\<rparr>)"
    using assms(1,4) by (intro consume_lines) (auto simp: CopyInDecoder_def)
  ultimately show ?thesis
    using assms h by (subst consume_loop.simps) (simp add: decode_line CopyInDecoder_def)
qed

theorem stream_roundtrip:
  assumes "list_all ok (hdr @ rows)" and "hdr = [] \<longleftrightarrow> \<not> co_header opts" and "length hdr \<le> 1"
    and "rmap (line opts) (hdr @ rows) = Inr ls" and "concat payloads = concat ls"
  shows "decode_copy opts payloads = Inr rows"
proof -
  let ?text = "concat (map (line_text opts) (hdr @ rows))"
  have "list_all encodable ?text \<and> concat ls = concat (map utf8_char ?text)"
    using assms(4)
  proof (induction "hdr @ rows" arbitrary: hdr rows ls)
    case (Cons x xs)
    then have "rmap (line opts) (x # xs) = Inr ls" by simp
    then obtain l ls' where "ls = l # ls'" "line opts x = Inr l" "rmap (line opts) xs = Inr ls'" by auto
    moreover from this Cons.hyps(1)[of "[]" xs] have
      "list_all encodable (concat (map (line_text opts) xs)) \<and> concat ls' = concat (map utf8_char (concat (map (line_text opts) xs)))"
      by simp
    ultimately show ?case by (simp flip: Cons.hyps(2)) (auto simp: line_def utf8_encode_def split: if_splits)
  qed simp
  then have u: "utf8_feed (concat ls) = Inr (?text, [])"
    using utf8_feed_encoded[of ?text "[]"] by simp
  let ?st = "(CopyInDecoder opts)\<lparr>cd_pending := ?text\<rparr>"
  have c: "consume_loop opts ?st = (rows, ?st\<lparr>cd_pending := [], cd_skip_header := False\<rparr>)"
    using consume_stream[OF assms(1-3)] by simp
  then have f: "feed opts (concat ls) (CopyInDecoder opts) = Inr (rows, (CopyInDecoder opts)\<lparr>cd_skip_header := False\<rparr>)"
    using u by (simp add: feed_def consume_def CopyInDecoder_def)
  have "split_record opts [] = None" by (auto simp: split_record_def)
  then have "finish opts ((CopyInDecoder opts)\<lparr>cd_skip_header := False\<rparr>) = Inr ([], (CopyInDecoder opts)\<lparr>cd_skip_header := False\<rparr>)"
    by (simp add: finish_def consume_def CopyInDecoder_def consume_loop.simps py_rstrip_chars_def)
  then show ?thesis
    unfolding decode_copy_chunking[of opts payloads] assms(5) using f by (simp add: decode_copy_def)
qed

end

section \<open>The text format\<close>

text \<open>
  The delimiters that cannot be mistaken for something else after a backslash, with the
  default null string.
\<close>

definition text_delimiter_ok :: "pychar \<Rightarrow> bool" where
  "text_delimiter_ok d \<longleftrightarrow> d \<notin> {10, 13, 46, 78, 92, 98, 102, 110, 114, 116, 118, 120} \<and> \<not> is_octal d"

definition text_row_ok :: "copy_options \<Rightarrow> pystr option list \<Rightarrow> bool" where
  "text_row_ok opts flds \<longleftrightarrow>
     \<not> is_csv opts \<and> co_null_string opts = [92, 78] \<and> text_delimiter_ok (co_delimiter opts) \<and> flds \<noteq> []"

lemma text_char_specials:
  "text_char d 92 = [92, 92]" "text_char d 8 = [92, 98]" "text_char d 12 = [92, 102]" "text_char d 10 = [92, 110]"
  "text_char d 13 = [92, 114]" "text_char d 9 = [92, 116]" "text_char d 11 = [92, 118]"
  "c \<notin> {92, 8, 12, 10, 13, 9, 11} \<Longrightarrow> text_char d c = (if c = d then [92, c] else [c])"
  by (simp_all add: text_char_def TEXT_ESCAPES_def)

lemma text_char_cases:
  obtains "text_char d c = [c]" "c \<notin> {92, 8, 12, 10, 13, 9, 11, d}"
  | m where "text_char d c = [92, m]" "(m, c) \<in> {(92, 92), (98, 8), (102, 12), (110, 10), (114, 13), (116, 9), (118, 11), (d, d)}"
proof -
  consider "c = 92" | "c = 8" | "c = 12" | "c = 10" | "c = 13" | "c = 9" | "c = 11"
    | "c \<notin> {92, 8, 12, 10, 13, 9, 11}" "c = d" | "c \<notin> {92, 8, 12, 10, 13, 9, 11}" "c \<noteq> d"
    by blast
  then show ?thesis
    by cases (simp_all add: that text_char_specials)
qed

lemma raw_fields_char: "d \<noteq> 92 \<Longrightarrow> raw_fields d cur (text_char d c @ s) = raw_fields d (cur @ text_char d c) s"
  by (rule text_char_cases[of d c]) auto

lemma raw_fields_text:
  "d \<noteq> 92 \<Longrightarrow> raw_fields d cur (concat (map (text_char d) t) @ s) = raw_fields d (cur @ concat (map (text_char d) t)) s"
proof (induction t arbitrary: cur)
  case (Cons c t)
  have "raw_fields d cur (text_char d c @ concat (map (text_char d) t) @ s) =
      raw_fields d (cur @ text_char d c) (concat (map (text_char d) t) @ s)"
    using Cons.prems by (rule raw_fields_char)
  with Cons.IH[of "cur @ text_char d c"] Cons.prems show ?case by simp
qed simp

lemma raw_fields_field:
  assumes "co_null_string opts = [92, 78]" "co_delimiter opts \<noteq> 92"
  shows "raw_fields (co_delimiter opts) [] (text_field opts f @ s) = raw_fields (co_delimiter opts) (text_field opts f) s"
  using assms raw_fields_text[of "co_delimiter opts" "[]"] by (auto simp: text_field_def split: option.splits)

lemma raw_fields_record:
  assumes "co_null_string opts = [92, 78]" "co_delimiter opts \<noteq> 92"
  shows "flds \<noteq> [] \<Longrightarrow>
    raw_fields (co_delimiter opts) [] (py_join [co_delimiter opts] (map (text_field opts) flds)) = map (text_field opts) flds"
proof (induction flds)
  case (Cons f flds)
  show ?case
  proof (cases flds)
    case Nil
    then show ?thesis using raw_fields_field[OF assms, of f "[]"] by (simp add: py_join_def)
  next
    case (Cons g gs)
    have "py_join [co_delimiter opts] (map (text_field opts) (f # flds)) =
        text_field opts f @ co_delimiter opts # py_join [co_delimiter opts] (map (text_field opts) flds)"
      by (simp add: Cons py_join_def)
    then show ?thesis
      using raw_fields_field[OF assms, of f] Cons.IH Cons assms(2) by simp
  qed
qed simp

lemma unescape_char:
  assumes "text_delimiter_ok d"
  shows "unescape_text (text_char d c @ s) = c # unescape_text s"
proof (rule text_char_cases[of d c])
  fix m assume m: "text_char d c = [92, m]"
    "(m, c) \<in> {(92, 92), (98, 8), (102, 12), (110, 10), (114, 13), (116, 9), (118, 11), (d, d)}"
  have "d \<notin> {98, 102, 110, 114, 116, 118, 120}" "\<not> is_octal d" using assms by (auto simp: text_delimiter_ok_def)
  then have u: "map_of TEXT_UNESCAPES d = None" "map_of TEXT_UNESCAPES 92 = None" "\<not> is_octal 92" "d \<noteq> 120" "\<not> is_octal d"
    by (simp_all add: TEXT_UNESCAPES_def is_octal_def)
  consider "m = 92" "c = 92" | "m = d" "c = d" | "map_of TEXT_UNESCAPES m = Some c"
    using m(2) by (auto simp: TEXT_UNESCAPES_def)
  then show ?thesis unfolding m(1) by cases (simp_all add: Let_def u)
qed auto

lemma unescape_text_field: "text_delimiter_ok d \<Longrightarrow> unescape_text (concat (map (text_char d) t)) = t"
  by (induction t) (simp_all add: unescape_char)

lemma text_field_two:
  assumes "text_delimiter_ok d" "concat (map (text_char d) t) = [92, m]"
  shows "m \<noteq> 78 \<and> m \<noteq> 46"
proof (cases t)
  case (Cons c t')
  show ?thesis
    by (rule text_char_cases[of d c]) (use assms Cons in \<open>auto simp: text_delimiter_ok_def\<close>)
qed (use assms in simp)

lemma text_field_chars:
  assumes "co_null_string opts = [92, 78]" "text_delimiter_ok (co_delimiter opts)"
  shows "10 \<notin> set (text_field opts f) \<and> 13 \<notin> set (text_field opts f)"
proof (cases f)
  case (Some t)
  have "10 \<notin> set (text_char (co_delimiter opts) c) \<and> 13 \<notin> set (text_char (co_delimiter opts) c)" for c
    by (rule text_char_cases[of "co_delimiter opts" c]) (use assms(2) in \<open>auto simp: text_delimiter_ok_def\<close>)
  then show ?thesis by (auto simp: Some text_field_def)
qed (use assms in \<open>auto simp: text_field_def\<close>)

lemma set_py_join: "set (py_join sep ps) \<subseteq> set sep \<union> (\<Union>p \<in> set ps. set p)"
  by (cases ps) (auto simp: py_join_def)

interpretation text_lines: line_format opts "text_row_ok opts" for opts
proof
  fix flds rest
  assume ok: "text_row_ok opts flds"
  then have o: "\<not> is_csv opts" "co_null_string opts = [92, 78]" "text_delimiter_ok (co_delimiter opts)" "flds \<noteq> []"
    and d: "co_delimiter opts \<noteq> 92" by (auto simp: text_row_ok_def text_delimiter_ok_def)
  have rec: "record_text opts flds = py_join [co_delimiter opts] (map (text_field opts) flds)"
    using o(1) by (simp add: record_text_def)
  have no: "10 \<notin> set (record_text opts flds)" "13 \<notin> set (record_text opts flds)"
    using set_py_join[of "[co_delimiter opts]" "map (text_field opts) flds"] text_field_chars[OF o(2,3)] o(3)
    unfolding rec by (auto simp: text_delimiter_ok_def)
  show "split_record opts (record_text opts flds @ 10 # rest) = Some (record_text opts flds, rest)"
    using find_char_append[OF no(1), of rest] o(1) by (simp add: split_record_def)
  show "\<not> ends_with (record_text opts flds) [13]" using no(2) by (auto simp: ends_with_iff)
  have raw: "raw_fields (co_delimiter opts) [] (record_text opts flds) = map (text_field opts) flds"
    unfolding rec using raw_fields_record[OF o(2) d o(4)] .
  have two: "text_field opts f = [92, m] \<Longrightarrow> m \<noteq> 46 \<and> (m = 78 \<longrightarrow> f = None)" for f m
    using text_field_two[OF o(3)] o(2) by (cases f) (auto simp: text_field_def)
  show "record_text opts flds \<noteq> [92, 46]"
  proof
    assume "record_text opts flds = [92, 46]"
    then have "map (text_field opts) flds = [[92, 46]]" using raw by simp
    then obtain f where "text_field opts f = [92, 46]" by (cases flds) auto
    then show False using two by blast
  qed
  have "(if text_field opts f = [92, 78] then None else Some (unescape_text (text_field opts f))) = f" for f
    using two[of f 78] unescape_text_field[OF o(3)] o(2) by (cases f) (auto simp: text_field_def)
  then show "(if is_csv opts then csv_fields opts (record_text opts flds) else text_fields opts (record_text opts flds)) = flds"
    using o(1,2) by (simp add: text_fields_def raw comp_def)
qed

section \<open>The CSV format\<close>

definition csv_options_ok :: "copy_options \<Rightarrow> bool" where
  "csv_options_ok opts \<longleftrightarrow>
     is_csv opts \<and> co_quote opts \<notin> {co_delimiter opts, 10, 13} \<and> co_delimiter opts \<notin> {10, 13} \<and>
     list_all (\<lambda>c. c \<notin> {co_delimiter opts, co_quote opts, 10, 13}) (co_null_string opts)"

definition csv_row_ok :: "copy_options \<Rightarrow> pystr option list \<Rightarrow> bool" where
  "csv_row_ok opts flds \<longleftrightarrow> csv_options_ok opts \<and> flds \<noteq> [] \<and> record_text opts flds \<noteq> [92, 46]"

lemma keep_text_simps [simp]: "keep_text [] x = x" "keep_text a (keep_text b x) = keep_text (a @ b) x"
  by (auto simp: keep_text_def split: option.splits)

definition csv_body :: "pychar \<Rightarrow> pychar \<Rightarrow> pystr \<Rightarrow> pystr" where
  "csv_body q e t = concat (map (\<lambda>c. if c \<in> {q, e} then [e, c] else [c]) t)"

lemma split_csv_plain:
  "list_all (\<lambda>c. c \<noteq> q \<and> c \<noteq> 10) t \<Longrightarrow> split_csv_record q e False (t @ s) = keep_text t (split_csv_record q e False s)"
  by (induction t) auto

lemma split_csv_body:
  "split_csv_record q e True (csv_body q e t @ s) = keep_text (csv_body q e t) (split_csv_record q e True s)"
  by (induction t) (auto simp: csv_body_def)

lemma split_csv_close:
  "s \<noteq> [] \<Longrightarrow> hd s \<noteq> q \<Longrightarrow> split_csv_record q e True (q # s) = keep_text [q] (split_csv_record q e False s)"
  by (cases s) auto

lemma csv_fields_plain:
  "list_all (\<lambda>c. c \<noteq> co_quote opts \<and> c \<noteq> co_delimiter opts) t \<Longrightarrow>
   csv_fields_from opts cur quoted False (t @ s) = csv_fields_from opts (cur @ t) quoted False s"
  by (induction t arbitrary: cur) auto

lemma csv_fields_body:
  "s \<noteq> [] \<Longrightarrow> csv_fields_from opts cur quoted True (csv_body (co_quote opts) (co_escape opts) t @ s) =
   csv_fields_from opts (cur @ t) quoted True s"
proof (induction t arbitrary: cur)
  case (Cons c t)
  have "csv_fields_from opts cur quoted True
      ((if c \<in> {co_quote opts, co_escape opts} then [co_escape opts, c] else [c]) @ u) =
      csv_fields_from opts (cur @ [c]) quoted True u" for u
    by (auto simp: Let_def)
  with Cons.IH[OF Cons.prems, of "cur @ [c]"] show ?case by (simp add: csv_body_def)
qed (simp add: csv_body_def)

lemma csv_fields_close:
  "s = [] \<or> hd s \<noteq> co_quote opts \<Longrightarrow>
   csv_fields_from opts cur quoted True (co_quote opts # s) = csv_fields_from opts cur quoted False s"
  by (cases s) (auto simp: Let_def)

lemma csv_field_shape:
  assumes "csv_options_ok opts"
  obtains "list_all (\<lambda>c. c \<notin> {co_delimiter opts, co_quote opts, 10, 13}) (csv_field opts f)"
    "csv_value opts (csv_field opts f) False = f"
  | t where "f = Some t" "csv_field opts f = [co_quote opts] @ csv_body (co_quote opts) (co_escape opts) t @ [co_quote opts]"
proof (cases f)
  case None
  then show ?thesis using assms by (intro that(1)) (auto simp: csv_field_def csv_options_ok_def csv_value_def)
next
  case (Some t)
  show ?thesis
  proof (cases "csv_needs_quotes opts t")
    case True
    then show ?thesis using Some by (intro that(2)[of t]) (simp_all add: csv_field_def csv_body_def)
  next
    case False
    then show ?thesis using Some
      by (intro that(1)) (auto simp: csv_field_def csv_needs_quotes_def csv_value_def list_all_iff list_ex_iff)
  qed
qed

lemma split_csv_field:
  assumes "csv_options_ok opts" "s \<noteq> []" "hd s \<noteq> co_quote opts"
  shows "split_csv_record (co_quote opts) (co_escape opts) False (csv_field opts f @ s) =
    keep_text (csv_field opts f) (split_csv_record (co_quote opts) (co_escape opts) False s)"
proof (rule csv_field_shape[OF assms(1), of f])
  assume "list_all (\<lambda>c. c \<notin> {co_delimiter opts, co_quote opts, 10, 13}) (csv_field opts f)"
  then have "list_all (\<lambda>c. c \<noteq> co_quote opts \<and> c \<noteq> 10) (csv_field opts f)" by (simp add: list_all_iff)
  then show ?thesis by (rule split_csv_plain)
next
  fix t
  assume f: "csv_field opts f = [co_quote opts] @ csv_body (co_quote opts) (co_escape opts) t @ [co_quote opts]"
  show ?thesis
    by (simp only: f append_assoc append_Cons append_Nil split_csv_record.simps(2)[of _ _ False "co_quote opts"] if_True
        not_False_eq_True split_csv_body split_csv_close[OF assms(2,3)] keep_text_simps refl)
qed

lemma csv_fields_field:
  assumes "csv_options_ok opts" "s = [] \<or> hd s = co_delimiter opts"
  shows "\<exists>cur quoted. csv_fields_from opts [] False False (csv_field opts f @ s) = csv_fields_from opts cur quoted False s \<and>
    csv_value opts cur quoted = f"
proof (rule csv_field_shape[OF assms(1), of f])
  assume "list_all (\<lambda>c. c \<notin> {co_delimiter opts, co_quote opts, 10, 13}) (csv_field opts f)"
    "csv_value opts (csv_field opts f) False = f"
  then show ?thesis using csv_fields_plain[of opts "csv_field opts f" "[]" False s] by (auto simp: list_all_iff)
next
  fix t
  assume f: "f = Some t" "csv_field opts f = [co_quote opts] @ csv_body (co_quote opts) (co_escape opts) t @ [co_quote opts]"
  have "s = [] \<or> hd s \<noteq> co_quote opts" using assms by (auto simp: csv_options_ok_def)
  then have "csv_fields_from opts [] True True (csv_body (co_quote opts) (co_escape opts) t @ co_quote opts # s) =
      csv_fields_from opts t True False s"
    by (simp add: csv_fields_body csv_fields_close del: csv_fields_from.simps)
  then have "csv_fields_from opts [] False False (csv_field opts f @ s) = csv_fields_from opts t True False s"
    unfolding f(2) by (simp add: Let_def del: csv_fields_from.simps) (simp add: csv_fields_from.simps(2)[of opts "[]" False False])
  then show ?thesis using f(1) by (auto simp: csv_value_def)
qed

lemma csv_record:
  assumes "csv_options_ok opts"
  shows "flds \<noteq> [] \<Longrightarrow>
    split_csv_record (co_quote opts) (co_escape opts) False (py_join [co_delimiter opts] (map (csv_field opts) flds) @ 10 # rest) =
      Some (py_join [co_delimiter opts] (map (csv_field opts) flds), rest) \<and>
    csv_fields opts (py_join [co_delimiter opts] (map (csv_field opts) flds)) = flds"
proof (induction flds)
  case (Cons f flds)
  have q: "co_quote opts \<noteq> co_delimiter opts" "co_quote opts \<noteq> 10" "co_delimiter opts \<noteq> 10"
    using assms by (auto simp: csv_options_ok_def)
  show ?case
  proof (cases "flds = []")
    case True
    have "\<exists>cur quoted. csv_fields_from opts [] False False (csv_field opts f) = [csv_value opts cur quoted] \<and>
        csv_value opts cur quoted = f"
      using csv_fields_field[OF assms, of "[]" f] by simp
    then show ?thesis
      using True split_csv_field[OF assms, of "10 # rest" f] q
      by (auto simp: py_join_def keep_text_def csv_fields_def)
  next
    case False
    let ?j = "py_join [co_delimiter opts] (map (csv_field opts) flds)"
    have j: "py_join [co_delimiter opts] (map (csv_field opts) (f # flds)) = csv_field opts f @ co_delimiter opts # ?j"
      using False by (cases flds) (auto simp: py_join_def)
    obtain cur quoted where "csv_fields_from opts [] False False (csv_field opts f @ co_delimiter opts # ?j) =
        csv_fields_from opts cur quoted False (co_delimiter opts # ?j)" "csv_value opts cur quoted = f"
      using csv_fields_field[OF assms, of "co_delimiter opts # ?j" f] by auto
    then have "csv_fields opts (csv_field opts f @ co_delimiter opts # ?j) = f # flds"
      using q(1) Cons.IH[OF False] by (simp add: csv_fields_def)
    moreover have "split_csv_record (co_quote opts) (co_escape opts) False (csv_field opts f @ co_delimiter opts # ?j @ 10 # rest) =
        Some (csv_field opts f @ co_delimiter opts # ?j, rest)"
      using split_csv_field[OF assms, of "co_delimiter opts # ?j @ 10 # rest" f] q Cons.IH[OF False]
      by (simp add: keep_text_def)
    ultimately show ?thesis unfolding j by simp
  qed
qed simp

lemma ends_with_one: "ends_with s [x] \<longleftrightarrow> s \<noteq> [] \<and> last s = x"
  by (cases s rule: rev_cases) (auto simp: ends_with_def)

lemma csv_record_no_cr:
  assumes "csv_options_ok opts"
  shows "\<not> ends_with (py_join [co_delimiter opts] (map (csv_field opts) flds)) [13]"
proof -
  have f: "\<not> ends_with (csv_field opts f) [13]" for f
  proof (rule csv_field_shape[OF assms, of f])
    assume "list_all (\<lambda>c. c \<notin> {co_delimiter opts, co_quote opts, 10, 13}) (csv_field opts f)"
    then have "13 \<notin> set (csv_field opts f)" by (auto simp: list_all_iff)
    then show ?thesis by (auto simp: ends_with_iff)
  next
    fix t
    assume "csv_field opts f = [co_quote opts] @ csv_body (co_quote opts) (co_escape opts) t @ [co_quote opts]"
    moreover have "co_quote opts \<noteq> 13" using assms by (simp add: csv_options_ok_def)
    ultimately show ?thesis by (simp add: ends_with_one)
  qed
  have d: "co_delimiter opts \<noteq> 13" using assms by (simp add: csv_options_ok_def)
  show ?thesis
  proof (cases "map (csv_field opts) flds")
    case (Cons p ps)
    have "\<not> ends_with (p @ concat (map (\<lambda>r. [co_delimiter opts] @ r) rs)) [13]" if "\<forall>r \<in> set (p # rs). \<not> ends_with r [13]" for rs
      using that d by (induction rs rule: rev_induct) (auto simp: ends_with_one last_append)
    moreover have "\<forall>r \<in> set (p # ps). \<not> ends_with r [13]" using f Cons[symmetric] by auto
    ultimately have "\<not> ends_with (p @ concat (map (\<lambda>r. [co_delimiter opts] @ r) ps)) [13]" by blast
    then show ?thesis unfolding Cons py_join_def list.case .
  qed (simp add: py_join_def ends_with_def)
qed

interpretation csv_lines: line_format opts "csv_row_ok opts" for opts
proof
  fix flds rest
  assume "csv_row_ok opts flds"
  then have o: "csv_options_ok opts" "is_csv opts" "flds \<noteq> []" "record_text opts flds \<noteq> [92, 46]"
    by (auto simp: csv_row_ok_def csv_options_ok_def)
  have rec: "record_text opts flds = py_join [co_delimiter opts] (map (csv_field opts) flds)"
    using o(2) by (simp add: record_text_def)
  show "split_record opts (record_text opts flds @ 10 # rest) = Some (record_text opts flds, rest)"
    using csv_record[OF o(1,3)] o(2) by (simp add: split_record_def rec)
  show "\<not> ends_with (record_text opts flds) [13]" using csv_record_no_cr[OF o(1)] by (simp add: rec)
  show "record_text opts flds \<noteq> [92, 46]" by (rule o(4))
  show "(if is_csv opts then csv_fields opts (record_text opts flds) else text_fields opts (record_text opts flds)) = flds"
    using csv_record[OF o(1,3), of "[]"] o(2) by (simp add: rec)
qed

section \<open>Rows out, rows in\<close>



text \<open>
  C22: the CSV format round trip: for any delimiter, quote, escape and null string that do not
  collide, the rows that the encoder writes as CSV (quoting fields with delimiters, quotes and
  line breaks, NULL kept apart from the empty string) are read back unchanged, however the bytes
  are cut into CopyData messages; except for a record that is literally the end-of-data marker.
\<close>
theorem copy_csv_roundtrip:
  assumes "list_all (csv_row_ok opts) (hdr @ rows)"
    and "length hdr = (if co_header opts then 1 else 0)"
    and "rmap (line opts) (hdr @ rows) = Inr ls"
    and "concat payloads = concat ls"
  shows "decode_copy opts payloads = Inr rows"
  using assms csv_lines.stream_roundtrip[of opts hdr rows ls payloads] by (cases hdr) (auto split: if_splits)

definition csv_example :: copy_options where
  "csv_example = CopyOptions\<lparr>co_format := lit ''csv'', co_delimiter := 44, co_null_string := [], co_header := True\<rparr>"

theorem copy_csv_roundtrip_witness:
  "decode_copy csv_example [[97, 44, 98, 10, 34, 120, 34], [34, 10, 34, 44, 10]] = Inr [[Some [120, 34, 10], None]]"
proof -
  have c: "is_csv csv_example" by (simp add: is_csv_def csv_example_def)
  have o: "co_delimiter csv_example = 44" "co_quote csv_example = 34" "co_escape csv_example = 34" "co_null_string csv_example = []"
    "co_header csv_example"
    by (simp_all add: csv_example_def CopyOptions_def)
  have l: "rmap (line csv_example) ([[Some [97], Some [98]]] @ [[Some [120, 34, 10], None]]) =
      Inr [[97, 44, 98, 10], [34, 120, 34, 34, 10, 34, 44, 10]]"
    by (simp add: line_def line_text_def c o utf8_encode_def encodable_def utf8_char_def to_byte_def py_join_def csv_field_def
        csv_needs_quotes_def)
  show ?thesis
    by (rule copy_csv_roundtrip[where hdr = "[[Some [97], Some [98]]]", OF _ _ l])
       (simp_all add: csv_row_ok_def csv_options_ok_def c o record_text_def py_join_def csv_field_def csv_needs_quotes_def)
qed

text \<open>
  The exception is real: a one-column CSV row that holds the two characters of the end-of-data
  marker is written unquoted and ends the copy when it is read back; what follows it is lost.
\<close>

lemma csv_marker_ends_data:
  "line (csv_example\<lparr>co_header := False\<rparr>) [Some [92, 46]] = Inr [92, 46, 10]"
  "decode_copy (csv_example\<lparr>co_header := False\<rparr>) [[92, 46, 10, 97, 10]] = Inr []"
proof -
  let ?o = "csv_example\<lparr>co_header := False\<rparr>"
  have c: "is_csv ?o" by (simp add: is_csv_def csv_example_def)
  have o: "co_delimiter ?o = 44" "co_quote ?o = 34" "co_escape ?o = 34" "co_null_string ?o = []" "\<not> co_header ?o"
    by (simp_all add: csv_example_def CopyOptions_def)
  show "line ?o [Some [92, 46]] = Inr [92, 46, 10]"
    by (simp add: line_def line_text_def c o utf8_encode_def encodable_def utf8_char_def to_byte_def py_join_def csv_field_def
        csv_needs_quotes_def)
  have "utf8_feed [92, 46, 10, 97, 10] = Inr ([92, 46, 10, 97, 10], [])"
    by (simp add: utf8_feed.simps Let_def)
  then show "decode_copy ?o [[92, 46, 10, 97, 10]] = Inr []"
    using c o by (simp add: decode_copy_def feed_def CopyInDecoder_def consume_def consume_loop.simps split_record_def
        keep_text_def decode_record_def ends_with_def finish_def py_rstrip_chars_def)
qed

end
