(* ===== verification/Session_State.thy ===== *)
theory Session_State
  imports PyFloat
begin

text \<open>
  \<open>pg_mimic/state.py\<close>: the per-connection state that middleware and sessions share, and the
  snapshots that make settings and LISTEN/NOTIFY transactional.

  The locale \<open>scope_stack\<close> is the contract the transaction and savepoint statements rely on:
  frames are pushed by \<open>open_scope\<close>, a frame keeps the transactional state it was opened with
  whatever is done above it, and \<open>restore_scope\<close> brings that state back. The rollback law is
  proved once inside it, for any sequence of writes, nested scopes and inner rollbacks, and
  \<open>SessionState\<close> is shown to satisfy the contract.
\<close>

section \<open>The state\<close>

text \<open>What a configuration parameter holds; a \<open>float\<close> by its bits.\<close>

datatype setting_value = SBool bool | SInt int | SReal f64 | SStr pystr

record scope_frame =
  sc_session_vars :: "(pystr, setting_value) dict"
  sc_committed_vars :: "(pystr, setting_value) dict"
  sc_listening :: "pystr list"
  sc_pending_notifies :: "(pystr \<times> pystr) list"

record ('st, 'po) session_state =
  ss_username :: pystr
  ss_database :: pystr
  ss_application_name :: pystr
  session_vars :: "(pystr, setting_value) dict"
  committed_vars :: "(pystr, setting_value) dict"
  known_settings :: "pystr list"
  listening :: "pystr list"
  pending_notifies :: "(pystr \<times> pystr) list"
  scopes :: "scope_frame list"
  statements :: "(pystr, 'st) dict"
  portals :: "(pystr, 'po) dict"
  savepoints :: "pystr list"

text \<open>\<open>SessionState(username=..., database=..., application_name=...)\<close>\<close>

definition SessionState :: "pystr \<Rightarrow> pystr \<Rightarrow> pystr \<Rightarrow> ('st, 'po) session_state" where
  "SessionState user db app =
     \<lparr>ss_username = user, ss_database = db, ss_application_name = app, session_vars = [],
      committed_vars = [], known_settings = [], listening = [], pending_notifies = [], scopes = [],
      statements = [], portals = [], savepoints = []\<rparr>"

definition reset :: "('st, 'po) session_state \<Rightarrow> ('st, 'po) session_state" where
  "reset s =
     s\<lparr>session_vars := [], committed_vars := [], listening := [], pending_notifies := [],
       scopes := [], statements := [], portals := [], savepoints := []\<rparr>"

definition take_scope :: "('st, 'po) session_state \<Rightarrow> scope_frame" where
  "take_scope s =
     \<lparr>sc_session_vars = session_vars s, sc_committed_vars = committed_vars s,
      sc_listening = listening s, sc_pending_notifies = pending_notifies s\<rparr>"

definition open_scope :: "('st, 'po) session_state \<Rightarrow> ('st, 'po) session_state" where
  "open_scope s = s\<lparr>scopes := scopes s @ [take_scope s]\<rparr>"

definition discard_scopes :: "nat \<Rightarrow> ('st, 'po) session_state \<Rightarrow> ('st, 'po) session_state" where
  "discard_scopes depth s = s\<lparr>scopes := take depth (scopes s)\<rparr>"

definition restore_scope :: "nat \<Rightarrow> ('st, 'po) session_state \<Rightarrow> ('st, 'po) session_state" where
  "restore_scope depth s =
     (if length (scopes s) \<le> depth then s
      else let sc = scopes s ! depth in
        s\<lparr>session_vars := sc_session_vars sc, committed_vars := sc_committed_vars sc,
          listening := sc_listening sc, pending_notifies := sc_pending_notifies sc,
          scopes := take depth (scopes s)\<rparr>)"

definition commit_transaction :: "('st, 'po) session_state \<Rightarrow> ('st, 'po) session_state" where
  "commit_transaction s = s\<lparr>session_vars := committed_vars s, scopes := []\<rparr>"

definition end_transaction :: "('st, 'po) session_state \<Rightarrow> ('st, 'po) session_state" where
  "end_transaction s = (restore_scope 0 s)\<lparr>scopes := []\<rparr>"

definition take_pending_notifies ::
    "('st, 'po) session_state \<Rightarrow> (pystr \<times> pystr) list \<times> ('st, 'po) session_state" where
  "take_pending_notifies s = (pending_notifies s, s\<lparr>pending_notifies := []\<rparr>)"

lemmas session_state_defs =
  reset_def open_scope_def discard_scopes_def restore_scope_def commit_transaction_def
  end_transaction_def take_pending_notifies_def take_scope_def Let_def

section \<open>The contract of the scope stack\<close>

text \<open>
  \<open>view\<close> is the state that rolls back, \<open>put\<close> an arbitrary write to it, \<open>depth\<close> the number of
  open frames and \<open>snap d\<close> the view frame \<open>d\<close> was opened with.
\<close>

locale scope_stack =
  fixes view :: "'s \<Rightarrow> 'v"
    and put :: "'v \<Rightarrow> 's \<Rightarrow> 's"
    and depth :: "'s \<Rightarrow> nat"
    and snap :: "'s \<Rightarrow> nat \<Rightarrow> 'v"
    and opens :: "'s \<Rightarrow> 's"
    and discard :: "nat \<Rightarrow> 's \<Rightarrow> 's"
    and restore :: "nat \<Rightarrow> 's \<Rightarrow> 's"
  assumes view_put: "view (put v s) = v"
    and depth_put: "depth (put v s) = depth s"
    and snap_put: "snap (put v s) d = snap s d"
    and view_opens: "view (opens s) = view s"
    and depth_opens: "depth (opens s) = Suc (depth s)"
    and snap_opens: "d \<le> depth s \<Longrightarrow> snap (opens s) d = (if d = depth s then view s else snap s d)"
    and view_discard: "view (discard d s) = view s"
    and depth_discard: "depth (discard d s) = min d (depth s)"
    and snap_discard: "e < d \<Longrightarrow> snap (discard d s) e = snap s e"
    and view_restore: "d < depth s \<Longrightarrow> view (restore d s) = snap s d"
    and depth_restore: "depth (restore d s) = min d (depth s)"
    and snap_restore: "e < d \<Longrightarrow> snap (restore d s) e = snap s e"
begin

text \<open>
  The runs that stay above depth \<open>d\<close>: writes, new scopes, and releases and rollbacks of the
  scopes opened above it.
\<close>

inductive above :: "nat \<Rightarrow> 's \<Rightarrow> 's \<Rightarrow> bool" for d where
  above_refl: "above d s s"
| above_put: "above d s t \<Longrightarrow> above d s (put v t)"
| above_opens: "above d s t \<Longrightarrow> above d s (opens t)"
| above_discard: "above d s t \<Longrightarrow> d < e \<Longrightarrow> above d s (discard e t)"
| above_restore: "above d s t \<Longrightarrow> d < e \<Longrightarrow> above d s (restore e t)"

lemma above_frame: "above d s t \<Longrightarrow> d < depth s \<Longrightarrow> d < depth t \<and> snap t d = snap s d"
proof (induction rule: above.induct)
  case (above_opens s t)
  then show ?case by (simp add: depth_opens snap_opens)
qed (simp_all add: depth_put snap_put depth_discard snap_discard depth_restore snap_restore)

theorem rollback_restores:
  assumes "above (depth s) (opens s) t"
  shows "view (restore (depth s) t) = view s \<and> depth (restore (depth s) t) = depth s"
proof -
  have "depth s < depth t" "snap t (depth s) = view s"
    using above_frame[OF assms] by (simp_all add: depth_opens snap_opens)
  then show ?thesis by (simp add: view_restore depth_restore)
qed

theorem release_keeps:
  assumes "above (depth s) (opens s) t"
  shows "view (discard (depth s) t) = view t \<and> depth (discard (depth s) t) = depth s"
  using above_frame[OF assms] by (simp add: view_discard depth_discard depth_opens)

end

section \<open>SessionState keeps the contract\<close>

text \<open>The part of the state that rolls back.\<close>

definition tx_view :: "('st, 'po) session_state \<Rightarrow> scope_frame" where
  "tx_view s = take_scope s"

definition tx_put :: "scope_frame \<Rightarrow> ('st, 'po) session_state \<Rightarrow> ('st, 'po) session_state" where
  "tx_put v s =
     s\<lparr>session_vars := sc_session_vars v, committed_vars := sc_committed_vars v,
       listening := sc_listening v, pending_notifies := sc_pending_notifies v\<rparr>"

definition tx_depth :: "('st, 'po) session_state \<Rightarrow> nat" where
  "tx_depth s = length (scopes s)"

definition tx_snap :: "('st, 'po) session_state \<Rightarrow> nat \<Rightarrow> scope_frame" where
  "tx_snap s d = scopes s ! d"

interpretation state_scopes: scope_stack tx_view tx_put tx_depth tx_snap open_scope discard_scopes restore_scope
  by unfold_locales
     (auto simp: tx_view_def tx_put_def tx_depth_def tx_snap_def session_state_defs nth_append
       split: if_splits)

text \<open>
  \<open>restore_scope\<close> drops the frame it restores from, so a second restore at the same depth undoes nothing.
\<close>

lemma restore_scope_again:
  "restore_scope d ((restore_scope d s)\<lparr>session_vars := v\<rparr>) = (restore_scope d s)\<lparr>session_vars := v\<rparr>"
  by (simp add: restore_scope_def Let_def)

text \<open>
  C14: rolling back to an open scope undoes everything done since: whatever writes to the
  settings, the subscriptions and the pending notifications, further scopes, releases and
  inner rollbacks followed the opening of a scope, restore_scope at its depth brings back
  exactly the transactional state the scope was opened with, and drops the frame.
\<close>
theorem restore_scope_undoes:
  assumes "state_scopes.above (length (scopes s)) (open_scope s) t"
  shows "take_scope (restore_scope (length (scopes s)) t) = take_scope s \<and>
    scopes (restore_scope (length (scopes s)) t) = take (length (scopes s)) (scopes t)"
proof -
  have a: "state_scopes.above (tx_depth s) (open_scope s) t"
    using assms by (simp add: tx_depth_def)
  have "tx_depth s < tx_depth t"
    using state_scopes.above_frame[OF a] by (simp add: state_scopes.depth_opens)
  then show ?thesis
    using state_scopes.rollback_restores[OF a]
    by (auto simp: tx_depth_def tx_view_def session_state_defs)
qed

theorem restore_scope_undoes_witness:
  "take_scope (restore_scope 0 (tx_put
      \<lparr>sc_session_vars = [(lit ''a'', SInt 1)], sc_committed_vars = [], sc_listening = [lit ''c''],
       sc_pending_notifies = []\<rparr>
      (open_scope (SessionState [] [] [] :: (unit, unit) session_state)))) =
   take_scope (SessionState [] [] [] :: (unit, unit) session_state)"
  using restore_scope_undoes[of "SessionState [] [] [] :: (unit, unit) session_state",
      OF state_scopes.above_put[OF state_scopes.above_refl, where v =
        "\<lparr>sc_session_vars = [(lit ''a'', SInt 1)], sc_committed_vars = [], sc_listening = [lit ''c''],
          sc_pending_notifies = []\<rparr>"]]
  by (simp add: SessionState_def)

text \<open>
  RELEASE keeps what the released scope did: after any run above an open scope,
  discard_scopes at its depth leaves the settings, subscriptions and notifications as they
  are and drops only the frames.
\<close>
theorem discard_scopes_keeps:
  assumes "state_scopes.above (length (scopes s)) (open_scope s) t"
  shows "take_scope (discard_scopes (length (scopes s)) t) = take_scope t \<and>
    length (scopes (discard_scopes (length (scopes s)) t)) = length (scopes s)"
proof -
  have a: "state_scopes.above (tx_depth s) (open_scope s) t"
    using assms by (simp add: tx_depth_def)
  then show ?thesis
    using state_scopes.release_keeps[OF a] by (simp add: tx_depth_def tx_view_def)
qed

theorem discard_scopes_keeps_witness:
  "take_scope (discard_scopes 0 (tx_put
      \<lparr>sc_session_vars = [(lit ''a'', SInt 1)], sc_committed_vars = [], sc_listening = [],
       sc_pending_notifies = []\<rparr>
      (open_scope (SessionState [] [] [] :: (unit, unit) session_state)))) =
   take_scope (tx_put
      \<lparr>sc_session_vars = [(lit ''a'', SInt 1)], sc_committed_vars = [], sc_listening = [],
       sc_pending_notifies = []\<rparr>
      (open_scope (SessionState [] [] [] :: (unit, unit) session_state)))"
  using discard_scopes_keeps[of "SessionState [] [] [] :: (unit, unit) session_state",
      OF state_scopes.above_put[OF state_scopes.above_refl, where v =
        "\<lparr>sc_session_vars = [(lit ''a'', SInt 1)], sc_committed_vars = [], sc_listening = [],
          sc_pending_notifies = []\<rparr>"]]
  by (simp add: SessionState_def)

text \<open>Nothing but the frames and the transactional part is touched by the scope operations.\<close>

lemma scope_ops_frame [simp]:
  "statements (restore_scope d s) = statements s"
  "portals (restore_scope d s) = portals s"
  "savepoints (restore_scope d s) = savepoints s"
  "known_settings (restore_scope d s) = known_settings s"
  "statements (open_scope s) = statements s"
  "savepoints (open_scope s) = savepoints s"
  "known_settings (open_scope s) = known_settings s"
  "savepoints (discard_scopes d s) = savepoints s"
  "statements (end_transaction s) = statements s"
  "savepoints (end_transaction s) = savepoints s"
  "known_settings (end_transaction s) = known_settings s"
  "statements (commit_transaction s) = statements s"
  "savepoints (commit_transaction s) = savepoints s"
  "known_settings (commit_transaction s) = known_settings s"
  by (simp_all add: session_state_defs)

end
