(* ===== verification/Messages.thy ===== *)
theory Messages
  imports Wire
begin

text \<open>
  \<open>pg_mimic/messages.py\<close>: the tags and codes, every backend message builder and every frontend
  message parser. A builder returns \<open>exc + bytes\<close>: \<open>struct\<close> refuses a length or a count out of
  range and \<open>str.encode\<close> a surrogate, and both exceptions are branches here. A parser reads
  positionally from a payload and raises what Python raises on a short or malformed one.

  The layouts a frontend uses (\<open>enc_bind\<close>, \<open>enc_parse\<close>, \<open>enc_startup\<close> and so on) are the
  specification side: the parsers are proved to invert them on every well-formed message, and
  a payload reader for DataRow and RowDescription recovers what the builders put in.
\<close>

section \<open>Tags and codes\<close>

definition BIND :: byte where "BIND = 0x42"
definition CLOSE :: byte where "CLOSE = 0x43"
definition DESCRIBE :: byte where "DESCRIBE = 0x44"
definition EXECUTE :: byte where "EXECUTE = 0x45"
definition FLUSH :: byte where "FLUSH = 0x48"
definition PARSE :: byte where "PARSE = 0x50"
definition PASSWORD :: byte where "PASSWORD = 0x70"
definition QUERY :: byte where "QUERY = 0x51"
definition SYNC :: byte where "SYNC = 0x53"
definition TERMINATE :: byte where "TERMINATE = 0x58"
definition COPY_DATA :: byte where "COPY_DATA = 0x64"
definition COPY_DONE :: byte where "COPY_DONE = 0x63"
definition COPY_FAIL :: byte where "COPY_FAIL = 0x66"

lemmas frontend_tags =
  BIND_def CLOSE_def DESCRIBE_def EXECUTE_def FLUSH_def PARSE_def PASSWORD_def QUERY_def
  SYNC_def TERMINATE_def COPY_DATA_def COPY_DONE_def COPY_FAIL_def

definition AUTHENTICATION :: byte where "AUTHENTICATION = 0x52"
definition BACKEND_KEY_DATA :: byte where "BACKEND_KEY_DATA = 0x4B"
definition BIND_COMPLETE :: byte where "BIND_COMPLETE = 0x32"
definition CLOSE_COMPLETE :: byte where "CLOSE_COMPLETE = 0x33"
definition COMMAND_COMPLETE :: byte where "COMMAND_COMPLETE = 0x43"
definition COPY_IN_RESPONSE :: byte where "COPY_IN_RESPONSE = 0x47"
definition COPY_OUT_RESPONSE :: byte where "COPY_OUT_RESPONSE = 0x48"
definition DATA_ROW :: byte where "DATA_ROW = 0x44"
definition EMPTY_QUERY_RESPONSE :: byte where "EMPTY_QUERY_RESPONSE = 0x49"
definition ERROR_RESPONSE :: byte where "ERROR_RESPONSE = 0x45"
definition NEGOTIATE_PROTOCOL_VERSION :: byte where "NEGOTIATE_PROTOCOL_VERSION = 0x76"
definition NO_DATA :: byte where "NO_DATA = 0x6E"
definition NOTICE_RESPONSE :: byte where "NOTICE_RESPONSE = 0x4E"
definition NOTIFICATION_RESPONSE :: byte where "NOTIFICATION_RESPONSE = 0x41"
definition PARAMETER_DESCRIPTION :: byte where "PARAMETER_DESCRIPTION = 0x74"
definition PARAMETER_STATUS :: byte where "PARAMETER_STATUS = 0x53"
definition PARSE_COMPLETE :: byte where "PARSE_COMPLETE = 0x31"
definition PORTAL_SUSPENDED :: byte where "PORTAL_SUSPENDED = 0x73"
definition READY_FOR_QUERY :: byte where "READY_FOR_QUERY = 0x5A"
definition ROW_DESCRIPTION :: byte where "ROW_DESCRIPTION = 0x54"

lemmas backend_tags =
  AUTHENTICATION_def BACKEND_KEY_DATA_def BIND_COMPLETE_def CLOSE_COMPLETE_def COMMAND_COMPLETE_def
  COPY_IN_RESPONSE_def COPY_OUT_RESPONSE_def DATA_ROW_def EMPTY_QUERY_RESPONSE_def ERROR_RESPONSE_def
  NEGOTIATE_PROTOCOL_VERSION_def NO_DATA_def NOTICE_RESPONSE_def NOTIFICATION_RESPONSE_def
  PARAMETER_DESCRIPTION_def PARAMETER_STATUS_def PARSE_COMPLETE_def PORTAL_SUSPENDED_def
  READY_FOR_QUERY_def ROW_DESCRIPTION_def

definition SSL_REQUEST_CODE :: int where "SSL_REQUEST_CODE = 80877103"
definition CANCEL_REQUEST_CODE :: int where "CANCEL_REQUEST_CODE = 80877102"
definition GSSENC_REQUEST_CODE :: int where "GSSENC_REQUEST_CODE = 80877104"

definition PROTOCOL_MAJOR :: int where "PROTOCOL_MAJOR = 3"
definition PROTOCOL_MINOR :: int where "PROTOCOL_MINOR = 0"
definition PROTOCOL_VERSION :: int where "PROTOCOL_VERSION = PROTOCOL_MAJOR * 65536 + PROTOCOL_MINOR"

definition PROTOCOL_EXTENSION_PREFIX :: pystr where "PROTOCOL_EXTENSION_PREFIX = lit ''_pq_.''"

definition TARGET_STATEMENT :: nat where "TARGET_STATEMENT = 83"
definition TARGET_PORTAL :: nat where "TARGET_PORTAL = 80"

section \<open>Backend message builders\<close>

definition message :: "byte \<Rightarrow> bytes \<Rightarrow> exc + bytes" where
  "message tag payload =
     rbind (pack_int32 (int (length payload) + 4)) (\<lambda>l. Inr ([tag] @ l @ payload))"

text \<open>\<open>payload += part\<close> for parts that may raise: the first exception wins.\<close>

fun rconcat :: "(exc + bytes) list \<Rightarrow> exc + bytes" where
  "rconcat [] = Inr []"
| "rconcat (m # ms) = rbind m (\<lambda>a. rbind (rconcat ms) (\<lambda>b. Inr (a @ b)))"

definition make_authentication_ok :: "exc + bytes" where
  "make_authentication_ok = rbind (pack_int32 0) (message AUTHENTICATION)"

definition make_authentication_cleartext_password :: "exc + bytes" where
  "make_authentication_cleartext_password = rbind (pack_int32 3) (message AUTHENTICATION)"

definition make_authentication_md5_password :: "bytes \<Rightarrow> exc + bytes" where
  "make_authentication_md5_password salt =
     rbind (pack_int32 5) (\<lambda>c. message AUTHENTICATION (c @ salt))"

definition make_authentication_sasl :: "pystr list \<Rightarrow> exc + bytes" where
  "make_authentication_sasl mechanisms =
     rbind (rconcat (pack_int32 10 # map cstring mechanisms @ [Inr [0]])) (message AUTHENTICATION)"

definition make_authentication_sasl_continue :: "bytes \<Rightarrow> exc + bytes" where
  "make_authentication_sasl_continue dat =
     rbind (pack_int32 11) (\<lambda>c. message AUTHENTICATION (c @ dat))"

definition make_authentication_sasl_final :: "bytes \<Rightarrow> exc + bytes" where
  "make_authentication_sasl_final dat =
     rbind (pack_int32 12) (\<lambda>c. message AUTHENTICATION (c @ dat))"

definition make_parameter_status :: "pystr \<Rightarrow> pystr \<Rightarrow> exc + bytes" where
  "make_parameter_status name v = rbind (rconcat [cstring name, cstring v]) (message PARAMETER_STATUS)"

definition make_backend_key_data :: "int \<Rightarrow> int \<Rightarrow> exc + bytes" where
  "make_backend_key_data pid secret =
     rbind (rconcat [pack_int32 pid, pack_int32 secret]) (message BACKEND_KEY_DATA)"

definition make_ready_for_query :: "byte \<Rightarrow> exc + bytes" where
  "make_ready_for_query status =
     (if status \<in> {0x49, 0x54, 0x45} then message READY_FOR_QUERY [status] else Inl AssertionError)"

record field_spec =
  fs_name :: pystr
  fs_oid :: int
  fs_table_oid :: int
  fs_column_attnum :: int
  fs_type_size :: int
  fs_type_modifier :: int
  fs_format_code :: int

text \<open>\<open>FieldSpec(name=..., oid=..., format_code=...)\<close> with the dataclass defaults.\<close>

definition FieldSpec :: "pystr \<Rightarrow> int \<Rightarrow> int \<Rightarrow> field_spec" where
  "FieldSpec name oid format_code =
     \<lparr>fs_name = name, fs_oid = oid, fs_table_oid = 0, fs_column_attnum = 0, fs_type_size = -1,
      fs_type_modifier = -1, fs_format_code = format_code\<rparr>"

definition field_parts :: "field_spec \<Rightarrow> (exc + bytes) list" where
  "field_parts col =
     [cstring (fs_name col), pack_int32 (fs_table_oid col), pack_int16 (fs_column_attnum col),
      pack_int32 (fs_oid col), pack_int16 (fs_type_size col), pack_int32 (fs_type_modifier col),
      pack_int16 (fs_format_code col)]"

definition make_row_description :: "field_spec list \<Rightarrow> exc + bytes" where
  "make_row_description columns =
     rbind (rconcat (pack_int16 (int (length columns)) # concat (map field_parts columns)))
       (message ROW_DESCRIPTION)"

definition data_value :: "bytes option \<Rightarrow> exc + bytes" where
  "data_value v =
     (case v of None \<Rightarrow> pack_int32 (-1)
      | Some b \<Rightarrow> rbind (pack_int32 (int (length b))) (\<lambda>l. Inr (l @ b)))"

definition make_data_row :: "bytes option list \<Rightarrow> exc + bytes" where
  "make_data_row values =
     rbind (rconcat (pack_int16 (int (length values)) # map data_value values)) (message DATA_ROW)"

definition make_command_complete :: "pystr \<Rightarrow> exc + bytes" where
  "make_command_complete tag = rbind (cstring tag) (message COMMAND_COMPLETE)"

definition make_empty_query_response :: "exc + bytes" where
  "make_empty_query_response = message EMPTY_QUERY_RESPONSE []"

text \<open>\<open>code.encode("ascii")\<close>\<close>

definition ascii_encode :: "pystr \<Rightarrow> exc + bytes" where
  "ascii_encode s = (if list_all (\<lambda>c. c < 128) s then Inr (map to_byte s) else Inl UnicodeError)"

definition fields_message :: "byte \<Rightarrow> (pystr \<times> pystr) list \<Rightarrow> exc + bytes" where
  "fields_message tag flds =
     rbind (rconcat (concat (map (\<lambda>(code, v). [ascii_encode code, utf8_encode v, Inr [0]]) flds) @ [Inr [0]]))
       (message tag)"

definition make_error_response :: "(pystr \<times> pystr) list \<Rightarrow> exc + bytes" where
  "make_error_response flds = fields_message ERROR_RESPONSE flds"

definition make_notice_response :: "(pystr \<times> pystr) list \<Rightarrow> exc + bytes" where
  "make_notice_response flds = fields_message NOTICE_RESPONSE flds"

definition make_notification_response :: "int \<Rightarrow> pystr \<Rightarrow> pystr \<Rightarrow> exc + bytes" where
  "make_notification_response pid channel payload =
     rbind (rconcat [pack_int32 pid, cstring channel, cstring payload]) (message NOTIFICATION_RESPONSE)"

definition make_fatal_error :: "pystr \<Rightarrow> pystr \<Rightarrow> exc + bytes" where
  "make_fatal_error sqlstate msg =
     make_error_response
       [(lit ''S'', lit ''FATAL''), (lit ''V'', lit ''FATAL''), (lit ''C'', sqlstate), (lit ''M'', msg)]"

definition make_negotiate_protocol_version :: "int \<Rightarrow> pystr list \<Rightarrow> exc + bytes" where
  "make_negotiate_protocol_version version unrecognized =
     rbind (rconcat (pack_int32 version # pack_int32 (int (length unrecognized)) # map cstring unrecognized))
       (message NEGOTIATE_PROTOCOL_VERSION)"

definition make_parse_complete :: "exc + bytes" where
  "make_parse_complete = message PARSE_COMPLETE []"

definition make_bind_complete :: "exc + bytes" where
  "make_bind_complete = message BIND_COMPLETE []"

definition make_close_complete :: "exc + bytes" where
  "make_close_complete = message CLOSE_COMPLETE []"

definition make_no_data :: "exc + bytes" where
  "make_no_data = message NO_DATA []"

definition make_portal_suspended :: "exc + bytes" where
  "make_portal_suspended = message PORTAL_SUSPENDED []"

definition make_parameter_description :: "int list \<Rightarrow> exc + bytes" where
  "make_parameter_description oids =
     rbind (rconcat (pack_int16 (int (length oids)) # map pack_int32 oids)) (message PARAMETER_DESCRIPTION)"

definition copy_response :: "byte \<Rightarrow> nat \<Rightarrow> exc + bytes" where
  "copy_response tag column_count =
     rbind (rconcat ([Inr [0], pack_int16 (int column_count)] @ replicate column_count (pack_int16 0)))
       (message tag)"

definition make_copy_in_response :: "nat \<Rightarrow> exc + bytes" where
  "make_copy_in_response column_count = copy_response COPY_IN_RESPONSE column_count"

definition make_copy_out_response :: "nat \<Rightarrow> exc + bytes" where
  "make_copy_out_response column_count = copy_response COPY_OUT_RESPONSE column_count"

definition make_copy_data :: "bytes \<Rightarrow> exc + bytes" where
  "make_copy_data dat = message COPY_DATA dat"

definition make_copy_done :: "exc + bytes" where
  "make_copy_done = message COPY_DONE []"

section \<open>Frontend message parsers\<close>

definition parse_query :: "bytes \<Rightarrow> exc + pystr" where
  "parse_query payload = rbind (read_cstring payload 0) (\<lambda>(sql, _). Inr sql)"

definition parse_password_message :: "bytes \<Rightarrow> bytes" where
  "parse_password_message payload = payload"

definition parse_sasl_initial_response :: "bytes \<Rightarrow> exc + pystr \<times> bytes" where
  "parse_sasl_initial_response payload =
     rbind (read_cstring payload 0) (\<lambda>(mechanism, off).
     rbind (unpack_int32 payload off) (\<lambda>resp_len.
       if resp_len = -1 then Inr (mechanism, [])
       else Inr (mechanism, py_slice payload (off + 4) (off + 4 + resp_len))))"

record parsed_parse =
  pp_statement_name :: pystr
  pp_sql :: pystr
  pp_param_oids :: "int list"

definition parse_parse :: "bytes \<Rightarrow> exc + parsed_parse" where
  "parse_parse payload =
     rbind (read_cstring payload 0) (\<lambda>(statement_name, o1).
     rbind (read_cstring payload o1) (\<lambda>(sql, o2).
     rbind (read_int16 payload o2) (\<lambda>(num_oids, o3).
     rbind (read_n read_int32 (nat num_oids) payload o3) (\<lambda>(oids, _).
       Inr \<lparr>pp_statement_name = statement_name, pp_sql = sql, pp_param_oids = oids\<rparr>))))"

record parsed_bind =
  pb_portal_name :: pystr
  pb_statement_name :: pystr
  pb_param_format_codes :: "int list"
  pb_params :: "bytes option list"
  pb_result_format_codes :: "int list"

definition read_format_codes :: "bytes \<Rightarrow> int \<Rightarrow> exc + int list \<times> int" where
  "read_format_codes payload off =
     rbind (read_int16 payload off) (\<lambda>(count, o1). read_n read_int16 (nat count) payload o1)"

text \<open>One turn of the parameter loop of \<open>parse_bind\<close>: length \<open>-1\<close> is NULL.\<close>

definition read_param :: "bytes \<Rightarrow> int \<Rightarrow> exc + bytes option \<times> int" where
  "read_param payload off =
     rbind (read_int32 payload off) (\<lambda>(len, o1).
       if len = -1 then Inr (None, o1)
       else Inr (Some (py_slice payload o1 (o1 + len)), o1 + len))"

definition parse_bind :: "bytes \<Rightarrow> exc + parsed_bind" where
  "parse_bind payload =
     rbind (read_cstring payload 0) (\<lambda>(portal_name, o1).
     rbind (read_cstring payload o1) (\<lambda>(statement_name, o2).
     rbind (read_format_codes payload o2) (\<lambda>(param_format_codes, o3).
     rbind (read_int16 payload o3) (\<lambda>(num_params, o4).
     rbind (read_n read_param (nat num_params) payload o4) (\<lambda>(params, o5).
     rbind (read_format_codes payload o5) (\<lambda>(result_format_codes, _).
       Inr \<lparr>pb_portal_name = portal_name, pb_statement_name = statement_name,
            pb_param_format_codes = param_format_codes, pb_params = params,
            pb_result_format_codes = result_format_codes\<rparr>))))))"

record parsed_execute =
  pe_portal_name :: pystr
  pe_max_rows :: int

definition parse_execute :: "bytes \<Rightarrow> exc + parsed_execute" where
  "parse_execute payload =
     rbind (read_cstring payload 0) (\<lambda>(portal_name, off).
     rbind (unpack_int32 payload off) (\<lambda>max_rows.
       Inr \<lparr>pe_portal_name = portal_name, pe_max_rows = max_rows\<rparr>))"

record parsed_describe =
  pd_kind :: nat
  pd_name :: pystr

definition parse_describe :: "bytes \<Rightarrow> exc + parsed_describe" where
  "parse_describe payload =
     (case payload of [] \<Rightarrow> Inl IndexError
      | b # _ \<Rightarrow> rbind (read_cstring payload 1) (\<lambda>(name, _). Inr \<lparr>pd_kind = unat b, pd_name = name\<rparr>))"

definition parse_close :: "bytes \<Rightarrow> exc + parsed_describe" where
  "parse_close payload = parse_describe payload"

definition parse_copy_fail :: "bytes \<Rightarrow> exc + pystr" where
  "parse_copy_fail payload = rbind (read_cstring payload 0) (\<lambda>(reason, _). Inr reason)"

lemma read_cstring_advances: "read_cstring data off = Inr (s, off') \<Longrightarrow> off < off' \<and> 0 < off'"
  by (auto simp: read_cstring_def bytes_index_def Let_def split: option.splits if_splits)

text \<open>The \<open>while\<close> loop of \<open>parse_startup_message\<close>: it stops at the lone NUL or at the end.\<close>

function startup_params :: "bytes \<Rightarrow> int \<Rightarrow> (pystr, pystr) dict \<Rightarrow> exc + (pystr, pystr) dict" where
  "startup_params payload off params =
     (if off < int (length payload) \<and> payload ! nat off \<noteq> 0 then
        rbind (read_cstring payload off) (\<lambda>(key, o1).
        rbind (read_cstring payload o1) (\<lambda>(v, o2).
          startup_params payload o2 (dict_set key v params)))
      else Inr params)"
  by pat_completeness auto
termination
  by (relation "measure (\<lambda>(payload, off, params). nat (int (length payload) - off))")
     (auto dest!: read_cstring_advances)

declare startup_params.simps [simp del]

definition parse_startup_message :: "bytes \<Rightarrow> exc + (pystr, pystr) dict" where
  "parse_startup_message payload = startup_params payload 0 []"

definition parse_cancel_request :: "bytes \<Rightarrow> exc + int \<times> int" where
  "parse_cancel_request payload =
     rbind (unpack_int32 payload 0) (\<lambda>pid.
     rbind (unpack_int32 payload 4) (\<lambda>secret. Inr (pid, secret)))"

section \<open>What a frontend sends\<close>

text \<open>
  The layouts of the frontend messages, from which the parsers must recover the fields, and
  the messages the protocol can carry: counts fit 16 bits, lengths and OIDs 32, names have no
  NUL.
\<close>

definition enc_cstring :: "pystr \<Rightarrow> bytes" where
  "enc_cstring s = utf8_bytes s @ [0]"

definition enc_param :: "bytes option \<Rightarrow> bytes" where
  "enc_param v = (case v of None \<Rightarrow> be_bytes 4 (-1) | Some b \<Rightarrow> be_bytes 4 (int (length b)) @ b)"

definition param_ok :: "bytes option \<Rightarrow> bool" where
  "param_ok v = (case v of None \<Rightarrow> True | Some b \<Rightarrow> in_signed 4 (int (length b)))"

definition enc_counted :: "('a \<Rightarrow> bytes) \<Rightarrow> 'a list \<Rightarrow> bytes" where
  "enc_counted enc xs = be_bytes 2 (int (length xs)) @ concat (map enc xs)"

definition counted_ok :: "('a \<Rightarrow> bool) \<Rightarrow> 'a list \<Rightarrow> bool" where
  "counted_ok ok xs \<longleftrightarrow> list_all ok xs \<and> length xs < 32768"

definition enc_parse :: "parsed_parse \<Rightarrow> bytes" where
  "enc_parse p =
     enc_cstring (pp_statement_name p) @ enc_cstring (pp_sql p) @ enc_counted (be_bytes 4) (pp_param_oids p)"

definition parse_ok :: "parsed_parse \<Rightarrow> bool" where
  "parse_ok p \<longleftrightarrow>
     cstring_ok (pp_statement_name p) \<and> cstring_ok (pp_sql p) \<and> counted_ok (in_signed 4) (pp_param_oids p)"

definition enc_bind :: "parsed_bind \<Rightarrow> bytes" where
  "enc_bind b =
     enc_cstring (pb_portal_name b) @ enc_cstring (pb_statement_name b) @
     enc_counted (be_bytes 2) (pb_param_format_codes b) @ enc_counted enc_param (pb_params b) @
     enc_counted (be_bytes 2) (pb_result_format_codes b)"

definition bind_ok :: "parsed_bind \<Rightarrow> bool" where
  "bind_ok b \<longleftrightarrow>
     cstring_ok (pb_portal_name b) \<and> cstring_ok (pb_statement_name b) \<and>
     counted_ok (in_signed 2) (pb_param_format_codes b) \<and> counted_ok param_ok (pb_params b) \<and>
     counted_ok (in_signed 2) (pb_result_format_codes b)"

definition enc_startup :: "(pystr \<times> pystr) list \<Rightarrow> bytes" where
  "enc_startup kvs = concat (map (\<lambda>(k, v). enc_cstring k @ enc_cstring v) kvs) @ [0]"

definition startup_ok :: "(pystr \<times> pystr) list \<Rightarrow> bool" where
  "startup_ok kvs \<longleftrightarrow> list_all (\<lambda>(k, v). cstring_ok k \<and> k \<noteq> [] \<and> cstring_ok v) kvs"

section \<open>The parsers invert the layouts\<close>

interpretation param_codec: codec enc_param read_param param_ok
proof
  fix x :: "bytes option" and pre post :: bytes
  assume ok: "param_ok x"
  show "read_param (pre @ enc_param x @ post) (int (length pre)) =
      Inr (x, int (length pre) + int (length (enc_param x)))"
  proof (cases x)
    case None
    have "read_int32 (pre @ be_bytes 4 (-1) @ post) (int (length pre)) = Inr (-1, int (length pre) + 4)"
      using int32_codec.dec_enc[of "-1" pre post] by (simp add: in_signed_def)
    with None show ?thesis by (simp add: read_param_def enc_param_def)
  next
    case (Some b)
    let ?l = "be_bytes 4 (int (length b))"
    have r: "read_int32 (pre @ ?l @ b @ post) (int (length pre)) = Inr (int (length b), int (length pre) + 4)"
      using ok Some int32_codec.dec_enc[of "int (length b)" pre "b @ post"] by (simp add: param_ok_def)
    have "py_slice ((pre @ ?l) @ b @ post) (int (length (pre @ ?l))) (int (length (pre @ ?l)) + int (length b)) = b"
      by (rule py_slice_mid)
    then have "py_slice (pre @ ?l @ b @ post) (int (length pre) + 4) (int (length pre) + 4 + int (length b)) = b"
      by simp
    with r Some show ?thesis by (simp add: read_param_def enc_param_def)
  qed
qed

lemma read_format_codes_at:
  assumes "counted_ok (in_signed 2) xs" and "data = pre @ enc_counted (be_bytes 2) xs @ post"
    and "off = int (length pre)"
  shows "read_format_codes data off = Inr (xs, int (length (pre @ enc_counted (be_bytes 2) xs)))"
  using int16_codec.counted_at[of xs data pre post off] assms
  by (simp add: read_format_codes_def enc_counted_def counted_ok_def)

lemma read_cstring_at:
  assumes "cstring_ok s" and "data = pre @ enc_cstring s @ post" and "off = int (length pre)"
  shows "read_cstring data off = Inr (s, int (length (pre @ enc_cstring s)))"
  using cstring_codec.dec_at[of s data pre post off] assms by (simp add: enc_cstring_def)

text \<open>
  C16: the Bind parser inverts the wire layout: whatever portal and statement names, format
  codes and parameter values (NULLs included) a client puts into a well-formed Bind message,
  parse_bind recovers exactly those.
\<close>
theorem parse_bind_inverts:
  assumes "bind_ok b"
  shows "parse_bind (enc_bind b) = Inr b"
proof -
  let ?p = "enc_bind b"
  let ?a1 = "enc_cstring (pb_portal_name b)" and ?a2 = "enc_cstring (pb_statement_name b)"
  let ?a3 = "enc_counted (be_bytes 2) (pb_param_format_codes b)"
  let ?a4 = "enc_counted enc_param (pb_params b)"
  let ?a5 = "enc_counted (be_bytes 2) (pb_result_format_codes b)"
  have s1: "read_cstring ?p 0 = Inr (pb_portal_name b, int (length ?a1))"
    using assms read_cstring_at[where pre = "[]"] by (simp add: bind_ok_def enc_bind_def)
  have s2: "read_cstring ?p (int (length ?a1)) = Inr (pb_statement_name b, int (length (?a1 @ ?a2)))"
    using assms by (intro read_cstring_at) (auto simp: bind_ok_def enc_bind_def)
  have s3: "read_format_codes ?p (int (length (?a1 @ ?a2))) =
      Inr (pb_param_format_codes b, int (length ((?a1 @ ?a2) @ ?a3)))"
    using assms by (intro read_format_codes_at) (auto simp: bind_ok_def enc_bind_def)
  have s4: "rbind (read_int16 ?p (int (length ((?a1 @ ?a2) @ ?a3))))
      (\<lambda>(n, o1). read_n read_param (nat n) ?p o1) =
      Inr (pb_params b, int (length (((?a1 @ ?a2) @ ?a3) @ ?a4)))"
    using assms param_codec.counted_at[of "pb_params b" ?p "(?a1 @ ?a2) @ ?a3" ?a5]
    by (simp add: bind_ok_def counted_ok_def enc_bind_def enc_counted_def)
  have s5: "read_format_codes ?p (int (length (((?a1 @ ?a2) @ ?a3) @ ?a4))) =
      Inr (pb_result_format_codes b, int (length ((((?a1 @ ?a2) @ ?a3) @ ?a4) @ ?a5)))"
    using assms by (intro read_format_codes_at) (auto simp: bind_ok_def enc_bind_def)
  from s4 obtain n o4 where
    "read_int16 ?p (int (length ((?a1 @ ?a2) @ ?a3))) = Inr (n, o4)"
    "read_n read_param (nat n) ?p o4 = Inr (pb_params b, int (length (((?a1 @ ?a2) @ ?a3) @ ?a4)))"
    by auto
  with s1 s2 s3 s5 show ?thesis by (simp add: parse_bind_def)
qed

theorem parse_bind_inverts_witness:
  "parse_bind (enc_bind \<lparr>pb_portal_name = lit ''p'', pb_statement_name = [], pb_param_format_codes = [0, 1],
     pb_params = [None, Some [1, 2]], pb_result_format_codes = [1]\<rparr>) =
   Inr \<lparr>pb_portal_name = lit ''p'', pb_statement_name = [], pb_param_format_codes = [0, 1],
     pb_params = [None, Some [1, 2]], pb_result_format_codes = [1]\<rparr>"
  by (rule parse_bind_inverts)
     (simp add: bind_ok_def cstring_ok_def counted_ok_def param_ok_def in_signed_def lit_def encodable_def)

text \<open>
  The Parse parser inverts the wire layout: statement name, query text and declared
  parameter OIDs are recovered exactly.
\<close>
theorem parse_parse_inverts:
  assumes "parse_ok p"
  shows "parse_parse (enc_parse p) = Inr p"
proof -
  let ?d = "enc_parse p"
  let ?a1 = "enc_cstring (pp_statement_name p)" and ?a2 = "enc_cstring (pp_sql p)"
  have s1: "read_cstring ?d 0 = Inr (pp_statement_name p, int (length ?a1))"
    using assms read_cstring_at[where pre = "[]"] by (simp add: parse_ok_def enc_parse_def)
  have s2: "read_cstring ?d (int (length ?a1)) = Inr (pp_sql p, int (length (?a1 @ ?a2)))"
    using assms by (intro read_cstring_at) (auto simp: parse_ok_def enc_parse_def)
  have s3: "rbind (read_int16 ?d (int (length (?a1 @ ?a2)))) (\<lambda>(n, o1). read_n read_int32 (nat n) ?d o1) =
      Inr (pp_param_oids p, int (length ((?a1 @ ?a2) @ enc_counted (be_bytes 4) (pp_param_oids p))))"
    using assms int32_codec.counted_at[of "pp_param_oids p" ?d "?a1 @ ?a2" "[]"]
    by (simp add: parse_ok_def counted_ok_def enc_parse_def enc_counted_def)
  then obtain n o3 where "read_int16 ?d (int (length (?a1 @ ?a2))) = Inr (n, o3)"
    "read_n read_int32 (nat n) ?d o3 =
      Inr (pp_param_oids p, int (length ((?a1 @ ?a2) @ enc_counted (be_bytes 4) (pp_param_oids p))))"
    by auto
  with s1 s2 show ?thesis by (simp add: parse_parse_def)
qed

theorem parse_parse_inverts_witness:
  "parse_parse (enc_parse \<lparr>pp_statement_name = lit ''s'', pp_sql = lit ''x'', pp_param_oids = [23, 0]\<rparr>) =
   Inr \<lparr>pp_statement_name = lit ''s'', pp_sql = lit ''x'', pp_param_oids = [23, 0]\<rparr>"
  by (rule parse_parse_inverts)
     (simp add: parse_ok_def cstring_ok_def counted_ok_def in_signed_def lit_def encodable_def)

lemma enc_cstring_first: "cstring_ok k \<Longrightarrow> k \<noteq> [] \<Longrightarrow> enc_cstring k ! 0 \<noteq> 0"
proof -
  assume "cstring_ok k" "k \<noteq> []"
  moreover from this have "utf8_bytes k \<noteq> []"
    by (cases k) (auto simp: utf8_bytes_def utf8_char_def)
  ultimately show ?thesis using utf8_bytes_no_nul[of k]
    by (cases "utf8_bytes k") (auto simp: enc_cstring_def)
qed

lemma startup_params_at:
  "startup_ok kvs \<Longrightarrow>
   startup_params (pre @ enc_startup kvs) (int (length pre)) params =
     Inr (fold (\<lambda>(k, v). dict_set k v) kvs params)"
proof (induction kvs arbitrary: pre params)
  case Nil
  then show ?case by (simp add: startup_params.simps enc_startup_def nth_append)
next
  case (Cons kv kvs)
  obtain k v where kv: "kv = (k, v)" by (cases kv)
  let ?d = "pre @ enc_startup (kv # kvs)"
  have ok: "cstring_ok k" "k \<noteq> []" "cstring_ok v" "startup_ok kvs"
    using Cons.prems by (auto simp: kv startup_ok_def)
  have d: "?d = pre @ enc_cstring k @ enc_cstring v @ enc_startup kvs"
    by (simp add: enc_startup_def kv)
  have "?d ! length pre = enc_cstring k ! 0"
    unfolding d by (simp add: nth_append enc_cstring_def)
  with enc_cstring_first[OF ok(1,2)] have first: "?d ! nat (int (length pre)) \<noteq> 0" by simp
  have s1: "read_cstring ?d (int (length pre)) = Inr (k, int (length (pre @ enc_cstring k)))"
    using ok(1) d by (rule read_cstring_at) simp
  have s2: "read_cstring ?d (int (length (pre @ enc_cstring k))) =
      Inr (v, int (length ((pre @ enc_cstring k) @ enc_cstring v)))"
    using ok(3) d by (intro read_cstring_at) auto
  have "startup_params ?d (int (length pre)) params =
      startup_params ?d (int (length ((pre @ enc_cstring k) @ enc_cstring v))) (dict_set k v params)"
    by (subst startup_params.simps) (use first s1 s2 in \<open>simp add: enc_startup_def\<close>)
  also have "\<dots> = Inr (fold (\<lambda>(k, v). dict_set k v) kvs (dict_set k v params))"
    using Cons.IH[OF ok(4), of "(pre @ enc_cstring k) @ enc_cstring v"] d by simp
  finally show ?case by (simp add: kv)
qed

text \<open>
  The startup parser reads the whole parameter list of a StartupMessage: the result is the
  dict that assigning the pairs in order gives, so a repeated key keeps its last value.
\<close>
theorem parse_startup_inverts:
  assumes "startup_ok kvs"
  shows "parse_startup_message (enc_startup kvs) = Inr (fold (\<lambda>(k, v). dict_set k v) kvs [])"
  using startup_params_at[OF assms, of "[]"] by (simp add: parse_startup_message_def)

theorem parse_startup_inverts_witness:
  "parse_startup_message (enc_startup [(lit ''a'', lit ''1''), (lit ''b'', []), (lit ''a'', lit ''2'')]) =
   Inr [(lit ''a'', lit ''2''), (lit ''b'', [])]"
  using parse_startup_inverts[of "[(lit ''a'', lit ''1''), (lit ''b'', []), (lit ''a'', lit ''2'')]"]
  by (simp add: startup_ok_def cstring_ok_def lit_def encodable_def)

end
