(* ===== verification/Stream_IO.thy ===== *)
theory Stream_IO
  imports Messages
begin

text \<open>
  \<open>pg_mimic/stream.py\<close>: framing over the asyncio stream. The reader's state is the sequence of
  bytes the peer has still to deliver before it hangs up; \<open>readexactly\<close> on a shorter one raises
  and leaves nothing. Reads are actions on that state, so what a failing read has consumed is
  visible.

  Proved: a message is read back from its own bytes, a sequence of messages is read back in
  order, a length outside the bounds is refused after the header alone, and what is accepted
  never exceeds the configured maximum.
\<close>

section \<open>PgStream\<close>

definition DEFAULT_MAX_MESSAGE_SIZE :: int where
  "DEFAULT_MAX_MESSAGE_SIZE = 64 * 1024 * 1024"

definition MAX_STARTUP_PACKET_LENGTH :: int where
  "MAX_STARTUP_PACKET_LENGTH = 10000"

definition read_exactly :: "nat \<Rightarrow> (bytes, bytes) act" where
  "read_exactly n inp = (if length inp < n then (Inl ConnectionClosed, []) else (Inr (take n inp), drop n inp))"

definition PROTOCOL_VIOLATION :: pystr where "PROTOCOL_VIOLATION = lit ''08P01''"

definition check_length :: "int \<Rightarrow> int \<Rightarrow> int \<Rightarrow> pystr \<Rightarrow> exc + unit" where
  "check_length len minimum maximum what =
     (if len < minimum then
        Inl (ProtocolViolation PROTOCOL_VIOLATION
          (lit ''invalid '' @ what @ lit '' length '' @ int_str len @ lit '': must be at least ''
           @ int_str minimum @ lit '', counting the length itself''))
      else if len > maximum then
        Inl (ProtocolViolation PROTOCOL_VIOLATION
          (lit ''invalid '' @ what @ lit '' length '' @ int_str len @ lit '': exceeds the ''
           @ int_str maximum @ lit ''-byte maximum''))
      else Inr ())"

definition read_startup_packet :: "int \<Rightarrow> (bytes, int \<times> bytes) act" where
  "read_startup_packet max_message_size =
     abind (read_exactly 8) (\<lambda>header.
     abind (alift (unpack_int32 header 0)) (\<lambda>len.
     abind (alift (unpack_int32 header 4)) (\<lambda>code.
     abind (alift (check_length len 8 (min MAX_STARTUP_PACKET_LENGTH max_message_size) (lit ''startup packet''))) (\<lambda>_.
     abind (if len - 8 > 0 then read_exactly (nat (len - 8)) else aret []) (\<lambda>payload.
       aret (code, payload))))))"

definition read_message :: "int \<Rightarrow> (bytes, byte \<times> bytes) act" where
  "read_message max_message_size =
     abind (read_exactly 5) (\<lambda>header.
     abind (alift (unpack_int32 header 1)) (\<lambda>len.
     abind (alift (check_length len 4 max_message_size (lit ''message''))) (\<lambda>_.
     abind (if len > 4 then read_exactly (nat (len - 4)) else aret []) (\<lambda>payload.
       aret (hd header, payload)))))"

text \<open>The reads of the command loop, until \<open>n\<close> messages are in hand.\<close>

fun read_messages :: "int \<Rightarrow> nat \<Rightarrow> (bytes, (byte \<times> bytes) list) act" where
  "read_messages mx 0 = aret []"
| "read_messages mx (Suc n) =
     abind (read_message mx) (\<lambda>m. abind (read_messages mx n) (\<lambda>ms. aret (m # ms)))"

section \<open>The header\<close>

text \<open>
  The header as five bytes: what \<open>read_message\<close> does next depends on the declared length alone.
\<close>

lemma unpack_int32_total: "length h = 5 \<Longrightarrow> unpack_int32 h 1 = Inr (to_signed 4 (be_val (tl h)))"
  by (cases h) (auto simp: unpack_int32_def unpack_signed_def bytes_at_def)

lemma read_message_cases:
  assumes "length h = 5"
  defines "len \<equiv> to_signed 4 (be_val (tl h))"
  shows "read_message mx (h @ rest) =
    (case check_length len 4 mx (lit ''message'') of
       Inl e \<Rightarrow> (Inl e, rest)
     | Inr _ \<Rightarrow>
         if len > 4 then
           (case read_exactly (nat (len - 4)) rest of
              (Inl e, r) \<Rightarrow> (Inl e, r) | (Inr p, r) \<Rightarrow> (Inr (hd h, p), r))
         else (Inr (hd h, []), rest))"
  using assms unpack_int32_total[of h]
  by (auto simp: read_message_def act_defs read_exactly_def split: sum.splits prod.splits)

lemma read_message_short: "length inp < 5 \<Longrightarrow> read_message mx inp = (Inl ConnectionClosed, [])"
  by (simp add: read_message_def act_defs read_exactly_def)

lemma check_length_Inr: "check_length len mn mx w = Inr () \<longleftrightarrow> mn \<le> len \<and> len \<le> mx"
  by (auto simp: check_length_def)

lemma check_length_Inl:
  "check_length len mn mx w = Inl e \<Longrightarrow> \<exists>m. e = ProtocolViolation PROTOCOL_VIOLATION m"
  by (auto simp: check_length_def split: if_splits)

section \<open>Framing\<close>

lemma message_layout:
  "message tag payload = Inr bs \<Longrightarrow>
   bs = [tag] @ be_bytes 4 (int (length payload) + 4) @ payload \<and> in_signed 4 (int (length payload) + 4)"
  by (auto simp: message_def pack_int32_def pack_signed_def split: if_splits)

lemma read_message_message:
  assumes "message tag payload = Inr bs" and "int (length payload) + 4 \<le> mx"
  shows "read_message mx (bs @ rest) = (Inr (tag, payload), rest)"
proof -
  let ?l = "int (length payload) + 4"
  have bs: "bs = [tag] @ be_bytes 4 ?l @ payload" and s: "in_signed 4 ?l"
    using message_layout[OF assms(1)] by auto
  have v: "to_signed 4 (be_val (be_bytes 4 ?l)) = ?l"
    using to_signed_mod[OF s] by (simp add: be_val_be_bytes)
  have "read_message mx ((tag # be_bytes 4 ?l) @ payload @ rest) = (Inr (tag, payload), rest)"
    using assms(2) v by (subst read_message_cases) (auto simp: check_length_def read_exactly_def)
  then show ?thesis by (simp add: bs)
qed

text \<open>
  C15: framing is lossless: the bytes of any sequence of messages (within the size limit),
  written one after the other, are read back as exactly those tags and payloads in order,
  and the reader stops at the first byte after them.
\<close>
theorem read_messages_frames:
  assumes "rmap (\<lambda>(tag, payload). message tag payload) ms = Inr bss"
    and "\<forall>(tag, payload) \<in> set ms. int (length payload) + 4 \<le> mx"
  shows "read_messages mx (length ms) (concat bss @ rest) = (Inr ms, rest)"
  using assms
proof (induction ms arbitrary: bss)
  case Nil
  then show ?case by (simp add: aret_def)
next
  case (Cons m ms)
  obtain tag payload where m: "m = (tag, payload)" by (cases m)
  with Cons.prems(1) obtain b bs' where
    b: "message tag payload = Inr b" "rmap (\<lambda>(tag, payload). message tag payload) ms = Inr bs'" "bss = b # bs'"
    by auto
  have "read_message mx (b @ concat bs' @ rest) = (Inr (tag, payload), concat bs' @ rest)"
    using b(1) Cons.prems(2) m by (intro read_message_message) auto
  moreover have "read_messages mx (length ms) (concat bs' @ rest) = (Inr ms, rest)"
    using Cons.IH[OF b(2)] Cons.prems(2) by auto
  ultimately show ?case by (simp add: b(3) m act_defs)
qed

theorem read_messages_frames_witness:
  "rmap (\<lambda>(tag, payload). message tag payload) [(QUERY, [0x41, 0]), (SYNC, [])]
     = Inr [[0x51, 0, 0, 0, 6, 0x41, 0], [0x53, 0, 0, 0, 4]] \<and>
   read_messages 100 2 ([0x51, 0, 0, 0, 6, 0x41, 0] @ [0x53, 0, 0, 0, 4] @ [7])
     = (Inr [(QUERY, [0x41, 0]), (SYNC, [])], [7])"
proof -
  have e: "rmap (\<lambda>(tag, payload). message tag payload) [(QUERY, [0x41, 0]), (SYNC, [])]
     = Inr [[0x51, 0, 0, 0, 6, 0x41, 0], [0x53, 0, 0, 0, 4]]"
    by (simp add: message_def frontend_tags wire_simps)
  show ?thesis
    using e read_messages_frames[OF e, of 100 "[7]"] by (simp add: numeral_2_eq_2)
qed

text \<open>
  A declared length the peer had no business sending is refused before anything is
  buffered for it: with a length below four (zero or negative) or above the maximum the read
  raises a protocol violation, and only the five header bytes have been consumed.
\<close>
theorem read_message_refuses_length:
  assumes "length h = 5"
    and "to_signed 4 (be_val (tl h)) < 4 \<or> mx < to_signed 4 (be_val (tl h))"
  shows "\<exists>m. read_message mx (h @ rest) = (Inl (ProtocolViolation PROTOCOL_VIOLATION m), rest)"
  using assms(2) by (subst read_message_cases[OF assms(1)]) (auto simp: check_length_def)

theorem read_message_refuses_length_witness:
  "\<exists>m. read_message 100 ([0x51, 0x7F, 0xFF, 0xFF, 0xFF] @ [1, 2])
     = (Inl (ProtocolViolation PROTOCOL_VIOLATION m), [1, 2])"
  by (rule read_message_refuses_length) (simp_all add: wire_simps)

text \<open>
  C17: what the reader accepts is bounded and exactly delimited: if read_message returns a
  message, its payload with the length word fits the configured maximum, and the bytes
  consumed are the tag, the four length bytes and the payload, nothing more.
\<close>
theorem read_message_bounded:
  assumes "read_message mx inp = (Inr (tag, payload), rest)"
  shows "int (length payload) + 4 \<le> mx \<and>
    inp = [tag] @ be_bytes 4 (int (length payload) + 4) @ payload @ rest"
proof -
  have "\<not> length inp < 5" using assms read_message_short[of inp mx] by auto
  then obtain h r where inp: "inp = h @ r" "length h = 5"
    by (metis append_take_drop_id length_take min.absorb2 not_less)
  let ?len = "to_signed 4 (be_val (tl h))"
  have chk: "4 \<le> ?len" "?len \<le> mx"
    using assms unfolding inp(1) read_message_cases[OF inp(2)]
    by (auto simp: check_length_def split: if_splits)
  have res: "tag = hd h" "int (length payload) = ?len - 4" "r = payload @ rest"
    using assms chk unfolding inp(1) read_message_cases[OF inp(2)]
    by (auto simp: check_length_def read_exactly_def split: if_splits)
  have "be_bytes 4 ?len = tl h"
  proof -
    have t: "length (tl h) = 4" using inp(2) by simp
    have "0 \<le> be_val (tl h)" "be_val (tl h) < 2 ^ 32"
      using be_val_bounds[of "tl h"] t by simp_all
    then have "?len = be_val (tl h)" using chk(1) by (auto simp: to_signed_def split: if_splits)
    then show ?thesis using be_bytes_be_val[of "tl h"] t by simp
  qed
  moreover have "h = hd h # tl h" using inp(2) by (cases h) auto
  ultimately show ?thesis using chk res inp(1) by (metis append_Cons append_Nil diff_add_cancel)
qed

theorem read_message_bounded_witness:
  "read_message 100 [0x51, 0, 0, 0, 6, 0x41, 0, 9] = (Inr (0x51, [0x41, 0]), [9]) \<and>
   int (length [0x41, 0 :: byte]) + 4 \<le> 100"
proof -
  have r: "read_message 100 [0x51, 0, 0, 0, 6, 0x41, 0, 9] = (Inr (0x51, [0x41, 0]), [9])"
    by (simp add: read_message_def act_defs read_exactly_def check_length_def wire_simps)
  from read_message_bounded[OF r] r show ?thesis by blast
qed

end
