(* ===== verification/Copy_Parse.thy ===== *)
theory Copy_Parse
  imports Copy_Codec
begin

text \<open>
  Statement recognition of \<open>pg_mimic/copy.py\<close>: the tokenizer shared by the endpoint scan and the
  option list, \<open>_find_endpoint\<close>, the target, both option syntaxes and \<open>parse_copy\<close>.

  The regular expressions are deterministic scans of the rest of the text. Word characters
  (\<open>\w\<close>) are the ASCII ones.
\<close>

section \<open>Errors\<close>

definition SYNTAX_ERROR :: pystr where "SYNTAX_ERROR = lit ''42601''"
definition INVALID_PARAMETER_VALUE :: pystr where "INVALID_PARAMETER_VALUE = lit ''22023''"

definition syntax_error :: "pystr \<Rightarrow> exc" where
  "syntax_error m = PgError SYNTAX_ERROR m []"

definition unsupported :: "pystr \<Rightarrow> exc" where
  "unsupported m = PgError FEATURE_NOT_SUPPORTED m []"

section \<open>Tokens\<close>

datatype token_kind = TString | TPunct | TWord

definition word_char :: "pychar \<Rightarrow> bool" where
  "word_char c \<longleftrightarrow> is_digit c \<or> (65 \<le> c \<and> c \<le> 90) \<or> (97 \<le> c \<and> c \<le> 122) \<or> c = 95"

definition is_punct :: "pychar \<Rightarrow> bool" where
  "is_punct c \<longleftrightarrow> c \<in> {40, 41, 44, 42, 59}"

definition plain_char :: "pychar \<Rightarrow> bool" where
  "plain_char c \<longleftrightarrow> \<not> py_isspace c \<and> \<not> is_punct c \<and> c \<noteq> 39 \<and> c \<noteq> 34"

text \<open>
  After an opening quote: the raw body up to the closing quote and the rest. A doubled quote is
  taken as part of the body first and as the end only if nothing closes the literal after it.
\<close>

fun quoted_body :: "pychar \<Rightarrow> pystr \<Rightarrow> (pystr \<times> pystr) option" where
  "quoted_body q [] = None"
| "quoted_body q (c # s) =
     (if c \<noteq> q then map_option (\<lambda>(b, r). (c # b, r)) (quoted_body q s)
      else case s of
        [] \<Rightarrow> Some ([], [])
      | d # t \<Rightarrow>
          if d = q then (case quoted_body q t of Some (b, r) \<Rightarrow> Some (q # q # b, r) | None \<Rightarrow> Some ([], s))
          else Some ([], s))"

fun find_sub :: "'a list \<Rightarrow> 'a list \<Rightarrow> ('a list \<times> 'a list) option" where
  "find_sub pat s =
     (if starts_with s pat then Some ([], drop (length pat) s)
      else case s of [] \<Rightarrow> None | c # t \<Rightarrow> map_option (\<lambda>(b, r). (c # b, r)) (find_sub pat t))"

declare find_sub.simps [simp del]

text \<open>After an opening dollar sign: the tag, the closing dollar of the fence, the body.\<close>

definition dollar_body :: "pystr \<Rightarrow> (pystr \<times> pystr) option" where
  "dollar_body s =
     (let tag = takeWhile word_char s; r = dropWhile word_char s in
      if tag \<noteq> [] \<and> is_digit (hd tag) then None
      else case r of
        [] \<Rightarrow> None
      | c # t \<Rightarrow> if c = 36 then find_sub ([36] @ tag @ [36]) t else None)"

text \<open>One match of the token pattern: kind, value, length of the source text, rest.\<close>

definition next_token :: "pystr \<Rightarrow> (token_kind \<times> pystr \<times> pystr) option" where
  "next_token text =
     (case skip_space text of
        [] \<Rightarrow> None
      | c # s \<Rightarrow>
          let word = (if plain_char c then Some (TWord, c # takeWhile plain_char s, dropWhile plain_char s) else None) in
          if c = 39 then map_option (\<lambda>(b, r). (TString, undouble 39 b, r)) (quoted_body 39 s)
          else if c = 36 then
            (case dollar_body s of Some (b, r) \<Rightarrow> Some (TString, b, r) | None \<Rightarrow> word)
          else if c = 34 then map_option (\<lambda>(b, r). (TWord, [34] @ b @ [34], r)) (quoted_body 34 s)
          else if is_punct c then Some (TPunct, [c], s)
          else word)"

lemma quoted_body_shorter: "quoted_body q s = Some (b, r) \<Longrightarrow> length r < length s"
proof (induction q s arbitrary: b r rule: quoted_body.induct)
  case (2 q c s)
  show ?case
  proof (cases "c = q")
    case False
    then show ?thesis using 2 by fastforce
  next
    case True
    then show ?thesis
      using "2.prems" "2.IH"(2) by (cases s) (fastforce split: if_splits option.splits)+
  qed
qed simp

lemma find_sub_shorter: "find_sub pat s = Some (b, r) \<Longrightarrow> pat \<noteq> [] \<Longrightarrow> length r < length s"
proof (induction s arbitrary: b)
  case Nil
  then show ?case by (cases pat) (simp_all add: find_sub.simps)
next
  case (Cons c s)
  show ?case
  proof (cases "starts_with (c # s) pat")
    case True
    then have "r = drop (length pat) (c # s)" using Cons.prems by (simp add: find_sub.simps)
    moreover have "length pat \<le> length (c # s)" using True by (metis length_append le_add1 starts_with_iff)
    ultimately show ?thesis using Cons.prems(2) by (cases pat) auto
  next
    case False
    then obtain b' where "find_sub pat s = Some (b', r)" using Cons.prems by (subst (asm) find_sub.simps) auto
    then show ?thesis using Cons.IH Cons.prems(2) by fastforce
  qed
qed

lemma next_token_shorter: "next_token inp = Some (k, v, r) \<Longrightarrow> length r < length inp"
proof -
  assume n: "next_token inp = Some (k, v, r)"
  obtain c s where cs: "skip_space inp = c # s" using n by (cases "skip_space inp") (auto simp: next_token_def)
  have l: "length (c # s) \<le> length inp" using length_dropWhile_le[of py_isspace inp] cs by (simp add: skip_space_def)
  have d: "length r' < length s" if db: "dollar_body s = Some (b, r')" for b r'
  proof -
    obtain x t where x: "dropWhile word_char s = x # t"
      using db by (cases "dropWhile word_char s") (simp_all del: dropWhile_eq_Nil_conv add: dollar_body_def Let_def split: if_splits)
    then have t: "dropWhile word_char s = 36 # t" "find_sub ([36] @ takeWhile word_char s @ [36]) t = Some (b, r')"
      using db by (auto simp: dollar_body_def Let_def split: if_splits)
    have "length r' < length t" using find_sub_shorter[OF t(2)] by simp
    moreover have "length t < length s" using length_dropWhile_le[of word_char s] t(1) by simp
    ultimately show ?thesis by simp
  qed
  have "length r \<le> length s"
    using n cs quoted_body_shorter d length_dropWhile_le[of plain_char s]
    by (auto simp: next_token_def Let_def split: if_splits option.splits) (fastforce dest: quoted_body_shorter d)+
  with l show ?thesis by simp
qed

text \<open>
  \<open>_tokens\<close> from the rest of the text: \<open>fuel\<close> is the length of the rest, so it never runs out. Each token comes with
  the text after it.
\<close>

fun all_tokens :: "nat \<Rightarrow> pystr \<Rightarrow> exc + (token_kind \<times> pystr) list" where
  "all_tokens 0 text = Inr []"
| "all_tokens (Suc fuel) text =
     (case next_token text of
        Some (k, v, r) \<Rightarrow> rbind (all_tokens fuel r) (\<lambda>ts. Inr ((k, v) # ts))
      | None \<Rightarrow>
          if py_strip text = [] then Inr []
          else Inl (syntax_error (lit ''could not parse COPY options at '' @ py_repr (py_strip text))))"

definition tokenize :: "pystr \<Rightarrow> exc + (token_kind \<times> pystr) list" where
  "tokenize text = all_tokens (length text) text"

section \<open>Recognising the statement\<close>

datatype copy_direction = DIRECTION_IN | DIRECTION_OUT

record parsed_copy =
  pc_direction :: copy_direction
  pc_table :: "pystr option"
  pc_columns :: "pystr list option"
  pc_options :: copy_options

text \<open>The pattern \<open>\s*COPY\s+\<close>: the length of its match.\<close>

definition copy_head :: "pystr \<Rightarrow> nat option" where
  "copy_head sql =
     (let r = skip_space sql; t = drop 4 r; u = skip_space t in
      if py_upper (take 4 r) = lit ''COPY'' \<and> length u < length t then Some (length sql - length u) else None)"

definition endpoint :: "pystr \<Rightarrow> pystr \<Rightarrow> copy_direction option" where
  "endpoint a b =
     (if a = lit ''FROM'' \<and> b = lit ''STDIN'' then Some DIRECTION_IN
      else if a = lit ''TO'' \<and> b = lit ''STDOUT'' then Some DIRECTION_OUT else None)"

definition strip_terminator :: "pystr \<Rightarrow> pystr" where
  "strip_terminator options =
     (let o' = py_strip options in if ends_with o' [59] then py_strip (butlast o') else o')"

text \<open>
  The loop of \<open>_find_endpoint\<close> over the rest of the statement; \<open>previous\<close> is the last word at
  depth 0 and where it starts. A tokenizer error ends it like the end of the text.
\<close>

function scan_endpoint :: "pystr \<Rightarrow> nat \<Rightarrow> int \<Rightarrow> (pystr \<times> nat) option \<Rightarrow> pystr \<Rightarrow> (copy_direction \<times> pystr \<times> pystr) option" where
  "scan_endpoint sql head depth previous text =
     (case next_token text of
        None \<Rightarrow> None
      | Some (kind, v, r) \<Rightarrow>
          let end_pos = length sql - length r in
          if kind = TWord \<and> depth = 0 then
            (case (case previous of None \<Rightarrow> None | Some (w, start) \<Rightarrow> map_option (\<lambda>d. (d, start)) (endpoint w (py_upper v))) of
               Some (direction, start) \<Rightarrow>
                 (let target = py_strip (drop head (take start sql)) in
                  if target = [] then None else Some (direction, target, strip_terminator r))
             | None \<Rightarrow> scan_endpoint sql head depth (Some (py_upper v, end_pos - length v)) r)
          else if kind = TPunct then
            scan_endpoint sql head (depth + (if v = [40] then 1 else 0) - (if v = [41] then 1 else 0)) None r
          else scan_endpoint sql head depth None r)"
  by pat_completeness auto
termination
  by (relation "measure (\<lambda>(sql, head, depth, previous, text). length text)") (auto dest: next_token_shorter)

declare scan_endpoint.simps [simp del]

definition find_endpoint :: "pystr \<Rightarrow> (copy_direction \<times> pystr \<times> pystr) option" where
  "find_endpoint sql =
     (case copy_head sql of None \<Rightarrow> None | Some head \<Rightarrow> scan_endpoint sql head 0 None (drop head sql))"

fun split_outside_quotes_from :: "pychar \<Rightarrow> bool \<Rightarrow> pystr \<Rightarrow> pystr \<Rightarrow> pystr list" where
  "split_outside_quotes_from sep quoted cur [] = [cur]"
| "split_outside_quotes_from sep quoted cur (c # s) =
     (let q = (if c = 34 then \<not> quoted else quoted) in
      if c = sep \<and> \<not> q then cur # split_outside_quotes_from sep q [] s
      else split_outside_quotes_from sep q (cur @ [c]) s)"

definition split_outside_quotes :: "pystr \<Rightarrow> pychar \<Rightarrow> pystr list" where
  "split_outside_quotes text sep = split_outside_quotes_from sep False [] text"

text \<open>The scan of \<open>_split_target\<close>: the text before the first parenthesis outside quotes.\<close>

fun target_paren :: "bool \<Rightarrow> nat \<Rightarrow> pystr \<Rightarrow> (nat option) \<times> bool" where
  "target_paren quoted i [] = (None, quoted)"
| "target_paren quoted i (c # s) =
     (if c = 34 then target_paren (\<not> quoted) (Suc i) s
      else if c = 40 \<and> \<not> quoted then (Some i, quoted)
      else target_paren quoted (Suc i) s)"

definition split_target :: "pystr \<Rightarrow> pystr option \<times> pystr option" where
  "split_target target =
     (case target_paren False 0 target of
        (Some i, _) \<Rightarrow>
          if \<not> ends_with target [41] then (None, None)
          else (Some (py_strip (take i target)), Some (drop (i + 1) (butlast target)))
      | (None, quoted) \<Rightarrow> if quoted then (None, None) else (Some target, None))"

definition unquote_identifier :: "pystr \<Rightarrow> pystr" where
  "unquote_identifier raw =
     (let name = py_strip raw in
      if 2 \<le> length name \<and> starts_with name [34] \<and> ends_with name [34]
      then undouble 34 (butlast (tl name)) else py_lower name)"

definition parse_target :: "pystr \<Rightarrow> pystr option \<times> pystr list option" where
  "parse_target raw =
     (let target = py_strip raw in
      if starts_with target [40] then (None, None)
      else case split_target target of
        (None, _) \<Rightarrow> (None, None)
      | (Some name, raw_columns) \<Rightarrow>
          (Some (unquote_identifier (last (split_outside_quotes name 46))),
           (case raw_columns of
              None \<Rightarrow> None
            | Some rc \<Rightarrow> if rc = [] then None else Some (map unquote_identifier (split_outside_quotes rc 44)))))"

section \<open>Options\<close>

definition VALUE_OPTIONS :: "pystr list" where
  "VALUE_OPTIONS =
     map lit [''FORMAT'', ''DELIMITER'', ''NULL'', ''QUOTE'', ''ESCAPE'', ''ENCODING'', ''FORCE_QUOTE'', ''FORCE_NOT_NULL'',
       ''FORCE_NULL'', ''DEFAULT'', ''ON_ERROR'', ''LOG_VERBOSITY'', ''REJECT_LIMIT'']"

definition FLAG_OPTIONS :: "pystr list" where
  "FLAG_OPTIONS = map lit [''CSV'', ''BINARY'', ''HEADER'', ''FREEZE'', ''OIDS'']"

definition BOOLEAN_WORDS :: "(pystr, bool) dict" where
  "BOOLEAN_WORDS =
     [(lit ''TRUE'', True), (lit ''FALSE'', False), (lit ''ON'', True), (lit ''OFF'', False), (lit ''1'', True), (lit ''0'', False)]"

definition AS_NOISE_OPTIONS :: "pystr list" where
  "AS_NOISE_OPTIONS = map lit [''DELIMITER'', ''NULL'', ''QUOTE'', ''ESCAPE'']"

datatype option_value = OVText pystr | OVBool bool | OVNames "pystr list"

type_synonym tokens = "(token_kind \<times> pystr) list"

text \<open>The words after FORCE in the legacy syntax, joined up.\<close>

fun force_words :: "pystr \<Rightarrow> tokens \<Rightarrow> pystr \<times> tokens" where
  "force_words name [] = (name, [])"
| "force_words name ((k, v) # ts) =
     (if k = TWord \<and> py_upper v \<in> {lit ''QUOTE'', lit ''NOT'', lit ''NULL''}
      then force_words (name @ lit ''_'' @ py_upper v) ts else (name, (k, v) # ts))"

definition read_option_name :: "token_kind \<times> pystr \<Rightarrow> tokens \<Rightarrow> exc + pystr \<times> tokens" where
  "read_option_name tok ts =
     (case tok of (kind, token) \<Rightarrow>
       if kind \<noteq> TWord then Inl (syntax_error (lit ''expected a COPY option name, got '' @ py_repr token))
       else if py_upper token = lit ''FORCE'' then Inr (force_words (py_upper token) ts)
       else Inr (py_upper token, ts))"

fun paren_names :: "tokens \<Rightarrow> pystr list \<times> tokens" where
  "paren_names [] = ([], [])"
| "paren_names ((k, v) # ts) =
     (if k = TPunct \<and> v = [41] then ([], ts)
      else case paren_names ts of (names, r) \<Rightarrow> (if k \<noteq> TPunct then v # names else names, r))"

definition needs_value :: "pystr \<Rightarrow> exc" where
  "needs_value name = syntax_error (lit ''COPY option '' @ py_lower name @ lit '' requires a value'')"

definition option_value_at :: "token_kind \<times> pystr \<Rightarrow> tokens \<Rightarrow> exc + option_value \<times> tokens" where
  "option_value_at tok ts =
     (case tok of (kind, token) \<Rightarrow>
       if kind \<noteq> TPunct then Inr (OVText token, ts)
       else if token = [42] then Inr (OVText [42], ts)
       else if token = [40] then (case paren_names ts of (names, r) \<Rightarrow> Inr (OVNames names, r))
       else Inl (syntax_error (lit ''unexpected '' @ py_repr token @ lit '' in COPY options'')))"

definition read_option_value :: "token_kind \<times> pystr \<Rightarrow> tokens \<Rightarrow> pystr \<Rightarrow> exc + option_value \<times> tokens" where
  "read_option_value tok ts name =
     (if fst tok = TWord \<and> py_upper (snd tok) = lit ''AS'' \<and> name \<in> set AS_NOISE_OPTIONS
      then (case ts of [] \<Rightarrow> Inl (needs_value name) | tok' # ts' \<Rightarrow> option_value_at tok' ts')
      else option_value_at tok ts)"

definition read_flag_value :: "tokens \<Rightarrow> option_value \<times> tokens" where
  "read_flag_value ts =
     (case ts of
        (TWord, v) # r \<Rightarrow>
          (case dict_get BOOLEAN_WORDS (py_upper v) of
             Some b \<Rightarrow> (OVBool b, r)
           | None \<Rightarrow> if py_upper v = lit ''MATCH'' then (OVText (lit ''match''), r) else (OVBool True, ts))
      | _ \<Rightarrow> (OVBool True, ts))"

text \<open>
  The loop of \<open>_option_items\<close>, with the tokens left when it stops. Every turn consumes at least one token, so as many
  turns as there are tokens suffice.
\<close>

fun option_items_loop :: "nat \<Rightarrow> bool \<Rightarrow> tokens \<Rightarrow> exc + (pystr \<times> option_value) list \<times> tokens" where
  "option_items_loop fuel paren [] = Inr ([], [])"
| "option_items_loop 0 paren (t # ts) = Inr ([], t # ts)"
| "option_items_loop (Suc fuel) paren ((kind, token) # ts) =
     (if kind = TPunct then
        if token = [41] \<and> paren then Inr ([], ts)
        else if token = [44] then option_items_loop fuel paren ts
        else Inl (syntax_error (lit ''unexpected '' @ py_repr token @ lit '' in COPY options''))
      else
        rbind (read_option_name (kind, token) ts) (\<lambda>(name, r).
        rbind (if name \<in> set VALUE_OPTIONS then
                 (case r of [] \<Rightarrow> Inl (needs_value name) | tok # r' \<Rightarrow> read_option_value tok r' name)
               else if name \<in> set FLAG_OPTIONS then Inr (read_flag_value r)
               else Inl (syntax_error (lit ''unrecognized COPY option '' @ [34] @ py_lower name @ [34])))
          (\<lambda>(v, r'). rbind (option_items_loop fuel paren r') (\<lambda>(items, left). Inr ((name, v) # items, left)))))"

definition option_items :: "pystr \<Rightarrow> exc + (pystr \<times> option_value) list" where
  "option_items text =
     rbind (tokenize text) (\<lambda>tokens.
       let t1 = (case tokens of (TWord, v) # r \<Rightarrow> if py_upper v = lit ''WITH'' then r else tokens | _ \<Rightarrow> tokens);
           paren = (case t1 of (TPunct, v) # r \<Rightarrow> v = [40] | _ \<Rightarrow> False);
           t2 = (if paren then tl t1 else t1) in
       rbind (option_items_loop (length t2) paren t2) (\<lambda>(items, left).
         case left of
           [] \<Rightarrow> Inr items
         | (k, v) # _ \<Rightarrow> Inl (syntax_error (lit ''unexpected '' @ py_repr v @ lit '' after the COPY option list''))))"

definition option_text :: "option_value \<Rightarrow> pystr" where
  "option_text v =
     (case v of OVText s \<Rightarrow> s | OVBool b \<Rightarrow> py_repr_val (PBool b) | OVNames ns \<Rightarrow> py_repr_val (PList (map PStr ns)))"

definition single_character :: "pystr \<Rightarrow> option_value \<Rightarrow> exc + pychar" where
  "single_character name v =
     (case option_text v of
        [c] \<Rightarrow> Inr c
      | _ \<Rightarrow> Inl (PgError INVALID_PARAMETER_VALUE (lit ''COPY '' @ py_lower name @ lit '' must be a single one-byte character'') []))"

fun resolve_format :: "pystr \<Rightarrow> (pystr \<times> option_value) list \<Rightarrow> pystr" where
  "resolve_format fmt [] = fmt"
| "resolve_format fmt ((name, v) # items) =
     resolve_format
       (if name = lit ''FORMAT'' then py_lower (option_text v)
        else if name \<in> {lit ''CSV'', lit ''BINARY''} \<and> v \<noteq> OVBool False then py_lower name else fmt) items"

text \<open>The options being assembled: delimiter, null string, header, quote, escape.\<close>

type_synonym copy_parts = "pychar \<times> pystr \<times> bool \<times> pychar \<times> pychar option"

definition apply_option :: "pystr \<times> option_value \<Rightarrow> copy_parts \<Rightarrow> exc + copy_parts" where
  "apply_option item parts =
     (case item of (name, v) \<Rightarrow> case parts of (delimiter, null_string, header, quote, escape) \<Rightarrow>
       if name \<in> {lit ''FORMAT'', lit ''CSV'', lit ''BINARY''} then Inr parts
       else if name = lit ''DELIMITER'' then
         rbind (single_character name v) (\<lambda>c. Inr (c, null_string, header, quote, escape))
       else if name = lit ''NULL'' then Inr (delimiter, option_text v, header, quote, escape)
       else if name = lit ''HEADER'' then
         if v = OVText (lit ''match'')
         then Inl (unsupported (lit ''COPY HEADER MATCH is not supported: pg_mimic has no authoritative column list to check the header line against''))
         else Inr (delimiter, null_string, (case v of OVBool b \<Rightarrow> b | OVText s \<Rightarrow> s \<noteq> [] | OVNames ns \<Rightarrow> ns \<noteq> []), quote, escape)
       else if name = lit ''QUOTE'' then
         rbind (single_character name v) (\<lambda>c. Inr (delimiter, null_string, header, c, escape))
       else if name = lit ''ESCAPE'' then
         rbind (single_character name v) (\<lambda>c. Inr (delimiter, null_string, header, quote, Some c))
       else if name = lit ''ENCODING'' then
         if filter (\<lambda>c. c \<noteq> 45 \<and> c \<noteq> 95) (py_upper (option_text v)) \<in> {lit ''UTF8'', lit ''UNICODE''} then Inr parts
         else Inl (unsupported (lit ''COPY ENCODING '' @ [34] @ option_text v @ [34] @ lit '' is not supported: pg_mimic speaks UTF-8 only''))
       else Inl (unsupported (lit ''COPY option '' @ [34] @ py_lower name @ [34] @ lit '' is not supported by pg_mimic'')))"

fun apply_options :: "(pystr \<times> option_value) list \<Rightarrow> copy_parts \<Rightarrow> exc + copy_parts" where
  "apply_options [] parts = Inr parts"
| "apply_options (item # items) parts = rbind (apply_option item parts) (apply_options items)"

definition parse_options :: "pystr \<Rightarrow> exc + copy_options" where
  "parse_options text =
     rbind (option_items text) (\<lambda>items.
       let fmt = resolve_format (lit ''text'') items; csv = (fmt = lit ''csv'') in
       if fmt = lit ''binary'' then Inl (unsupported (lit ''binary COPY is not supported: pg_mimic has no table definition to encode a tuple against, and guessing one would produce plausible-looking wrong rows rather than a failure. Use FORMAT text or FORMAT csv.''))
       else if fmt \<notin> {lit ''text'', lit ''csv''}
       then Inl (syntax_error (lit ''COPY format '' @ [34] @ fmt @ [34] @ lit '' does not exist''))
       else rbind (apply_options items ((if csv then 44 else 9), (if csv then [] else [92, 78]), False, 34, None))
         (\<lambda>(delimiter, null_string, header, quote, escape).
           if \<not> csv \<and> list_ex (\<lambda>(name, _). name \<in> {lit ''QUOTE'', lit ''ESCAPE''}) items
           then Inl (unsupported (lit ''COPY quote/escape available only in CSV mode''))
           else Inr \<lparr>co_format = fmt, co_delimiter = delimiter, co_null_string = null_string, co_header = header,
                     co_quote = quote, co_escape = (case escape of None \<Rightarrow> quote | Some e \<Rightarrow> e)\<rparr>))"

definition parse_copy :: "pystr \<Rightarrow> exc + parsed_copy option" where
  "parse_copy sql =
     (case find_endpoint sql of
        None \<Rightarrow> Inr None
      | Some (direction, target, options) \<Rightarrow>
          (case parse_target target of (table, columns) \<Rightarrow>
            rbind (parse_options options) (\<lambda>opts.
              Inr (Some \<lparr>pc_direction = direction, pc_table = table, pc_columns = columns, pc_options = opts\<rparr>))))"

section \<open>Keywords inside a literal or a query are not the endpoint\<close>

text \<open>How a client writes a token, and queries whose parentheses balance.\<close>

fun tok_src :: "token_kind \<times> pystr \<Rightarrow> pystr" where
  "tok_src (TString, v) = [39] @ replace_char 39 [39, 39] v @ [39]"
| "tok_src (TPunct, v) = v"
| "tok_src (TWord, v) = v"

fun tok_ok :: "token_kind \<times> pystr \<Rightarrow> bool" where
  "tok_ok (TString, v) \<longleftrightarrow> True"
| "tok_ok (TPunct, v) \<longleftrightarrow> (\<exists>c. v = [c] \<and> is_punct c)"
| "tok_ok (TWord, v) \<longleftrightarrow> v \<noteq> [] \<and> list_all plain_char v \<and> hd v \<noteq> 36"

definition query_src :: "tokens \<Rightarrow> pystr" where
  "query_src ts = concat (map (\<lambda>t. 32 # tok_src t) ts)"

fun balanced :: "nat \<Rightarrow> tokens \<Rightarrow> bool" where
  "balanced d [] \<longleftrightarrow> d = 0"
| "balanced d (t # ts) \<longleftrightarrow>
     (if t = (TPunct, [40]) then balanced (Suc d) ts
      else if t = (TPunct, [41]) then d \<noteq> 0 \<and> balanced (d - 1) ts
      else balanced d ts)"

definition token_end :: "pystr \<Rightarrow> bool" where
  "token_end r \<longleftrightarrow> r = [] \<or> hd r \<in> {32, 59}"

lemma undouble_double: "undouble c (replace_char c [c, c] v) = v"
proof (induction v)
  case (Cons x v)
  have "undouble c (x # s) = x # undouble c s" if "x \<noteq> c" for s using that by (cases s) auto
  then show ?case using Cons by (auto simp: replace_char_def)
qed (simp add: replace_char_def)

lemma quoted_body_double:
  "token_end r \<Longrightarrow> quoted_body 39 (replace_char 39 [39, 39] v @ 39 # r) = Some (replace_char 39 [39, 39] v, r)"
proof (induction v)
  case Nil
  then show ?case by (cases r) (auto simp: token_end_def replace_char_def)
qed (auto simp: replace_char_def)

lemma space_facts: "py_isspace 32" "\<not> py_isspace 39" "\<not> plain_char 32" "\<not> plain_char 59" "\<not> plain_char 39"
  by (simp_all add: py_isspace_def plain_char_def is_punct_def)

lemma punct_facts: "is_punct c \<Longrightarrow> \<not> py_isspace c \<and> c \<notin> {39, 36, 34}"
  by (auto simp: is_punct_def py_isspace_def)

lemma next_token_src:
  assumes "tok_ok (k, v)" "token_end r"
  shows "next_token (32 # tok_src (k, v) @ r) = Some (k, v, r)"
proof (cases k)
  case TString
  then show ?thesis
    using assms by (simp add: next_token_def skip_space_def space_facts quoted_body_double undouble_double)
next
  case TPunct
  then show ?thesis
    using assms by (auto simp: next_token_def skip_space_def space_facts dest: punct_facts)
next
  case TWord
  with assms(1) obtain c w where v: "v = c # w" "plain_char c" "list_all plain_char w" "c \<noteq> 36" by (cases v) auto
  then have c: "\<not> py_isspace c" "\<not> is_punct c" "c \<noteq> 39" "c \<noteq> 34" by (auto simp: plain_char_def)
  have "takeWhile plain_char (w @ r) = w \<and> dropWhile plain_char (w @ r) = r"
    using v(3) assms(2) by (cases r) (auto simp: token_end_def list_all_iff space_facts takeWhile_append dropWhile_append)
  then show ?thesis using TWord v c by (simp add: next_token_def skip_space_def space_facts)
qed

lemma scan_step:
  assumes "tok_ok t" "token_end r"
  shows "scan_endpoint sql head d p (32 # tok_src t @ r) =
    (case t of (kind, v) \<Rightarrow>
      if kind = TWord \<and> d = 0 then
        (case (case p of None \<Rightarrow> None | Some (w, start) \<Rightarrow> map_option (\<lambda>dir. (dir, start)) (endpoint w (py_upper v))) of
           Some (direction, start) \<Rightarrow>
             (let target = py_strip (drop head (take start sql)) in
              if target = [] then None else Some (direction, target, strip_terminator r))
         | None \<Rightarrow> scan_endpoint sql head d (Some (py_upper v, length sql - length r - length v)) r)
      else if kind = TPunct then
        scan_endpoint sql head (d + (if v = [40] then 1 else 0) - (if v = [41] then 1 else 0)) None r
      else scan_endpoint sql head d None r)"
proof (cases t)
  case (Pair kind v)
  then show ?thesis using assms next_token_src[of kind v r] by (subst scan_endpoint.simps) (simp only: option.case prod.case Let_def)
qed

lemma token_end_query: "token_end r \<Longrightarrow> token_end (query_src ts @ r)"
  by (cases ts) (auto simp: query_src_def token_end_def)

lemma query_src_Cons: "query_src (t # ts) = 32 # tok_src t @ query_src ts"
  by (simp add: query_src_def)

lemma scan_query:
  assumes "list_all tok_ok ts" "balanced d ts" "token_end r"
  shows "scan_endpoint sql head (1 + int d) None (query_src ts @ r) = scan_endpoint sql head 1 None r"
  using assms
proof (induction ts arbitrary: d)
  case Nil
  then show ?case by (simp add: query_src_def)
next
  case (Cons t ts)
  have s: "scan_endpoint sql head (1 + int d) None (query_src (t # ts) @ r) =
    (case t of (kind, v) \<Rightarrow>
      if kind = TPunct then
        scan_endpoint sql head (1 + int d + (if v = [40] then 1 else 0) - (if v = [41] then 1 else 0)) None (query_src ts @ r)
      else scan_endpoint sql head (1 + int d) None (query_src ts @ r))"
    using scan_step[of t "query_src ts @ r" sql head "1 + int d" None] Cons.prems token_end_query[of r ts]
    by (simp add: query_src_Cons split: prod.split)
  obtain kind v where t: "t = (kind, v)" by (cases t)
  consider "t = (TPunct, [40])" | "t = (TPunct, [41])" "t \<noteq> (TPunct, [40])" | "t \<noteq> (TPunct, [40])" "t \<noteq> (TPunct, [41])" by blast
  then show ?case
  proof cases
    case 1
    then have b: "balanced (Suc d) ts" using Cons.prems by simp
    show ?thesis using s Cons.IH[OF _ b] Cons.prems 1 by (simp add: algebra_simps)
  next
    case 2
    then have b: "d \<noteq> 0" "balanced (d - 1) ts" using Cons.prems by auto
    show ?thesis using s Cons.IH[OF _ b(2)] Cons.prems 2 b(1) by (simp add: of_nat_diff algebra_simps)
  next
    case 3
    then have b: "balanced d ts" using Cons.prems by simp
    show ?thesis using s Cons.IH[OF _ b] Cons.prems 3 t by auto
  qed
qed

text \<open>
  A \<open>COPY (query) TO STDOUT\<close> is recognised as a copy-out whose target is the whole parenthesised query and whose
  options are the text after the endpoint, whatever tokens the query has: \<open>FROM STDIN\<close> written as words of
  the query or inside one of its string literals never makes it a copy-in.
\<close>
theorem find_endpoint_query:
  assumes "list_all tok_ok ts" "balanced 0 ts" "token_end options"
  shows "find_endpoint (lit ''COPY ('' @ query_src ts @ lit '' ) TO STDOUT'' @ options) =
    Some (DIRECTION_OUT, lit ''('' @ query_src ts @ lit '' )'', strip_terminator options)"
proof -
  define sql where "sql = lit ''COPY ('' @ query_src ts @ lit '' ) TO STDOUT'' @ options"
  define tail where "tail = 32 # tok_src (TPunct, [41]) @ 32 # tok_src (TWord, lit ''TO'') @ 32 # tok_src (TWord, lit ''STDOUT'') @ options"
  have sql: "sql = lit ''COPY '' @ 40 # query_src ts @ tail" by (simp add: sql_def tail_def lit_def)
  have h: "copy_head sql = Some 5"
    by (simp add: sql copy_head_def Let_def skip_space_def lit_def py_isspace_def upper_char_def)
  have e: "token_end tail"
    by (simp add: token_end_def tail_def)
  have first: "scan_endpoint sql 5 0 None (40 # query_src ts @ tail) = scan_endpoint sql 5 1 None (query_src ts @ tail)"
    by (subst scan_endpoint.simps) (simp add: next_token_def skip_space_def py_isspace_def is_punct_def)
  have ok: "tok_ok (TPunct, [41])" "tok_ok (TWord, lit ''TO'')" "tok_ok (TWord, lit ''STDOUT'')"
    by (simp_all add: is_punct_def lit_def plain_char_def py_isspace_def)
  have query: "scan_endpoint sql 5 1 None (query_src ts @ tail) = scan_endpoint sql 5 1 None tail"
    using scan_query[OF assms(1,2) e, of sql 5] by simp
  have start: "length sql - length (32 # tok_src (TWord, lit ''STDOUT'') @ options) - 2 = 5 + length (40 # query_src ts @ [32, 41, 32])"
    by (simp add: sql tail_def)
  have target: "py_strip (drop 5 (take (5 + length (40 # query_src ts @ [32, 41, 32])) sql)) = 40 # query_src ts @ [32, 41]"
  proof -
    have "sql = lit ''COPY '' @ (40 # query_src ts @ [32, 41, 32]) @ tl (drop 2 tail)" by (simp add: sql tail_def)
    then have "drop 5 (take (5 + length (40 # query_src ts @ [32, 41, 32])) sql) = 40 # query_src ts @ [32, 41, 32]"
      by (simp only: take_add) simp
    then show ?thesis by (simp add: py_strip_def py_lstrip_def py_rstrip_def py_isspace_def)
  qed
  have up: "py_upper (lit ''TO'') = lit ''TO''" "py_upper (lit ''STDOUT'') = lit ''STDOUT''"
    by (simp_all add: lit_def upper_char_def)
  define r1 where "r1 = 32 # tok_src (TWord, lit ''TO'') @ 32 # tok_src (TWord, lit ''STDOUT'') @ options"
  define r2 where "r2 = 32 # tok_src (TWord, lit ''STDOUT'') @ options"
  have r: "token_end r1" "token_end r2" by (simp_all add: r1_def r2_def token_end_def)
  have s1: "scan_endpoint sql 5 1 None tail = scan_endpoint sql 5 0 None r1"
    using scan_step[OF ok(1) r(1), of sql 5 1 None] by (simp add: tail_def r1_def)
  have s2: "scan_endpoint sql 5 0 None r1 = scan_endpoint sql 5 0 (Some (lit ''TO'', 5 + length (40 # query_src ts @ [32, 41, 32]))) r2"
    using scan_step[OF ok(2) r(2), of sql 5 0 None] start up(1) by (simp add: r1_def r2_def)
  have s3: "scan_endpoint sql 5 0 (Some (lit ''TO'', n)) r2 = (let target = py_strip (drop 5 (take n sql)) in
      if target = [] then None else Some (DIRECTION_OUT, target, strip_terminator options))" for n
    using scan_step[OF ok(3) assms(3), of sql 5 0 "Some (lit ''TO'', n)"] up(2) by (simp add: r2_def endpoint_def)
  have "scan_endpoint sql 5 1 None tail = Some (DIRECTION_OUT, 40 # query_src ts @ [32, 41], strip_terminator options)"
    unfolding s1 s2 s3 Let_def target by simp
  then show ?thesis
    using h first query by (simp add: find_endpoint_def sql_def[symmetric]) (simp add: sql lit_def)
qed

theorem find_endpoint_query_witness:
  "find_endpoint (lit ''COPY ('' @ query_src [(TWord, lit ''FROM''), (TWord, lit ''STDIN''), (TString, lit ''from stdin'')] @ lit '' ) TO STDOUT'' @ lit '' CSV;'') =
    Some (DIRECTION_OUT, lit ''('' @ query_src [(TWord, lit ''FROM''), (TWord, lit ''STDIN''), (TString, lit ''from stdin'')] @ lit '' )'',
      strip_terminator (lit '' CSV;''))"
  by (rule find_endpoint_query) (simp_all add: lit_def plain_char_def is_punct_def py_isspace_def token_end_def)

end
