(* ===== verification/Catalog_Data.thy ===== *)
theory Catalog_Data
  imports Values
begin

text \<open>
  \<open>pg_mimic/catalog_data.py\<close>: the shape of the emulated catalogue. One definition per table of
  \<open>PG_CATALOG_SCHEMA\<close>, the views of \<open>information_schema.json\<close> as the file lists them and the schema derived
  from them, and the integer columns the rewriting of psql's queries asks for.

  A row of a catalogue table is a dict from column names to values; \<open>row_fits\<close> says that it has exactly
  the declared columns and that each value is of the declared type or NULL.
\<close>

section \<open>The tables of \<open>pg_catalog\<close>\<close>

definition declared_types :: "(string \<times> string) list \<Rightarrow> (pystr, pystr) dict" where
  "declared_types cs = map (\<lambda>(c, ty). (lit c, lit ty)) cs"

definition pg_namespace_columns :: "(pystr, pystr) dict" where
  "pg_namespace_columns = declared_types
     [(''oid'', ''INT''), (''nspname'', ''TEXT''), (''nspowner'', ''INT'')]"

definition pg_class_columns :: "(pystr, pystr) dict" where
  "pg_class_columns = declared_types
     [(''oid'', ''INT''), (''relname'', ''TEXT''), (''relnamespace'', ''INT''), (''relkind'', ''TEXT''),
      (''relowner'', ''INT''), (''relam'', ''INT''), (''reltuples'', ''INT''), (''relpages'', ''INT''),
      (''relhasindex'', ''BOOLEAN''), (''relpersistence'', ''TEXT''), (''reltablespace'', ''INT''),
      (''relispartition'', ''BOOLEAN''), (''relrowsecurity'', ''BOOLEAN''), (''relforcerowsecurity'', ''BOOLEAN''),
      (''relreplident'', ''TEXT''), (''reloftype'', ''INT''), (''relhastriggers'', ''BOOLEAN''),
      (''relchecks'', ''INT''), (''relhasrules'', ''BOOLEAN''), (''reltoastrelid'', ''INT'')]"

definition pg_am_columns :: "(pystr, pystr) dict" where
  "pg_am_columns = declared_types
     [(''oid'', ''INT''), (''amname'', ''TEXT''), (''amhandler'', ''TEXT''), (''amtype'', ''TEXT'')]"

definition pg_attribute_columns :: "(pystr, pystr) dict" where
  "pg_attribute_columns = declared_types
     [(''attrelid'', ''INT''), (''attname'', ''TEXT''), (''atttypid'', ''INT''), (''attnum'', ''INT''),
      (''attnotnull'', ''BOOLEAN''), (''atthasdef'', ''BOOLEAN''), (''attisdropped'', ''BOOLEAN''),
      (''attidentity'', ''TEXT''), (''attgenerated'', ''TEXT''), (''attcollation'', ''INT''),
      (''atttypmod'', ''INT''), (''attstattarget'', ''INT''), (''attformattype'', ''TEXT''),
      (''attstorage'', ''TEXT''), (''attcompression'', ''TEXT'')]"

definition pg_attrdef_columns :: "(pystr, pystr) dict" where
  "pg_attrdef_columns = declared_types
     [(''adrelid'', ''INT''), (''adnum'', ''INT''), (''adbin'', ''TEXT'')]"

definition pg_constraint_columns :: "(pystr, pystr) dict" where
  "pg_constraint_columns = declared_types
     [(''condef'', ''TEXT''), (''oid'', ''INT''), (''conname'', ''TEXT''), (''conrelid'', ''INT''),
      (''contype'', ''TEXT''), (''conparentid'', ''INT''), (''conindid'', ''INT''), (''confrelid'', ''INT''),
      (''condeferrable'', ''BOOLEAN''), (''condeferred'', ''BOOLEAN''), (''convalidated'', ''BOOLEAN''),
      (''connoinherit'', ''BOOLEAN''), (''conislocal'', ''BOOLEAN''), (''coninhcount'', ''INT''),
      (''conkey'', ''TEXT'')]"

definition pg_index_columns :: "(pystr, pystr) dict" where
  "pg_index_columns = declared_types
     [(''indexdef'', ''TEXT''), (''indexrelid'', ''INT''), (''indrelid'', ''INT''),
      (''indisprimary'', ''BOOLEAN''), (''indisunique'', ''BOOLEAN''), (''indisclustered'', ''BOOLEAN''),
      (''indisvalid'', ''BOOLEAN''), (''indisreplident'', ''BOOLEAN''), (''indkey'', ''TEXT'')]"

definition pg_inherits_columns :: "(pystr, pystr) dict" where
  "pg_inherits_columns = declared_types
     [(''inhrelid'', ''INT''), (''inhparent'', ''INT''), (''inhseqno'', ''INT''),
      (''inhdetachpending'', ''BOOLEAN'')]"

definition pg_rewrite_columns :: "(pystr, pystr) dict" where
  "pg_rewrite_columns = declared_types
     [(''oid'', ''INT''), (''rulename'', ''TEXT''), (''ev_class'', ''INT''), (''ev_type'', ''TEXT''),
      (''is_instead'', ''BOOLEAN'')]"

definition pg_trigger_columns :: "(pystr, pystr) dict" where
  "pg_trigger_columns = declared_types
     [(''oid'', ''INT''), (''tgname'', ''TEXT''), (''tgrelid'', ''INT''), (''tgenabled'', ''TEXT''),
      (''tgisinternal'', ''BOOLEAN''), (''tgconstraint'', ''INT'')]"

definition pg_policy_columns :: "(pystr, pystr) dict" where
  "pg_policy_columns = declared_types
     [(''oid'', ''INT''), (''polname'', ''TEXT''), (''polrelid'', ''INT''), (''polcmd'', ''TEXT''),
      (''polpermissive'', ''BOOLEAN''), (''polqual'', ''TEXT''), (''polwithcheck'', ''TEXT''),
      (''polroles'', ''TEXT'')]"

definition pg_roles_columns :: "(pystr, pystr) dict" where
  "pg_roles_columns = declared_types
     [(''oid'', ''INT''), (''rolname'', ''TEXT''), (''rolsuper'', ''BOOLEAN''), (''rolinherit'', ''BOOLEAN''),
      (''rolcreaterole'', ''BOOLEAN''), (''rolcreatedb'', ''BOOLEAN''), (''rolcanlogin'', ''BOOLEAN''),
      (''rolconnlimit'', ''INT''), (''rolvaliduntil'', ''TEXT''), (''rolreplication'', ''BOOLEAN''),
      (''rolbypassrls'', ''BOOLEAN'')]"

definition pg_publication_columns :: "(pystr, pystr) dict" where
  "pg_publication_columns = declared_types
     [(''oid'', ''INT''), (''pubname'', ''TEXT''), (''pubowner'', ''INT''), (''puballtables'', ''BOOLEAN'')]"

definition pg_publication_rel_columns :: "(pystr, pystr) dict" where
  "pg_publication_rel_columns = declared_types
     [(''oid'', ''INT''), (''prpubid'', ''INT''), (''prrelid'', ''INT''), (''prqual'', ''TEXT''),
      (''prattrs'', ''TEXT'')]"

definition pg_publication_namespace_columns :: "(pystr, pystr) dict" where
  "pg_publication_namespace_columns = declared_types
     [(''oid'', ''INT''), (''pnpubid'', ''INT''), (''pnnspid'', ''INT'')]"

definition pg_database_columns :: "(pystr, pystr) dict" where
  "pg_database_columns = declared_types
     [(''oid'', ''INT''), (''datname'', ''TEXT''), (''datdba'', ''INT''), (''datcollate'', ''TEXT''),
      (''datctype'', ''TEXT''), (''datlocprovider'', ''TEXT''), (''daticulocale'', ''TEXT''),
      (''daticurules'', ''TEXT''), (''datacl'', ''TEXT''), (''datallowconn'', ''BOOLEAN''),
      (''datconnlimit'', ''INT''), (''dattablespace'', ''INT'')]"

definition pg_statistic_ext_columns :: "(pystr, pystr) dict" where
  "pg_statistic_ext_columns = declared_types
     [(''oid'', ''INT''), (''stxname'', ''TEXT''), (''stxrelid'', ''INT''), (''stxnamespace'', ''INT''),
      (''stxkind'', ''TEXT''), (''stxstattarget'', ''INT'')]"

definition pg_collation_columns :: "(pystr, pystr) dict" where
  "pg_collation_columns = declared_types
     [(''oid'', ''INT''), (''collname'', ''TEXT'')]"

definition pg_type_columns :: "(pystr, pystr) dict" where
  "pg_type_columns = declared_types
     [(''oid'', ''INT''), (''typcollation'', ''INT''), (''typname'', ''TEXT''), (''typnamespace'', ''INT''),
      (''typtype'', ''TEXT''), (''typelem'', ''INT''), (''typbasetype'', ''INT''), (''typrelid'', ''INT''),
      (''typcategory'', ''TEXT''), (''typdelim'', ''TEXT''), (''typarray'', ''INT'')]"

definition PG_CATALOG_SCHEMA :: "(pystr, (pystr, (pystr, pystr) dict) dict) dict" where
  "PG_CATALOG_SCHEMA =
     [(lit ''pg_catalog'',
       [(lit ''pg_namespace'', pg_namespace_columns), (lit ''pg_class'', pg_class_columns),
        (lit ''pg_am'', pg_am_columns), (lit ''pg_attribute'', pg_attribute_columns),
        (lit ''pg_attrdef'', pg_attrdef_columns), (lit ''pg_constraint'', pg_constraint_columns),
        (lit ''pg_index'', pg_index_columns), (lit ''pg_inherits'', pg_inherits_columns),
        (lit ''pg_rewrite'', pg_rewrite_columns), (lit ''pg_trigger'', pg_trigger_columns),
        (lit ''pg_policy'', pg_policy_columns), (lit ''pg_roles'', pg_roles_columns),
        (lit ''pg_publication'', pg_publication_columns), (lit ''pg_publication_rel'', pg_publication_rel_columns),
        (lit ''pg_publication_namespace'', pg_publication_namespace_columns),
        (lit ''pg_database'', pg_database_columns), (lit ''pg_statistic_ext'', pg_statistic_ext_columns),
        (lit ''pg_collation'', pg_collation_columns), (lit ''pg_type'', pg_type_columns)])]"

definition INTEGER_COLUMNS :: "pystr list" where
  "INTEGER_COLUMNS =
     remdups (concat (map (\<lambda>(tb, cols). map fst (filter (\<lambda>(c, ty). ty = lit ''INT'') cols)) (snd (hd PG_CATALOG_SCHEMA))))"

section \<open>The views of \<open>information_schema\<close>\<close>

text \<open>\<open>_SQLGLOT_TYPE\<close>; an unknown type raises when the module is imported.\<close>

definition SQLGLOT_TYPE :: "(pystr, pystr) dict" where
  "SQLGLOT_TYPE = declared_types [(''name'', ''TEXT''), (''character varying'', ''TEXT''), (''integer'', ''INT'')]"

definition sqlglot_type :: "pystr \<Rightarrow> exc + pystr" where
  "sqlglot_type ty = (case dict_get SQLGLOT_TYPE ty of Some t \<Rightarrow> Inr t | None \<Rightarrow> Inl KeyError)"

definition tables_document :: "(string \<times> string) list" where
  "tables_document =
     [(''table_catalog'', ''name''), (''table_schema'', ''name''), (''table_name'', ''name''),
      (''table_type'', ''character varying''), (''self_referencing_column_name'', ''name''),
      (''reference_generation'', ''character varying''), (''user_defined_type_catalog'', ''name''),
      (''user_defined_type_schema'', ''name''), (''user_defined_type_name'', ''name''),
      (''is_insertable_into'', ''character varying''), (''is_typed'', ''character varying''),
      (''commit_action'', ''character varying'')]"

definition columns_document :: "(string \<times> string) list" where
  "columns_document =
     [(''table_catalog'', ''name''), (''table_schema'', ''name''), (''table_name'', ''name''),
      (''column_name'', ''name''), (''ordinal_position'', ''integer''),
      (''column_default'', ''character varying''), (''is_nullable'', ''character varying''),
      (''data_type'', ''character varying''), (''character_maximum_length'', ''integer''),
      (''character_octet_length'', ''integer''), (''numeric_precision'', ''integer''),
      (''numeric_precision_radix'', ''integer''), (''numeric_scale'', ''integer''),
      (''datetime_precision'', ''integer''), (''interval_type'', ''character varying''),
      (''interval_precision'', ''integer''), (''character_set_catalog'', ''name''),
      (''character_set_schema'', ''name''), (''character_set_name'', ''name''), (''collation_catalog'', ''name''),
      (''collation_schema'', ''name''), (''collation_name'', ''name''), (''domain_catalog'', ''name''),
      (''domain_schema'', ''name''), (''domain_name'', ''name''), (''udt_catalog'', ''name''),
      (''udt_schema'', ''name''), (''udt_name'', ''name''), (''scope_catalog'', ''name''),
      (''scope_schema'', ''name''), (''scope_name'', ''name''), (''maximum_cardinality'', ''integer''),
      (''dtd_identifier'', ''name''), (''is_self_referencing'', ''character varying''),
      (''is_identity'', ''character varying''), (''identity_generation'', ''character varying''),
      (''identity_start'', ''character varying''), (''identity_increment'', ''character varying''),
      (''identity_maximum'', ''character varying''), (''identity_minimum'', ''character varying''),
      (''identity_cycle'', ''character varying''), (''is_generated'', ''character varying''),
      (''generation_expression'', ''character varying''), (''is_updatable'', ''character varying'')]"

definition INFORMATION_SCHEMA_DOCUMENT :: "(pystr, (string \<times> string) list) dict" where
  "INFORMATION_SCHEMA_DOCUMENT = [(lit ''tables'', tables_document), (lit ''columns'', columns_document)]"

definition view_columns :: "(string \<times> string) list \<Rightarrow> exc + (pystr, pystr) dict" where
  "view_columns doc = rmap (\<lambda>(name, ty). rbind (sqlglot_type (lit ty)) (\<lambda>t. Inr (lit name, t))) doc"

definition INFORMATION_SCHEMA_SCHEMA :: "exc + (pystr, (pystr, (pystr, pystr) dict) dict) dict" where
  "INFORMATION_SCHEMA_SCHEMA =
     rbind (rmap (\<lambda>(view, doc). rbind (view_columns doc) (\<lambda>cols. Inr (view, cols))) INFORMATION_SCHEMA_DOCUMENT)
       (\<lambda>views. Inr [(lit ''information_schema'', views)])"

section \<open>Rows\<close>

type_synonym cat_row = "(pystr, pyval) dict"

definition row_of :: "(string \<times> pyval) list \<Rightarrow> cat_row" where
  "row_of r = map (\<lambda>(c, v). (lit c, v)) r"

abbreviation ptext :: "string \<Rightarrow> pyval" where
  "ptext s \<equiv> PStr (lit s)"

fun value_fits :: "pystr \<Rightarrow> pyval \<Rightarrow> bool" where
  "value_fits ty PNone = True"
| "value_fits ty (PInt i) = (ty = lit ''INT'')"
| "value_fits ty (PStr s) = (ty = lit ''TEXT'')"
| "value_fits ty (PBool b) = (ty = lit ''BOOLEAN'')"
| "value_fits ty v = False"

definition row_fits :: "(pystr, pystr) dict \<Rightarrow> cat_row \<Rightarrow> bool" where
  "row_fits cols r \<longleftrightarrow>
     distinct (map fst r) \<and> set (map fst r) = set (map fst cols)
     \<and> (\<forall>(c, v) \<in> set r. \<exists>ty. dict_get cols c = Some ty \<and> value_fits ty v)"

definition int_at :: "string \<Rightarrow> cat_row \<Rightarrow> int option" where
  "int_at c r = (case dict_get r (lit c) of Some (PInt i) \<Rightarrow> Some i | _ \<Rightarrow> None)"

definition text_at :: "string \<Rightarrow> cat_row \<Rightarrow> pystr option" where
  "text_at c r = (case dict_get r (lit c) of Some (PStr s) \<Rightarrow> Some s | _ \<Rightarrow> None)"

definition bool_at :: "string \<Rightarrow> cat_row \<Rightarrow> bool option" where
  "bool_at c r = (case dict_get r (lit c) of Some (PBool b) \<Rightarrow> Some b | _ \<Rightarrow> None)"

lemma row_of_simps [simp]: "row_of [] = []" "row_of ((c, v) # r) = (lit c, v) # row_of r"
  by (simp_all add: row_of_def)

lemma declared_types_simps [simp]: "declared_types [] = []" "declared_types ((c, ty) # cs) = (lit c, lit ty) # declared_types cs"
  by (simp_all add: declared_types_def)

text \<open>A row written as the literal pairs of a table's columns fits, when the values do, name by name.\<close>

lemma row_fits_zip:
  assumes "list_all2 (\<lambda>(c, v) (d, ty). c = d \<and> value_fits (lit ty) v) r cs" and "distinct (map fst cs)"
  shows "row_fits (declared_types cs) (row_of r)"
proof -
  have names: "map fst r = map fst cs" using assms(1) by (induction rule: list_all2_induct) auto
  have "distinct (map fst (declared_types cs))"
    using assms(2) by (auto simp: declared_types_def comp_def case_prod_unfold distinct_map inj_on_def)
  moreover have "\<forall>(c, v) \<in> set (row_of r). \<exists>ty. (c, ty) \<in> set (declared_types cs) \<and> value_fits ty v"
    using assms(1) by (induction rule: list_all2_induct) fastforce+
  moreover have "map fst (row_of r) = map fst (declared_types cs)"
    using arg_cong[OF names, of "map lit"] by (simp add: row_of_def declared_types_def comp_def case_prod_unfold)
  ultimately show ?thesis by (auto simp: row_fits_def)
qed

lemma sqlglot_types [simp]:
  "sqlglot_type (lit ''name'') = Inr (lit ''TEXT'')" "sqlglot_type (lit ''character varying'') = Inr (lit ''TEXT'')"
  "sqlglot_type (lit ''integer'') = Inr (lit ''INT'')"
  by (simp_all add: sqlglot_type_def SQLGLOT_TYPE_def)

definition view_types :: "(string \<times> string) list \<Rightarrow> (pystr, pystr) dict" where
  "view_types doc = declared_types (map (\<lambda>(c, ty). (c, if ty = ''integer'' then ''INT'' else ''TEXT'')) doc)"

lemma view_columns_known:
  assumes "\<forall>ty \<in> set (map snd doc). ty \<in> {''name'', ''character varying'', ''integer''}"
  shows "view_columns doc = Inr (view_types doc)"
proof -
  have "rbind (sqlglot_type (lit ty)) (\<lambda>t. Inr (lit c, t)) = Inr (lit c, lit (if ty = ''integer'' then ''INT'' else ''TEXT''))"
    if "(c, ty) \<in> set doc" for c ty
  proof -
    from that assms have "ty \<in> {''name'', ''character varying'', ''integer''}" by force
    then show ?thesis by (elim insertE emptyE) simp_all
  qed
  then have "view_columns doc = Inr (map (\<lambda>(c, ty). (lit c, lit (if ty = ''integer'' then ''INT'' else ''TEXT''))) doc)"
    unfolding view_columns_def by (intro rmap_Inr) auto
  then show ?thesis by (simp add: view_types_def declared_types_def comp_def case_prod_unfold)
qed

lemma documents_known:
  "\<forall>ty \<in> set (map snd tables_document). ty \<in> {''name'', ''character varying'', ''integer''}"
  "\<forall>ty \<in> set (map snd columns_document). ty \<in> {''name'', ''character varying'', ''integer''}"
  by (simp_all add: tables_document_def columns_document_def)

lemma information_schema_loads:
  "INFORMATION_SCHEMA_SCHEMA =
     Inr [(lit ''information_schema'', [(lit ''tables'', view_types tables_document), (lit ''columns'', view_types columns_document)])]"
  by (simp add: INFORMATION_SCHEMA_SCHEMA_def INFORMATION_SCHEMA_DOCUMENT_def documents_known[THEN view_columns_known])

end
