(* ===== verification/Pg_Types.thy ===== *)
theory Pg_Types
  imports Arrays Catalog_Data "HOL-Library.List_Lexorder"
begin

text \<open>
  The types the server can name: the spellings a schema or a PREPARE may use (\<open>oid_for_declared_type\<close> of
  \<open>pg_mimic/describe.py\<close> over the table of \<open>pg_mimic/catalog_data.py\<close>) and the rows of \<open>pg_type\<close> that
  \<open>pg_mimic/catalog.py\<close> builds from the constants of \<open>pg_mimic/types.py\<close>.

  The lemmas: OIDs are distinct in \<open>pg_type\<close>, every type a spelling can mean is there, and so are
  the private constants that \<open>dir()\<close> picks up.
\<close>

section \<open>Python types\<close>

text \<open>
  The types \<open>oid_for_type\<close> tells apart: the keys of \<open>_PY_TYPE_OID\<close>, bare \<open>list\<close> and \<open>dict\<close>, \<open>list[...]\<close> with its
  arguments, and any other class, which is no subclass of those.
\<close>

datatype py_type =
    TyBool | TyInt | TyFloat | TyDecimal | TyStr | TyBytes | TyBytearray | TyDatetime | TyDate | TyTime | TyTimedelta | TyUuid
  | TyList | TyDict | TyListOf "py_type list" | TyOther pystr

fun type_of :: "pyval \<Rightarrow> py_type" where
  "type_of (PBool b) = TyBool" | "type_of (PInt i) = TyInt" | "type_of (PFloat w) = TyFloat" | "type_of (PDecimal d) = TyDecimal"
| "type_of (PStr s) = TyStr" | "type_of (PBytes b) = TyBytes" | "type_of (PBytearray b) = TyBytearray"
| "type_of (PDatetime d t z) = TyDatetime" | "type_of (PDate d) = TyDate" | "type_of (PTime t z) = TyTime"
| "type_of (PTimedelta u) = TyTimedelta" | "type_of (PUuid b) = TyUuid" | "type_of (PList xs) = TyList" | "type_of (PDict d) = TyDict"
| "type_of PNone = TyOther (lit ''NoneType'')" | "type_of (POther n s) = TyOther n"

text \<open>How \<open>repr\<close> shows a type inside \<open>list[...]\<close>.\<close>

fun type_path :: "py_type \<Rightarrow> pystr" where
  "type_path TyBool = lit ''bool''" | "type_path TyInt = lit ''int''" | "type_path TyFloat = lit ''float''"
| "type_path TyDecimal = lit ''decimal.Decimal''" | "type_path TyStr = lit ''str''" | "type_path TyBytes = lit ''bytes''"
| "type_path TyBytearray = lit ''bytearray''" | "type_path TyDatetime = lit ''datetime.datetime''" | "type_path TyDate = lit ''datetime.date''"
| "type_path TyTime = lit ''datetime.time''" | "type_path TyTimedelta = lit ''datetime.timedelta''" | "type_path TyUuid = lit ''uuid.UUID''"
| "type_path TyList = lit ''list''" | "type_path TyDict = lit ''dict''" | "type_path (TyOther n) = n"
| "type_path (TyListOf args) = lit ''list['' @ py_join (lit '', '') (map type_path args) @ lit '']''"

fun type_repr :: "py_type \<Rightarrow> pystr" where
  "type_repr (TyListOf args) = type_path (TyListOf args)"
| "type_repr t = lit ''<class '' @ [39] @ type_path t @ [39] @ lit ''>''"

definition ambiguous_type :: "string \<Rightarrow> exc" where
  "ambiguous_type name = TypeError (lit name @ lit '' is ambiguous: it could be a Postgres array or a json document. ''
     @ lit ''Use list[str] (or list[int], ...) for an array, or declare json explicitly with ResultColumn('' @ [34] @ lit ''name'' @ [34]
     @ lit '', JSONB).'')"

fun scalar_type_oid :: "py_type \<Rightarrow> exc + int" where
  "scalar_type_oid TyList = Inl (ambiguous_type ''list'')"
| "scalar_type_oid TyDict = Inl (ambiguous_type ''dict'')"
| "scalar_type_oid TyBool = Inr BOOL" | "scalar_type_oid TyInt = Inr INT8" | "scalar_type_oid TyFloat = Inr FLOAT8"
| "scalar_type_oid TyDecimal = Inr NUMERIC" | "scalar_type_oid TyStr = Inr TEXT" | "scalar_type_oid TyBytes = Inr BYTEA"
| "scalar_type_oid TyBytearray = Inr BYTEA" | "scalar_type_oid TyDatetime = Inr TIMESTAMP" | "scalar_type_oid TyDate = Inr DATE"
| "scalar_type_oid TyTime = Inr TIME" | "scalar_type_oid TyTimedelta = Inr INTERVAL" | "scalar_type_oid TyUuid = Inr UUID"
| "scalar_type_oid _ = Inr TEXT"

text \<open>The loop that unwraps \<open>list[list[...]]\<close>; \<open>whole\<close> is the type the message names.\<close>

fun list_element :: "py_type \<Rightarrow> py_type \<Rightarrow> exc + py_type" where
  "list_element whole (TyListOf [arg]) = list_element whole arg"
| "list_element whole (TyListOf args) = Inl (TypeError (type_repr whole @ lit '' must name exactly one element type, e.g. list[str]''))"
| "list_element whole element = Inr element"

fun oid_for_type :: "py_type \<Rightarrow> exc + int" where
  "oid_for_type (TyListOf args) =
     rbind (list_element (TyListOf args) (TyListOf args)) (\<lambda>element.
     rbind (scalar_type_oid element) (\<lambda>element_oid.
     case dict_get ARRAY_OID element_oid of
       Some oid \<Rightarrow> Inr oid
     | None \<Rightarrow> Inl (TypeError (lit ''no Postgres array type for element '' @ type_repr element @ lit '' (OID '' @ int_str element_oid @ lit '')''))))"
| "oid_for_type t = scalar_type_oid t"

record result_column =
  rc_name :: pystr
  rc_oid :: int

definition for_type :: "pystr \<Rightarrow> py_type \<Rightarrow> exc + result_column" where
  "for_type name t = rbind (oid_for_type t) (\<lambda>oid. Inr \<lparr>rc_name = name, rc_oid = oid\<rparr>)"

section \<open>Declared spellings\<close>

definition DECLARED_TYPE_OIDS :: "(pystr, int) dict" where
  "DECLARED_TYPE_OIDS =
     [(lit ''integer'', INT4), (lit ''int'', INT4), (lit ''int4'', INT4), (lit ''bigint'', INT8), (lit ''int8'', INT8), (lit ''smallint'', INT2),
      (lit ''int2'', INT2), (lit ''text'', TEXT), (lit ''varchar'', VARCHAR), (lit ''character varying'', VARCHAR),
      (lit ''character'', BPCHAR), (lit ''boolean'', BOOL), (lit ''bool'', BOOL), (lit ''real'', FLOAT4), (lit ''double precision'', FLOAT8),
      (lit ''numeric'', NUMERIC), (lit ''date'', DATE), (lit ''time'', TIME), (lit ''timestamp'', TIMESTAMP), (lit ''timestamptz'', TIMESTAMPTZ),
      (lit ''interval'', INTERVAL), (lit ''uuid'', UUID), (lit ''json'', JSON), (lit ''jsonb'', JSONB), (lit ''bytea'', BYTEA)]"

text \<open>\<open>while element.endswith("[]"): element = element[:-2].rstrip()\<close>; each turn takes at least two characters.\<close>

fun strip_brackets :: "nat \<Rightarrow> pystr \<Rightarrow> pystr" where
  "strip_brackets 0 s = s"
| "strip_brackets (Suc n) s = (if ends_with s [91, 93] then strip_brackets n (py_rstrip (take (length s - 2) s)) else s)"

definition oid_for_declared_type :: "pystr \<Rightarrow> int" where
  "oid_for_declared_type declared =
     (let name = py_lower (py_strip declared); element = strip_brackets (length name) name;
          oid = dict_get_or DECLARED_TYPE_OIDS element TEXT in
      if element = name then oid else dict_get_or ARRAY_OID oid oid)"

section \<open>\<open>pg_type\<close>\<close>

text \<open>
  The integer attributes of the module \<open>types\<close> in the order it defines them. Their names are all upper
  case, leading underscores aside, so each passes \<open>name.isupper()\<close>; the other upper-case names are no
  integers. \<open>dir()\<close> sorts by name.
\<close>

definition types_ints :: "(string \<times> int) list" where
  "types_ints =
     [(''BOOL'', BOOL), (''BYTEA'', BYTEA), (''CHAR'', CHAR_OID), (''NAME'', NAME), (''INT8'', INT8), (''INT2'', INT2),
      (''INT4'', INT4), (''TEXT'', TEXT), (''OID'', OID), (''JSON'', JSON), (''FLOAT4'', FLOAT4), (''FLOAT8'', FLOAT8),
      (''UNKNOWN'', UNKNOWN), (''MONEY'', MONEY), (''MACADDR'', MACADDR), (''INET'', INET), (''CIDR'', CIDR),
      (''BPCHAR'', BPCHAR), (''VARCHAR'', VARCHAR), (''DATE'', DATE), (''TIME'', TIME), (''TIMESTAMP'', TIMESTAMP),
      (''TIMESTAMPTZ'', TIMESTAMPTZ), (''INTERVAL'', INTERVAL), (''NUMERIC'', NUMERIC), (''UUID'', UUID),
      (''JSONB'', JSONB), (''RECORD'', RECORD), (''_JSONB_VERSION'', uint JSONB_VERSION), (''_NUMERIC_POS'', NUMERIC_POS),
      (''_NUMERIC_NEG'', NUMERIC_NEG), (''_NUMERIC_NAN'', NUMERIC_NAN), (''_NUMERIC_PINF'', NUMERIC_PINF),
      (''_NUMERIC_NINF'', NUMERIC_NINF), (''_NBASE'', 10000)]"

definition dir_types :: "(pystr \<times> int) list" where
  "dir_types = sort_key fst (map (\<lambda>(name, oid). (lit name, oid)) types_ints)"

definition type_row :: "int \<Rightarrow> pystr \<Rightarrow> int \<Rightarrow> string \<Rightarrow> int \<Rightarrow> cat_row" where
  "type_row oid typname typelem typcategory typarray = row_of
     [(''oid'', PInt oid), (''typname'', PStr typname), (''typnamespace'', PInt 11), (''typtype'', ptext ''b''),
      (''typelem'', PInt typelem), (''typbasetype'', PInt 0), (''typrelid'', PInt 0), (''typcategory'', ptext typcategory),
      (''typdelim'', ptext '',''), (''typcollation'', PInt 0), (''typarray'', PInt typarray)]"

definition typname_for :: "cat_row list \<Rightarrow> int \<Rightarrow> pystr" where
  "typname_for rows oid =
     (case find (\<lambda>r. int_at ''oid'' r = Some oid) rows of
        Some r \<Rightarrow> (case text_at ''typname'' r of Some s \<Rightarrow> s | None \<Rightarrow> [])
      | None \<Rightarrow> lit ''unknown'')"

text \<open>The two loops of \<open>_pg_type_rows\<close>, each skipping the OIDs seen before.\<close>

fun scalar_types :: "(pystr \<times> int) list \<Rightarrow> int list \<Rightarrow> cat_row list \<Rightarrow> int list \<times> cat_row list" where
  "scalar_types [] seen rows = (seen, rows)"
| "scalar_types ((name, oid) # rest) seen rows =
     (if oid \<in> set seen then scalar_types rest seen rows
      else scalar_types rest (set_add oid seen)
             (rows @ [type_row oid (py_lower name) 0 ''U'' (dict_get_or ARRAY_OID oid 0)]))"

fun array_types :: "(int \<times> int) list \<Rightarrow> int list \<Rightarrow> cat_row list \<Rightarrow> cat_row list" where
  "array_types [] seen rows = rows"
| "array_types ((element_oid, array_oid) # rest) seen rows =
     (if array_oid \<in> set seen then array_types rest seen rows
      else array_types rest (set_add array_oid seen)
             (rows @ [type_row array_oid (lit ''_'' @ typname_for rows element_oid) element_oid ''A'' 0]))"

definition pg_type_rows :: "cat_row list" where
  "pg_type_rows = (case scalar_types dir_types [] [] of (seen, rows) \<Rightarrow> array_types ARRAY_OID seen rows)"

definition pg_type_by_oid :: "(int, cat_row) dict" where
  "pg_type_by_oid = foldl (\<lambda>d r. case int_at ''oid'' r of Some oid \<Rightarrow> dict_set oid r d | None \<Rightarrow> d) [] pg_type_rows"

definition storage_for :: "int \<Rightarrow> pystr" where
  "storage_for oid =
     (if is_array_oid oid \<or> oid \<in> {TEXT, VARCHAR, BPCHAR, BYTEA, JSON, JSONB, NUMERIC} then lit ''x'' else lit ''p'')"

lemma type_row_fits: "row_fits pg_type_columns (type_row oid name elem cat arr)"
  unfolding row_fits_def type_row_def pg_type_columns_def by (simp, blast)

section \<open>The rows of \<open>pg_type\<close>\<close>

text \<open>The OIDs of the rows built so far are those seen, each once, and every row is a row of \<open>pg_type\<close>.\<close>

definition types_inv :: "int list \<Rightarrow> cat_row list \<Rightarrow> bool" where
  "types_inv seen rows \<longleftrightarrow>
     map (int_at ''oid'') rows = map Some seen \<and> distinct seen
     \<and> (\<forall>r \<in> set rows. row_fits pg_type_columns r \<and> (\<exists>name. dict_get r (lit ''typname'') = Some (PStr name)))"

lemma type_row_gets:
  "int_at ''oid'' (type_row oid name elem cat arr) = Some oid"
  "dict_get (type_row oid name elem cat arr) (lit ''typname'') = Some (PStr name)"
  by (simp_all add: type_row_def int_at_def)

lemma types_inv_add:
  "types_inv seen rows \<Longrightarrow> oid \<notin> set seen \<Longrightarrow> types_inv (set_add oid seen) (rows @ [type_row oid name elem cat arr])"
  by (auto simp: types_inv_def set_add_def type_row_gets type_row_fits)

lemma scalar_types_inv:
  assumes "types_inv seen rows" and "scalar_types names seen rows = (seen', rows')"
  shows "types_inv seen' rows' \<and> set seen' = set seen \<union> snd ` set names"
  using assms
proof (induction names seen rows rule: scalar_types.induct)
  case (2 name oid rest seen rows)
  then show ?case using types_inv_add[of seen rows oid] by (auto split: if_splits)
qed simp

lemma array_types_inv:
  assumes "types_inv seen rows"
  shows "\<exists>seen'. types_inv seen' (array_types arrays seen rows) \<and> set seen' = set seen \<union> snd ` set arrays"
  using assms
proof (induction arrays seen rows rule: array_types.induct)
  case (2 element arr rest seen rows)
  show ?case
  proof (cases "arr \<in> set seen")
    case True
    with 2 show ?thesis by auto
  next
    case False
    with 2(2)[OF False types_inv_add[OF 2(3) False]] show ?thesis by auto
  qed
qed auto

lemma pg_type_inv:
  "\<exists>seen. types_inv seen pg_type_rows \<and> set seen = set (map snd types_ints) \<union> snd ` set ARRAY_OID"
proof -
  obtain seen rows where sr: "scalar_types dir_types [] [] = (seen, rows)" by fastforce
  have "types_inv seen rows \<and> set seen = snd ` set dir_types"
    using scalar_types_inv[OF _ sr] by (simp add: types_inv_def)
  moreover have "snd ` set dir_types = set (map snd types_ints)" by (simp add: dir_types_def image_image case_prod_unfold)
  ultimately show ?thesis using array_types_inv[of seen rows ARRAY_OID] sr by (auto simp: pg_type_rows_def)
qed

lemma by_oid_get:
  assumes "map (int_at ''oid'') rows = map Some oids" and "distinct oids" and "oid \<in> set oids"
  shows "\<exists>r \<in> set rows. int_at ''oid'' r = Some oid
     \<and> dict_get (foldl (\<lambda>d r. case int_at ''oid'' r of Some oid \<Rightarrow> dict_set oid r d | None \<Rightarrow> d) d rows) oid = Some r"
  using assms
proof (induction oids arbitrary: rows d)
  case (Cons i oids)
  then obtain r rows' where rows: "rows = r # rows'" "int_at ''oid'' r = Some i" "map (int_at ''oid'') rows' = map Some oids"
    by (cases rows) auto
  have other: "dict_get (foldl (\<lambda>d r. case int_at ''oid'' r of Some oid \<Rightarrow> dict_set oid r d | None \<Rightarrow> d) d' rs) j = dict_get d' j"
    if "map (int_at ''oid'') rs = map Some is" "j \<notin> set is" for d' rs "is" j
    using that by (induction "is" arbitrary: rs d') (auto simp: Cons_eq_map_conv)
  show ?case
  proof (cases "oid = i")
    case True
    with Cons.prems(2) other[OF rows(3), of i "dict_set i r d"] rows show ?thesis by auto
  next
    case False
    with Cons.IH[OF rows(3), of "dict_set i r d"] Cons.prems rows show ?thesis by auto
  qed
qed simp

lemma known_type:
  assumes "oid \<in> set (map snd types_ints) \<union> snd ` set ARRAY_OID"
  shows "\<exists>r name. dict_get pg_type_by_oid oid = Some r \<and> r \<in> set pg_type_rows \<and> int_at ''oid'' r = Some oid
    \<and> dict_get r (lit ''typname'') = Some (PStr name)"
proof -
  obtain seen where inv: "types_inv seen pg_type_rows" and mem: "oid \<in> set seen" using pg_type_inv assms by blast
  then have "map (int_at ''oid'') pg_type_rows = map Some seen" "distinct seen" by (simp_all add: types_inv_def)
  from by_oid_get[OF this mem, of "[]"] inv show ?thesis by (auto simp: pg_type_by_oid_def types_inv_def)
qed

text \<open>What the dict finds under an OID is the row of that OID.\<close>

lemma by_oid_SomeD:
  assumes "dict_get pg_type_by_oid oid = Some r"
  shows "r \<in> set pg_type_rows \<and> int_at ''oid'' r = Some oid"
proof -
  have "dict_get (foldl (\<lambda>d r. case int_at ''oid'' r of Some oid \<Rightarrow> dict_set oid r d | None \<Rightarrow> d) d rows) oid = Some r
      \<Longrightarrow> dict_get d oid = Some r \<or> r \<in> set rows \<and> int_at ''oid'' r = Some oid" for d rows
  proof (induction rows arbitrary: d)
    case (Cons x rows)
    show ?case
    proof (cases "int_at ''oid'' x")
      case None
      with Cons.prems Cons.IH[of d] show ?thesis by auto
    next
      case (Some i)
      with Cons.prems Cons.IH[of "dict_set i x d"] show ?thesis by (auto split: if_splits)
    qed
  qed simp
  from this[OF assms[unfolded pg_type_by_oid_def]] show ?thesis by simp
qed

lemma declared_type_known: "oid_for_declared_type ty \<in> set (map snd types_ints) \<union> snd ` set ARRAY_OID"
proof -
  have scalars: "insert TEXT (snd ` set DECLARED_TYPE_OIDS) \<subseteq> set (map snd types_ints)"
    by (simp add: DECLARED_TYPE_OIDS_def types_ints_def)
  have scalar: "dict_get_or DECLARED_TYPE_OIDS e TEXT \<in> set (map snd types_ints)" for e
    using subsetD[OF scalars dict_get_or_mem] .
  define oid where "oid = dict_get_or DECLARED_TYPE_OIDS (strip_brackets (length (py_lower (py_strip ty))) (py_lower (py_strip ty))) TEXT"
  have "oid_for_declared_type ty \<in> {oid, dict_get_or ARRAY_OID oid oid}"
    by (simp add: oid_for_declared_type_def Let_def oid_def)
  moreover have "oid \<in> set (map snd types_ints)" unfolding oid_def by (rule scalar)
  ultimately show ?thesis using dict_get_or_mem[of ARRAY_OID oid oid] by (elim insertE emptyE) (simp_all del: set_map)
qed

text \<open>
  \<open>pg_type\<close> also lists private integer constants of the module \<open>types\<close> as base types, among them the digit base of \<open>numeric\<close>.
\<close>

lemma scalar_types_all:
  assumes "distinct (map snd names)" and "snd ` set names \<inter> set seen = {}" and "(name, oid) \<in> set names"
  shows "type_row oid (py_lower name) 0 ''U'' (dict_get_or ARRAY_OID oid 0) \<in> set (snd (scalar_types names seen rows))
    \<and> set rows \<subseteq> set (snd (scalar_types names seen rows))"
proof -
  have keeps: "set rows \<subseteq> set (snd (scalar_types names seen rows))" for names seen rows
    by (induction names seen rows rule: scalar_types.induct) auto
  from assms show ?thesis
  proof (induction names seen rows rule: scalar_types.induct)
    case (2 n i rest seen rows)
    show ?case
    proof (cases "(name, oid) = (n, i)")
      case True
      with 2(4) keeps[of "rows @ [type_row i (py_lower n) 0 ''U'' (dict_get_or ARRAY_OID i 0)]" rest "set_add i seen"]
      show ?thesis by auto
    next
      case False
      with 2 show ?thesis by auto
    qed
  qed simp
qed

lemma array_types_keep: "set rows \<subseteq> set (array_types arrays seen rows)"
  by (induction arrays seen rows rule: array_types.induct) auto

lemma pg_type_lists_constants:
  "\<exists>r \<in> set pg_type_rows. int_at ''oid'' r = Some 10000 \<and> text_at ''typname'' r = Some (lit ''_nbase'')"
proof -
  have "distinct (map snd types_ints)"
    by (simp add: types_ints_def BOOL_def BYTEA_def CHAR_OID_def NAME_def INT8_def INT2_def INT4_def TEXT_def OID_def JSON_def
        FLOAT4_def FLOAT8_def UNKNOWN_def MONEY_def MACADDR_def INET_def CIDR_def BPCHAR_def VARCHAR_def DATE_def TIME_def
        TIMESTAMP_def TIMESTAMPTZ_def INTERVAL_def NUMERIC_def UUID_def JSONB_def RECORD_def JSONB_VERSION_def NUMERIC_POS_def
        NUMERIC_NEG_def NUMERIC_NAN_def NUMERIC_PINF_def NUMERIC_NINF_def)
  moreover have "set (map snd dir_types) = set (map snd types_ints)" "length (map snd dir_types) = length (map snd types_ints)"
    by (simp_all add: dir_types_def image_image case_prod_unfold)
  ultimately have d: "distinct (map snd dir_types)" by (metis card_distinct distinct_card)
  have "(''_NBASE'', 10000) \<in> set types_ints" by (simp add: types_ints_def)
  then have m: "(lit ''_NBASE'', 10000) \<in> set dir_types" by (force simp: dir_types_def)
  have "type_row 10000 (py_lower (lit ''_NBASE'')) 0 ''U'' (dict_get_or ARRAY_OID 10000 0) \<in> set (snd (scalar_types dir_types [] []))"
    by (rule scalar_types_all[OF d _ m, THEN conjunct1]) (simp only: list.set Int_empty_right)
  also have "\<dots> \<subseteq> set pg_type_rows"
    unfolding pg_type_rows_def using array_types_keep by (simp add: case_prod_unfold)
  finally have "type_row 10000 (py_lower (lit ''_NBASE'')) 0 ''U'' (dict_get_or ARRAY_OID 10000 0) \<in> set pg_type_rows" .
  moreover have "py_lower (lit ''_NBASE'') = lit ''_nbase''" by (simp add: lit_def lower_char_def)
  ultimately have "type_row 10000 (lit ''_nbase'') 0 ''U'' (dict_get_or ARRAY_OID 10000 0) \<in> set pg_type_rows" by simp
  then show ?thesis by (rule bexI[rotated]) (simp add: type_row_gets text_at_def)
qed

end
