(* ===== verification/Typeinfo.thy ===== *)
theory Typeinfo
  imports Pg_Types
begin

text \<open>
  \<open>pg_mimic/typeinfo.py\<close>: the answer to asyncpg's type introspection, computed at Bind from the rows of \<open>pg_type\<close> for the OIDs
  the client asks about. \<open>typeinfo_rows\<close> is \<open>_rows_for\<close>; its loop \<open>collect_types\<close> carries the OIDs seen and the rows with their
  depth. The statement and its portal are the constructor \<open>TypeInfoStatement\<close> of \<open>World\<close>.
\<close>

definition MARKER :: pystr where "MARKER = lit ''typeinfo_tree''"

definition typeinfo_columns :: "result_column list" where
  "typeinfo_columns = map (\<lambda>(name, oid). \<lparr>rc_name = lit name, rc_oid = oid\<rparr>)
     [(''oid'', OID), (''ns'', TEXT), (''name'', TEXT), (''kind'', TEXT), (''basetype'', OID), (''elemtype'', OID), (''elemdelim'', TEXT),
      (''range_subtype'', OID), (''attrtypoids'', TEXT), (''attrnames'', TEXT), (''depth'', INT4),
      (''basetype_name'', TEXT), (''elemtype_name'', TEXT), (''range_subtype_name'', TEXT)]"

definition OID_ARRAY :: int where "OID_ARRAY = 1028"

text \<open>\<open>_MARKER in sql\<close>\<close>

fun contains :: "'a list \<Rightarrow> 'a list \<Rightarrow> bool" where
  "contains sub [] = (sub = [])"
| "contains sub (c # cs) = (starts_with (c # cs) sub \<or> contains sub cs)"

definition is_typeinfo_query :: "pystr \<Rightarrow> bool" where
  "is_typeinfo_query sql = contains MARKER sql"

text \<open>One turn of the loop of \<open>_requested_oids\<close>; an item that is no integer is passed over.\<close>

definition requested_oid :: "pyval \<Rightarrow> int list" where
  "requested_oid item = (case parse_int_text (py_strip_chars [34] (py_str_val item)) of Some i \<Rightarrow> [i] | None \<Rightarrow> [])"

definition requested_oids :: "pyval list \<Rightarrow> int list" where
  "requested_oids params =
     (case params of
        [] \<Rightarrow> []
      | value # _ \<Rightarrow>
          (case value of
             PStr s \<Rightarrow> concat (map (\<lambda>part. requested_oid (PStr part)) (filter (\<lambda>part. part \<noteq> []) (split_on 44 (py_strip_chars [123, 125] s))))
           | PList items \<Rightarrow> concat (map requested_oid items)
           | _ \<Rightarrow> []))"

definition typelem :: "cat_row \<Rightarrow> int" where
  "typelem r = (case int_at ''typelem'' r of Some e \<Rightarrow> e | None \<Rightarrow> 0)"

fun collect_types :: "int list \<Rightarrow> int list \<Rightarrow> (int \<times> cat_row) list \<Rightarrow> int list \<times> (int \<times> cat_row) list" where
  "collect_types [] seen at_depth = (seen, at_depth)"
| "collect_types (oid # oids) seen at_depth =
     (case dict_get pg_type_by_oid oid of
        None \<Rightarrow> collect_types oids seen at_depth
      | Some r \<Rightarrow>
          if oid \<in> set seen then collect_types oids seen at_depth
          else
            let seen = set_add oid seen; at_depth = at_depth @ [(0, r)]; element = typelem r in
            if element \<noteq> 0 \<and> element \<notin> set seen then
              (case dict_get pg_type_by_oid element of
                 None \<Rightarrow> collect_types oids seen at_depth
               | Some element_row \<Rightarrow> collect_types oids (set_add element seen) (at_depth @ [(1, element_row)]))
            else collect_types oids seen at_depth)"

definition column :: "string \<Rightarrow> cat_row \<Rightarrow> pyval" where
  "column c r = (case dict_get r (lit c) of Some v \<Rightarrow> v | None \<Rightarrow> PNone)"

definition typeinfo_row :: "int \<times> cat_row \<Rightarrow> row" where
  "typeinfo_row = (\<lambda>(depth, r).
     let element = (if typelem r = 0 then None else dict_get pg_type_by_oid (typelem r)) in
     [column ''oid'' r, PStr (lit ''pg_catalog''), column ''typname'' r, column ''typtype'' r, PNone,
      (if typelem r = 0 then PNone else PInt (typelem r)),
      column ''typdelim'' (case element of Some e \<Rightarrow> e | None \<Rightarrow> r), PNone, PNone, PNone, PInt depth, PNone,
      (case element of Some e \<Rightarrow> column ''typname'' e | None \<Rightarrow> PNone), PNone])"

definition types_at_depth :: "int list \<Rightarrow> (int \<times> cat_row) list" where
  "types_at_depth oids = sort_key (\<lambda>pair. - fst pair) (snd (collect_types oids [] []))"

definition typeinfo_rows :: "int list \<Rightarrow> row list" where
  "typeinfo_rows oids = map typeinfo_row (types_at_depth oids)"

section \<open>Elements\<close>

text \<open>A type without an element, or an array of a scalar.\<close>

definition element_ok :: "cat_row \<Rightarrow> bool" where
  "element_ok r \<longleftrightarrow> typelem r = 0 \<or> (typelem r \<in> fst ` set ARRAY_OID \<and> int_at ''oid'' r \<in> Some ` snd ` set ARRAY_OID)"

lemma typelem_type_row [simp]: "typelem (type_row oid name elem cat arr) = elem"
  by (simp add: typelem_def type_row_def int_at_def)

lemma scalar_types_elements:
  "\<forall>r \<in> set rows. typelem r = 0 \<Longrightarrow> \<forall>r \<in> set (snd (scalar_types names seen rows)). typelem r = 0"
  by (induction names seen rows rule: scalar_types.induct) auto

lemma array_types_elements:
  "\<forall>r \<in> set rows. element_ok r \<Longrightarrow> set arrays \<subseteq> set ARRAY_OID \<Longrightarrow> \<forall>r \<in> set (array_types arrays seen rows). element_ok r"
proof (induction arrays seen rows rule: array_types.induct)
  case (2 element arr rest seen rows)
  then have "(element, arr) \<in> set ARRAY_OID" by simp
  then have "element \<in> fst ` set ARRAY_OID" "arr \<in> snd ` set ARRAY_OID" by (metis fst_conv image_eqI, metis snd_conv image_eqI)
  then have "element_ok (type_row arr (lit ''_'' @ typname_for rows element) element ''A'' 0)"
    by (simp add: element_ok_def type_row_gets)
  with 2 show ?case by simp
qed simp

lemma pg_type_elements: "r \<in> set pg_type_rows \<Longrightarrow> element_ok r"
proof -
  have "\<forall>r \<in> set (snd (scalar_types dir_types [] [])). element_ok r"
    using scalar_types_elements[of "[]" dir_types "[]"] by (simp add: element_ok_def)
  then show "r \<in> set pg_type_rows \<Longrightarrow> element_ok r"
    using array_types_elements[OF _ subset_refl] by (auto simp: pg_type_rows_def case_prod_unfold)
qed

lemma elements_scalar: "fst ` set ARRAY_OID \<subseteq> set (map snd types_ints) \<and> fst ` set ARRAY_OID \<inter> snd ` set ARRAY_OID = {} \<and> 0 \<notin> fst ` set ARRAY_OID"
proof -
  have "fst ` set ARRAY_OID \<subseteq> set (map snd types_ints)" by (simp add: ARRAY_OID_def types_ints_def)
  moreover have "list_all (\<lambda>e. e \<notin> set (map snd ARRAY_OID) \<and> e \<noteq> 0) (map fst ARRAY_OID)"
    by (simp add: ARRAY_OID_def BOOL_def BYTEA_def CHAR_OID_def NAME_def INT8_def INT2_def INT4_def TEXT_def OID_def JSON_def
        FLOAT4_def FLOAT8_def BPCHAR_def VARCHAR_def DATE_def TIME_def TIMESTAMP_def TIMESTAMPTZ_def INTERVAL_def NUMERIC_def
        UUID_def JSONB_def)
  ultimately show ?thesis by (auto simp: list_all_iff)
qed

text \<open>The element of a type is a type of the catalogue and has no element itself.\<close>

lemma element_row:
  assumes "dict_get pg_type_by_oid oid = Some r" and "typelem r \<noteq> 0"
  shows "\<exists>e. dict_get pg_type_by_oid (typelem r) = Some e \<and> typelem e = 0"
proof -
  have elem: "typelem r \<in> fst ` set ARRAY_OID"
    using pg_type_elements by_oid_SomeD[OF assms(1)] assms(2) by (auto simp: element_ok_def)
  then obtain e where e: "dict_get pg_type_by_oid (typelem r) = Some e" "e \<in> set pg_type_rows" "int_at ''oid'' e = Some (typelem r)"
    using known_type[of "typelem r"] elements_scalar by blast
  moreover have "typelem e = 0"
    using pg_type_elements[OF e(2)] e(3) elem elements_scalar by (auto simp: element_ok_def)
  ultimately show ?thesis by blast
qed

section \<open>Elements come first\<close>

definition entry_oid :: "int \<times> cat_row \<Rightarrow> int" where
  "entry_oid p = (case int_at ''oid'' (snd p) of Some i \<Rightarrow> i | None \<Rightarrow> 0)"

text \<open>Every element is in \<open>K\<close> or earlier in the list.\<close>

fun elements_known :: "int set \<Rightarrow> (int \<times> cat_row) list \<Rightarrow> bool" where
  "elements_known K [] = True"
| "elements_known K (p # ps) = ((typelem (snd p) = 0 \<or> typelem (snd p) \<in> K) \<and> elements_known (insert (entry_oid p) K) ps)"

lemma elements_known_mono: "elements_known K ps \<Longrightarrow> K \<subseteq> L \<Longrightarrow> elements_known L ps"
proof (induction ps arbitrary: K L)
  case (Cons p ps)
  then show ?case using Cons.IH[of "insert (entry_oid p) K" "insert (entry_oid p) L"] by auto
qed simp

lemma elements_known_append:
  "elements_known K (ps @ qs) \<longleftrightarrow> elements_known K ps \<and> elements_known (K \<union> entry_oid ` set ps) qs"
  by (induction ps arbitrary: K) auto

lemma elements_known_filter:
  assumes "elements_known K ps" and "entry_oid ` set (filter (\<lambda>p. \<not> Q p) ps) \<subseteq> K"
  shows "elements_known K (filter Q ps)"
  using assms
proof (induction ps arbitrary: K)
  case (Cons p ps)
  show ?case
  proof (cases "Q p")
    case True
    with Cons.prems Cons.IH[of "insert (entry_oid p) K"] show ?thesis by auto
  next
    case False
    with Cons.prems have "insert (entry_oid p) K = K" by auto
    with False Cons show ?thesis by auto
  qed
qed simp

lemma elements_known_nth:
  assumes "elements_known K ps" and "i < length ps" and "typelem (snd (ps ! i)) \<noteq> 0"
  shows "typelem (snd (ps ! i)) \<in> K \<union> entry_oid ` set (take i ps)"
  using assms
proof (induction ps arbitrary: K i)
  case (Cons p ps)
  then show ?case by (cases i) fastforce+
qed simp

lemma elements_known_filter_zero: "\<forall>p \<in> set ps. Q p \<longrightarrow> typelem (snd p) = 0 \<Longrightarrow> elements_known K (filter Q ps)"
  by (induction ps arbitrary: K) auto

definition depth_one :: "(int \<times> cat_row) list \<Rightarrow> (int \<times> cat_row) list" where
  "depth_one ps = filter (\<lambda>p. fst p = 1) ps"

definition collected :: "int list \<Rightarrow> (int \<times> cat_row) list \<Rightarrow> bool" where
  "collected seen ps \<longleftrightarrow>
     map entry_oid ps = seen \<and> distinct seen
     \<and> (\<forall>p \<in> set ps. (fst p = 0 \<or> fst p = 1 \<and> typelem (snd p) = 0) \<and> dict_get pg_type_by_oid (entry_oid p) = Some (snd p))
     \<and> elements_known (entry_oid ` set (depth_one ps)) ps"

lemma collected_oids: "collected seen ps \<Longrightarrow> entry_oid ` set ps = set seen"
  by (metis collected_def list.set_map)

lemma entry_oid_get: "dict_get pg_type_by_oid oid = Some r \<Longrightarrow> entry_oid (d, r) = oid"
  by (auto simp: entry_oid_def dest: by_oid_SomeD)

lemma collected_scalar:
  assumes "collected seen ps" "dict_get pg_type_by_oid oid = Some r" "oid \<notin> set seen" "typelem r = 0 \<or> typelem r \<in> set (set_add oid seen)"
  shows "collected (set_add oid seen) (ps @ [(0, r)])"
proof -
  have e: "entry_oid (0, r) = oid" using assms(2) by (rule entry_oid_get)
  have "typelem r = 0 \<or> typelem r \<in> set seen"
  proof -
    have "typelem r \<noteq> oid \<or> typelem r = 0"
      using element_row[OF assms(2)] assms(2) by fastforce
    then show ?thesis using assms(4) by auto
  qed
  then have "elements_known (entry_oid ` set (depth_one ps)) (ps @ [(0, r)])"
    using assms(1) by (auto simp: collected_def elements_known_append)
  then show ?thesis using assms(1-3) e by (auto simp: collected_def set_add_def depth_one_def)
qed

lemma collected_array:
  assumes "collected seen ps" "dict_get pg_type_by_oid oid = Some r" "oid \<notin> set seen"
    and "typelem r \<noteq> 0" "typelem r \<notin> set (set_add oid seen)" "dict_get pg_type_by_oid (typelem r) = Some e"
  shows "collected (set_add (typelem r) (set_add oid seen)) ((ps @ [(0, r)]) @ [(1, e)])"
proof -
  have eo: "entry_oid (0, r) = oid" "entry_oid (1, e) = typelem r" using assms(2,6) by (auto intro: entry_oid_get)
  have e0: "typelem e = 0" using element_row[OF assms(2,4)] assms(6) by auto
  have "elements_known (insert (typelem r) (entry_oid ` set (depth_one ps))) ps"
    using assms(1) by (auto simp: collected_def intro: elements_known_mono)
  then have "elements_known (entry_oid ` set (depth_one ((ps @ [(0, r)]) @ [(1, e)]))) ((ps @ [(0, r)]) @ [(1, e)])"
    using e0 eo by (simp add: elements_known_append depth_one_def)
  then show ?thesis using assms eo e0 by (auto simp: collected_def set_add_def)
qed

text \<open>The OIDs an answer is about: the types asked for that exist, and the elements of those.\<close>

definition answered :: "int list \<Rightarrow> int set" where
  "answered oids = {oid \<in> set oids. dict_get pg_type_by_oid oid \<noteq> None}
     \<union> {typelem r | r. typelem r \<noteq> 0 \<and> (\<exists>oid \<in> set oids. dict_get pg_type_by_oid oid = Some r)}"

lemma collected_closed:
  assumes "collected seen ps" and "oid \<in> set seen" and "dict_get pg_type_by_oid oid = Some r" and "typelem r \<noteq> 0"
  shows "typelem r \<in> set seen"
proof -
  obtain i where i: "i < length ps" "entry_oid (ps ! i) = oid"
    using assms(1,2) by (auto simp: collected_def in_set_conv_nth)
  then have "snd (ps ! i) = r" using assms(1,3) by (force simp: collected_def)
  then have "typelem r \<in> entry_oid ` set (depth_one ps) \<union> entry_oid ` set (take i ps)"
    using elements_known_nth[of _ ps i] assms(1,4) i by (auto simp: collected_def)
  also have "\<dots> \<subseteq> set (map entry_oid ps)" by (auto simp: depth_one_def dest: in_set_takeD)
  finally show ?thesis using collected_oids[OF assms(1)] by simp
qed

lemma answered_Cons:
  "answered (oid # oids) = answered oids \<union>
     (case dict_get pg_type_by_oid oid of None \<Rightarrow> {} | Some r \<Rightarrow> {oid} \<union> (if typelem r = 0 then {} else {typelem r}))"
  by (auto simp: answered_def split: option.splits)

lemma collect_types_spec:
  assumes "collected seen ps"
  shows "collected (fst (collect_types oids seen ps)) (snd (collect_types oids seen ps))
    \<and> set (fst (collect_types oids seen ps)) = set seen \<union> answered oids"
  using assms
proof (induction oids arbitrary: seen ps)
  case Nil
  then show ?case by (simp add: answered_def)
next
  case (Cons oid oids)
  show ?case
  proof (cases "dict_get pg_type_by_oid oid")
    case None
    with Cons show ?thesis by (simp add: answered_Cons)
  next
    case (Some r)
    consider "oid \<in> set seen"
      | "oid \<notin> set seen" "typelem r = 0 \<or> typelem r \<in> set (set_add oid seen)"
      | "oid \<notin> set seen" "typelem r \<noteq> 0" "typelem r \<notin> set (set_add oid seen)" by blast
    then show ?thesis
    proof cases
      case 1
      then have "{oid} \<union> (if typelem r = 0 then {} else {typelem r}) \<subseteq> set seen"
        using collected_closed[OF Cons.prems _ Some] by auto
      with 1 Some Cons show ?thesis by (auto simp: answered_Cons)
    next
      case 2
      with Some Cons.IH[OF collected_scalar[OF Cons.prems Some 2]] show ?thesis by (auto simp: answered_Cons Let_def)
    next
      case 3
      then obtain e where e: "dict_get pg_type_by_oid (typelem r) = Some e" using element_row[OF Some] by blast
      with 3 Some Cons.IH[OF collected_array[OF Cons.prems Some 3 e]] show ?thesis by (auto simp: answered_Cons Let_def)
    qed
  qed
qed

text \<open>A stable sort on two depths puts the deep entries first and keeps each group in order.\<close>

lemma sort_depths:
  "\<forall>p \<in> set ps. fst p = 0 \<or> fst p = 1 \<Longrightarrow>
   sort_key (\<lambda>p. - fst p) ps = filter (\<lambda>p. fst p = 1) ps @ filter (\<lambda>p. fst p = (0 :: int)) ps"
proof (induction ps)
  case (Cons p ps)
  have low: "insort_key (\<lambda>p. - fst p) p qs = p # qs" if "\<forall>q \<in> set qs. fst q \<le> fst p" for qs
    using that by (cases qs) auto
  have high: "insort_key (\<lambda>p. - fst p) p (qs @ rs) = qs @ insort_key (\<lambda>p. - fst p) p rs" if "\<forall>q \<in> set qs. fst p < fst q" for qs rs
    using that by (induction qs) auto
  consider "fst p = 1" | "fst p = 0" using Cons.prems by auto
  then show ?case
  proof cases
    case 1
    then have "\<forall>q \<in> set (filter (\<lambda>p. fst p = 1) ps @ filter (\<lambda>p. fst p = 0) ps). fst q \<le> fst p" by auto
    from low[OF this] 1 Cons show ?thesis by simp
  next
    case 2
    then have "\<forall>q \<in> set (filter (\<lambda>p. fst p = 1) ps). fst p < fst q" by simp
    with 2 Cons show ?thesis by (simp add: high low)
  qed
qed simp

lemma types_at_depth_spec:
  "distinct (map entry_oid (types_at_depth oids)) \<and> entry_oid ` set (types_at_depth oids) = answered oids
   \<and> (\<forall>p \<in> set (types_at_depth oids). dict_get pg_type_by_oid (entry_oid p) = Some (snd p))
   \<and> elements_known {} (types_at_depth oids)"
proof -
  let ?ps = "snd (collect_types oids [] [])"
  have col: "collected (fst (collect_types oids [] [])) ?ps" and ans: "set (fst (collect_types oids [] [])) = answered oids"
    using collect_types_spec[of "[]" "[]" oids] by (simp_all add: collected_def)
  then have depths: "\<forall>p \<in> set ?ps. fst p = 0 \<or> fst p = 1" by (auto simp: collected_def)
  have other: "filter (\<lambda>p. fst p = 0) ?ps = filter (\<lambda>p. \<not> fst p = 1) ?ps"
    using depths by (intro filter_cong) auto
  have split: "types_at_depth oids = depth_one ?ps @ filter (\<lambda>p. \<not> fst p = 1) ?ps"
    unfolding types_at_depth_def sort_depths[OF depths] depth_one_def other ..
  have "distinct (map entry_oid ?ps)" using col by (simp add: collected_def)
  then have "distinct (map entry_oid (depth_one ?ps @ filter (\<lambda>p. \<not> fst p = 1) ?ps))"
    by (auto simp: depth_one_def distinct_map inj_on_def)
  moreover have "elements_known {} (depth_one ?ps)"
    using col by (auto simp: collected_def depth_one_def intro!: elements_known_filter_zero)
  moreover have "elements_known (entry_oid ` set (depth_one ?ps)) (filter (\<lambda>p. \<not> fst p = 1) ?ps)"
    using col by (intro elements_known_filter) (auto simp: collected_def depth_one_def)
  moreover have "set (types_at_depth oids) = set ?ps" by (simp add: types_at_depth_def)
  moreover have "entry_oid ` set ?ps = answered oids" using collected_oids[OF col] ans by simp
  ultimately show ?thesis using col split by (simp add: elements_known_append collected_def)
qed

lemma typeinfo_row_gets:
  assumes "dict_get pg_type_by_oid (entry_oid p) = Some (snd p)"
  shows "hd (typeinfo_row p) = PInt (entry_oid p)"
    and "typeinfo_row p ! 5 = (if typelem (snd p) = 0 then PNone else PInt (typelem (snd p)))"
proof -
  have "int_at ''oid'' (snd p) = Some (entry_oid p)" using by_oid_SomeD[OF assms] by simp
  then show "hd (typeinfo_row p) = PInt (entry_oid p)"
    by (auto simp: typeinfo_row_def case_prod_unfold Let_def column_def int_at_def split: option.splits pyval.splits)
qed (simp add: typeinfo_row_def case_prod_unfold Let_def)

text \<open>
  C27: the answer to asyncpg's type introspection has one row for each type asked for that exists and for each element of those,
  none twice, and the row of an array comes after the row of its element, which asyncpg needs to have read first.
\<close>
theorem typeinfo_elements_first:
  fixes oids :: "int list"
  defines "rows \<equiv> typeinfo_rows oids"
  shows "distinct (map hd rows) \<and> set (map hd rows) = PInt ` answered oids
    \<and> (\<forall>i < length rows. rows ! i ! 5 \<noteq> PNone \<longrightarrow> (\<exists>j < i. hd (rows ! j) = rows ! i ! 5))"
proof -
  let ?ps = "types_at_depth oids"
  note spec = types_at_depth_spec[of oids]
  have hds: "map hd rows = map PInt (map entry_oid ?ps)"
    using spec by (auto simp: rows_def typeinfo_rows_def typeinfo_row_gets)
  have "\<exists>j < i. hd (rows ! j) = rows ! i ! 5" if i: "i < length rows" and e: "rows ! i ! 5 \<noteq> PNone" for i
  proof -
    have ip: "i < length ?ps" using i by (simp add: rows_def typeinfo_rows_def)
    have row: "rows ! j = typeinfo_row (?ps ! j)" "dict_get pg_type_by_oid (entry_oid (?ps ! j)) = Some (snd (?ps ! j))"
      if "j \<le> i" for j
      using that ip spec by (simp_all add: rows_def typeinfo_rows_def)
    from e row[of i] have elem: "typelem (snd (?ps ! i)) \<noteq> 0" "rows ! i ! 5 = PInt (typelem (snd (?ps ! i)))"
      by (auto simp: typeinfo_row_gets split: if_splits)
    then obtain j where "j < i" "entry_oid (?ps ! j) = typelem (snd (?ps ! i))"
      using elements_known_nth[of "{}" ?ps i] spec ip by (auto simp: in_set_conv_nth)
    with row[of j] elem show ?thesis by (auto simp: typeinfo_row_gets)
  qed
  moreover have "distinct (map hd rows)" using spec unfolding hds by (simp add: distinct_map inj_on_def)
  moreover have "set (map hd rows) = PInt ` answered oids" unfolding hds list.set_map using spec by (simp only:)
  ultimately show ?thesis by blast
qed

theorem typeinfo_elements_first_witness:
  "distinct (map hd (typeinfo_rows [1009, 77])) \<and> PInt 1009 \<in> set (map hd (typeinfo_rows [1009, 77]))"
proof -
  have "1009 \<in> snd ` set ARRAY_OID" by (simp add: ARRAY_OID_def)
  then have "1009 \<in> answered [1009, 77]" using known_type[of 1009] by (force simp: answered_def)
  with typeinfo_elements_first[of "[1009, 77]"] show ?thesis by blast
qed

end
