(* ===== verification/World.thy ===== *)
theory World
  imports Session_State Messages Stream_IO Copy_Parse Typeinfo
begin

text \<open>
  The objects of the running server and what connects them: the \<open>Connection\<close> objects of
  \<open>pg_mimic/connection.py\<close> with the statements and portals they hold, the registry and counters of
  \<open>PgServer\<close> (\<open>pg_mimic/server.py\<close>), and the server-to-client push of both: ParameterStatus
  reports, notices, notifications and the LISTEN registry.

  The world holds every \<open>Connection\<close> by its pid and every \<open>Session\<close> by a number. An operation is an
  action on the world (\<open>act\<close> of the prelude), so what it did before raising stays done. What a
  connection writes to its stream is the list \<open>c_out\<close> of backend messages; \<open>render\<close> gives their
  bytes and the exceptions of building them, and a message that cannot be built is never written.

  The locale \<open>channel_registry\<close> is the contract \<open>sync_listeners\<close> and \<open>_drop_listeners\<close> rely on;
  it is interpreted on \<open>add_listener\<close> and \<open>remove_listener\<close>.
\<close>

section \<open>Backend messages\<close>

datatype bmsg =
    MAuthenticationOk | MAuthenticationCleartextPassword | MAuthenticationMd5Password bytes
  | MAuthenticationSasl "pystr list" | MAuthenticationSaslContinue bytes | MAuthenticationSaslFinal bytes
  | MParameterStatus pystr pystr | MBackendKeyData int int | MReadyForQuery byte
  | MRowDescription "field_spec list" | MDataRow "bytes option list" | MCommandComplete pystr
  | MEmptyQueryResponse | MErrorResponse "(pystr \<times> pystr) list" | MNoticeResponse "(pystr \<times> pystr) list"
  | MNotificationResponse int pystr pystr | MFatalError pystr pystr
  | MNegotiateProtocolVersion int "pystr list" | MParseComplete | MBindComplete | MCloseComplete
  | MNoData | MPortalSuspended | MParameterDescription "int list"
  | MCopyInResponse nat | MCopyOutResponse nat | MCopyData bytes | MCopyDone
  | MDecline

fun render :: "bmsg \<Rightarrow> exc + bytes" where
  "render MAuthenticationOk = make_authentication_ok"
| "render MAuthenticationCleartextPassword = make_authentication_cleartext_password"
| "render (MAuthenticationMd5Password salt) = make_authentication_md5_password salt"
| "render (MAuthenticationSasl ms) = make_authentication_sasl ms"
| "render (MAuthenticationSaslContinue d) = make_authentication_sasl_continue d"
| "render (MAuthenticationSaslFinal d) = make_authentication_sasl_final d"
| "render (MParameterStatus n v) = make_parameter_status n v"
| "render (MBackendKeyData p s) = make_backend_key_data p s"
| "render (MReadyForQuery s) = make_ready_for_query s"
| "render (MRowDescription fs) = make_row_description fs"
| "render (MDataRow vs) = make_data_row vs"
| "render (MCommandComplete t) = make_command_complete t"
| "render MEmptyQueryResponse = make_empty_query_response"
| "render (MErrorResponse fs) = make_error_response fs"
| "render (MNoticeResponse fs) = make_notice_response fs"
| "render (MNotificationResponse p c d) = make_notification_response p c d"
| "render (MFatalError c m) = make_fatal_error c m"
| "render (MNegotiateProtocolVersion v es) = make_negotiate_protocol_version v es"
| "render MParseComplete = make_parse_complete"
| "render MBindComplete = make_bind_complete"
| "render MCloseComplete = make_close_complete"
| "render MNoData = make_no_data"
| "render MPortalSuspended = make_portal_suspended"
| "render (MParameterDescription os) = make_parameter_description os"
| "render (MCopyInResponse n) = make_copy_in_response n"
| "render (MCopyOutResponse n) = make_copy_out_response n"
| "render (MCopyData d) = make_copy_data d"
| "render MCopyDone = make_copy_done"
| "render MDecline = Inr [0x4E]"

section \<open>Statements and portals\<close>

type_synonym columns = "result_column list option"

text \<open>
  The rows of a \<open>StaticStatement\<close>: a fixed list, or a callable run at each execution: SHOW of a
  name, SHOW ALL, or a query the SQL engine evaluates again.
\<close>

datatype rows_spec = RowsFixed "row list" | RowsShow pystr | RowsShowAll | RowsQuery pystr

datatype savepoint_kind = SP_SAVEPOINT | SP_RELEASE | SP_ROLLBACK_TO
datatype discard_kind = DK_ALL | DK_PLANS | DK_SEQUENCES | DK_TEMP
datatype tx_tag = TAG_BEGIN | TAG_COMMIT | TAG_ROLLBACK

text \<open>
  The statements of \<open>session.py\<close>, \<open>copy.py\<close> and \<open>middleware.py\<close>. The \<open>on_execute\<close> closures of the
  middleware are the constructors of \<open>effect\<close>, with what each closure captures; a statement with
  no effect has an empty list. The column cache of a \<open>CallbackStatement\<close> is a cell of its connection,
  named by a number, so that the copies of a statement share it.
\<close>

datatype statement =
    StaticStatement pystr columns rows_spec "effect list"
  | CallbackStatement pystr "int option list" nat
  | CopyStatement pystr parsed_copy
  | TypeInfoStatement pystr
  | PreparedExecution statement "pystr option list"
and effect =
    ETransaction tx_tag
  | ESavepoint savepoint_kind pystr
  | EDiscard discard_kind
  | EDeallocate bool pystr
  | EAssign "(pystr \<times> pystr option) list" bool
  | EResetAll
  | EListen pystr
  | EUnlisten "pystr option"
  | ENotify pystr pystr
  | EPrepare pystr statement
  | ESetConfig pystr "pystr option"

text \<open>
  What the code of a session author does to the connection while it runs: \<open>notice\<close>, \<open>notify\<close> and
  \<open>notify_listeners\<close> on its own connection, \<open>PgServer.notify\<close> from anywhere (which is also what
  another connection's NOTIFY amounts to while this one waits), and a notice raised on this connection
  by a task that is not its command.
\<close>

datatype author_act =
    ANotice pystr pystr "(pystr \<times> pystr) list"
  | ANotify pystr pystr "int option"
  | ANotifyListeners pystr pystr
  | AServerNotify pystr pystr int
  | ABackgroundNotice pystr pystr "(pystr \<times> pystr) list"

text \<open>
  A row source: what each \<open>__anext__\<close> does and gives, in order. After an exception or the last row it
  is exhausted.
\<close>

type_synonym row_source = "(author_act list \<times> (exc + row)) list"

datatype portal =
    StaticPortal rows_spec "effect list" "row_source option"
  | CallbackPortal pystr "pyval list" "row_source option"
  | CopyPortal pystr parsed_copy

record portal_entry =
  pe_portal :: portal
  pe_columns :: columns
  pe_sql :: pystr
  pe_rows_returned :: nat
  pe_result_format_codes :: "int list"

definition PortalEntry :: "portal \<Rightarrow> columns \<Rightarrow> pystr \<Rightarrow> int list \<Rightarrow> portal_entry" where
  "PortalEntry portal cols sql codes =
     \<lparr>pe_portal = portal, pe_columns = cols, pe_sql = sql, pe_rows_returned = 0, pe_result_format_codes = codes\<rparr>"

fun statement_sql :: "statement \<Rightarrow> pystr" where
  "statement_sql (StaticStatement sql cols rows effs) = sql"
| "statement_sql (CallbackStatement sql oids cell) = sql"
| "statement_sql (CopyStatement sql parsed) = sql"
| "statement_sql (TypeInfoStatement sql) = sql"
| "statement_sql (PreparedExecution prepared args) = statement_sql prepared"

fun statement_param_oids :: "statement \<Rightarrow> int option list" where
  "statement_param_oids (CallbackStatement sql oids cell) = oids"
| "statement_param_oids (TypeInfoStatement sql) = [Some OID_ARRAY]"
| "statement_param_oids _ = []"

text \<open>
  \<open>Statement.bind\<close>: no I/O, only what the portal stores. A \<open>TypeInfoPortal\<close> drains a fixed list of rows, which is what a
  \<open>StaticPortal\<close> without an effect does.
\<close>

fun statement_bind :: "statement \<Rightarrow> pyval list \<Rightarrow> portal" where
  "statement_bind (StaticStatement sql cols rows effs) params = StaticPortal rows effs None"
| "statement_bind (CallbackStatement sql oids cell) params = CallbackPortal sql params None"
| "statement_bind (CopyStatement sql parsed) params = CopyPortal sql parsed"
| "statement_bind (TypeInfoStatement sql) params = StaticPortal (RowsFixed (typeinfo_rows (requested_oids params))) [] None"
| "statement_bind (PreparedExecution prepared args) params =
     statement_bind prepared (map (\<lambda>a. case a of None \<Rightarrow> PNone | Some s \<Rightarrow> PStr s) args)"

section \<open>Connections, sessions and the server\<close>

datatype tx_status = TxI | TxT | TxE

fun tx_byte :: "tx_status \<Rightarrow> byte" where
  "tx_byte TxI = 0x49" | "tx_byte TxT = 0x54" | "tx_byte TxE = 0x45"

record conn =
  c_pid :: int
  c_secret :: int
  c_session :: nat
  c_startup_params :: "(pystr, pystr) dict"
  c_protocol_version :: int
  c_username :: pystr
  c_database :: pystr
  c_state :: "(statement, portal_entry) session_state"
  c_tx_status :: tx_status
  c_ignore_until_sync :: bool
  c_current_task :: bool
  c_cancel_requested :: bool
  c_pending_parameter_status :: "(pystr, pystr) dict"
  c_pending_async :: "bmsg list"
  c_at_ready_for_query :: bool
  c_registered_channels :: "pystr list"
  c_in :: bytes
  c_out :: "bmsg list"
  c_described :: "(nat, columns) dict"
  c_next_cell :: nat

text \<open>\<open>Connection.__init__\<close>; \<open>inp\<close> is what the client will have sent after the startup packet.\<close>

definition Connection :: "bytes \<Rightarrow> nat \<Rightarrow> int \<Rightarrow> int \<Rightarrow> (pystr, pystr) dict \<Rightarrow> int \<Rightarrow> conn" where
  "Connection inp session pid secret params version =
     (let user = dict_get_or params (lit ''user'') [];
          db = dict_get_or params (lit ''database'') user in
      \<lparr>c_pid = pid, c_secret = secret, c_session = session, c_startup_params = params, c_protocol_version = version,
       c_username = user, c_database = db,
       c_state = SessionState user db (dict_get_or params (lit ''application_name'') []),
       c_tx_status = TxI, c_ignore_until_sync = False, c_current_task = False, c_cancel_requested = False,
       c_pending_parameter_status = [], c_pending_async = [], c_at_ready_for_query = False,
       c_registered_channels = [], c_in = inp, c_out = [], c_described = [], c_next_cell = 0\<rparr>)"

record 'u session_obj =
  so_connection :: "int option"
  so_author :: 'u

record 'u world =
  w_conns :: "int \<Rightarrow> conn"
  w_sessions :: "nat \<Rightarrow> 'u session_obj"
  w_connections :: "int list"
  w_listeners :: "(pystr, int list) dict"
  w_parameter_status :: "(pystr, pystr) dict"
  w_port :: nat
  w_closing :: bool
  w_next_pid :: int
  w_max_message_size :: int

definition upd_conn :: "int \<Rightarrow> (conn \<Rightarrow> conn) \<Rightarrow> 'u world \<Rightarrow> 'u world" where
  "upd_conn p f w = w\<lparr>w_conns := (w_conns w)(p := f (w_conns w p))\<rparr>"

definition upd_state ::
    "int \<Rightarrow> ((statement, portal_entry) session_state \<Rightarrow> (statement, portal_entry) session_state) \<Rightarrow> 'u world \<Rightarrow> 'u world" where
  "upd_state p f = upd_conn p (\<lambda>c. c\<lparr>c_state := f (c_state c)\<rparr>)"

section \<open>Writing\<close>

definition put_out :: "int \<Rightarrow> bmsg \<Rightarrow> 'u world \<Rightarrow> 'u world" where
  "put_out p m = upd_conn p (\<lambda>c. c\<lparr>c_out := c_out c @ [m]\<rparr>)"

text \<open>\<open>self.stream.write(messages.make_...(...))\<close>\<close>

definition write_msg :: "int \<Rightarrow> bmsg \<Rightarrow> ('u world, unit) act" where
  "write_msg p m w = (case render m of Inl e \<Rightarrow> (Inl e, w) | Inr _ \<Rightarrow> (Inr (), put_out p m w))"

section \<open>Push\<close>

definition report_parameter :: "int \<Rightarrow> pystr \<Rightarrow> pystr \<Rightarrow> 'u world \<Rightarrow> 'u world" where
  "report_parameter p name v =
     upd_conn p (\<lambda>c. c\<lparr>c_pending_parameter_status := dict_set name v (c_pending_parameter_status c)\<rparr>)"

definition flush_parameter_status :: "int \<Rightarrow> ('u world, unit) act" where
  "flush_parameter_status p w =
     abind (arun (\<lambda>(name, v). write_msg p (MParameterStatus name v)) (c_pending_parameter_status (w_conns w p)))
       (\<lambda>_. amod (upd_conn p (\<lambda>c. c\<lparr>c_pending_parameter_status := []\<rparr>))) w"

text \<open>\<open>own\<close>: the caller is the task that runs this connection's command.\<close>

definition in_own_command :: "bool \<Rightarrow> conn \<Rightarrow> bool" where
  "in_own_command own c \<longleftrightarrow> c_current_task c \<and> own"

definition deliver_async :: "int \<Rightarrow> bmsg \<Rightarrow> 'u world \<Rightarrow> 'u world" where
  "deliver_async p m w =
     (if c_at_ready_for_query (w_conns w p) then put_out p m w
      else upd_conn p (\<lambda>c. c\<lparr>c_pending_async := c_pending_async c @ [m]\<rparr>) w)"

definition flush_async :: "int \<Rightarrow> 'u world \<Rightarrow> 'u world" where
  "flush_async p = upd_conn p (\<lambda>c. c\<lparr>c_out := c_out c @ c_pending_async c, c_pending_async := []\<rparr>)"

definition SUCCESSFUL_COMPLETION :: pystr where "SUCCESSFUL_COMPLETION = lit ''00000''"

definition notice :: "bool \<Rightarrow> int \<Rightarrow> pystr \<Rightarrow> pystr \<Rightarrow> (pystr \<times> pystr) list \<Rightarrow> ('u world, unit) act" where
  "notice own p msg severity fs w =
     (let m = MNoticeResponse (dict_update
            [(lit ''S'', severity), (lit ''V'', severity), (lit ''C'', SUCCESSFUL_COMPLETION), (lit ''M'', msg)] fs) in
      case render m of
        Inl e \<Rightarrow> (Inl e, w)
      | Inr _ \<Rightarrow> (Inr (), if in_own_command own (w_conns w p) then put_out p m w else deliver_async p m w))"

definition notify :: "int \<Rightarrow> pystr \<Rightarrow> pystr \<Rightarrow> int option \<Rightarrow> ('u world, unit) act" where
  "notify p channel payload pid w =
     (let m = MNotificationResponse (case pid of None \<Rightarrow> c_pid (w_conns w p) | Some q \<Rightarrow> q) channel payload in
      case render m of Inl e \<Rightarrow> (Inl e, w) | Inr _ \<Rightarrow> (Inr (), deliver_async p m w))"

section \<open>The registry of the server\<close>

type_synonym registry = "(pystr, int list) dict"

definition listeners :: "registry \<Rightarrow> pystr \<Rightarrow> int list" where
  "listeners reg channel = dict_get_or reg channel []"

definition add_listener :: "pystr \<Rightarrow> int \<Rightarrow> registry \<Rightarrow> registry" where
  "add_listener channel p reg = dict_set channel (set_add p (listeners reg channel)) reg"

definition remove_listener :: "pystr \<Rightarrow> int \<Rightarrow> registry \<Rightarrow> registry" where
  "remove_listener channel p reg =
     (case dict_get reg channel of
        None \<Rightarrow> reg
      | Some subscribers \<Rightarrow>
          let left = set_discard p subscribers in
          if left = [] then dict_pop channel reg else dict_set channel left reg)"

text \<open>\<open>PgServer.notify\<close>: one listener failing does not stop the rest; the count of deliveries.\<close>

fun notify_each :: "pystr \<Rightarrow> pystr \<Rightarrow> int \<Rightarrow> int list \<Rightarrow> nat \<Rightarrow> 'u world \<Rightarrow> nat \<times> 'u world" where
  "notify_each channel payload pid [] delivered w = (delivered, w)"
| "notify_each channel payload pid (p # ps) delivered w =
     (case notify p channel payload (Some pid) w of
        (Inl e, w') \<Rightarrow> notify_each channel payload pid ps delivered w'
      | (Inr u, w') \<Rightarrow> notify_each channel payload pid ps (delivered + 1) w')"

definition server_notify :: "pystr \<Rightarrow> pystr \<Rightarrow> int \<Rightarrow> 'u world \<Rightarrow> nat \<times> 'u world" where
  "server_notify channel payload pid w = notify_each channel payload pid (listeners (w_listeners w) channel) 0 w"

definition notify_listeners :: "int \<Rightarrow> pystr \<Rightarrow> pystr \<Rightarrow> 'u world \<Rightarrow> 'u world" where
  "notify_listeners p channel payload w =
     (if c_tx_status (w_conns w p) = TxI then snd (server_notify channel payload (c_pid (w_conns w p)) w)
      else upd_state p (\<lambda>s. if (channel, payload) \<in> set (pending_notifies s) then s
                            else s\<lparr>pending_notifies := pending_notifies s @ [(channel, payload)]\<rparr>) w)"

definition flush_pending_notifies :: "int \<Rightarrow> 'u world \<Rightarrow> 'u world" where
  "flush_pending_notifies p w =
     (case take_pending_notifies (c_state (w_conns w p)) of
        (pending, s) \<Rightarrow>
          fold (\<lambda>(channel, payload) w'. snd (server_notify channel payload (c_pid (w_conns w' p)) w')) pending
            (upd_state p (\<lambda>_. s) w))"

definition upd_registry :: "(registry \<Rightarrow> registry) \<Rightarrow> 'u world \<Rightarrow> 'u world" where
  "upd_registry f w = w\<lparr>w_listeners := f (w_listeners w)\<rparr>"

definition sync_listeners :: "int \<Rightarrow> 'u world \<Rightarrow> 'u world" where
  "sync_listeners p w =
     (let c = w_conns w p; registered = c_registered_channels c; wanted = listening (c_state c) in
      upd_conn p (\<lambda>c. c\<lparr>c_registered_channels := wanted\<rparr>)
        (upd_registry (fold (\<lambda>ch. add_listener ch p) (set_diff wanted registered))
          (upd_registry (fold (\<lambda>ch. remove_listener ch p) (set_diff registered wanted)) w)))"

definition drop_listeners :: "int \<Rightarrow> 'u world \<Rightarrow> 'u world" where
  "drop_listeners p w =
     upd_conn p (\<lambda>c. c\<lparr>c_registered_channels := []\<rparr>)
       (upd_registry (fold (\<lambda>ch. remove_listener ch p) (c_registered_channels (w_conns w p))) w)"

section \<open>Cancelling and pids\<close>

definition request_cancel :: "conn \<Rightarrow> conn" where
  "request_cancel c = (if c_current_task c then c\<lparr>c_cancel_requested := True\<rparr> else c)"

definition cancel :: "int \<Rightarrow> int \<Rightarrow> 'u world \<Rightarrow> 'u world" where
  "cancel pid secret w =
     (if pid \<in> set (w_connections w) \<and> c_secret (w_conns w pid) = secret then upd_conn pid request_cancel w else w)"

definition allocate_pid :: "'u world \<Rightarrow> int \<times> 'u world" where
  "allocate_pid w = (w_next_pid w, w\<lparr>w_next_pid := w_next_pid w + 1\<rparr>)"

section \<open>What an author's code does to the connection\<close>

fun run_act :: "int \<Rightarrow> author_act \<Rightarrow> ('u world, unit) act" where
  "run_act p (ANotice msg severity fs) = notice True p msg severity fs"
| "run_act p (ANotify channel payload pid) = notify p channel payload pid"
| "run_act p (ANotifyListeners channel payload) = amod (notify_listeners p channel payload)"
| "run_act p (AServerNotify channel payload pid) = amod (\<lambda>w. snd (server_notify channel payload pid w))"
| "run_act p (ABackgroundNotice msg severity fs) = amod (\<lambda>w. snd (notice False p msg severity fs w))"

definition run_acts :: "int \<Rightarrow> author_act list \<Rightarrow> ('u world, unit) act" where
  "run_acts p = arun (run_act p)"

end
