(* ===== verification/Settings_Values.thy ===== *)
theory Settings_Values
  imports Session_State Values
begin

text \<open>
  \<open>pg_mimic/settings_values.py\<close> and the lookups of \<open>settings_catalog.py\<close>: what a configuration parameter
  accepts and how its value is shown. The catalogue itself is data (\<open>pg_settings.json\<close>) and is a
  parameter, a dict from lower-case names to entries.

  Numbers are read as \<open>float\<close> and converted between units with float arithmetic, rounding included.
  Digits are the ASCII ones.
\<close>

record catalog_entry =
  ce_default :: pystr
  ce_vartype :: pystr
  ce_context :: pystr
  ce_short_desc :: pystr
  ce_unit :: "pystr option"
  ce_min_val :: "pystr option"
  ce_max_val :: "pystr option"
  ce_enumvals :: "pystr list option"

type_synonym catalog = "(pystr, catalog_entry) dict"

definition catalog_default :: "catalog \<Rightarrow> pystr \<Rightarrow> pystr option" where
  "catalog_default cat name = map_option ce_default (dict_get cat (py_lower name))"

definition catalog_context :: "catalog \<Rightarrow> pystr \<Rightarrow> pystr option" where
  "catalog_context cat name = map_option ce_context (dict_get cat (py_lower name))"

section \<open>Constants\<close>

definition INT32_MAX :: int where "INT32_MAX = 2 ^ 31 - 1"
definition INT32_MIN :: int where "INT32_MIN = - (2 ^ 31)"

definition MEMORY_UNITS :: "(pystr, nat) dict" where
  "MEMORY_UNITS = [(lit ''B'', 1), (lit ''kB'', 1024), (lit ''MB'', 1024 ^ 2), (lit ''GB'', 1024 ^ 3), (lit ''TB'', 1024 ^ 4)]"

definition TIME_UNITS :: "(pystr, nat) dict" where
  "TIME_UNITS =
     [(lit ''us'', 1), (lit ''ms'', 1000), (lit ''s'', 1000 ^ 2), (lit ''min'', 60 * 1000 ^ 2),
      (lit ''h'', 3600 * 1000 ^ 2), (lit ''d'', 86400 * 1000 ^ 2)]"

definition BOOLS :: "(pystr list \<times> nat \<times> bool) list" where
  "BOOLS =
     [([lit ''true'', lit ''yes''], 1, True), ([lit ''false'', lit ''no''], 1, False), ([lit ''on''], 2, True),
      ([lit ''off''], 2, False)]"

definition BOOL_WORDS :: "(pystr, bool) dict" where
  "BOOL_WORDS =
     [(lit ''1'', True), (lit ''0'', False), (lit ''true'', True), (lit ''false'', False), (lit ''yes'', True),
      (lit ''no'', False), (lit ''on'', True), (lit ''off'', False)]"

text \<open>\<open>{**entry, **_NARROWER_THAN_POSTGRES.get(name.lower(), {})}\<close>\<close>

definition narrower_than_postgres :: "pystr \<Rightarrow> catalog_entry \<Rightarrow> catalog_entry" where
  "narrower_than_postgres name entry =
     (if py_lower name = lit ''client_encoding''
      then entry\<lparr>ce_vartype := lit ''enum'', ce_enumvals := Some [lit ''UTF8'']\<rparr> else entry)"

section \<open>Units\<close>

definition split_multiple :: "pystr \<Rightarrow> nat \<times> pystr" where
  "split_multiple unit =
     (let digits = takeWhile is_digit unit in
      (if digits = [] then 1 else digits_val 0 digits, dropWhile is_digit unit))"

definition unit_family :: "pystr option \<Rightarrow> (pystr, nat) dict option" where
  "unit_family unit =
     (case unit of None \<Rightarrow> None
      | Some u \<Rightarrow>
          let base = snd (split_multiple u) in
          if dict_has base MEMORY_UNITS then Some MEMORY_UNITS
          else if dict_has base TIME_UNITS then Some TIME_UNITS else None)"

definition quoted_unit :: "pystr \<Rightarrow> pystr" where
  "quoted_unit u = [34] @ u @ [34]"

definition units_hint :: "(pystr, nat) dict \<Rightarrow> pystr" where
  "units_hint family =
     (let quoted = map (\<lambda>(u, _). quoted_unit u) family in
      lit ''Valid units for this parameter are '' @ py_join (lit '', '') (butlast quoted) @ lit '', and '' @ last quoted @ lit ''.'')"

text \<open>The text split after its last digit or point.\<close>

definition split_suffix :: "pystr \<Rightarrow> pystr \<times> pystr" where
  "split_suffix text =
     (let is_end = (\<lambda>c. is_digit c \<or> c = 46); suffix = rev (takeWhile (\<lambda>c. \<not> is_end c) (rev text));
          digits = rev (dropWhile (\<lambda>c. \<not> is_end c) (rev text)) in
      (py_strip digits, py_strip suffix))"

section \<open>Float arithmetic\<close>

text \<open>A float times and divided by a positive integer (exact in a float); zeros and infinities stay.\<close>

definition f64_times :: "f64 \<Rightarrow> nat \<Rightarrow> f64" where
  "f64_times w k = (if f64_abs w = 0 \<or> \<not> f64_finite w then w else f64_round (f64_val w * of_nat k))"

definition f64_over :: "f64 \<Rightarrow> nat \<Rightarrow> f64" where
  "f64_over w k = (if f64_abs w = 0 \<or> \<not> f64_finite w then w else f64_round (f64_val w / of_nat k))"

section \<open>Reading a value\<close>

definition INVALID_PARAMETER :: pystr where "INVALID_PARAMETER = lit ''22023''"

definition invalid :: "pystr \<Rightarrow> pystr \<Rightarrow> pystr option \<Rightarrow> exc" where
  "invalid name v hint =
     PgError INVALID_PARAMETER (lit ''invalid value for parameter '' @ quoted_unit name @ lit '': '' @ quoted_unit v)
       (case hint of None \<Rightarrow> [] | Some h \<Rightarrow> [(lit ''H'', h)])"

definition parse_bool :: "pystr \<Rightarrow> pystr \<Rightarrow> exc + bool" where
  "parse_bool name v =
     (let text = py_lower (py_strip v) in
      if text = lit ''1'' \<or> text = lit ''0'' then Inr (text = lit ''1'')
      else case find (\<lambda>(spellings, shortest, _). shortest \<le> length text \<and> list_ex (\<lambda>word. starts_with word text) spellings) BOOLS of
        Some (_, _, result) \<Rightarrow> Inr result
      | None \<Rightarrow> Inl (PgError INVALID_PARAMETER (lit ''parameter '' @ quoted_unit name @ lit '' requires a Boolean value'') []))"

definition parse_enum :: "pystr \<Rightarrow> pystr \<Rightarrow> catalog_entry \<Rightarrow> exc + pystr" where
  "parse_enum name v entry =
     (let text = py_lower (py_strip v); allowed = (case ce_enumvals entry of None \<Rightarrow> [] | Some vs \<Rightarrow> vs) in
      case find (\<lambda>candidate. text = py_lower candidate) allowed of
        Some candidate \<Rightarrow> Inr candidate
      | None \<Rightarrow>
          if lit ''on'' \<in> set allowed \<and> lit ''off'' \<in> set allowed \<and> dict_has text BOOL_WORDS
          then Inr (if dict_get BOOL_WORDS text = Some True then lit ''on'' else lit ''off'')
          else Inl (invalid name v (Some (lit ''Available values: '' @ py_join (lit '', '') allowed @ lit ''.''))))"

definition in_own_units :: "pystr \<Rightarrow> pystr \<Rightarrow> catalog_entry \<Rightarrow> exc + f64" where
  "in_own_units name text entry =
     (case split_suffix text of (digits, suffix) \<Rightarrow>
       case parse_float digits of
         None \<Rightarrow> Inl (invalid name text None)
       | Some number \<Rightarrow>
           if suffix = [] then Inr number
           else case unit_family (ce_unit entry) of
             None \<Rightarrow> Inl (invalid name text None)
           | Some family \<Rightarrow>
               (case dict_get family suffix of
                  None \<Rightarrow> Inl (invalid name text (Some (units_hint family)))
                | Some sz \<Rightarrow>
                    (case split_multiple (the (ce_unit entry)) of (multiple, base) \<Rightarrow>
                      Inr (f64_over (f64_times number sz) (the (dict_get family base) * multiple)))))"

text \<open>\<open>float(low) <= result\<close> for a result that is an integer or a float.\<close>

fun sv_pyval :: "setting_value \<Rightarrow> pyval" where
  "sv_pyval (SBool b) = PBool b"
| "sv_pyval (SInt i) = PInt i"
| "sv_pyval (SReal w) = PFloat w"
| "sv_pyval (SStr s) = PStr s"

fun sv_below :: "f64 \<Rightarrow> setting_value \<Rightarrow> bool" where
  "sv_below lo (SReal w) \<longleftrightarrow> \<not> f64_nan w \<and> (if f64_finite w then f64_val lo \<le> f64_val w else \<not> f64_sign w)"
| "sv_below lo (SInt i) \<longleftrightarrow> f64_val lo \<le> of_int i"
| "sv_below lo _ \<longleftrightarrow> False"

fun sv_above :: "setting_value \<Rightarrow> f64 \<Rightarrow> bool" where
  "sv_above (SReal w) hi \<longleftrightarrow> \<not> f64_nan w \<and> (if f64_finite w then f64_val w \<le> f64_val hi else f64_sign w)"
| "sv_above (SInt i) hi \<longleftrightarrow> of_int i \<le> f64_val hi"
| "sv_above _ hi \<longleftrightarrow> False"

fun shown :: "setting_value \<Rightarrow> pystr" where
  "shown (SReal w) = float_g w"
| "shown v = py_str_val (sv_pyval v)"

definition bound_float :: "pystr \<Rightarrow> exc + f64" where
  "bound_float t = (case parse_float t of Some w \<Rightarrow> Inr w | None \<Rightarrow> Inl (ValueError (lit ''could not convert string to float: '' @ py_repr t)))"

definition check_range :: "pystr \<Rightarrow> setting_value \<Rightarrow> catalog_entry \<Rightarrow> exc + unit" where
  "check_range name result entry =
     (case (ce_min_val entry, ce_max_val entry) of
        (Some low, Some high) \<Rightarrow>
          rbind (bound_float low) (\<lambda>lo. rbind (bound_float high) (\<lambda>hi.
            if sv_below lo result \<and> sv_above result hi then Inr ()
            else let unit = (case ce_unit entry of None \<Rightarrow> [] | Some u \<Rightarrow> lit '' '' @ u) in
              Inl (PgError INVALID_PARAMETER
                (shown result @ unit @ lit '' is outside the valid range for parameter '' @ quoted_unit name @ lit '' ('' @
                 low @ unit @ lit '' .. '' @ high @ unit @ lit '')'') [])))
      | _ \<Rightarrow> Inr ())"

definition parse_number :: "pystr \<Rightarrow> pystr \<Rightarrow> catalog_entry \<Rightarrow> bool \<Rightarrow> exc + setting_value" where
  "parse_number name v entry integral =
     (let text = py_strip v in
      rbind (in_own_units name text entry) (\<lambda>number.
      rbind (if integral then rbind (py_int (PFloat number)) (\<lambda>i. Inr (SInt i)) else Inr (SReal number)) (\<lambda>result.
      rbind (case result of
               SInt i \<Rightarrow> if INT32_MIN \<le> i \<and> i \<le> INT32_MAX then Inr () else Inl (invalid name text (Some (lit ''Value exceeds integer range.'')))
             | _ \<Rightarrow> Inr ()) (\<lambda>_.
      rbind (check_range name result entry) (\<lambda>_. Inr result)))))"

definition settings_parse :: "catalog \<Rightarrow> pystr \<Rightarrow> pystr \<Rightarrow> exc + setting_value" where
  "settings_parse cat name v =
     (case dict_get cat (py_lower name) of
        None \<Rightarrow> Inr (SStr v)
      | Some entry0 \<Rightarrow>
          let entry = narrower_than_postgres name entry0; vartype = ce_vartype entry in
          if vartype = lit ''bool'' then rbind (parse_bool name v) (\<lambda>b. Inr (SBool b))
          else if vartype = lit ''enum'' then rbind (parse_enum name v entry) (\<lambda>t. Inr (SStr t))
          else if vartype = lit ''integer'' \<or> vartype = lit ''real''
          then parse_number name v entry (vartype = lit ''integer'')
          else Inr (SStr v))"

section \<open>Showing a value\<close>

definition by_size :: "(pystr, nat) dict \<Rightarrow> (pystr \<times> nat) list" where
  "by_size family = rev (sort_key snd family)"

text \<open>\<open>absolute % sz == 0\<close> and the quot, for an integer and for a float.\<close>

definition int_divides :: "int \<Rightarrow> nat \<Rightarrow> int option" where
  "int_divides a sz = (if a mod int sz = 0 then Some (a div int sz) else None)"

definition float_divides :: "f64 \<Rightarrow> nat \<Rightarrow> int option" where
  "float_divides w sz =
     (if f64_finite w \<and> f64_val w / of_nat sz = of_int \<lfloor>f64_val w / of_nat sz\<rfloor>
      then Some \<lfloor>f64_val w / of_nat sz\<rfloor> else None)"

fun first_unit :: "(nat \<Rightarrow> int option) \<Rightarrow> (pystr \<times> nat) list \<Rightarrow> pystr option" where
  "first_unit quot [] = None"
| "first_unit quot ((unit, sz) # us) =
     (case quot sz of Some q \<Rightarrow> Some (int_str q @ unit) | None \<Rightarrow> first_unit quot us)"

definition render_int :: "int \<Rightarrow> catalog_entry \<Rightarrow> pystr" where
  "render_int i entry =
     (case unit_family (ce_unit entry) of
        None \<Rightarrow> int_str i
      | Some family \<Rightarrow>
          if i = 0 then int_str i
          else case split_multiple (the (ce_unit entry)) of (multiple, base) \<Rightarrow>
            (case first_unit (int_divides (i * int multiple * int (the (dict_get family base)))) (by_size family) of
               Some t \<Rightarrow> t | None \<Rightarrow> int_str i @ the (ce_unit entry)))"

definition render_real :: "f64 \<Rightarrow> catalog_entry \<Rightarrow> pystr" where
  "render_real w entry =
     (case unit_family (ce_unit entry) of
        None \<Rightarrow> float_g w
      | Some family \<Rightarrow>
          if f64_finite w \<and> f64_abs w = 0 then float_g w
          else case split_multiple (the (ce_unit entry)) of (multiple, base) \<Rightarrow>
            (case first_unit (float_divides (f64_times (f64_times w multiple) (the (dict_get family base)))) (by_size family) of
               Some t \<Rightarrow> t | None \<Rightarrow> float_g w @ the (ce_unit entry)))"

definition settings_render :: "catalog \<Rightarrow> pystr \<Rightarrow> setting_value \<Rightarrow> exc + pystr" where
  "settings_render cat name v =
     (case dict_get cat (py_lower name) of
        None \<Rightarrow> Inr (py_str_val (sv_pyval v))
      | Some entry \<Rightarrow>
          if ce_vartype entry = lit ''bool'' then Inr (if py_truthy (sv_pyval v) then lit ''on'' else lit ''off'')
          else if ce_vartype entry = lit ''integer'' then rbind (py_int (sv_pyval v)) (\<lambda>i. Inr (render_int i entry))
          else if ce_vartype entry = lit ''real'' then rbind (py_float (sv_pyval v)) (\<lambda>w. Inr (render_real w entry))
          else Inr (py_str_val (sv_pyval v)))"

end
