(* ===== verification/Declared.thy ===== *)
theory Declared
  imports Values
begin

text \<open>
  \<open>pg_mimic/declared.py\<close>: what a session declares about its tables. \<open>Table\<close> is \<open>Table.__post_init__\<close>
  with its checks in their order, \<open>Schema\<close> the constructor of the schema, \<open>schema_resolve\<close> the function
  \<open>resolve\<close> that turns each shape \<open>Session.schema()\<close> may return into a schema.

  What an author hands over is untyped Python, so the arguments are \<open>pyval\<close>s and the sum types below,
  one constructor per shape the code tells apart; a checked table holds strings only. The order of
  tables and columns is the order of the association lists.

  The lemmas: the checks give a well-formed table (\<open>table_ok\<close>), the schema of a sequence has one
  table per name, and \<open>column_types\<close> followed by \<open>resolve\<close> gives the tables back without their keys.
\<close>

section \<open>Tables\<close>

datatype key_spec = KeyName pystr | KeyNames "pystr list"

datatype unique_spec = UniqueName pystr | UniqueKeys "key_spec list"

record table =
  t_name :: pystr
  t_columns :: "(pystr, pystr) dict"
  t_primary_key :: "pystr list"
  t_unique :: "pystr list list"

text \<open>\<open>repr\<close> of a tuple of strings; a one-tuple keeps its comma.\<close>

definition tuple_repr :: "pystr list \<Rightarrow> pystr" where
  "tuple_repr xs =
     lit ''('' @ py_join (lit '', '') (map py_repr xs) @ (if length xs = 1 then lit '','' else []) @ lit '')''"

definition key_columns :: "pystr \<Rightarrow> pystr \<Rightarrow> key_spec \<Rightarrow> (pystr, pystr) dict \<Rightarrow> exc + pystr list" where
  "key_columns table kind declared columns =
     (let key = (case declared of KeyName c \<Rightarrow> [c] | KeyNames cs \<Rightarrow> cs) in
      case find (\<lambda>c. \<not> dict_has c columns) key of
        Some c \<Rightarrow> Inl (ValueError (py_repr table @ lit '' declares a '' @ kind @ lit '' on '' @ py_repr c
                       @ lit '', which is not one of its columns''))
      | None \<Rightarrow>
          if length (remdups key) \<noteq> length key
          then Inl (ValueError (py_repr table @ lit '' names a column twice in its '' @ kind @ lit '': '' @ tuple_repr key))
          else Inr key)"

text \<open>One turn of the loop over the declared columns.\<close>

definition check_column :: "pystr \<Rightarrow> pyval \<times> pyval \<Rightarrow> exc + pystr \<times> pystr" where
  "check_column table = (\<lambda>(column, type_name).
     case column of
       PStr (c # cs) \<Rightarrow>
         (case type_name of
            PStr (t # ts) \<Rightarrow> Inr (c # cs, t # ts)
          | v \<Rightarrow> Inl (ValueError (py_repr table @ lit ''.'' @ (c # cs) @ lit '' declares '' @ py_repr_val v @ lit '', which is not a type name'')))
     | v \<Rightarrow> Inl (ValueError (lit ''a column name must be a non-empty string, not '' @ py_repr_val v @ lit '' in table '' @ py_repr table)))"

definition declared_unique :: "unique_spec \<Rightarrow> key_spec list" where
  "declared_unique u = (case u of UniqueName c \<Rightarrow> [KeyName c] | UniqueKeys ks \<Rightarrow> ks)"

definition Table :: "pyval \<Rightarrow> (pyval, pyval) dict \<Rightarrow> key_spec \<Rightarrow> unique_spec \<Rightarrow> exc + table" where
  "Table name columns primary_key unique =
     (case name of
        PStr (c # cs) \<Rightarrow>
          let n = c # cs in
          rbind (rmap (check_column n) columns) (\<lambda>cols.
          rbind (key_columns n (lit ''primary key'') primary_key cols) (\<lambda>pk.
          rbind (rmap (\<lambda>k. key_columns n (lit ''unique constraint'') k cols) (declared_unique unique)) (\<lambda>keys.
          case find (\<lambda>k. count_list keys k > 1) keys of
            Some k \<Rightarrow> Inl (ValueError (py_repr n @ lit '' declares the same unique constraint twice: '' @ tuple_repr k))
          | None \<Rightarrow> Inr \<lparr>t_name = n, t_columns = cols, t_primary_key = pk, t_unique = keys\<rparr>)))
      | _ \<Rightarrow> Inl (ValueError (lit ''a table name must be a non-empty string, not '' @ py_repr_val name)))"

text \<open>\<open>Table.__eq__\<close> of the dataclass: field by field, the columns as mappings, so regardless of their order.\<close>

definition table_eq :: "table \<Rightarrow> table \<Rightarrow> bool" where
  "table_eq t u \<longleftrightarrow>
     t_name t = t_name u
     \<and> length (t_columns t) = length (t_columns u)
     \<and> list_all (\<lambda>(c, ty). dict_get (t_columns u) c = Some ty) (t_columns t)
     \<and> t_primary_key t = t_primary_key u \<and> t_unique t = t_unique u"

section \<open>Schemas\<close>

type_synonym schema = "(pystr, table) dict"

text \<open>An element of the sequence a schema is built from: a \<open>Table\<close>, or an object of another type, by its type name.\<close>

datatype item = ATable table | NotATable pystr

fun schema_add :: "schema \<Rightarrow> item list \<Rightarrow> exc + schema" where
  "schema_add by_name [] = Inr by_name"
| "schema_add by_name (NotATable ty # its) = Inl (TypeError (lit ''a Schema holds Table objects, not '' @ ty))"
| "schema_add by_name (ATable t # its) =
     (if dict_has (t_name t) by_name then Inl (ValueError (lit ''two tables are both named '' @ py_repr (t_name t)))
      else schema_add (dict_set (t_name t) t by_name) its)"

definition Schema :: "item list \<Rightarrow> exc + schema" where
  "Schema its = schema_add [] its"

definition schema_column_types :: "schema \<Rightarrow> (pystr, (pystr, pystr) dict) dict" where
  "schema_column_types s = map (\<lambda>(name, t). (name, t_columns t)) s"

text \<open>\<open>Schema.__eq__\<close>: the items in order, each table by \<open>Table.__eq__\<close>.\<close>

definition schema_eq :: "schema \<Rightarrow> schema \<Rightarrow> bool" where
  "schema_eq s u \<longleftrightarrow> list_all2 (\<lambda>(m, t) (n, v). m = n \<and> table_eq t v) s u"

section \<open>What \<open>Session.schema()\<close> returns\<close>

datatype columns_value = MTable table | MColumns "(pyval, pyval) dict"

datatype declared =
    DNone
  | DSchema schema
  | DMapping "(pyval \<times> columns_value) list"
  | DText pyval
  | DSequence "item list"
  | DOther pystr

fun mapping_item :: "pyval \<times> columns_value \<Rightarrow> exc + item" where
  "mapping_item (name, MTable t) =
     Inl (TypeError (lit ''schema() may return a Schema or a sequence of Table, but not a mapping of name to Table -- ''
          @ py_repr_val name @ lit '' would have two names. Pass Schema([...]) instead.''))"
| "mapping_item (name, MColumns columns) =
     rbind (Table (PStr (py_str_val name)) columns (KeyNames []) (UniqueKeys [])) (\<lambda>t. Inr (ATable t))"

fun schema_resolve :: "declared \<Rightarrow> exc + schema" where
  "schema_resolve DNone = Schema []"
| "schema_resolve (DSchema s) = Inr s"
| "schema_resolve (DMapping entries) = rbind (rmap mapping_item entries) Schema"
| "schema_resolve (DText v) = Inl (TypeError (lit ''schema() returned '' @ py_repr_val v @ lit '', which is not a schema''))"
| "schema_resolve (DSequence its) = Schema its"
| "schema_resolve (DOther ty) =
     Inl (TypeError (lit ''schema() returned '' @ ty @ lit '', which is not a Schema, a sequence of Table, or a mapping''))"

section \<open>Well-formed tables\<close>

definition key_ok :: "table \<Rightarrow> pystr list \<Rightarrow> bool" where
  "key_ok t key \<longleftrightarrow> distinct key \<and> set key \<subseteq> fst ` set (t_columns t)"

text \<open>What the checks of \<open>__post_init__\<close> leave true of a table whose columns came as a mapping.\<close>

definition table_ok :: "table \<Rightarrow> bool" where
  "table_ok t \<longleftrightarrow>
     t_name t \<noteq> [] \<and> distinct (map fst (t_columns t))
     \<and> (\<forall>(c, ty) \<in> set (t_columns t). c \<noteq> [] \<and> ty \<noteq> [])
     \<and> key_ok t (t_primary_key t) \<and> (\<forall>key \<in> set (t_unique t). key_ok t key) \<and> distinct (t_unique t)"

definition schema_ok :: "schema \<Rightarrow> bool" where
  "schema_ok s \<longleftrightarrow> distinct (map fst s) \<and> (\<forall>(name, t) \<in> set s. name = t_name t \<and> table_ok t)"

text \<open>The mappings Python hands over have distinct keys; tables in a sequence were built by \<open>Table\<close>.\<close>

definition mapping_ok :: "('k, 'v) dict \<Rightarrow> bool" where
  "mapping_ok d \<longleftrightarrow> distinct (map fst d)"

fun declared_ok :: "declared \<Rightarrow> bool" where
  "declared_ok (DSchema s) = schema_ok s"
| "declared_ok (DMapping entries) = (\<forall>(name, v) \<in> set entries. case v of MTable t \<Rightarrow> True | MColumns d \<Rightarrow> mapping_ok d)"
| "declared_ok (DSequence its) = (\<forall>t. ATable t \<in> set its \<longrightarrow> table_ok t)"
| "declared_ok _ = True"

lemma check_column_Inr:
  "check_column n (k, v) = Inr (c, ty) \<longleftrightarrow> k = PStr c \<and> v = PStr ty \<and> c \<noteq> [] \<and> ty \<noteq> []"
  by (auto simp: check_column_def neq_Nil_conv split: pyval.splits list.splits)

lemma check_columns_Inr:
  assumes "rmap (check_column n) columns = Inr cols"
  shows "columns = map (\<lambda>(c, ty). (PStr c, PStr ty)) cols \<and> (\<forall>(c, ty) \<in> set cols. c \<noteq> [] \<and> ty \<noteq> [])"
  using assms
proof (induction columns arbitrary: cols)
  case (Cons x columns)
  then show ?case by (cases x) (fastforce simp: check_column_Inr)
qed simp

lemma check_columns_PStr:
  assumes "\<forall>(c, ty) \<in> set cols. c \<noteq> [] \<and> ty \<noteq> []"
  shows "rmap (check_column n) (map (\<lambda>(c, ty). (PStr c, PStr ty)) cols) = Inr cols"
  using assms
proof (induction cols)
  case (Cons x cols)
  moreover obtain c ty where "x = (c, ty)" by fastforce
  moreover from this Cons.prems have "check_column n (PStr c, PStr ty) = Inr (c, ty)"
    by (simp add: check_column_Inr)
  ultimately show ?case by simp
qed simp

lemma length_remdups_distinct: "length (remdups xs) = length xs \<longleftrightarrow> distinct xs"
  by (metis length_remdups_card_conv card_distinct distinct_card)

lemma key_columns_Inr:
  assumes "key_columns n kind k cols = Inr key"
  shows "distinct key \<and> set key \<subseteq> fst ` set cols"
proof -
  define names where "names = (case k of KeyName c \<Rightarrow> [c] | KeyNames cs \<Rightarrow> cs)"
  have "find (\<lambda>c. \<not> dict_has c cols) names = None" and "length (remdups names) = length names" and "names = key"
    using assms unfolding key_columns_def names_def[symmetric] by (simp_all add: Let_def split: option.splits if_splits)
  then show ?thesis by (auto simp: length_remdups_distinct find_None_iff dict_has_iff)
qed

lemma count_list_distinct:
  assumes "find (\<lambda>k. count_list keys k > 1) keys = None"
  shows "distinct keys"
proof -
  have "\<forall>k \<in> set keys. count_list keys k \<le> 1"
    using assms by (auto simp: find_None_iff not_less)
  then show ?thesis
  proof (induction keys)
    case (Cons k keys)
    from Cons.prems have "k \<notin> set keys" by (auto simp: count_list_0_iff)
    moreover have "\<forall>j \<in> set keys. count_list keys j \<le> 1"
    proof
      fix j
      assume "j \<in> set keys"
      with Cons.prems have "count_list (k # keys) j \<le> 1" by simp
      then show "count_list keys j \<le> 1" by (simp split: if_splits)
    qed
    ultimately show ?case using Cons.IH by simp
  qed simp
qed

lemma Table_ok:
  assumes "Table name columns pk u = Inr t" and "mapping_ok columns"
  shows "table_ok t \<and> name = PStr (t_name t) \<and> columns = map (\<lambda>(c, ty). (PStr c, PStr ty)) (t_columns t)"
proof -
  obtain c cs where n: "name = PStr (c # cs)"
    using assms(1) by (auto simp: Table_def split: pyval.splits list.splits)
  obtain cols key keys where r: "rmap (check_column (c # cs)) columns = Inr cols"
      "key_columns (c # cs) (lit ''primary key'') pk cols = Inr key"
      "rmap (\<lambda>k. key_columns (c # cs) (lit ''unique constraint'') k cols) (declared_unique u) = Inr keys"
      "find (\<lambda>k. count_list keys k > 1) keys = None"
    and t: "t = \<lparr>t_name = c # cs, t_columns = cols, t_primary_key = key, t_unique = keys\<rparr>"
    using assms(1) unfolding n Table_def by (auto simp: Let_def split: option.splits)
  note cc = check_columns_Inr[OF r(1)]
  have "map fst columns = map PStr (map fst cols)" using cc by (auto simp: case_prod_unfold)
  then have "distinct (map fst cols)" using assms(2) by (metis distinct_map mapping_ok_def)
  moreover have "\<forall>k \<in> set keys. distinct k \<and> set k \<subseteq> fst ` set cols"
    using rmap_elem[OF r(3)] key_columns_Inr by fast
  ultimately show ?thesis
    using cc key_columns_Inr[OF r(2)] count_list_distinct[OF r(4)] n t
    by (auto simp: table_ok_def key_ok_def)
qed

section \<open>Well-formed schemas\<close>

lemma schema_add_ok:
  assumes "schema_add s its = Inr s'" and "schema_ok s" and "\<forall>t. ATable t \<in> set its \<longrightarrow> table_ok t"
  shows "schema_ok s'"
  using assms
proof (induction s its rule: schema_add.induct)
  case (3 s t its)
  have new: "t_name t \<notin> fst ` set s" using "3.prems"(1) by (auto simp: dict_has_iff split: if_splits)
  have "schema_ok (dict_set (t_name t) t s)"
    using "3.prems" new by (auto simp: schema_ok_def dict_set_new)
  with 3 show ?case by (auto simp: dict_has_iff split: if_splits)
qed auto

lemma mapping_item_ok:
  assumes "mapping_item (name, v) = Inr it" and "case v of MTable t \<Rightarrow> True | MColumns d \<Rightarrow> mapping_ok d"
  shows "\<exists>t. it = ATable t \<and> table_ok t"
  using assms by (cases v) (auto dest!: Table_ok)

lemma mapping_items_ok:
  assumes "rmap mapping_item entries = Inr its" and "declared_ok (DMapping entries)" and "ATable t \<in> set its"
  shows "table_ok t"
proof -
  obtain name v where "(name, v) \<in> set entries" "mapping_item (name, v) = Inr (ATable t)"
    using rmap_elem[OF assms(1,3)] by auto
  with assms(2) show ?thesis by (auto dest!: mapping_item_ok)
qed

lemma Schema_ok: "Schema its = Inr s \<Longrightarrow> \<forall>t. ATable t \<in> set its \<longrightarrow> table_ok t \<Longrightarrow> schema_ok s"
  unfolding Schema_def by (erule schema_add_ok) (simp_all add: schema_ok_def)


definition demo_columns :: "(pyval, pyval) dict" where
  "demo_columns = [(PStr (lit ''sha''), PStr (lit ''text'')), (PStr (lit ''path''), PStr (lit ''text''))]"

definition demo_tables :: declared where
  "demo_tables =
     DSequence (case Table (PStr (lit ''files'')) demo_columns (KeyNames [lit ''sha'', lit ''path'']) (UniqueName (lit ''path'')) of
       Inr t \<Rightarrow> [ATable t] | Inl e \<Rightarrow> [])"

definition demo_schema :: schema where
  "demo_schema =
     [(lit ''files'', \<lparr>t_name = lit ''files'', t_columns = [(lit ''sha'', lit ''text''), (lit ''path'', lit ''text'')],
        t_primary_key = [lit ''sha'', lit ''path''], t_unique = [[lit ''path'']]\<rparr>)]"

lemma demo_table:
  "Table (PStr (lit ''files'')) demo_columns (KeyNames [lit ''sha'', lit ''path'']) (UniqueName (lit ''path''))
     = Inr (snd (hd demo_schema))"
  by code_simp

lemma demo_schema_ok: "schema_ok demo_schema"
  by (simp add: demo_schema_def schema_ok_def table_ok_def key_ok_def)


section \<open>The nested shape\<close>

text \<open>The nested dict as \<open>Session.schema()\<close> has always returned it.\<close>

definition as_mapping :: "(pystr, (pystr, pystr) dict) dict \<Rightarrow> declared" where
  "as_mapping types =
     DMapping (map (\<lambda>(name, cols). (PStr name, MColumns (map (\<lambda>(c, ty). (PStr c, PStr ty)) cols))) types)"

definition without_keys :: "table \<Rightarrow> table" where
  "without_keys t = t\<lparr>t_primary_key := [], t_unique := []\<rparr>"

lemma mapping_item_columns:
  assumes "table_ok t"
  shows "mapping_item (PStr (t_name t), MColumns (map (\<lambda>(c, ty). (PStr c, PStr ty)) (t_columns t)))
       = Inr (ATable (without_keys t))"
proof -
  obtain c cs where n: "t_name t = c # cs" using assms by (auto simp: table_ok_def neq_Nil_conv)
  have "rmap (check_column (c # cs)) (map (\<lambda>(c, ty). (PStr c, PStr ty)) (t_columns t)) = Inr (t_columns t)"
    using assms by (intro check_columns_PStr) (simp add: table_ok_def)
  then show ?thesis
    by (simp add: n Table_def key_columns_def declared_unique_def without_keys_def)
qed

lemma schema_add_distinct:
  assumes "distinct (map fst s @ map t_name ts)"
  shows "schema_add s (map ATable ts) = Inr (s @ map (\<lambda>t. (t_name t, t)) ts)"
  using assms by (induction ts arbitrary: s) (auto simp: dict_has_iff dict_set_new)

text \<open>
  A schema read as the historical nested dict and resolved again has the same tables in the same
  order with the same columns; only the keys, which that shape cannot say, are lost.
\<close>
theorem column_types_resolve:
  assumes "schema_ok s"
  shows "schema_resolve (as_mapping (schema_column_types s)) = Inr (map (\<lambda>(name, t). (name, without_keys t)) s)"
proof -
  have names: "map fst s = map (t_name \<circ> snd) s" using assms by (auto simp: schema_ok_def)
  have "rmap mapping_item (map (\<lambda>(name, t). (PStr name, MColumns (map (\<lambda>(c, ty). (PStr c, PStr ty)) (t_columns t)))) s)
      = Inr (map ATable (map (without_keys \<circ> snd) s))"
    using assms unfolding schema_ok_def
    by (induction s) (auto simp: mapping_item_columns simp del: mapping_item.simps)
  then have "schema_resolve (as_mapping (schema_column_types s)) = Schema (map ATable (map (without_keys \<circ> snd) s))"
    by (simp add: as_mapping_def schema_column_types_def case_prod_unfold comp_def)
  also have "\<dots> = Inr (map (\<lambda>t. (t_name t, t)) (map (without_keys \<circ> snd) s))"
    unfolding Schema_def using assms names
    by (subst schema_add_distinct) (simp_all add: schema_ok_def without_keys_def comp_def)
  also have "map (\<lambda>t. (t_name t, t)) (map (without_keys \<circ> snd) s) = map (\<lambda>(name, t). (name, without_keys t)) s"
    using assms by (auto simp: schema_ok_def without_keys_def)
  finally show ?thesis .
qed

theorem column_types_resolve_witness:
  "schema_ok demo_schema \<and> schema_resolve (as_mapping (schema_column_types demo_schema))
     = Inr (map (\<lambda>(name, t). (name, without_keys t)) demo_schema)"
  using column_types_resolve[OF demo_schema_ok] demo_schema_ok by blast

text \<open>
  Two schemas whose tables list their columns in a different order compare equal, although the order
  decides \<open>pg_attribute.attnum\<close>: \<open>Table.__eq__\<close> compares the columns as mappings.
\<close>
lemma schema_eq_ignores_column_order:
  fixes s u :: schema
  defines "s \<equiv> [(lit ''t'', \<lparr>t_name = lit ''t'', t_columns = [(lit ''a'', lit ''text''), (lit ''b'', lit ''int'')], t_primary_key = [], t_unique = []\<rparr>)]"
  defines "u \<equiv> [(lit ''t'', \<lparr>t_name = lit ''t'', t_columns = [(lit ''b'', lit ''int''), (lit ''a'', lit ''text'')], t_primary_key = [], t_unique = []\<rparr>)]"
  shows "schema_eq s u \<and> s \<noteq> u"
  by (simp add: s_def u_def schema_eq_def table_eq_def)

end
