(* ===== verification/Key_Names.thy ===== *)
theory Key_Names
  imports Declared Numeric_Codec
begin

text \<open>
  The names and positions of declared keys, from \<open>pg_mimic/catalog.py\<close>: \<open>_Key\<close>, \<open>_declared_keys\<close>,
  \<open>_key_name\<close>, \<open>_key_positions\<close> and \<open>_rendered_identifier\<close>.

  \<open>_key_name\<close> counts up without a bound until a name is free. Counters with the same number of digits give
  different names, so some counter is always free: that is the termination proof of \<open>free_name\<close>, and the
  lemma \<open>key_name_fresh\<close> the contract the catalogue relies on.
\<close>

section \<open>Cutting a name to bytes\<close>

lemma utf8_next_bad: "utf8_next bs = U_bad \<Longrightarrow> 0 < length bs"
  by (cases bs) simp_all

text \<open>\<open>data.decode(errors="ignore")\<close>: what is not UTF-8 is left out.\<close>

function utf8_ignore :: "bytes \<Rightarrow> pystr" where
  "utf8_ignore bs =
     (case utf8_next bs of
        U_end \<Rightarrow> []
      | U_more \<Rightarrow> []
      | U_bad \<Rightarrow> utf8_ignore (drop 1 bs)
      | U_char c r \<Rightarrow> c # utf8_ignore r)"
  by pat_completeness auto
termination
  by (relation "measure length") (auto dest: utf8_next_shorter utf8_next_bad)

declare utf8_ignore.simps [simp del]

text \<open>\<open>s.encode()[:n].decode(errors="ignore")\<close>\<close>

definition cut_bytes :: "int \<Rightarrow> pystr \<Rightarrow> exc + pystr" where
  "cut_bytes n s = rbind (utf8_encode s) (\<lambda>b. Inr (utf8_ignore (py_slice b 0 n)))"

definition NAME_BYTES :: nat where "NAME_BYTES = 63"

section \<open>Keys\<close>

record key =
  k_table :: pystr
  k_columns :: "pystr list"
  k_is_primary :: bool

definition declared_keys :: "table \<Rightarrow> key list" where
  "declared_keys t =
     (if t_primary_key t \<noteq> [] then [\<lparr>k_table = t_name t, k_columns = t_primary_key t, k_is_primary = True\<rparr>] else [])
     @ map (\<lambda>cols. \<lparr>k_table = t_name t, k_columns = cols, k_is_primary = False\<rparr>) (t_unique t)"

definition key_stem :: "key \<Rightarrow> pystr" where
  "key_stem k =
     (if k_is_primary k then k_table k @ lit ''_pkey''
      else py_join (lit ''_'') ([k_table k] @ k_columns k @ [lit ''key'']))"

definition suffixed :: "pystr \<Rightarrow> nat \<Rightarrow> exc + pystr" where
  "suffixed name counter =
     rbind (cut_bytes (63 - int (length (nat_str counter))) name) (\<lambda>s. Inr (s @ nat_str counter))"

definition settles :: "pystr \<Rightarrow> pystr list \<Rightarrow> nat \<Rightarrow> bool" where
  "settles name taken counter = (case suffixed name counter of Inl e \<Rightarrow> True | Inr s \<Rightarrow> s \<notin> set taken)"

section \<open>Some counter is free\<close>

lemma nat_str_inject: "nat_str m = nat_str n \<longleftrightarrow> m = n"
  by (metis digits_val_nat_str)

lemma suffixed_same_digits:
  assumes "suffixed name c = Inr s" and "suffixed name d = Inr s" and "length (nat_str c) = length (nat_str d)"
  shows "c = d"
  using assms by (auto simp: suffixed_def rbind_eq_Inr nat_str_inject)

text \<open>All counters of one length being taken takes as many names.\<close>

lemma taken_counters:
  assumes "\<forall>c. 10 ^ k \<le> c \<and> c < 10 ^ Suc k \<longrightarrow> \<not> settles name taken c"
  shows "9 * 10 ^ k \<le> length taken"
proof -
  let ?C = "{10 ^ k ..< 10 ^ Suc k} :: nat set"
  define g where "g c = projr (suffixed name c)" for c
  have g: "suffixed name c = Inr (g c) \<and> g c \<in> set taken" if "c \<in> ?C" for c
  proof -
    have "\<not> settles name taken c" using assms that by simp
    then show ?thesis by (simp add: settles_def g_def split: sum.splits)
  qed
  have "inj_on g ?C"
  proof (rule inj_onI)
    fix c d
    assume cd: "c \<in> ?C" "d \<in> ?C" "g c = g d"
    then have "length (nat_str c) = length (nat_str d)"
      using nat_str_length[of k c] nat_str_length[of k d] by simp
    moreover have "suffixed name c = Inr (g c)" "suffixed name d = Inr (g c)"
      using g[OF cd(1)] g[OF cd(2)] cd(3) by simp_all
    ultimately show "c = d" using suffixed_same_digits by blast
  qed
  then have "card ?C = card (g ` ?C)" by (simp add: card_image)
  also have "\<dots> \<le> card (set taken)" using g by (intro card_mono) auto
  also have "\<dots> \<le> length taken" by (rule card_length)
  finally show ?thesis by simp
qed

lemma some_settles: "\<exists>c \<ge> start. settles name taken c"
proof (rule ccontr)
  assume "\<not> ?thesis"
  then have none: "\<not> settles name taken c" if "start \<le> c" for c using that by blast
  define k where "k = start + length taken"
  have k: "start \<le> 10 ^ k" and l: "length taken < 9 * 10 ^ k"
  proof -
    have "k < 10 ^ k" by (rule less_le_trans[OF less_exp]) (simp add: power_mono)
    then show "start \<le> 10 ^ k" and "length taken < 9 * 10 ^ k" by (auto simp: k_def)
  qed
  have "9 * 10 ^ k \<le> length taken" using none k by (intro taken_counters) (auto intro: order_trans)
  with l show False by simp
qed

text \<open>\<open>for counter in itertools.count(1)\<close>\<close>

function free_name :: "pystr \<Rightarrow> pystr list \<Rightarrow> nat \<Rightarrow> exc + pystr" where
  "free_name name taken counter =
     (case suffixed name counter of
        Inl e \<Rightarrow> Inl e
      | Inr s \<Rightarrow> if s \<notin> set taken then Inr s else free_name name taken (counter + 1))"
  by pat_completeness auto
termination
proof (relation "measure (\<lambda>(name, taken, counter). (LEAST c. counter \<le> c \<and> settles name taken c) - counter)", goal_cases)
  case (2 name taken counter s)
  let ?P = "\<lambda>n c. n \<le> c \<and> settles name taken c"
  define m where "m = (LEAST c. ?P counter c)"
  have m: "?P counter m" unfolding m_def by (rule LeastI_ex) (use some_settles in blast)
  have "\<not> settles name taken counter" using 2 by (simp add: settles_def)
  with m have "counter < m" by (metis le_neq_implies_less)
  moreover have "(LEAST c. ?P (counter + 1) c) \<le> m" using m calculation by (intro Least_le) auto
  ultimately show ?case by (simp add: m_def)
qed simp

declare free_name.simps [simp del]

definition key_name :: "key \<Rightarrow> pystr list \<Rightarrow> exc + pystr" where
  "key_name k taken =
     rbind (cut_bytes 63 (key_stem k)) (\<lambda>name. if name \<notin> set taken then Inr name else free_name name taken 1)"

text \<open>\<open>{column: position for position, column in enumerate(table.columns, start=1)}[column]\<close>\<close>

definition column_position :: "table \<Rightarrow> pystr \<Rightarrow> exc + nat" where
  "column_position t c =
     (case dict_get (map (\<lambda>(i, (n, ty)). (n, i)) (enumerate 1 (t_columns t))) c of Some i \<Rightarrow> Inr i | None \<Rightarrow> Inl KeyError)"

definition key_positions :: "table \<Rightarrow> key \<Rightarrow> exc + nat list" where
  "key_positions t k = rmap (column_position t) (k_columns k)"

section \<open>Identifiers as Postgres prints them\<close>

definition ident_start :: "pychar \<Rightarrow> bool" where
  "ident_start c \<longleftrightarrow> (97 \<le> c \<and> c \<le> 122) \<or> c = 95"

definition ident_char :: "pychar \<Rightarrow> bool" where
  "ident_char c \<longleftrightarrow> ident_start c \<or> is_digit c \<or> c = 36"

text \<open>\<open>^[a-z_][a-z0-9_$]*$\<close>; the final \<open>$\<close> also matches before a newline that ends the name.\<close>

definition plain_identifier :: "pystr \<Rightarrow> bool" where
  "plain_identifier name =
     (let body = (if ends_with name [10] then butlast name else name) in
      case body of [] \<Rightarrow> False | c # cs \<Rightarrow> ident_start c \<and> list_all ident_char cs)"

definition rendered_identifier :: "pystr \<Rightarrow> pystr" where
  "rendered_identifier name = (if plain_identifier name then name else [34] @ replace_char 34 [34, 34] name @ [34])"

section \<open>The names fit\<close>

definition fits_name :: "pystr \<Rightarrow> bool" where
  "fits_name s \<longleftrightarrow> (\<exists>b. utf8_encode s = Inr b \<and> length b \<le> NAME_BYTES)"

text \<open>The shortest encoding is the only one the decoder takes.\<close>

lemma length_utf8_char: "length (utf8_char c) = (if c < 0x80 then 1 else if c < 0x800 then 2 else if c < 0x10000 then 3 else 4)"
  by (simp add: utf8_char_def)

lemma three_bytes:
  fixes a b d :: nat
  assumes "a < 16" "b < 64" "d < 64" "a = 0 \<longrightarrow> 32 \<le> b" "a = 13 \<longrightarrow> b < 32"
  defines "c \<equiv> a * 4096 + b * 64 + d"
  shows "encodable c \<and> 0x800 \<le> c \<and> c < 0x10000"
proof -
  have "0x800 \<le> c \<and> c < 0x10000" using assms(1-4) unfolding c_def by (cases "a = 0") linarith+
  moreover have "c < 0xD800 \<or> 0xE000 \<le> c"
  proof -
    consider "a \<le> 12" | "a = 13" | "14 \<le> a" by linarith
    then show ?thesis using assms(2,3,5) unfolding c_def by cases linarith+
  qed
  ultimately show ?thesis by (auto simp: encodable_def)
qed

lemma four_bytes:
  fixes a b d e :: nat
  assumes "a < 5" "b < 64" "d < 64" "e < 64" "a = 0 \<longrightarrow> 16 \<le> b" "a = 4 \<longrightarrow> b < 16"
  defines "c \<equiv> a * 262144 + b * 4096 + d * 64 + e"
  shows "encodable c \<and> 0x10000 \<le> c"
proof -
  have "0x10000 \<le> c" using assms(2-5) unfolding c_def by (cases "a = 0") linarith+
  moreover have "c < 0x110000" using assms(1-4,6) unfolding c_def by (cases "a = 4") linarith+
  ultimately show ?thesis by (simp add: encodable_def)
qed

lemma utf8_next_minimal:
  assumes "utf8_next bs = U_char c r"
  shows "encodable c \<and> length (utf8_char c) + length r \<le> length bs"
proof (cases bs)
  case (Cons b0 bs1)
  note u = assms[unfolded Cons utf8_next.simps Let_def]
  consider "unat b0 < 0x80" | "0xC2 \<le> unat b0" "unat b0 < 0xE0" | "0xE0 \<le> unat b0" "unat b0 < 0xF0" | "0xF0 \<le> unat b0" "unat b0 < 0xF5"
    using u by (auto simp: not_less split: if_splits)
  then show ?thesis
  proof cases
    case 1
    with u show ?thesis by (simp add: Cons encodable_def length_utf8_char)
  next
    case 2
    with u obtain b1 where "bs1 = b1 # r" "utf8_cont b1" "c = (unat b0 - 0xC0) * 64 + (unat b1 - 0x80)"
      by (auto split: list.splits if_splits)
    with 2 show ?thesis by (auto simp: Cons encodable_def length_utf8_char utf8_cont_def)
  next
    case 3
    with u obtain b1 b2 where b: "bs1 = b1 # b2 # r" "utf8_second3 (unat b0) b1" "utf8_cont b2"
      and c: "c = (unat b0 - 0xE0) * 4096 + (unat b1 - 0x80) * 64 + (unat b2 - 0x80)"
      by (auto split: list.splits if_splits)
    have "encodable c \<and> 0x800 \<le> c \<and> c < 0x10000"
      unfolding c using 3 b(2,3) by (intro three_bytes) (auto simp: utf8_cont_def utf8_second3_def)
    then show ?thesis by (simp add: Cons b(1) length_utf8_char)
  next
    case 4
    with u obtain b1 b2 b3 where b: "bs1 = b1 # b2 # b3 # r" "utf8_second4 (unat b0) b1" "utf8_cont b2" "utf8_cont b3"
      and c: "c = (unat b0 - 0xF0) * 262144 + (unat b1 - 0x80) * 4096 + (unat b2 - 0x80) * 64 + (unat b3 - 0x80)"
      by (auto split: list.splits if_splits)
    have "encodable c \<and> 0x10000 \<le> c"
      unfolding c using 4 b(2-4) by (intro four_bytes) (auto simp: utf8_cont_def utf8_second4_def)
    then show ?thesis by (simp add: Cons b(1) length_utf8_char)
  qed
qed (use assms in simp)

lemma utf8_ignore_fits:
  "list_all encodable (utf8_ignore bs) \<and> length (concat (map utf8_char (utf8_ignore bs))) \<le> length bs"
proof (induction bs rule: utf8_ignore.induct)
  case (1 bs)
  show ?case
  proof (cases "utf8_next bs")
    case (U_char c r)
    with 1 utf8_next_minimal[OF U_char] show ?thesis by (subst (1 2) utf8_ignore.simps) fastforce
  next
    case U_bad
    with 1 show ?thesis by (subst (1 2) utf8_ignore.simps) (simp, linarith)
  qed (subst (1 2) utf8_ignore.simps; simp)+
qed

lemma cut_bytes_fits:
  assumes "cut_bytes n s = Inr s'" and "0 \<le> n"
  shows "list_all encodable s' \<and> length (concat (map utf8_char s')) \<le> nat n"
proof -
  obtain b where "s' = utf8_ignore (py_slice b 0 n)" using assms(1) by (auto simp: cut_bytes_def)
  moreover have "length (py_slice b 0 n) \<le> nat n" using assms(2) by (simp add: py_slice_def clip_index_def)
  ultimately show ?thesis using utf8_ignore_fits[of "py_slice b 0 n"] by force
qed

lemma nat_str_encoded: "list_all encodable (nat_str n) \<and> length (concat (map utf8_char (nat_str n))) = length (nat_str n)"
proof -
  have "list_all encodable s \<and> length (concat (map utf8_char s)) = length s" if "list_all is_digit s" for s
    using that by (induction s) (auto simp: is_digit_def encodable_def utf8_char_def)
  moreover have "list_all is_digit (nat_str n)" using nat_str_digits by (simp add: list_all_iff)
  ultimately show ?thesis by blast
qed

lemma fits_append:
  assumes "list_all encodable a" "list_all encodable b"
    and "length (concat (map utf8_char a)) + length (concat (map utf8_char b)) \<le> NAME_BYTES"
  shows "fits_name (a @ b)"
  using assms by (simp add: fits_name_def utf8_encode_def)

text \<open>The search returns a free name; short of exhausting the counters of \<open>k\<close> digits it stays within them.\<close>

lemma free_name_fresh:
  "free_name name taken c = Inr n \<Longrightarrow> n \<notin> set taken \<and> (\<exists>d \<ge> c. suffixed name d = Inr n \<and> (\<forall>e. c \<le> e \<and> e < d \<longrightarrow> \<not> settles name taken e))"
proof (induction name taken c rule: free_name.induct)
  case (1 name taken c)
  show ?case
  proof (cases "suffixed name c")
    case (Inr s)
    show ?thesis
    proof (cases "s \<in> set taken")
      case True
      with 1 Inr obtain d where d: "n \<notin> set taken" "c + 1 \<le> d" "suffixed name d = Inr n"
          "\<forall>e. c + 1 \<le> e \<and> e < d \<longrightarrow> \<not> settles name taken e"
        by (auto simp: free_name.simps[of name taken c])
      moreover have "\<not> settles name taken c" using True Inr by (simp add: settles_def)
      then have "\<forall>e. c \<le> e \<and> e < d \<longrightarrow> \<not> settles name taken e" using d(4)
        by (metis Suc_eq_plus1 le_eq_less_or_eq less_eq_Suc_le)
      ultimately show ?thesis by (meson add_leD1)
    next
      case False
      with 1(2) Inr have "n = s" by (simp add: free_name.simps[of name taken c])
      with False Inr show ?thesis by auto
    qed
  next
    case (Inl e)
    with 1(2) show ?thesis by (simp add: free_name.simps[of name taken c])
  qed
qed

lemma free_name_fits:
  assumes "free_name name taken 1 = Inr n" and "length taken < 10 ^ 9"
  shows "fits_name n"
proof -
  obtain d where d: "suffixed name d = Inr n" "\<forall>e. 1 \<le> e \<and> e < d \<longrightarrow> \<not> settles name taken e" "1 \<le> d"
    using free_name_fresh[OF assms(1)] by auto
  have "d < 10 ^ 10"
  proof (rule ccontr)
    assume "\<not> d < 10 ^ 10"
    then have "9 * 10 ^ 9 \<le> length taken" using d(2) by (intro taken_counters[where name = name]) auto
    with assms(2) show False by simp
  qed
  then have digits: "length (nat_str d) \<le> 10" by (rule nat_str_length_le) simp
  obtain s where "cut_bytes (63 - int (length (nat_str d))) name = Inr s" "n = s @ nat_str d"
    using d(1) by (auto simp: suffixed_def)
  with cut_bytes_fits[OF this(1)] digits nat_str_encoded[of d] show ?thesis
    by (auto simp: NAME_BYTES_def intro!: fits_append)
qed

lemma key_name_fresh:
  assumes "key_name k taken = Inr n" and "length taken < 10 ^ 9"
  shows "n \<notin> set taken \<and> fits_name n"
proof -
  obtain name where name: "cut_bytes 63 (key_stem k) = Inr name"
    and r: "(if name \<notin> set taken then Inr name else free_name name taken 1) = Inr n"
    using assms(1) by (auto simp: key_name_def)
  show ?thesis
  proof (cases "name \<in> set taken")
    case True
    with r show ?thesis using free_name_fresh free_name_fits[OF _ assms(2)] by auto
  next
    case False
    with r have "n = name" by simp
    then show ?thesis using False cut_bytes_fits[OF name] by (simp add: fits_name_def utf8_encode_def NAME_BYTES_def)
  qed
qed

text \<open>A key's stem that can be encoded always gets a name: the search raises nothing.\<close>

lemma free_name_returns: "list_all encodable name \<Longrightarrow> \<exists>n. free_name name taken c = Inr n"
proof (induction name taken c rule: free_name.induct)
  case (1 name taken c)
  obtain s where "suffixed name c = Inr s"
    using 1(2) by (auto simp: suffixed_def cut_bytes_def utf8_encode_def)
  with 1 show ?case by (simp add: free_name.simps[of name taken c])
qed

lemma key_name_returns:
  assumes "list_all encodable (key_stem k)"
  shows "\<exists>n. key_name k taken = Inr n"
proof -
  obtain name where name: "cut_bytes 63 (key_stem k) = Inr name"
    using assms by (auto simp: cut_bytes_def utf8_encode_def)
  have "list_all encodable name" using cut_bytes_fits[OF name] by simp
  then obtain n where "free_name name taken 1 = Inr n" using free_name_returns by blast
  with name show ?thesis by (simp add: key_name_def)
qed

text \<open>A stem that is short enough and free is the name.\<close>

lemma utf8_ignore_encoded: "list_all encodable s \<Longrightarrow> utf8_ignore (concat (map utf8_char s)) = s"
proof (induction s)
  case Nil
  then show ?case by (simp add: utf8_ignore.simps)
next
  case (Cons c s)
  then show ?case using utf8_next_char[of c "concat (map utf8_char s)"] by (subst utf8_ignore.simps) simp
qed

lemma key_name_stem:
  assumes "fits_name (key_stem k)" and "key_stem k \<notin> set taken"
  shows "key_name k taken = Inr (key_stem k)"
proof -
  obtain b where b: "utf8_encode (key_stem k) = Inr b" "length b \<le> 63"
    using assms(1) by (auto simp: fits_name_def NAME_BYTES_def)
  then have "py_slice b 0 63 = b" by (simp add: py_slice_def clip_index_def)
  moreover have "utf8_ignore b = key_stem k"
    using b(1) utf8_ignore_encoded[of "key_stem k"] by (auto simp: utf8_encode_def split: if_splits)
  ultimately show ?thesis using b(1) assms(2) by (simp add: key_name_def cut_bytes_def)
qed

section \<open>Positions\<close>

lemma enumerate_names: "map fst (map (\<lambda>(i, (n, ty)). (n, i)) (enumerate m cols)) = map fst cols"
  by (induction cols arbitrary: m) auto

lemma column_position_Inr:
  assumes "c \<in> fst ` set (t_columns t)"
  shows "\<exists>i. column_position t c = Inr i \<and> 1 \<le> i \<and> i \<le> length (t_columns t) \<and> fst (t_columns t ! (i - 1)) = c"
proof -
  let ?d = "map (\<lambda>(i, (n, ty)). (n, i)) (enumerate 1 (t_columns t))"
  have "c \<in> set (map fst ?d)" using assms unfolding enumerate_names by simp
  then have "dict_get ?d c \<noteq> None" unfolding map_of_eq_None_iff by (simp only: list.set_map not_not)
  then obtain i where i: "dict_get ?d c = Some i" by blast
  from map_of_SomeD[OF this] obtain ty where "(i, (c, ty)) \<in> set (enumerate 1 (t_columns t))" by auto
  then have "1 \<le> i \<and> i < Suc (length (t_columns t)) \<and> (c, ty) = t_columns t ! (i - 1)" by (simp add: in_set_enumerate_eq)
  then have "1 \<le> i" "i \<le> length (t_columns t)" "fst (t_columns t ! (i - 1)) = c" by (auto dest: sym)
  moreover have "column_position t c = Inr i" unfolding column_position_def i by simp
  ultimately show ?thesis by blast
qed

lemma declared_keys_ok: "table_ok t \<Longrightarrow> k \<in> set (declared_keys t) \<Longrightarrow> key_ok t (k_columns k)"
  by (auto simp: declared_keys_def table_ok_def split: if_splits)

lemma key_positions_Inr:
  assumes "key_ok t (k_columns k)"
  shows "\<exists>ps. key_positions t k = Inr ps \<and> map (\<lambda>i. fst (t_columns t ! (i - 1))) ps = k_columns k
    \<and> (\<forall>i \<in> set ps. 1 \<le> i \<and> i \<le> length (t_columns t))"
proof -
  have "set cs \<subseteq> fst ` set (t_columns t) \<Longrightarrow>
      \<exists>ps. rmap (column_position t) cs = Inr ps \<and> map (\<lambda>i. fst (t_columns t ! (i - 1))) ps = cs
        \<and> (\<forall>i \<in> set ps. 1 \<le> i \<and> i \<le> length (t_columns t))" for cs
  proof (induction cs)
    case (Cons c cs)
    then obtain ps where "rmap (column_position t) cs = Inr ps" "map (\<lambda>i. fst (t_columns t ! (i - 1))) ps = cs"
      "\<forall>i \<in> set ps. 1 \<le> i \<and> i \<le> length (t_columns t)" by auto
    moreover obtain i where "column_position t c = Inr i" "1 \<le> i" "i \<le> length (t_columns t)" "fst (t_columns t ! (i - 1)) = c"
      using column_position_Inr[of c t] Cons.prems by auto
    ultimately show ?case by auto
  qed simp
  then show ?thesis using assms by (simp add: key_positions_def key_ok_def)
qed

end
