(* ===== verification/Catalog.thy ===== *)
theory Catalog
  imports Key_Names Pg_Types
begin

text \<open>
  \<open>pg_mimic/catalog.py\<close>: the tables of \<open>pg_catalog\<close> and the views of \<open>information_schema\<close>, built from the
  schema a session declares. A row is a dict of Python values (\<open>cat_row\<close>), a catalogue the column types and the
  rows by schema and table (\<open>catalog_input\<close>).

  The loop of \<open>_build_pg_catalog\<close> carries its five accumulators in the record \<open>pg_build\<close>; \<open>add_table\<close> and \<open>add_key\<close>
  are its two bodies. Running a query over the built tables is sqlglot's executor and a parameter (\<open>engine\<close>), around
  which \<open>as_statement\<close> is the code's own treatment of the result and of each kind of failure.
\<close>

section \<open>Constants\<close>

definition PUBLIC_OID :: int where "PUBLIC_OID = 2200"
definition OWNER_OID :: int where "OWNER_OID = 10"
definition HEAP_AM_OID :: int where "HEAP_AM_OID = 2"
definition BTREE_AM_OID :: int where "BTREE_AM_OID = 403"
definition FIRST_USER_OID :: int where "FIRST_USER_OID = 16384"
definition FIRST_INDEX_OID :: int where "FIRST_INDEX_OID = FIRST_USER_OID + 100000"
definition FIRST_CONSTRAINT_OID :: int where "FIRST_CONSTRAINT_OID = FIRST_USER_OID + 200000"
definition CATALOG_NAME :: pystr where "CATALOG_NAME = lit ''pg_mimic''"
definition UNBOUNDED_OCTET_LENGTH :: int where "UNBOUNDED_OCTET_LENGTH = 1073741824"

definition TYPE_FACTS :: "(int, (string \<times> int) list) dict" where
  "TYPE_FACTS =
     [(BPCHAR, [(''character_octet_length'', UNBOUNDED_OCTET_LENGTH)]),
      (TEXT, [(''character_octet_length'', UNBOUNDED_OCTET_LENGTH)]),
      (VARCHAR, [(''character_octet_length'', UNBOUNDED_OCTET_LENGTH)]),
      (INT2, [(''numeric_precision'', 16), (''numeric_precision_radix'', 2), (''numeric_scale'', 0)]),
      (INT4, [(''numeric_precision'', 32), (''numeric_precision_radix'', 2), (''numeric_scale'', 0)]),
      (INT8, [(''numeric_precision'', 64), (''numeric_precision_radix'', 2), (''numeric_scale'', 0)]),
      (FLOAT4, [(''numeric_precision'', 24), (''numeric_precision_radix'', 2)]),
      (FLOAT8, [(''numeric_precision'', 53), (''numeric_precision_radix'', 2)]),
      (NUMERIC, [(''numeric_precision_radix'', 10)]),
      (DATE, [(''datetime_precision'', 0)]),
      (TIME, [(''datetime_precision'', 6)]),
      (TIMESTAMP, [(''datetime_precision'', 6)]),
      (TIMESTAMPTZ, [(''datetime_precision'', 6)]),
      (INTERVAL, [(''datetime_precision'', 6)])]"

record catalog_input =
  ci_column_types :: "(pystr, (pystr, (pystr, pystr) dict) dict) dict"
  ci_rows :: "(pystr, (pystr, cat_row list) dict) dict"

section \<open>\<open>information_schema\<close>\<close>

definition information_schema_row :: "string \<Rightarrow> (string \<times> pyval) list \<Rightarrow> exc + cat_row" where
  "information_schema_row view derived =
     rbind INFORMATION_SCHEMA_SCHEMA (\<lambda>schema.
     case (case dict_get schema (lit ''information_schema'') of Some views \<Rightarrow> dict_get views (lit view) | None \<Rightarrow> None) of
       None \<Rightarrow> Inl KeyError
     | Some cols \<Rightarrow>
         let r = map (\<lambda>(c, ty). (c, PNone)) cols in
         if list_all (\<lambda>(c, v). dict_has (lit c) r) derived then Inr (dict_update r (row_of derived)) else Inl KeyError)"

definition tables_row :: "pystr \<Rightarrow> exc + cat_row" where
  "tables_row table_name = information_schema_row ''tables''
     [(''table_catalog'', PStr CATALOG_NAME), (''table_schema'', ptext ''public''), (''table_name'', PStr table_name),
      (''table_type'', ptext ''BASE TABLE''), (''is_insertable_into'', ptext ''YES''), (''is_typed'', ptext ''NO'')]"

definition columns_row :: "pystr \<Rightarrow> table \<Rightarrow> nat \<Rightarrow> pystr \<Rightarrow> pystr \<Rightarrow> exc + cat_row" where
  "columns_row table_name t i col_name col_type =
     (let oid = oid_for_declared_type col_type in
      case dict_get pg_type_by_oid oid of
        None \<Rightarrow> Inl KeyError
      | Some ty \<Rightarrow>
          (case dict_get ty (lit ''typname'') of
             None \<Rightarrow> Inl KeyError
           | Some udt \<Rightarrow> information_schema_row ''columns''
               ([(''table_catalog'', PStr CATALOG_NAME), (''table_schema'', ptext ''public''), (''table_name'', PStr table_name),
                 (''column_name'', PStr col_name), (''ordinal_position'', PInt (int i)),
                 (''is_nullable'', ptext (if col_name \<in> set (t_primary_key t) then ''NO'' else ''YES'')),
                 (''data_type'', PStr col_type), (''udt_catalog'', PStr CATALOG_NAME), (''udt_schema'', ptext ''pg_catalog''),
                 (''udt_name'', udt), (''dtd_identifier'', PStr (nat_str i)), (''is_self_referencing'', ptext ''NO''),
                 (''is_identity'', ptext ''NO''), (''identity_cycle'', ptext ''NO''), (''is_generated'', ptext ''NEVER''),
                 (''is_updatable'', ptext ''YES'')]
                @ map (\<lambda>(c, n). (c, PInt n)) (dict_get_or TYPE_FACTS oid []))))"

definition view_rows :: "pystr \<times> table \<Rightarrow> exc + cat_row \<times> cat_row list" where
  "view_rows = (\<lambda>(table_name, t).
     rbind (tables_row table_name) (\<lambda>tr.
     rbind (rmap (\<lambda>(i, (col_name, col_type)). columns_row table_name t i col_name col_type) (enumerate 1 (t_columns t))) (\<lambda>crs.
     Inr (tr, crs))))"

definition build_information_schema :: "schema \<Rightarrow> exc + catalog_input" where
  "build_information_schema declared =
     rbind (rmap view_rows declared) (\<lambda>rows.
     rbind INFORMATION_SCHEMA_SCHEMA (\<lambda>types.
     Inr \<lparr>ci_column_types = types,
          ci_rows = [(lit ''information_schema'', [(lit ''tables'', map fst rows), (lit ''columns'', concat (map snd rows))])]\<rparr>))"

section \<open>\<open>pg_catalog\<close>\<close>

definition class_row :: "int \<Rightarrow> pystr \<Rightarrow> string \<Rightarrow> int \<Rightarrow> bool \<Rightarrow> string \<Rightarrow> cat_row" where
  "class_row oid relname relkind relam relhasindex relreplident = row_of
     [(''oid'', PInt oid), (''relname'', PStr relname), (''relnamespace'', PInt PUBLIC_OID), (''relkind'', ptext relkind),
      (''relowner'', PInt OWNER_OID), (''relam'', PInt relam), (''reltuples'', PInt (- 1)), (''relpages'', PInt 0),
      (''relhasindex'', PBool relhasindex), (''relpersistence'', ptext ''p''), (''reltablespace'', PInt 0),
      (''relispartition'', PBool False), (''relrowsecurity'', PBool False), (''relforcerowsecurity'', PBool False),
      (''relreplident'', ptext relreplident), (''reloftype'', PInt 0), (''relhastriggers'', PBool False),
      (''relchecks'', PInt 0), (''relhasrules'', PBool False), (''reltoastrelid'', PInt 0)]"

definition attribute_row :: "int \<Rightarrow> table \<Rightarrow> nat \<Rightarrow> pystr \<Rightarrow> pystr \<Rightarrow> cat_row" where
  "attribute_row table_oid t position col_name col_type = row_of
     [(''attrelid'', PInt table_oid), (''attname'', PStr col_name), (''atttypid'', PInt (oid_for_declared_type col_type)),
      (''attnum'', PInt (int position)), (''attnotnull'', PBool (col_name \<in> set (t_primary_key t))),
      (''atthasdef'', PBool False), (''attisdropped'', PBool False), (''attidentity'', ptext ''''),
      (''attgenerated'', ptext ''''), (''attcollation'', PInt 0), (''atttypmod'', PInt (- 1)),
      (''attstattarget'', PInt (- 1)), (''attformattype'', PStr col_type),
      (''attstorage'', PStr (storage_for (oid_for_declared_type col_type))), (''attcompression'', ptext '''')]"

definition index_row :: "int \<Rightarrow> int \<Rightarrow> pystr \<Rightarrow> pystr \<Rightarrow> bool \<Rightarrow> pystr \<Rightarrow> nat list \<Rightarrow> cat_row" where
  "index_row index_oid table_oid kname table_name primary cols positions = row_of
     [(''indexdef'', PStr (lit ''CREATE UNIQUE INDEX '' @ rendered_identifier kname @ lit '' ON ''
         @ rendered_identifier table_name @ lit '' USING btree ('' @ cols @ lit '')'')),
      (''indexrelid'', PInt index_oid), (''indrelid'', PInt table_oid), (''indisprimary'', PBool primary),
      (''indisunique'', PBool True), (''indisclustered'', PBool False), (''indisvalid'', PBool True),
      (''indisreplident'', PBool False), (''indkey'', PStr (py_join (lit '' '') (map nat_str positions)))]"

definition constraint_row :: "int \<Rightarrow> int \<Rightarrow> int \<Rightarrow> pystr \<Rightarrow> bool \<Rightarrow> pystr \<Rightarrow> nat list \<Rightarrow> cat_row" where
  "constraint_row constraint_oid table_oid index_oid kname primary cols positions = row_of
     [(''condef'', PStr (lit (if primary then ''PRIMARY KEY'' else ''UNIQUE'') @ lit '' ('' @ cols @ lit '')'')),
      (''oid'', PInt constraint_oid), (''conname'', PStr kname), (''conrelid'', PInt table_oid),
      (''contype'', ptext (if primary then ''p'' else ''u'')), (''conparentid'', PInt 0), (''conindid'', PInt index_oid),
      (''confrelid'', PInt 0), (''condeferrable'', PBool False), (''condeferred'', PBool False),
      (''convalidated'', PBool True), (''connoinherit'', PBool False), (''conislocal'', PBool True),
      (''coninhcount'', PInt 0), (''conkey'', PStr (lit ''{'' @ py_join (lit '','') (map nat_str positions) @ lit ''}''))]"

record pg_build =
  b_class :: "cat_row list"
  b_attribute :: "cat_row list"
  b_index :: "cat_row list"
  b_constraint :: "cat_row list"
  b_names :: "pystr list"

text \<open>\<open>for x in xs\<close> over an accumulator, where the body may raise.\<close>

fun rfold :: "('a \<Rightarrow> 's \<Rightarrow> exc + 's) \<Rightarrow> 'a list \<Rightarrow> 's \<Rightarrow> exc + 's" where
  "rfold f [] s = Inr s"
| "rfold f (x # xs) s = rbind (f x s) (rfold f xs)"

text \<open>What one key adds, once it has a name and its positions are known.\<close>

definition put_key :: "int \<Rightarrow> pystr \<Rightarrow> key \<Rightarrow> pystr \<Rightarrow> nat list \<Rightarrow> pg_build \<Rightarrow> pg_build" where
  "put_key table_oid table_name k name positions b =
     (let index_oid = FIRST_INDEX_OID + int (length (b_index b));
          constraint_oid = FIRST_CONSTRAINT_OID + int (length (b_constraint b));
          cols = py_join (lit '', '') (map rendered_identifier (k_columns k)) in
      b\<lparr>b_names := set_add name (b_names b),
        b_class := b_class b @ [class_row index_oid name ''i'' BTREE_AM_OID False ''n''],
        b_index := b_index b @ [index_row index_oid table_oid name table_name (k_is_primary k) cols positions],
        b_constraint := b_constraint b
          @ [constraint_row constraint_oid table_oid index_oid name (k_is_primary k) cols positions]\<rparr>)"

definition add_key :: "int \<Rightarrow> pystr \<Rightarrow> table \<Rightarrow> key \<Rightarrow> pg_build \<Rightarrow> exc + pg_build" where
  "add_key table_oid table_name t k b =
     rbind (key_name k (b_names b)) (\<lambda>name.
     rbind (key_positions t k) (\<lambda>positions. Inr (put_key table_oid table_name k name positions b)))"

text \<open>The rows of the table itself and of its columns.\<close>

definition put_table :: "int \<Rightarrow> pystr \<Rightarrow> table \<Rightarrow> pg_build \<Rightarrow> pg_build" where
  "put_table table_oid table_name t b =
     b\<lparr>b_class := b_class b
         @ [class_row table_oid table_name ''r'' HEAP_AM_OID (t_primary_key t \<noteq> [] \<or> t_unique t \<noteq> []) ''d''],
       b_attribute := b_attribute b
         @ map (\<lambda>(position, (col_name, col_type)). attribute_row table_oid t position col_name col_type)
             (enumerate 1 (t_columns t))\<rparr>"

definition add_table :: "nat \<times> pystr \<times> table \<Rightarrow> pg_build \<Rightarrow> exc + pg_build" where
  "add_table = (\<lambda>(index, table_name, t) b.
     let table_oid = FIRST_USER_OID + int index in
     rfold (add_key table_oid table_name t) (declared_keys t) (put_table table_oid table_name t b))"

definition pg_build_empty :: pg_build where
  "pg_build_empty = \<lparr>b_class = [], b_attribute = [], b_index = [], b_constraint = [], b_names = []\<rparr>"

definition pg_namespace_rows :: "cat_row list" where
  "pg_namespace_rows =
     [row_of [(''oid'', PInt PUBLIC_OID), (''nspname'', ptext ''public''), (''nspowner'', PInt OWNER_OID)],
      row_of [(''oid'', PInt 11), (''nspname'', ptext ''pg_catalog''), (''nspowner'', PInt OWNER_OID)],
      row_of [(''oid'', PInt 13000), (''nspname'', ptext ''information_schema''), (''nspowner'', PInt OWNER_OID)]]"

definition pg_am_rows :: "cat_row list" where
  "pg_am_rows =
     [row_of [(''oid'', PInt HEAP_AM_OID), (''amname'', ptext ''heap''), (''amhandler'', ptext ''heap_tableam_handler''), (''amtype'', ptext ''t'')],
      row_of [(''oid'', PInt BTREE_AM_OID), (''amname'', ptext ''btree''), (''amhandler'', ptext ''bthandler''), (''amtype'', ptext ''i'')]]"

definition pg_roles_rows :: "cat_row list" where
  "pg_roles_rows =
     [row_of [(''oid'', PInt OWNER_OID), (''rolname'', ptext ''postgres''), (''rolsuper'', PBool False), (''rolinherit'', PBool True),
        (''rolcreaterole'', PBool False), (''rolcreatedb'', PBool False), (''rolcanlogin'', PBool True), (''rolconnlimit'', PInt (- 1)),
        (''rolvaliduntil'', PNone), (''rolreplication'', PBool False), (''rolbypassrls'', PBool False)]]"

definition pg_database_rows :: "pystr \<Rightarrow> cat_row list" where
  "pg_database_rows database =
     [row_of [(''oid'', PInt 16385), (''datname'', PStr database), (''datdba'', PInt OWNER_OID), (''datcollate'', ptext ''C''),
        (''datctype'', ptext ''C''), (''datlocprovider'', ptext ''c''), (''daticulocale'', PNone), (''daticurules'', PNone),
        (''datacl'', PNone), (''datallowconn'', PBool True), (''datconnlimit'', PInt (- 1)), (''dattablespace'', PInt 0)]]"

definition build_pg_catalog :: "schema \<Rightarrow> pystr \<Rightarrow> exc + catalog_input" where
  "build_pg_catalog declared database =
     rbind (rfold add_table (enumerate 0 declared) pg_build_empty) (\<lambda>b.
     Inr \<lparr>ci_column_types = PG_CATALOG_SCHEMA,
       ci_rows = [(lit ''pg_catalog'',
         [(lit ''pg_namespace'', pg_namespace_rows), (lit ''pg_class'', b_class b), (lit ''pg_am'', pg_am_rows),
          (lit ''pg_attribute'', b_attribute b), (lit ''pg_type'', pg_type_rows), (lit ''pg_attrdef'', []),
          (lit ''pg_collation'', []), (lit ''pg_constraint'', b_constraint b), (lit ''pg_index'', b_index b),
          (lit ''pg_inherits'', []), (lit ''pg_rewrite'', []), (lit ''pg_trigger'', []), (lit ''pg_policy'', []),
          (lit ''pg_statistic_ext'', []), (lit ''pg_roles'', pg_roles_rows), (lit ''pg_publication'', []),
          (lit ''pg_publication_rel'', []), (lit ''pg_publication_namespace'', []),
          (lit ''pg_database'', pg_database_rows database)])]\<rparr>)"

end
