(* ===== verification/Author.thy ===== *)
theory Author
  imports World Settings_Values Catalog
begin

text \<open>
  What the server is parameterised by. A session author overrides the methods of \<open>Session\<close>
  (\<open>pg_mimic/session.py\<close>); each is a function of the author's own state and the connection it can
  read, and answers with what it did to the connection on the way, its new state, and a result or an
  exception. \<open>CancelledError\<close> as a result is a CancelRequest that landed while the method was awaited.
  \<open>copy_in\<close> pulls its rows one by one, so it is three functions: what it does before the
  first row, for a row, and at the end of the data.

  The other fields stand for code that is not in this repository or is modelled elsewhere: the tokenizer of
  sqlglot, its parser (\<open>e_parse\<close>, which gives what the code reads off a syntax tree, or nothing) and its executor (\<open>e_execute\<close>),
  what is worked out over a syntax tree (\<open>e_columns\<close> for the declared columns of a result, \<open>e_rewrite\<close> for
  \<open>rewrite_for_executor\<close>), the links of the chain that evaluate queries over session state, the catalogue file, and the
  texts of standard library exceptions.
\<close>

type_synonym ('u, 'a) callback = "'u \<Rightarrow> conn \<Rightarrow> author_act list \<times> 'u \<times> (exc + 'a)"

datatype copy_in_step = CopyMore | CopyStop "nat option"

text \<open>The links of \<open>DEFAULT_MIDDLEWARE\<close>; \<open>L_custom\<close> is a link of a session's own chain.\<close>

datatype link =
    L_copy_stdio | L_transaction_control | L_set_show | L_session_reset | L_listen_notify | L_prepared_statements
  | L_session_functions | L_information_schema | L_asyncpg_typeinfo | L_pg_catalog | L_custom nat

text \<open>
  What the code asks of a parsed statement: whether it is a SELECT or another query, the tables it names with their schemas, its
  text as sqlglot prints it, and the name of each of its select expressions (nothing when it has no select list).
\<close>

datatype query_kind = Q_Select | Q_Query | Q_Other

record query =
  q_kind :: query_kind
  q_tables :: "(pystr \<times> pystr) list"
  q_sql :: pystr
  q_selects :: "pystr list option"

text \<open>What the executor does with a query: names and rows, or one of the two kinds of failure the code tells apart, with its text.\<close>

datatype executed = Executed "pystr list" "row list" | OptimizeFailed pystr | ExecutorFailed pystr

record 'u env =
  e_catalog :: catalog
  e_middleware :: "link list option"
  e_link :: "link \<Rightarrow> 'u world \<Rightarrow> int \<Rightarrow> pystr \<Rightarrow> int option list \<Rightarrow> exc + statement option"
  e_parse :: "pystr \<Rightarrow> query option"
  e_execute :: "query \<Rightarrow> catalog_input \<Rightarrow> executed"
  e_columns :: "query \<Rightarrow> catalog_input \<Rightarrow> result_column list option"
  e_rewrite :: "conn \<Rightarrow> query \<Rightarrow> query"
  e_rows :: "'u world \<Rightarrow> int \<Rightarrow> pystr \<Rightarrow> exc + row list"
  e_semicolons :: "pystr \<Rightarrow> (nat \<times> nat) list option"
  e_arguments :: "pystr \<Rightarrow> (bool \<times> pystr) list option"
  e_exc_text :: "exc \<Rightarrow> pystr"
  e_init :: "('u, unit) callback"
  e_close :: "('u, unit) callback"
  e_describe :: "pystr \<Rightarrow> int option list \<Rightarrow> ('u, columns) callback"
  e_query :: "pystr \<Rightarrow> pyval list \<Rightarrow> ('u, row_source) callback"
  e_set_parameter :: "pystr \<Rightarrow> pystr option \<Rightarrow> setting_value option \<Rightarrow> ('u, unit) callback"
  e_discard :: "discard_kind \<Rightarrow> ('u, unit) callback"
  e_schema :: "('u, declared) callback"
  e_has_copy_in :: bool
  e_has_copy_out :: bool
  e_copy_in_start :: "pystr \<Rightarrow> ('u, copy_in_step) callback"
  e_copy_in_row :: "pystr \<Rightarrow> pystr option list \<Rightarrow> ('u, copy_in_step) callback"
  e_copy_in_end :: "pystr \<Rightarrow> ('u, nat option) callback"
  e_copy_out :: "pystr \<Rightarrow> ('u, row_source) callback"

definition upd_author :: "int \<Rightarrow> 'u \<Rightarrow> 'u world \<Rightarrow> 'u world" where
  "upd_author p u w =
     (let i = c_session (w_conns w p) in
      w\<lparr>w_sessions := (w_sessions w)(i := (w_sessions w i)\<lparr>so_author := u\<rparr>)\<rparr>)"

definition call_author :: "int \<Rightarrow> ('u, 'a) callback \<Rightarrow> ('u world, 'a) act" where
  "call_author p cb w =
     (let c = w_conns w p in
      case cb (so_author (w_sessions w (c_session c))) c of
        (acts, u, r) \<Rightarrow> abind (run_acts p acts) (\<lambda>_. alift r) (upd_author p u w))"

text \<open>\<open>str(e) or repr(e)\<close>; the texts of the exceptions of the standard library are the parameter \<open>e_exc_text\<close>.\<close>

fun exc_text :: "'u env \<Rightarrow> exc \<Rightarrow> pystr" where
  "exc_text env (PgError code msg fs) = msg"
| "exc_text env (ProtocolViolation code msg) = msg"
| "exc_text env (ValueError msg) = msg"
| "exc_text env (TypeError msg) = msg"
| "exc_text env (OtherError msg) = msg"
| "exc_text env e = e_exc_text env e"

text \<open>\<open>except Exception\<close>: everything but a cancellation.\<close>

definition is_exception :: "exc \<Rightarrow> bool" where
  "is_exception e \<longleftrightarrow> e \<noteq> CancelledError"

text \<open>\<open>try: a except Exception: handler; raise\<close>\<close>

definition on_exception :: "('s, 'a) act \<Rightarrow> ('s, unit) act \<Rightarrow> ('s, 'a) act" where
  "on_exception a handler s =
     (case a s of
        (Inl e, s') \<Rightarrow> if is_exception e then abind handler (\<lambda>_. araise e) s' else (Inl e, s')
      | (Inr x, s') \<Rightarrow> (Inr x, s'))"

definition aread :: "('s \<Rightarrow> exc + 'a) \<Rightarrow> ('s, 'a) act" where
  "aread f s = (f s, s)"

definition awhen :: "bool \<Rightarrow> ('s, unit) act \<Rightarrow> ('s, unit) act" where
  "awhen b a = (if b then a else aret ())"

end
