(* ===== verification/Settings.thy ===== *)
theory Settings
  imports Author "HOL-Library.List_Lexorder"
begin

text \<open>
  The settings half of \<open>pg_mimic/middleware.py\<close>: what a parameter reads as, which parameters a
  connection may set, and \<open>_apply_set_config\<close> with its undo. The iteration order of a Python set
  is the order of the list that stands for it.
\<close>

section \<open>Errors\<close>

definition UNDEFINED_OBJECT :: pystr where "UNDEFINED_OBJECT = lit ''42704''"
definition CANT_CHANGE_RUNTIME_PARAM :: pystr where "CANT_CHANGE_RUNTIME_PARAM = lit ''55P02''"

definition unrecognized_setting :: "pystr \<Rightarrow> exc" where
  "unrecognized_setting name =
     PgError UNDEFINED_OBJECT (lit ''unrecognized configuration parameter '' @ [34] @ name @ [34]) []"

section \<open>Reading\<close>

definition setting_name :: "pystr \<Rightarrow> pystr" where
  "setting_name raw = py_lower (py_strip_chars [34] (py_strip raw))"

definition REPORTED_SETTINGS :: "(pystr, pystr) dict" where
  "REPORTED_SETTINGS =
     [(lit ''application_name'', lit ''application_name''), (lit ''client_encoding'', lit ''client_encoding''),
      (lit ''datestyle'', lit ''DateStyle''), (lit ''intervalstyle'', lit ''IntervalStyle''),
      (lit ''is_superuser'', lit ''is_superuser''), (lit ''search_path'', lit ''search_path''),
      (lit ''session_authorization'', lit ''session_authorization''),
      (lit ''standard_conforming_strings'', lit ''standard_conforming_strings''), (lit ''timezone'', lit ''TimeZone'')]"

definition version_num :: "pystr \<Rightarrow> pystr" where
  "version_num version =
     (let head = (case split_ws version of [] \<Rightarrow> [] | t # _ \<Rightarrow> t); parts = split_on 46 head in
      case parse_int_text (hd parts) of
        None \<Rightarrow> []
      | Some major \<Rightarrow>
          (case parts of
             _ # q # _ \<Rightarrow> (case parse_int_text q of None \<Rightarrow> [] | Some minor \<Rightarrow> int_str (major * 10000 + minor))
           | _ \<Rightarrow> int_str (major * 10000)))"

definition DEFAULT_SETTING_NAMES :: "pystr list" where
  "DEFAULT_SETTING_NAMES =
     map lit [''application_name'', ''client_encoding'', ''datestyle'', ''default_transaction_deferrable'',
       ''default_transaction_isolation'', ''default_transaction_read_only'', ''intervalstyle'', ''is_superuser'', ''jit'',
       ''search_path'', ''server_encoding'', ''port'', ''server_version'', ''server_version_num'',
       ''session_authorization'', ''standard_conforming_strings'', ''timezone'']"

definition default_setting :: "'u world \<Rightarrow> conn \<Rightarrow> pystr \<Rightarrow> pystr option" where
  "default_setting w c key =
     (let status = (\<lambda>name dflt. dict_get_or (w_parameter_status w) (lit name) (lit dflt)) in
      dict_get
        [(lit ''application_name'', dict_get_or (c_startup_params c) (lit ''application_name'') []),
         (lit ''client_encoding'', status ''client_encoding'' ''UTF8''),
         (lit ''datestyle'', status ''DateStyle'' ''ISO, MDY''),
         (lit ''default_transaction_deferrable'', lit ''off''),
         (lit ''default_transaction_isolation'', lit ''read committed''),
         (lit ''default_transaction_read_only'', lit ''off''),
         (lit ''intervalstyle'', status ''IntervalStyle'' ''postgres''),
         (lit ''is_superuser'', lit ''off''),
         (lit ''jit'', lit ''off''),
         (lit ''search_path'', [34] @ lit ''$user'' @ [34] @ lit '', public''),
         (lit ''server_encoding'', status ''server_encoding'' ''UTF8''),
         (lit ''port'', nat_str (w_port w)),
         (lit ''server_version'', status ''server_version'' []),
         (lit ''server_version_num'', version_num (status ''server_version'' [])),
         (lit ''session_authorization'', c_username c),
         (lit ''standard_conforming_strings'', lit ''on''),
         (lit ''timezone'', status ''TimeZone'' ''UTC'')] key)"

definition read_setting :: "'u env \<Rightarrow> 'u world \<Rightarrow> int \<Rightarrow> pystr \<Rightarrow> exc + pystr option" where
  "read_setting env w p key =
     (let c = w_conns w p; s = c_state c in
      case dict_get (session_vars s) key of
        Some v \<Rightarrow> rbind (settings_render (e_catalog env) key v) (\<lambda>t. Inr (Some t))
      | None \<Rightarrow>
          (case default_setting w c key of
             Some t \<Rightarrow> Inr (Some t)
           | None \<Rightarrow>
               (case catalog_default (e_catalog env) key of
                  Some t \<Rightarrow> Inr (Some t)
                | None \<Rightarrow> Inr (if key \<in> set (known_settings s) then Some [] else None))))"

definition report_setting :: "'u env \<Rightarrow> int \<Rightarrow> pystr \<Rightarrow> ('u world, unit) act" where
  "report_setting env p key =
     (case dict_get REPORTED_SETTINGS key of
        None \<Rightarrow> aret ()
      | Some reported \<Rightarrow>
          abind (aread (\<lambda>w. read_setting env w p key))
            (\<lambda>v. amod (report_parameter p reported (case v of None \<Rightarrow> [] | Some t \<Rightarrow> t))))"

text \<open>The rows of \<open>SHOW x\<close> and \<open>SHOW ALL\<close>.\<close>

definition show_rows :: "'u env \<Rightarrow> 'u world \<Rightarrow> int \<Rightarrow> pystr \<Rightarrow> exc + row list" where
  "show_rows env w p key =
     rbind (read_setting env w p key) (\<lambda>v. case v of None \<Rightarrow> Inl (unrecognized_setting key) | Some t \<Rightarrow> Inr [[PStr t]])"

definition show_all_names :: "'u env \<Rightarrow> 'u world \<Rightarrow> int \<Rightarrow> pystr list" where
  "show_all_names env w p =
     (let s = c_state (w_conns w p) in
      sort (remdups (map fst (e_catalog env) @ DEFAULT_SETTING_NAMES @ map fst (session_vars s) @ known_settings s)))"

definition show_all_rows :: "'u env \<Rightarrow> 'u world \<Rightarrow> int \<Rightarrow> exc + row list" where
  "show_all_rows env w p =
     rbind (rmap (\<lambda>name. rbind (read_setting env w p name) (\<lambda>v. Inr (name, v))) (show_all_names env w p))
       (\<lambda>found. Inr (concat (map (\<lambda>(name, v). case v of None \<Rightarrow> []
          | Some t \<Rightarrow> [[PStr name, PStr t, PStr (case dict_get (e_catalog env) name of Some e \<Rightarrow> ce_short_desc e | None \<Rightarrow> [])]]) found)))"

section \<open>Who may set what\<close>

definition UNSETTABLE_CONTEXTS :: "(pystr, pystr) dict" where
  "UNSETTABLE_CONTEXTS =
     [(lit ''postmaster'', lit ''cannot be changed without restarting the server''), (lit ''sighup'', lit ''cannot be changed now''),
      (lit ''internal'', lit ''cannot be changed''), (lit ''backend'', lit ''cannot be set after connection start''),
      (lit ''superuser-backend'', lit ''cannot be set after connection start'')]"

definition SETTABLE_CONTEXTS :: "pystr list" where
  "SETTABLE_CONTEXTS = [lit ''user'', lit ''superuser'']"

definition check_settable :: "catalog \<Rightarrow> pystr \<Rightarrow> exc + unit" where
  "check_settable cat name =
     (if 46 \<in> set name then Inr ()
      else case catalog_context cat name of
        None \<Rightarrow> Inl (unrecognized_setting name)
      | Some ctx \<Rightarrow>
          if ctx \<in> set SETTABLE_CONTEXTS then Inr ()
          else Inl (PgError CANT_CHANGE_RUNTIME_PARAM
                 (lit ''parameter '' @ [34] @ name @ [34] @ lit '' '' @ dict_get_or UNSETTABLE_CONTEXTS ctx (lit ''cannot be changed'')) []))"

section \<open>Writing\<close>

definition put_var :: "pystr \<Rightarrow> setting_value option \<Rightarrow> (pystr, setting_value) dict \<Rightarrow> (pystr, setting_value) dict" where
  "put_var key v d = (case v of None \<Rightarrow> dict_pop key d | Some x \<Rightarrow> dict_set key x d)"

text \<open>\<open>_record_setting\<close>: \<open>stored\<close> is \<open>None\<close> when the override is dropped.\<close>

definition record_setting ::
    "pystr \<Rightarrow> setting_value option \<Rightarrow> bool \<Rightarrow> ('st, 'po) session_state \<Rightarrow> ('st, 'po) session_state" where
  "record_setting key stored local s =
     (let s1 = s\<lparr>known_settings := set_add key (known_settings s), session_vars := put_var key stored (session_vars s)\<rparr> in
      if local then s1 else s1\<lparr>committed_vars := put_var key stored (committed_vars s)\<rparr>)"

text \<open>The closure it returns; \<open>old\<close> is the state the closure was built in.\<close>

definition undo_setting ::
    "pystr \<Rightarrow> bool \<Rightarrow> ('st, 'po) session_state \<Rightarrow> ('st, 'po) session_state \<Rightarrow> ('st, 'po) session_state" where
  "undo_setting key local old s =
     (let s1 = s\<lparr>session_vars := put_var key (dict_get (session_vars old) key) (session_vars s)\<rparr>;
          s2 = (if local then s1 else s1\<lparr>committed_vars := put_var key (dict_get (committed_vars old) key) (committed_vars s)\<rparr>) in
      if key \<in> set (known_settings old) then s2 else s2\<lparr>known_settings := set_discard key (known_settings s)\<rparr>)"

definition tell_session :: "'u env \<Rightarrow> int \<Rightarrow> pystr \<Rightarrow> pystr option \<Rightarrow> setting_value option \<Rightarrow> ('u world, unit) act" where
  "tell_session env p key raw parsed = call_author p (e_set_parameter env key raw parsed)"

definition parse_setting :: "catalog \<Rightarrow> pystr \<Rightarrow> pystr option \<Rightarrow> exc + setting_value option" where
  "parse_setting cat key v = (case v of None \<Rightarrow> Inr None | Some t \<Rightarrow> rbind (settings_parse cat key t) (\<lambda>x. Inr (Some x)))"

definition apply_set_config :: "'u env \<Rightarrow> int \<Rightarrow> pystr \<Rightarrow> pystr option \<Rightarrow> bool \<Rightarrow> ('u world, unit) act" where
  "apply_set_config env p key v local =
     abind (alift (check_settable (e_catalog env) key)) (\<lambda>_.
     abind (alift (parse_setting (e_catalog env) key v)) (\<lambda>stored.
     abind (aread (\<lambda>w. Inr (c_state (w_conns w p)))) (\<lambda>old.
     abind (amod (upd_state p (record_setting key stored local))) (\<lambda>_.
     abind (report_setting env p key) (\<lambda>_.
     on_exception (tell_session env p key v stored)
       (abind (amod (upd_state p (undo_setting key local old))) (\<lambda>_. report_setting env p key)))))))"

definition reset_all :: "'u env \<Rightarrow> int \<Rightarrow> ('u world, unit) act" where
  "reset_all env p w =
     arun (\<lambda>name. apply_set_config env p name None False) (map fst (session_vars (c_state (w_conns w p)))) w"

section \<open>Settings that moved\<close>

text \<open>Python's \<open>==\<close> on the values a setting may hold.\<close>

fun setting_number :: "setting_value \<Rightarrow> rat option" where
  "setting_number (SBool b) = Some (if b then 1 else 0)"
| "setting_number (SInt i) = Some (of_int i)"
| "setting_number (SReal w) = (if f64_finite w then Some (f64_val w) else None)"
| "setting_number (SStr s) = None"

definition setting_eq :: "setting_value \<Rightarrow> setting_value \<Rightarrow> bool" where
  "setting_eq a b \<longleftrightarrow>
     (case (setting_number a, setting_number b) of
        (Some x, Some y) \<Rightarrow> x = y
      | (None, None) \<Rightarrow> a = b \<and> (case a of SReal w \<Rightarrow> \<not> f64_nan w | _ \<Rightarrow> True)
      | _ \<Rightarrow> False)"

definition same_setting :: "setting_value option \<Rightarrow> setting_value option \<Rightarrow> bool" where
  "same_setting a b \<longleftrightarrow> (case (a, b) of (None, None) \<Rightarrow> True | (Some x, Some y) \<Rightarrow> setting_eq x y | _ \<Rightarrow> False)"

definition report_moved :: "'u env \<Rightarrow> int \<Rightarrow> (pystr, setting_value) dict \<Rightarrow> ('u world, unit) act" where
  "report_moved env p vars_before w =
     (let vars = session_vars (c_state (w_conns w p)) in
      arun (\<lambda>name. if same_setting (dict_get vars_before name) (dict_get vars name) then aret () else report_setting env p name)
        (remdups (map fst vars_before @ map fst vars)) w)"

end
