(* ===== verification/Effects.thy ===== *)
theory Effects
  imports Settings
begin

text \<open>
  The \<open>on_execute\<close> closures of \<open>pg_mimic/middleware.py\<close>, one definition each: transaction control,
  savepoints, DISCARD, DEALLOCATE, SET/RESET, LISTEN/UNLISTEN/NOTIFY, PREPARE and \<open>set_config\<close>. They
  run at Execute and never at Parse.
\<close>

definition NO_ACTIVE_SQL_TRANSACTION :: pystr where "NO_ACTIVE_SQL_TRANSACTION = lit ''25P01''"
definition ACTIVE_SQL_TRANSACTION :: pystr where "ACTIVE_SQL_TRANSACTION = lit ''25001''"
definition INVALID_SAVEPOINT_SPECIFICATION :: pystr where "INVALID_SAVEPOINT_SPECIFICATION = lit ''3B001''"
definition INVALID_SQL_STATEMENT_NAME :: pystr where "INVALID_SQL_STATEMENT_NAME = lit ''26000''"

definition set_tx :: "int \<Rightarrow> tx_status \<Rightarrow> 'u world \<Rightarrow> 'u world" where
  "set_tx p t = upd_conn p (\<lambda>c. c\<lparr>c_tx_status := t\<rparr>)"

section \<open>Transactions\<close>

definition end_transaction_stmt :: "'u env \<Rightarrow> int \<Rightarrow> bool \<Rightarrow> ('u world, unit) act" where
  "end_transaction_stmt env p committed w =
     (let vars_before = session_vars (c_state (w_conns w p)) in
      abind (amod (upd_state p (if committed then commit_transaction else end_transaction))) (\<lambda>_.
      abind (report_moved env p vars_before) (\<lambda>_.
      abind (awhen committed (amod (flush_pending_notifies p))) (\<lambda>_.
      amod (sync_listeners p)))) w)"

definition transaction_effect :: "'u env \<Rightarrow> int \<Rightarrow> tx_tag \<Rightarrow> ('u world, unit) act" where
  "transaction_effect env p tag w =
     (let tx = c_tx_status (w_conns w p);
          redundant_begin = (tag = TAG_BEGIN \<and> tx = TxT);
          was_open = (tx \<noteq> TxI);
          w1 = set_tx p (if tag = TAG_BEGIN then TxT else TxI) w in
      if redundant_begin then (Inr (), w1)
      else
        let w2 = upd_state p (\<lambda>s. s\<lparr>savepoints := []\<rparr>) w1 in
        if tag = TAG_BEGIN then (Inr (), upd_state p open_scope w2)
        else if was_open then end_transaction_stmt env p (tag = TAG_COMMIT) w2
        else (Inr (), w2))"

fun NO_TRANSACTION_MESSAGE :: "savepoint_kind \<Rightarrow> pystr" where
  "NO_TRANSACTION_MESSAGE SP_SAVEPOINT = lit ''SAVEPOINT can only be used in transaction blocks''"
| "NO_TRANSACTION_MESSAGE SP_RELEASE = lit ''RELEASE SAVEPOINT can only be used in transaction blocks''"
| "NO_TRANSACTION_MESSAGE SP_ROLLBACK_TO = lit ''ROLLBACK TO SAVEPOINT can only be used in transaction blocks''"

text \<open>\<open>len(stack) - 1 - stack[::-1].index(name)\<close>\<close>

definition last_index :: "'a \<Rightarrow> 'a list \<Rightarrow> nat option" where
  "last_index x xs = map_option (\<lambda>i. length xs - 1 - i) (find_char x (rev xs))"

definition savepoint_effect :: "'u env \<Rightarrow> int \<Rightarrow> savepoint_kind \<Rightarrow> pystr \<Rightarrow> ('u world, unit) act" where
  "savepoint_effect env p kind name w =
     (let c = w_conns w p; stack = savepoints (c_state c) in
      if c_tx_status c = TxI then (Inl (PgError NO_ACTIVE_SQL_TRANSACTION (NO_TRANSACTION_MESSAGE kind) []), w)
      else if kind = SP_SAVEPOINT
      then (Inr (), upd_state p (\<lambda>s. open_scope (s\<lparr>savepoints := savepoints s @ [name]\<rparr>)) w)
      else case last_index name stack of
        None \<Rightarrow>
          (Inl (PgError INVALID_SAVEPOINT_SPECIFICATION (lit ''savepoint '' @ [34] @ name @ [34] @ lit '' does not exist'') []), w)
      | Some index \<Rightarrow>
          let w1 = upd_state p (\<lambda>s. s\<lparr>savepoints := take (if kind = SP_RELEASE then index else index + 1) stack\<rparr>) w in
          if kind = SP_RELEASE then (Inr (), upd_state p (discard_scopes (index + 1)) w1)
          else
            abind (amod (upd_state p (restore_scope (index + 1)))) (\<lambda>_.
            abind (report_moved env p (session_vars (c_state c))) (\<lambda>_.
            abind (amod (sync_listeners p)) (\<lambda>_.
            amod (set_tx p TxT)))) w1)"

section \<open>Resets\<close>

definition discard_effect :: "'u env \<Rightarrow> int \<Rightarrow> discard_kind \<Rightarrow> ('u world, unit) act" where
  "discard_effect env p kind w =
     (if kind = DK_ALL \<and> c_tx_status (w_conns w p) \<noteq> TxI
      then (Inl (PgError ACTIVE_SQL_TRANSACTION (lit ''DISCARD ALL cannot run inside a transaction block'') []), w)
      else
        abind (call_author p (e_discard env kind)) (\<lambda>_.
        if kind \<noteq> DK_ALL then aret ()
        else
          abind (reset_all env p) (\<lambda>_.
          abind (amod (upd_state p reset)) (\<lambda>_.
          amod (sync_listeners p)))) w)"

definition deallocate_effect :: "int \<Rightarrow> bool \<Rightarrow> pystr \<Rightarrow> ('u world, unit) act" where
  "deallocate_effect p discard_every name w =
     (if discard_every then (Inr (), upd_state p (\<lambda>s. s\<lparr>statements := []\<rparr>) w)
      else if dict_has name (statements (c_state (w_conns w p)))
      then (Inr (), upd_state p (\<lambda>s. s\<lparr>statements := dict_pop name (statements s)\<rparr>) w)
      else (Inl (PgError INVALID_SQL_STATEMENT_NAME (lit ''prepared statement '' @ [34] @ name @ [34] @ lit '' does not exist'') []), w))"

section \<open>Settings\<close>

definition assignment_effect :: "'u env \<Rightarrow> int \<Rightarrow> (pystr \<times> pystr option) list \<Rightarrow> bool \<Rightarrow> ('u world, unit) act" where
  "assignment_effect env p assignments local w =
     (let outside = (local \<and> c_tx_status (w_conns w p) = TxI) in
      abind (awhen outside
        (notice True p (lit ''SET LOCAL can only be used in transaction blocks'') (lit ''WARNING'') [(lit ''C'', NO_ACTIVE_SQL_TRANSACTION)])) (\<lambda>_.
      abind (arun (\<lambda>(name, _). alift (check_settable (e_catalog env) name)) assignments) (\<lambda>_.
      awhen (\<not> outside) (arun (\<lambda>(name, v). apply_set_config env p name v local) assignments))) w)"

section \<open>LISTEN and NOTIFY\<close>

definition sync_if_idle :: "int \<Rightarrow> 'u world \<Rightarrow> 'u world" where
  "sync_if_idle p w = (if c_tx_status (w_conns w p) = TxI then sync_listeners p w else w)"

definition listen_effect :: "int \<Rightarrow> pystr \<Rightarrow> 'u world \<Rightarrow> 'u world" where
  "listen_effect p channel w = sync_if_idle p (upd_state p (\<lambda>s. s\<lparr>listening := set_add channel (listening s)\<rparr>) w)"

definition unlisten_effect :: "int \<Rightarrow> pystr option \<Rightarrow> 'u world \<Rightarrow> 'u world" where
  "unlisten_effect p channel w =
     sync_if_idle p (upd_state p (\<lambda>s. s\<lparr>listening :=
       (case channel of None \<Rightarrow> [] | Some ch \<Rightarrow> set_discard ch (listening s))\<rparr>) w)"

section \<open>All of them\<close>

fun run_effect :: "'u env \<Rightarrow> int \<Rightarrow> effect \<Rightarrow> ('u world, unit) act" where
  "run_effect env p (ETransaction tag) = transaction_effect env p tag"
| "run_effect env p (ESavepoint kind name) = savepoint_effect env p kind name"
| "run_effect env p (EDiscard kind) = discard_effect env p kind"
| "run_effect env p (EDeallocate every name) = deallocate_effect p every name"
| "run_effect env p (EAssign assignments local) = assignment_effect env p assignments local"
| "run_effect env p EResetAll = reset_all env p"
| "run_effect env p (EListen channel) = amod (listen_effect p channel)"
| "run_effect env p (EUnlisten channel) = amod (unlisten_effect p channel)"
| "run_effect env p (ENotify channel payload) = amod (notify_listeners p channel payload)"
| "run_effect env p (EPrepare name prepared) =
     amod (upd_state p (\<lambda>s. s\<lparr>statements := dict_set name prepared (statements s)\<rparr>))"
| "run_effect env p (ESetConfig key v) = apply_set_config env p key v False"

text \<open>\<open>_run_all\<close>\<close>

definition run_all :: "'u env \<Rightarrow> int \<Rightarrow> effect list \<Rightarrow> ('u world, unit) act" where
  "run_all env p effects = arun (run_effect env p) effects"

end
