(* ===== verification/Regex.thy ===== *)
theory Regex
  imports PyText
begin

text \<open>
  The part of Python's \<open>re\<close> that the middleware and the command tags use: a backtracking matcher in
  continuation-passing style, so that alternatives, greedy and lazy repetition and optional groups are tried in
  Python's order and the first overall match wins. Literals are compared without case (\<open>IGNORECASE\<close>), for
  ASCII letters; \<open>\w\<close> is the ASCII word characters.
\<close>

datatype re =
    RSet "pychar \<Rightarrow> bool"
  | REps
  | RSeq re re
  | RAlt re re
  | ROpt re
  | RStar re
  | RLazyPlus "pychar \<Rightarrow> bool"
  | RCap nat re
  | REnd
  | RWordB
  | RNotAhead re

text \<open>The character before the position, the rest of the text, the groups captured so far.\<close>

type_synonym mstate = "pychar option \<times> pystr \<times> (nat, pystr) dict"
type_synonym mcont = "mstate \<Rightarrow> mstate option"

definition re_word :: "pychar \<Rightarrow> bool" where
  "re_word c \<longleftrightarrow> is_digit c \<or> (65 \<le> c \<and> c \<le> 90) \<or> (97 \<le> c \<and> c \<le> 122) \<or> c = 95"

definition or_else :: "'a option \<Rightarrow> 'a option \<Rightarrow> 'a option" where
  "or_else a b = (case a of Some x \<Rightarrow> Some x | None \<Rightarrow> b)"

lemma or_else_simps [simp]: "or_else (Some x) b = Some x" "or_else None b = b"
  by (simp_all add: or_else_def)

fun star_loop :: "nat \<Rightarrow> (mstate \<Rightarrow> mcont \<Rightarrow> mstate option) \<Rightarrow> mstate \<Rightarrow> mcont \<Rightarrow> mstate option" where
  "star_loop 0 f st k = k st"
| "star_loop (Suc n) f st k =
     or_else (f st (\<lambda>st'. if length (fst (snd st')) < length (fst (snd st)) then star_loop n f st' k else None)) (k st)"

fun lazy_loop :: "(pychar \<Rightarrow> bool) \<Rightarrow> pychar option \<Rightarrow> pystr \<Rightarrow> (nat, pystr) dict \<Rightarrow> mcont \<Rightarrow> mstate option" where
  "lazy_loop P prev [] caps k = None"
| "lazy_loop P prev (c # s) caps k = (if P c then or_else (k (Some c, s, caps)) (lazy_loop P (Some c) s caps k) else None)"

definition at_word_boundary :: "pychar option \<Rightarrow> pystr \<Rightarrow> bool" where
  "at_word_boundary prev s \<longleftrightarrow>
     (case prev of None \<Rightarrow> False | Some c \<Rightarrow> re_word c) \<noteq> (case s of [] \<Rightarrow> False | c # _ \<Rightarrow> re_word c)"

primrec rmatch :: "re \<Rightarrow> mstate \<Rightarrow> mcont \<Rightarrow> mstate option" where
  "rmatch (RSet P) st k =
     (case st of (prev, s, caps) \<Rightarrow> case s of [] \<Rightarrow> None | c # s' \<Rightarrow> if P c then k (Some c, s', caps) else None)"
| "rmatch REps st k = k st"
| "rmatch (RSeq a b) st k = rmatch a st (\<lambda>st'. rmatch b st' k)"
| "rmatch (RAlt a b) st k = or_else (rmatch a st k) (rmatch b st k)"
| "rmatch (ROpt a) st k = or_else (rmatch a st k) (k st)"
| "rmatch (RStar a) st k = star_loop (length (fst (snd st))) (rmatch a) st k"
| "rmatch (RLazyPlus P) st k = (case st of (prev, s, caps) \<Rightarrow> lazy_loop P prev s caps k)"
| "rmatch (RCap n a) st k =
     rmatch a st (\<lambda>(prev, s', caps). k (prev, s', dict_set n (take (length (fst (snd st)) - length s') (fst (snd st))) caps))"
| "rmatch REnd st k = (case st of (prev, s, caps) \<Rightarrow> if s = [] \<or> s = [10] then k st else None)"
| "rmatch RWordB st k = (case st of (prev, s, caps) \<Rightarrow> if at_word_boundary prev s then k st else None)"
| "rmatch (RNotAhead a) st k = (case rmatch a st Some of None \<Rightarrow> k st | Some _ \<Rightarrow> None)"

text \<open>\<open>pattern.match(text)\<close>: the captured groups; \<open>pattern.search(text)\<close>.\<close>

definition re_match :: "re \<Rightarrow> pystr \<Rightarrow> (nat, pystr) dict option" where
  "re_match r s = map_option (\<lambda>(_, _, caps). caps) (rmatch r (None, s, []) Some)"

fun re_search_from :: "re \<Rightarrow> pychar option \<Rightarrow> pystr \<Rightarrow> (nat, pystr) dict option" where
  "re_search_from r prev [] = map_option (\<lambda>(_, _, caps). caps) (rmatch r (prev, [], []) Some)"
| "re_search_from r prev (c # s) =
     or_else (map_option (\<lambda>(_, _, caps). caps) (rmatch r (prev, c # s, []) Some)) (re_search_from r (Some c) s)"

definition re_search :: "re \<Rightarrow> pystr \<Rightarrow> (nat, pystr) dict option" where
  "re_search r s = re_search_from r None s"

definition group :: "(nat, pystr) dict \<Rightarrow> nat \<Rightarrow> pystr" where
  "group caps n = (case dict_get caps n of Some t \<Rightarrow> t | None \<Rightarrow> [])"

section \<open>Building blocks\<close>

definition rlit :: "string \<Rightarrow> re" where
  "rlit t = foldr (\<lambda>x r. RSeq (RSet (\<lambda>c. upper_char c = upper_char (of_char x))) r) t REps"

definition rseq :: "re list \<Rightarrow> re" where
  "rseq rs = foldr RSeq rs REps"

fun ralt :: "re list \<Rightarrow> re" where
  "ralt [] = REps"
| "ralt [r] = r"
| "ralt (r # rs) = RAlt r (ralt rs)"

definition ws0 :: re where "ws0 = RStar (RSet py_isspace)"
definition ws1 :: re where "ws1 = RSeq (RSet py_isspace) ws0"
definition rword1 :: re where "rword1 = RSeq (RSet re_word) (RStar (RSet re_word))"
definition rplus :: "(pychar \<Rightarrow> bool) \<Rightarrow> re" where "rplus P = RSeq (RSet P) (RStar (RSet P))"

text \<open>\<open>\s*;?\s*$\<close>\<close>

definition rterm :: re where "rterm = rseq [ws0, ROpt (RSet (\<lambda>c. c = 59)), ws0, REnd]"

definition dot :: "pychar \<Rightarrow> bool" where "dot c \<longleftrightarrow> c \<noteq> 10"
definition any_char :: "pychar \<Rightarrow> bool" where "any_char c \<longleftrightarrow> True"

section \<open>What a match consumes\<close>

text \<open>
  A match leaves a rest no longer than the text it started on, and what it captures is no longer than that text; an
  expression without groups leaves the captures alone.
\<close>

primrec no_groups :: "re \<Rightarrow> bool" where
  "no_groups (RSet P) \<longleftrightarrow> True"
| "no_groups REps \<longleftrightarrow> True"
| "no_groups (RSeq a b) \<longleftrightarrow> no_groups a \<and> no_groups b"
| "no_groups (RAlt a b) \<longleftrightarrow> no_groups a \<and> no_groups b"
| "no_groups (ROpt a) \<longleftrightarrow> no_groups a"
| "no_groups (RStar a) \<longleftrightarrow> no_groups a"
| "no_groups (RLazyPlus P) \<longleftrightarrow> True"
| "no_groups (RCap n a) \<longleftrightarrow> False"
| "no_groups REnd \<longleftrightarrow> True"
| "no_groups RWordB \<longleftrightarrow> True"
| "no_groups (RNotAhead a) \<longleftrightarrow> True"

definition shrinks :: "bool \<Rightarrow> mstate \<Rightarrow> mstate \<Rightarrow> bool" where
  "shrinks plain st st' \<longleftrightarrow>
     length (fst (snd st')) \<le> length (fst (snd st)) \<and>
     (\<forall>t \<in> snd ` set (snd (snd st')). t \<in> snd ` set (snd (snd st)) \<or> length t \<le> length (fst (snd st))) \<and>
     (plain \<longrightarrow> snd (snd st') = snd (snd st))"

definition calls_shrunk :: "bool \<Rightarrow> (mstate \<Rightarrow> mcont \<Rightarrow> mstate option) \<Rightarrow> bool" where
  "calls_shrunk plain f \<longleftrightarrow> (\<forall>st k x. f st k = Some x \<longrightarrow> (\<exists>st'. k st' = Some x \<and> shrinks plain st st'))"

lemma calls_shrunkD: "calls_shrunk plain f \<Longrightarrow> f st k = Some x \<Longrightarrow> \<exists>st'. k st' = Some x \<and> shrinks plain st st'"
  unfolding calls_shrunk_def by blast

lemma calls_shrunkI:
  "(\<And>st k x. f st k = Some x \<Longrightarrow> \<exists>st'. k st' = Some x \<and> shrinks plain st st') \<Longrightarrow> calls_shrunk plain f"
  unfolding calls_shrunk_def by blast

lemma shrinks_refl [simp]: "shrinks plain st st"
  by (simp add: shrinks_def)

lemma shrinks_trans: "shrinks plain a b \<Longrightarrow> shrinks plain b c \<Longrightarrow> shrinks plain a c"
proof -
  assume ab: "shrinks plain a b" and bc: "shrinks plain b c"
  have "t \<in> snd ` set (snd (snd a)) \<or> length t \<le> length (fst (snd a))" if "t \<in> snd ` set (snd (snd c))" for t
  proof -
    have "t \<in> snd ` set (snd (snd b)) \<or> length t \<le> length (fst (snd b))" using bc that unfolding shrinks_def by blast
    then show ?thesis using ab unfolding shrinks_def by (meson le_trans)
  qed
  moreover have "length (fst (snd c)) \<le> length (fst (snd a))" using ab bc unfolding shrinks_def by linarith
  moreover have "plain \<longrightarrow> snd (snd c) = snd (snd a)" using ab bc unfolding shrinks_def by argo
  ultimately show ?thesis unfolding shrinks_def by blast
qed

lemma shrinks_weaken: "shrinks plain a b \<Longrightarrow> (plain' \<Longrightarrow> plain) \<Longrightarrow> shrinks plain' a b"
  by (simp add: shrinks_def)

lemma or_else_Some: "or_else a b = Some x \<Longrightarrow> a = Some x \<or> b = Some x"
  by (cases a) auto

lemma dict_set_subset: "set (dict_set k v d) \<subseteq> insert (k, v) (set d)"
  by (induction d) auto

lemma star_loop_shrinks:
  assumes "calls_shrunk plain f"
  shows "calls_shrunk plain (star_loop n f)"
proof -
  have "star_loop n f st k = Some x \<Longrightarrow> \<exists>st'. k st' = Some x \<and> shrinks plain st st'" for st k x
  proof (induction n arbitrary: st)
    case 0
    then show ?case using shrinks_refl by (metis star_loop.simps(1))
  next
    case (Suc n)
    consider "f st (\<lambda>st'. if length (fst (snd st')) < length (fst (snd st)) then star_loop n f st' k else None) = Some x"
      | "k st = Some x" using or_else_Some[OF Suc.prems[simplified]] by blast
    then show ?case
    proof cases
      case 1
      then obtain m where m: "shrinks plain st m" "star_loop n f m k = Some x"
        using calls_shrunkD[OF assms] by (fastforce split: if_splits)
      then show ?thesis using Suc.IH shrinks_trans by blast
    next
      case 2
      then show ?thesis using shrinks_refl by blast
    qed
  qed
  then show ?thesis by (simp add: calls_shrunk_def)
qed

lemma lazy_loop_shrinks:
  "lazy_loop P prev s caps k = Some x \<Longrightarrow> \<exists>st'. k st' = Some x \<and> shrinks True (prev, s, caps) st'"
proof (induction s arbitrary: prev)
  case (Cons c s)
  then consider "k (Some c, s, caps) = Some x" | "lazy_loop P (Some c) s caps k = Some x"
    by (auto split: if_splits dest: or_else_Some)
  then show ?case
  proof cases
    case 1
    then show ?thesis by (intro exI[of _ "(Some c, s, caps)"]) (simp add: shrinks_def)
  next
    case 2
    then obtain st' where "k st' = Some x" "shrinks True (Some c, s, caps) st'" using Cons.IH by blast
    then show ?thesis by (intro exI[of _ st']) (auto simp: shrinks_def)
  qed
qed simp

lemma rmatch_shrinks: "calls_shrunk (no_groups r) (rmatch r)"
proof (induction r)
  case (RSet P)
  show ?case
  proof (rule calls_shrunkI)
    fix st k x
    assume m: "rmatch (RSet P) st k = Some x"
    obtain prev s caps where st: "st = (prev, s, caps)" by (cases st)
    with m obtain c s' where "s = c # s'" "k (Some c, s', caps) = Some x" by (cases s) (auto split: if_splits)
    then show "\<exists>st'. k st' = Some x \<and> shrinks (no_groups (RSet P)) st st'"
      using st by (intro exI[of _ "(Some c, s', caps)"]) (simp add: shrinks_def)
  qed
next
  case (RSeq a b)
  have "\<exists>st'. k st' = Some x \<and> shrinks (no_groups (RSeq a b)) st st'" if "rmatch (RSeq a b) st k = Some x" for st k x
  proof -
    note h = calls_shrunkD[OF RSeq.IH(1) that[unfolded rmatch.simps]]
    then obtain m where m: "rmatch b m k = Some x" "shrinks (no_groups a) st m" by blast
    obtain st' where "k st' = Some x" "shrinks (no_groups b) m st'" using calls_shrunkD[OF RSeq.IH(2) m(1)] by blast
    then show ?thesis using m(2) shrinks_trans shrinks_weaken by (metis no_groups.simps(3))
  qed
  then show ?case by (rule calls_shrunkI)
next
  case (RAlt a b)
  show ?case
  proof (rule calls_shrunkI)
    fix st k x
    assume "rmatch (RAlt a b) st k = Some x"
    then have "rmatch a st k = Some x \<or> rmatch b st k = Some x" by (auto dest: or_else_Some)
    then show "\<exists>st'. k st' = Some x \<and> shrinks (no_groups (RAlt a b)) st st'"
    proof
      assume "rmatch a st k = Some x"
      then obtain st' where "k st' = Some x" "shrinks (no_groups a) st st'" using calls_shrunkD[OF RAlt.IH(1)] by blast
      moreover from this(2) have "shrinks (no_groups (RAlt a b)) st st'" by (rule shrinks_weaken) simp
      ultimately show ?thesis by blast
    next
      assume "rmatch b st k = Some x"
      then obtain st' where "k st' = Some x" "shrinks (no_groups b) st st'" using calls_shrunkD[OF RAlt.IH(2)] by blast
      moreover from this(2) have "shrinks (no_groups (RAlt a b)) st st'" by (rule shrinks_weaken) simp
      ultimately show ?thesis by blast
    qed
  qed
next
  case (ROpt a)
  show ?case
  proof (rule calls_shrunkI)
    fix st k x
    assume "rmatch (ROpt a) st k = Some x"
    then have "rmatch a st k = Some x \<or> k st = Some x" by (auto dest: or_else_Some)
    then show "\<exists>st'. k st' = Some x \<and> shrinks (no_groups (ROpt a)) st st'"
    proof
      assume "rmatch a st k = Some x"
      then show ?thesis using calls_shrunkD[OF ROpt.IH] unfolding no_groups.simps by blast
    next
      assume "k st = Some x"
      then show ?thesis using shrinks_refl by blast
    qed
  qed
next
  case (RStar a)
  show ?case
    unfolding no_groups.simps
    by (rule calls_shrunkI, rule calls_shrunkD[OF star_loop_shrinks[OF RStar.IH]], unfold rmatch.simps)
next
  case (RLazyPlus P)
  show ?case
  proof (rule calls_shrunkI)
    fix st k x
    assume m: "rmatch (RLazyPlus P) st k = Some x"
    obtain prev s caps where st: "st = (prev, s, caps)" by (cases st)
    then show "\<exists>st'. k st' = Some x \<and> shrinks (no_groups (RLazyPlus P)) st st'"
      using m lazy_loop_shrinks[of P prev s caps k x] by simp
  qed
next
  case (RCap n a)
  have "\<exists>st'. k st' = Some x \<and> shrinks False st st'" if "rmatch (RCap n a) st k = Some x" for st k x
  proof -
    note h = calls_shrunkD[OF RCap.IH that[unfolded rmatch.simps]]
    then obtain m where m: "(case m of (prev, s', caps) \<Rightarrow> k (prev, s', dict_set n (take (length (fst (snd st)) - length s') (fst (snd st))) caps)) = Some x"
        "shrinks (no_groups a) st m"
      by blast
    obtain prev s' caps where ps: "m = (prev, s', caps)" by (cases m)
    define st' where "st' = (prev, s', dict_set n (take (length (fst (snd st)) - length s') (fst (snd st))) caps)"
    have "shrinks False st st'"
    proof -
      have "t \<in> snd ` set (snd (snd st)) \<or> length t \<le> length (fst (snd st))" if "t \<in> snd ` set (snd (snd st'))" for t
      proof -
        have "t = take (length (fst (snd st)) - length s') (fst (snd st)) \<or> t \<in> snd ` set caps"
          using that dict_set_subset[of n "take (length (fst (snd st)) - length s') (fst (snd st))" caps]
          unfolding st'_def by auto
        then show ?thesis using m(2) unfolding shrinks_def ps by (elim disjE) (simp, fastforce)
      qed
      moreover have "length (fst (snd st')) \<le> length (fst (snd st))" using m(2) by (simp add: shrinks_def ps st'_def)
      ultimately show ?thesis unfolding shrinks_def by blast
    qed
    then show ?thesis using m(1) ps st'_def by (intro exI[of _ st']) simp
  qed
  then show ?case by (simp only: no_groups.simps) (rule calls_shrunkI)
next
  case (RNotAhead a)
  show ?case
  proof (rule calls_shrunkI)
    fix st k x
    assume "rmatch (RNotAhead a) st k = Some x"
    then have "k st = Some x" by (auto split: option.splits)
    then show "\<exists>st'. k st' = Some x \<and> shrinks (no_groups (RNotAhead a)) st st'" using shrinks_refl by blast
  qed
next
  case REps
  show ?case by (rule calls_shrunkI) (metis rmatch.simps(2) shrinks_refl)
next
  case REnd
  show ?case by (rule calls_shrunkI, rule exI, rule conjI[OF _ shrinks_refl]) (auto split: if_splits prod.splits)
next
  case RWordB
  show ?case by (rule calls_shrunkI, rule exI, rule conjI[OF _ shrinks_refl]) (auto split: if_splits prod.splits)
qed

text \<open>So a group captured after at least one character was consumed is shorter than the text.\<close>

lemma group_shorter:
  assumes "re_match (RSeq a (RSeq (RSet P) b)) s = Some caps" "no_groups a" "dict_get caps n = Some t"
  shows "length t < length s"
proof -
  obtain x where x: "rmatch (RSeq a (RSeq (RSet P) b)) (None, s, []) Some = Some x" "caps = snd (snd x)"
    using assms(1) by (auto simp: re_match_def)
  obtain m where m: "rmatch (RSeq (RSet P) b) m Some = Some x" "shrinks True (None, s, []) m"
    using calls_shrunkD[OF rmatch_shrinks, of a "(None, s, [])" "\<lambda>st'. rmatch (RSeq (RSet P) b) st' Some" x] x(1) assms(2) by auto
  then obtain c s' where r: "fst (snd m) = c # s'" "rmatch b (Some c, s', []) Some = Some x"
    by (cases m) (auto simp: shrinks_def split: list.splits if_splits)
  then have "shrinks (no_groups b) (Some c, s', []) x" using calls_shrunkD[OF rmatch_shrinks r(2)] by auto
  moreover have "t \<in> snd ` set (snd (snd x))" using map_of_SomeD[OF assms(3)] x(2) by force
  ultimately have "length t \<le> length s'" by (auto simp: shrinks_def)
  then show ?thesis using m(2) r(1) by (simp add: shrinks_def)
qed

end
