(* ===== verification/Catalog_Query.thy ===== *)
theory Catalog_Query
  imports Author
begin

text \<open>
  The statements that answer a query over the emulated catalogue: \<open>statement_from_rows\<close> of \<open>pg_mimic/session.py\<close>, the second half of
  \<open>pg_mimic/catalog.py\<close> (\<open>_as_statement\<close> with what each failure of the executor becomes, \<open>information_schema_statement\<close>,
  \<open>pg_catalog_statement\<close>), and the three links of \<open>pg_mimic/middleware.py\<close> that lead to them.
\<close>

definition UNDEFINED_COLUMN :: pystr where "UNDEFINED_COLUMN = lit ''42703''"

section \<open>Statements over rows\<close>

text \<open>\<open>sample\<close> is the result of calling \<open>rows\<close>, or the rows themselves.\<close>

definition statement_from_rows ::
    "pystr \<Rightarrow> pystr list \<Rightarrow> rows_spec \<Rightarrow> row list \<Rightarrow> effect list \<Rightarrow> exc + statement" where
  "statement_from_rows sql names rows sample effs =
     rbind (case sample of
              first # _ \<Rightarrow> rmap (\<lambda>(name, v). for_type name (type_of v)) (zip names first)
            | [] \<Rightarrow> Inr (map (\<lambda>name. \<lparr>rc_name = name, rc_oid = TEXT\<rparr>) names))
       (\<lambda>cols. Inr (StaticStatement sql (Some cols) rows effs))"

section \<open>Catalogue statements\<close>

text \<open>\<open>select.alias_or_name or f"column{i}"\<close>\<close>

definition empty_result :: "query \<Rightarrow> statement option" where
  "empty_result q =
     (case q_selects q of
        None \<Rightarrow> None
      | Some [] \<Rightarrow> None
      | Some selects \<Rightarrow>
          Some (StaticStatement (q_sql q)
            (Some (map (\<lambda>(i, name). \<lparr>rc_name = (if name = [] then lit ''column'' @ nat_str i else name), rc_oid = TEXT\<rparr>) (enumerate 1 selects)))
            (RowsFixed []) []))"

text \<open>\<open>re.search(r"Column '([^']+)' could not be resolved", text)\<close>: the group of the first place that matches.\<close>

fun unresolved_column :: "pystr \<Rightarrow> pystr option" where
  "unresolved_column [] = None"
| "unresolved_column (c # cs) =
     (let s = c # cs; pre = lit ''Column '' @ [39]; rest = drop (length pre) s;
          name = takeWhile (\<lambda>x. x \<noteq> 39) rest in
      if starts_with s pre \<and> name \<noteq> [] \<and> starts_with (drop (length name) rest) ([39] @ lit '' could not be resolved'')
      then Some name else unresolved_column cs)"

definition undefined_column_message :: "pystr \<Rightarrow> pystr" where
  "undefined_column_message text =
     (case unresolved_column text of
        None \<Rightarrow> text
      | Some name \<Rightarrow> lit ''column '' @ [34] @ name @ [34] @ lit '' does not exist'')"

definition as_statement :: "'u env \<Rightarrow> query \<Rightarrow> catalog_input \<Rightarrow> bool \<Rightarrow> exc + statement option" where
  "as_statement env q cat strict =
     (case e_execute env q cat of
        OptimizeFailed text \<Rightarrow>
          if strict then Inl (PgError UNDEFINED_COLUMN (undefined_column_message text) []) else Inr (empty_result q)
      | ExecutorFailed text \<Rightarrow>
          if strict then Inl (PgError FEATURE_NOT_SUPPORTED (lit ''pg_mimic could not run this information_schema query: '' @ text) [])
          else Inr (empty_result q)
      | Executed names rows \<Rightarrow>
          (case e_columns env q cat of
             Some declared \<Rightarrow>
               if length declared = length names then Inr (Some (StaticStatement (q_sql q) (Some declared) (RowsFixed rows) []))
               else rbind (statement_from_rows (q_sql q) names (RowsFixed rows) rows []) (\<lambda>st. Inr (Some st))
           | None \<Rightarrow> rbind (statement_from_rows (q_sql q) names (RowsFixed rows) rows []) (\<lambda>st. Inr (Some st))))"

definition declared_schema :: "'u env \<Rightarrow> int \<Rightarrow> ('u world, schema) act" where
  "declared_schema env p = abind (call_author p (e_schema env)) (\<lambda>d. alift (schema_resolve d))"

definition information_schema_statement :: "'u env \<Rightarrow> int \<Rightarrow> query \<Rightarrow> ('u world, statement option) act" where
  "information_schema_statement env p q =
     abind (declared_schema env p) (\<lambda>s.
     abind (alift (build_information_schema s)) (\<lambda>cat. alift (as_statement env q cat True)))"

definition pg_catalog_statement :: "'u env \<Rightarrow> int \<Rightarrow> query \<Rightarrow> ('u world, statement option) act" where
  "pg_catalog_statement env p q =
     abind (declared_schema env p) (\<lambda>s.
     abind (aread (\<lambda>w. build_pg_catalog s (ss_database (c_state (w_conns w p))))) (\<lambda>cat.
     aread (\<lambda>w. as_statement env (e_rewrite env (w_conns w p) q) cat False)))"

section \<open>The links\<close>

definition information_schema :: "'u env \<Rightarrow> int \<Rightarrow> pystr \<Rightarrow> ('u world, statement option) act" where
  "information_schema env p sql =
     (case e_parse env sql of
        None \<Rightarrow> aret None
      | Some q \<Rightarrow>
          if q_kind q = Q_Select \<and> list_ex (\<lambda>(db, name). py_lower db = lit ''information_schema'') (q_tables q)
          then information_schema_statement env p q else aret None)"

definition is_pg_catalog :: "pystr \<times> pystr \<Rightarrow> bool" where
  "is_pg_catalog = (\<lambda>(db, name). py_lower db = lit ''pg_catalog'' \<or> db = [] \<and> starts_with (py_lower name) (lit ''pg_''))"

definition pg_catalog :: "'u env \<Rightarrow> int \<Rightarrow> pystr \<Rightarrow> ('u world, statement option) act" where
  "pg_catalog env p sql =
     (case e_parse env sql of
        None \<Rightarrow> aret None
      | Some q \<Rightarrow>
          if q_kind q \<in> {Q_Select, Q_Query} \<and> list_ex is_pg_catalog (q_tables q) then pg_catalog_statement env p q else aret None)"

definition asyncpg_typeinfo :: "pystr \<Rightarrow> statement option" where
  "asyncpg_typeinfo sql = (if is_typeinfo_query sql then Some (TypeInfoStatement sql) else None)"

end
