(* ===== verification/Middleware.thy ===== *)
theory Middleware
  imports Effects Regex Catalog_Query
begin

text \<open>
  The links of \<open>pg_mimic/middleware.py\<close>: recognising the statements of client boilerplate, and
  \<open>resolve\<close> and \<open>Session.prepare\<close> that walk the chain. The patterns are written as the source
  writes them. The links over the emulated catalogue are in \<open>Catalog_Query\<close>; \<open>session_functions\<close>, which substitutes in a
  syntax tree, and a session's own links are the parameter \<open>e_link\<close>.

  \<open>prepare\<close> calls itself for the query of a PREPARE; its fuel counts the nesting and is the length of
  the text, which is enough because the inner query is a proper part of the statement.
\<close>

section \<open>Patterns\<close>

definition is_char :: "pychar \<Rightarrow> re" where "is_char x = RSet (\<lambda>c. c = x)"

definition IDENT :: re where
  "IDENT = RAlt (rseq [is_char 34, rplus (\<lambda>c. c \<noteq> 34), is_char 34]) rword1"

definition SETTING_NAME :: re where
  "SETTING_NAME = RAlt (rseq [is_char 34, rplus (\<lambda>c. c \<noteq> 34 \<and> c \<noteq> 46), is_char 34]) rword1"

definition BEGIN_RE :: re where
  "BEGIN_RE = rseq [ws0, RCap 1 (RAlt (rlit ''BEGIN'') (rseq [rlit ''START'', ws1, rlit ''TRANSACTION''])), RWordB]"

definition COMMIT_RE :: re where
  "COMMIT_RE = rseq [ws0, RCap 1 (RAlt (rlit ''COMMIT'') (rlit ''END'')), RWordB]"

definition ROLLBACK_RE :: re where
  "ROLLBACK_RE = rseq [ws0, rlit ''ROLLBACK'', RWordB]"

definition SAVEPOINT_RE :: re where
  "SAVEPOINT_RE = rseq [ws0, rlit ''SAVEPOINT'', ws1, RCap 1 IDENT, rterm]"

definition RELEASE_RE :: re where
  "RELEASE_RE = rseq [ws0, rlit ''RELEASE'', ws1, ROpt (rseq [rlit ''SAVEPOINT'', ws1]), RCap 1 IDENT, rterm]"

definition ROLLBACK_TO_RE :: re where
  "ROLLBACK_TO_RE =
     rseq [ws0, rlit ''ROLLBACK'', ws1, ROpt (RAlt (rseq [rlit ''TRANSACTION'', ws1]) (rseq [rlit ''WORK'', ws1])), rlit ''TO'', ws1,
           ROpt (rseq [rlit ''SAVEPOINT'', ws1]), RCap 1 IDENT, rterm]"

definition not_to :: re where
  "not_to = RNotAhead (RAlt (rseq [rlit ''TO'', RWordB]) (is_char 61))"

definition session_or_local :: re where
  "session_or_local = RAlt (rseq [rlit ''SESSION'', ws1]) (rseq [rlit ''LOCAL'', ws1])"

definition SET_TIME_ZONE_RE :: re where
  "SET_TIME_ZONE_RE =
     rseq [ws0, rlit ''SET'', ws1, ROpt session_or_local, rlit ''TIME'', ws1, rlit ''ZONE'', ws1, not_to, RCap 1 (RLazyPlus dot), rterm]"

definition SET_SCHEMA_RE :: re where
  "SET_SCHEMA_RE = rseq [ws0, rlit ''SET'', ws1, ROpt session_or_local, rlit ''SCHEMA'', ws1, not_to, RCap 1 (RLazyPlus dot), rterm]"

definition SET_CHARACTERISTICS_RE :: re where
  "SET_CHARACTERISTICS_RE =
     rseq [ws0, rlit ''SET'', ws1, rlit ''SESSION'', ws1, rlit ''CHARACTERISTICS'', ws1, rlit ''AS'', ws1, rlit ''TRANSACTION'', ws1,
           RCap 1 (RLazyPlus dot), rterm]"

definition SET_RE :: re where
  "SET_RE =
     rseq [ws0, rlit ''SET'', ws1, ROpt (RCap 1 session_or_local), RCap 2 SETTING_NAME, ws0, RAlt (rlit ''TO'') (is_char 61), ws0,
           RCap 3 (RLazyPlus dot), rterm]"

definition RESET_RE :: re where
  "RESET_RE = rseq [ws0, rlit ''RESET'', ws1, RCap 1 (RAlt (rlit ''ALL'') SETTING_NAME), rterm]"

definition SHOW_RE :: re where
  "SHOW_RE = rseq [ws0, rlit ''SHOW'', ws1, RCap 1 (RLazyPlus (\<lambda>c. \<not> py_isspace c)), rterm]"

definition SHOW_TIME_ZONE_RE :: re where
  "SHOW_TIME_ZONE_RE = rseq [ws0, rlit ''SHOW'', ws1, rlit ''TIME'', ws1, rlit ''ZONE'', rterm]"

definition SHOW_ALL_RE :: re where
  "SHOW_ALL_RE = rseq [ws0, rlit ''SHOW'', ws1, rlit ''ALL'', rterm]"

definition DISCARD_RE :: re where
  "DISCARD_RE =
     rseq [ws0, rlit ''DISCARD'', ws1,
           RCap 1 (ralt [rlit ''ALL'', rlit ''PLANS'', rlit ''SEQUENCES'', rlit ''TEMPORARY'', rlit ''TEMP'']), rterm]"

definition DEALLOCATE_RE :: re where
  "DEALLOCATE_RE = rseq [ws0, rlit ''DEALLOCATE'', ws1, ROpt (rseq [rlit ''PREPARE'', ws1]), RCap 1 (RAlt (rlit ''ALL'') IDENT), rterm]"

definition PREPARE_RE :: re where
  "PREPARE_RE =
     rseq [ws0, rlit ''PREPARE'', ws1, RCap 1 IDENT, ws0, ROpt (rseq [is_char 40, RCap 2 (RStar (RSet (\<lambda>c. c \<noteq> 41))), is_char 41]),
           ws1, rlit ''AS'', ws1, RCap 3 (RLazyPlus any_char), rterm]"

definition EXECUTE_RE :: re where
  "EXECUTE_RE =
     rseq [ws0, rlit ''EXECUTE'', ws1, RCap 1 IDENT, ws0, ROpt (rseq [is_char 40, RCap 2 (RStar (RSet any_char)), is_char 41]), rterm]"

definition LISTEN_RE :: re where
  "LISTEN_RE = rseq [ws0, rlit ''LISTEN'', ws1, RCap 1 IDENT, rterm]"

definition UNLISTEN_RE :: re where
  "UNLISTEN_RE = rseq [ws0, rlit ''UNLISTEN'', ws1, RCap 1 (RAlt (is_char 42) IDENT), rterm]"

definition NOTIFY_RE :: re where
  "NOTIFY_RE =
     rseq [ws0, rlit ''NOTIFY'', ws1, RCap 1 IDENT, ws0,
           ROpt (rseq [is_char 44, ws0, is_char 39, RCap 2 (RStar (RAlt (RSet (\<lambda>c. c \<noteq> 39)) (rseq [is_char 39, is_char 39]))), is_char 39]),
           rterm]"

definition PLACEHOLDER_RE :: re where
  "PLACEHOLDER_RE = rseq [is_char 36, rplus is_digit, REnd]"

definition matches :: "re \<Rightarrow> pystr \<Rightarrow> bool" where
  "matches r s \<longleftrightarrow> re_match r s \<noteq> None"

section \<open>What a failed transaction still accepts\<close>

definition is_transaction_end :: "pystr \<Rightarrow> bool" where
  "is_transaction_end sql \<longleftrightarrow>
     (let s = py_strip sql in \<not> matches ROLLBACK_TO_RE s \<and> (matches COMMIT_RE s \<or> matches ROLLBACK_RE s))"

definition allowed_in_failed_transaction :: "pystr \<Rightarrow> bool" where
  "allowed_in_failed_transaction sql \<longleftrightarrow>
     (let s = py_strip sql in is_transaction_end s \<or> matches ROLLBACK_TO_RE s)"

section \<open>Names\<close>

definition sql_identifier :: "pystr \<Rightarrow> pystr" where
  "sql_identifier raw0 =
     (let raw = py_strip raw0 in
      if starts_with raw [34] \<and> ends_with raw [34] \<and> 2 \<le> length raw then butlast (tl raw) else py_lower raw)"

definition PASSED_THROUGH_SETTINGS :: "pystr list" where
  "PASSED_THROUGH_SETTINGS = [lit ''role'', lit ''session_authorization'']"

section \<open>The links\<close>

definition copy_statement :: "'u env \<Rightarrow> pystr \<Rightarrow> exc + statement option" where
  "copy_statement env sql =
     rbind (parse_copy sql) (\<lambda>parsed.
       case parsed of
         None \<Rightarrow> Inr None
       | Some pc \<Rightarrow>
           if pc_direction pc = DIRECTION_IN then
             if e_has_copy_in env then Inr (Some (CopyStatement sql pc))
             else Inl (unsupported (lit ''this session does not support COPY FROM STDIN: override Session.copy_in() to handle it''))
           else if e_has_copy_out env then Inr (Some (CopyStatement sql pc))
           else Inl (unsupported (lit ''this session does not support COPY TO STDOUT: override Session.copy_out() to handle it'')))"

definition static :: "pystr \<Rightarrow> effect \<Rightarrow> statement" where
  "static sql eff = StaticStatement sql None (RowsFixed []) [eff]"

fun tag_text :: "tx_tag \<Rightarrow> pystr" where
  "tag_text TAG_BEGIN = lit ''BEGIN''"
| "tag_text TAG_COMMIT = lit ''COMMIT''"
| "tag_text TAG_ROLLBACK = lit ''ROLLBACK''"

definition transaction_control :: "pystr \<Rightarrow> statement option" where
  "transaction_control sql =
     (case re_match ROLLBACK_TO_RE sql of Some m \<Rightarrow> Some (static sql (ESavepoint SP_ROLLBACK_TO (sql_identifier (group m 1)))) | None \<Rightarrow>
      case re_match SAVEPOINT_RE sql of Some m \<Rightarrow> Some (static sql (ESavepoint SP_SAVEPOINT (sql_identifier (group m 1)))) | None \<Rightarrow>
      case re_match RELEASE_RE sql of Some m \<Rightarrow> Some (static sql (ESavepoint SP_RELEASE (sql_identifier (group m 1)))) | None \<Rightarrow>
      if matches BEGIN_RE sql then Some (static (tag_text TAG_BEGIN) (ETransaction TAG_BEGIN))
      else if matches COMMIT_RE sql then Some (static (tag_text TAG_COMMIT) (ETransaction TAG_COMMIT))
      else if matches ROLLBACK_RE sql then Some (static (tag_text TAG_ROLLBACK) (ETransaction TAG_ROLLBACK))
      else None)"

definition reject_placeholder_value :: "pystr \<Rightarrow> exc + unit" where
  "reject_placeholder_value raw =
     (let t = py_strip raw in
      if matches PLACEHOLDER_RE t then Inl (syntax_error (lit ''syntax error at or near '' @ [34] @ t @ [34])) else Inr ())"

definition set_value :: "pystr \<Rightarrow> pystr option" where
  "set_value raw =
     (let v = py_strip raw in
      if py_upper v \<in> {lit ''DEFAULT'', lit ''LOCAL''} then None else Some (py_strip_chars [39, 34] v))"

definition ISOLATION_RE :: re where
  "ISOLATION_RE =
     rseq [rlit ''ISOLATION'', ws1, rlit ''LEVEL'', ws1,
           RCap 1 (ralt [rseq [rlit ''READ'', ws1, rlit ''UNCOMMITTED''], rseq [rlit ''READ'', ws1, rlit ''COMMITTED''],
             rseq [rlit ''REPEATABLE'', ws1, rlit ''READ''], rlit ''SERIALIZABLE''])]"

definition transaction_characteristics :: "pystr \<Rightarrow> (pystr \<times> pystr option) list" where
  "transaction_characteristics clause =
     (let found = (\<lambda>r. re_search r clause \<noteq> None) in
      (case re_search ISOLATION_RE clause of
         Some m \<Rightarrow> [(lit ''default_transaction_isolation'', Some (py_lower (py_join (lit '' '') (split_ws (group m 1)))))]
       | None \<Rightarrow> []) @
      (if found (rseq [rlit ''READ'', ws1, rlit ''ONLY'']) then [(lit ''default_transaction_read_only'', Some (lit ''on''))]
       else if found (rseq [rlit ''READ'', ws1, rlit ''WRITE'']) then [(lit ''default_transaction_read_only'', Some (lit ''off''))] else []) @
      (if found (rseq [rlit ''NOT'', ws1, rlit ''DEFERRABLE'']) then [(lit ''default_transaction_deferrable'', Some (lit ''off''))]
       else if found (rseq [RWordB, rlit ''DEFERRABLE'', RWordB]) then [(lit ''default_transaction_deferrable'', Some (lit ''on''))] else []))"

definition set_variants :: "pystr \<Rightarrow> exc + statement option" where
  "set_variants sql =
     (case re_match SET_TIME_ZONE_RE sql of Some m \<Rightarrow> Inr (Some (static sql (EAssign [(lit ''timezone'', set_value (group m 1))] False))) | None \<Rightarrow>
      case re_match SET_SCHEMA_RE sql of Some m \<Rightarrow> Inr (Some (static sql (EAssign [(lit ''search_path'', set_value (group m 1))] False))) | None \<Rightarrow>
      case re_match SET_CHARACTERISTICS_RE sql of Some m \<Rightarrow> Inr (Some (static sql (EAssign (transaction_characteristics (group m 1)) False))) | None \<Rightarrow>
      case re_match SET_RE sql of
        Some m \<Rightarrow>
          (let name = setting_name (group m 2) in
           if name \<in> set PASSED_THROUGH_SETTINGS then Inr None
           else rbind (reject_placeholder_value (group m 3)) (\<lambda>_.
             Inr (Some (static sql (EAssign [(name, set_value (group m 3))] (py_upper (py_strip (group m 1)) = lit ''LOCAL''))))))
      | None \<Rightarrow>
      case re_match RESET_RE sql of
        Some m \<Rightarrow>
          (let name = setting_name (group m 1) in
           if name = lit ''all'' then Inr (Some (static sql EResetAll))
           else if name \<in> set PASSED_THROUGH_SETTINGS then Inr None
           else Inr (Some (static sql (EAssign [(name, None)] False))))
      | None \<Rightarrow> Inr None)"

definition show_statement :: "pystr \<Rightarrow> statement" where
  "show_statement name =
     (let key = setting_name name in
      StaticStatement (lit ''SHOW '' @ name) (Some [\<lparr>rc_name = key, rc_oid = TEXT\<rparr>]) (RowsShow key) [])"

definition show_all_statement :: statement where
  "show_all_statement =
     StaticStatement (lit ''SHOW ALL'')
       (Some [\<lparr>rc_name = lit ''name'', rc_oid = TEXT\<rparr>, \<lparr>rc_name = lit ''setting'', rc_oid = TEXT\<rparr>,
              \<lparr>rc_name = lit ''description'', rc_oid = TEXT\<rparr>]) RowsShowAll []"

definition set_show :: "pystr \<Rightarrow> exc + statement option" where
  "set_show sql =
     rbind (set_variants sql) (\<lambda>st.
       case st of
         Some x \<Rightarrow> Inr (Some x)
       | None \<Rightarrow>
           if matches SHOW_TIME_ZONE_RE sql then Inr (Some (show_statement (lit ''timezone'')))
           else if matches SHOW_ALL_RE sql then Inr (Some show_all_statement)
           else case re_match SHOW_RE sql of Some m \<Rightarrow> Inr (Some (show_statement (group m 1))) | None \<Rightarrow> Inr None)"

definition discard_kind_of :: "pystr \<Rightarrow> discard_kind" where
  "discard_kind_of raw =
     (let k = py_upper raw in
      if k = lit ''ALL'' then DK_ALL else if k = lit ''PLANS'' then DK_PLANS else if k = lit ''SEQUENCES'' then DK_SEQUENCES else DK_TEMP)"

definition deallocate_statement :: "pystr \<Rightarrow> pystr \<Rightarrow> statement" where
  "deallocate_statement sql raw_name =
     static sql (EDeallocate (py_upper raw_name = lit ''ALL'' \<and> \<not> starts_with raw_name [34]) (py_strip_chars [34] raw_name))"

definition session_reset :: "pystr \<Rightarrow> statement option" where
  "session_reset sql =
     (case re_match DISCARD_RE sql of Some m \<Rightarrow> Some (static sql (EDiscard (discard_kind_of (group m 1)))) | None \<Rightarrow>
      case re_match DEALLOCATE_RE sql of Some m \<Rightarrow> Some (deallocate_statement sql (group m 1)) | None \<Rightarrow> None)"

definition listen_notify :: "pystr \<Rightarrow> statement option" where
  "listen_notify sql =
     (case re_match LISTEN_RE sql of Some m \<Rightarrow> Some (static sql (EListen (sql_identifier (group m 1)))) | None \<Rightarrow>
      case re_match UNLISTEN_RE sql of
        Some m \<Rightarrow> Some (static sql (EUnlisten (if group m 1 = [42] then None else Some (sql_identifier (group m 1)))))
      | None \<Rightarrow>
      case re_match NOTIFY_RE sql of
        Some m \<Rightarrow> Some (static sql (ENotify (sql_identifier (group m 1)) (undouble 39 (group m 2))))
      | None \<Rightarrow> None)"

section \<open>Prepared statements\<close>

definition argument_value :: "pystr list \<Rightarrow> pystr option" where
  "argument_value toks =
     (let t = py_strip (py_join (lit '' '') toks) in if py_upper t = lit ''NULL'' then None else Some t)"

text \<open>The loop of \<open>_split_arguments\<close> over the tokens, \<open>current\<close> the ones since the last comma.\<close>

fun split_tokens :: "(bool \<times> pystr) list \<Rightarrow> pystr list \<Rightarrow> pystr option list" where
  "split_tokens [] current = [argument_value current]"
| "split_tokens ((is_comma, t) # ts) current =
     (if is_comma then argument_value current # split_tokens ts [] else split_tokens ts (current @ [t]))"

definition split_arguments :: "'u env \<Rightarrow> pystr \<Rightarrow> exc + pystr option list" where
  "split_arguments env text =
     (if py_strip text = [] then Inr []
      else case e_arguments env text of
        None \<Rightarrow> Inl (syntax_error (lit ''could not read the argument list '' @ py_repr text))
      | Some toks \<Rightarrow> Inr (split_tokens toks []))"

text \<open>\<open>str(part)\<close>: a NULL in the list of types reads as the text \<open>None\<close>.\<close>

definition declared_oid :: "pystr option \<Rightarrow> int option" where
  "declared_oid part = Some (oid_for_declared_type (case part of None \<Rightarrow> lit ''None'' | Some t \<Rightarrow> t))"

definition execute_statement :: "'u env \<Rightarrow> conn \<Rightarrow> (nat, pystr) dict \<Rightarrow> exc + statement" where
  "execute_statement env c m =
     (let name = sql_identifier (group m 1) in
      case dict_get (statements (c_state c)) name of
        None \<Rightarrow> Inl (PgError INVALID_SQL_STATEMENT_NAME (lit ''prepared statement '' @ [34] @ name @ [34] @ lit '' does not exist'') [])
      | Some prepared \<Rightarrow> rbind (split_arguments env (group m 2)) (\<lambda>args. Inr (PreparedExecution prepared args)))"

section \<open>The chain\<close>

definition DEFAULT_MIDDLEWARE :: "link list" where
  "DEFAULT_MIDDLEWARE =
     [L_copy_stdio, L_transaction_control, L_set_show, L_session_reset, L_listen_notify, L_prepared_statements,
      L_session_functions, L_information_schema, L_asyncpg_typeinfo, L_pg_catalog]"

definition callback_statement :: "int \<Rightarrow> pystr \<Rightarrow> int option list \<Rightarrow> ('u world, statement) act" where
  "callback_statement p sql oids w =
     (let cell = c_next_cell (w_conns w p) in
      (Inr (CallbackStatement sql oids cell), upd_conn p (\<lambda>c. c\<lparr>c_next_cell := cell + 1\<rparr>) w))"

text \<open>A link that only reads; \<open>prep\<close> is \<open>Session.prepare\<close>, for the query of a PREPARE.\<close>

definition prepared_statements ::
    "'u env \<Rightarrow> (pystr \<Rightarrow> int option list \<Rightarrow> ('u world, statement) act) \<Rightarrow> int \<Rightarrow> pystr \<Rightarrow> ('u world, statement option) act" where
  "prepared_statements env prep p sql =
     (case re_match PREPARE_RE sql of
        Some m \<Rightarrow>
          abind (alift (split_arguments env (group m 2))) (\<lambda>parts.
          abind (prep (group m 3) (map declared_oid parts)) (\<lambda>prepared.
          aret (Some (static sql (EPrepare (sql_identifier (group m 1)) prepared)))))
      | None \<Rightarrow>
          (case re_match EXECUTE_RE sql of
             Some m \<Rightarrow> abind (aread (\<lambda>w. execute_statement env (w_conns w p) m)) (\<lambda>st. aret (Some st))
           | None \<Rightarrow> aret None))"

definition run_link ::
    "'u env \<Rightarrow> (pystr \<Rightarrow> int option list \<Rightarrow> ('u world, statement) act) \<Rightarrow> int \<Rightarrow> pystr \<Rightarrow> int option list \<Rightarrow> link \<Rightarrow> ('u world, statement option) act" where
  "run_link env prep p sql oids link =
     (case link of
        L_copy_stdio \<Rightarrow> alift (copy_statement env sql)
      | L_transaction_control \<Rightarrow> aret (transaction_control sql)
      | L_set_show \<Rightarrow> alift (set_show sql)
      | L_session_reset \<Rightarrow> aret (session_reset sql)
      | L_listen_notify \<Rightarrow> aret (listen_notify sql)
      | L_prepared_statements \<Rightarrow> prepared_statements env prep p sql
      | L_information_schema \<Rightarrow> information_schema env p sql
      | L_asyncpg_typeinfo \<Rightarrow> aret (asyncpg_typeinfo sql)
      | L_pg_catalog \<Rightarrow> pg_catalog env p sql
      | _ \<Rightarrow> aread (\<lambda>w. e_link env link w p sql oids))"

fun resolve_chain ::
    "'u env \<Rightarrow> (pystr \<Rightarrow> int option list \<Rightarrow> ('u world, statement) act) \<Rightarrow> int \<Rightarrow> pystr \<Rightarrow> int option list \<Rightarrow> link list \<Rightarrow> ('u world, statement option) act" where
  "resolve_chain env prep p sql oids [] = aret None"
| "resolve_chain env prep p sql oids (l # ls) =
     abind (run_link env prep p sql oids l) (\<lambda>st. case st of Some x \<Rightarrow> aret (Some x) | None \<Rightarrow> resolve_chain env prep p sql oids ls)"

definition resolve ::
    "'u env \<Rightarrow> (pystr \<Rightarrow> int option list \<Rightarrow> ('u world, statement) act) \<Rightarrow> int \<Rightarrow> pystr \<Rightarrow> int option list \<Rightarrow> link list \<Rightarrow> ('u world, statement option) act" where
  "resolve env prep p sql oids chain =
     (if py_strip sql = [] then aret None else resolve_chain env prep p (py_strip sql) oids chain)"

text \<open>\<open>Session.prepare\<close>.\<close>

fun prepare_fuel :: "'u env \<Rightarrow> int \<Rightarrow> nat \<Rightarrow> pystr \<Rightarrow> int option list \<Rightarrow> ('u world, statement) act" where
  "prepare_fuel env p 0 sql oids = araise (OtherError (lit ''maximum recursion depth exceeded''))"
| "prepare_fuel env p (Suc n) sql oids =
     (\<lambda>w. if so_connection (w_sessions w (c_session (w_conns w p))) = None then callback_statement p sql oids w
      else
        let chain = (case e_middleware env of None \<Rightarrow> DEFAULT_MIDDLEWARE | Some ls \<Rightarrow> ls) in
        abind (if chain = [] then aret None else resolve env (prepare_fuel env p n) p sql oids chain)
          (\<lambda>st. case st of Some x \<Rightarrow> aret x | None \<Rightarrow> callback_statement p sql oids) w)"

definition prepare :: "'u env \<Rightarrow> int \<Rightarrow> pystr \<Rightarrow> int option list \<Rightarrow> ('u world, statement) act" where
  "prepare env p sql oids = prepare_fuel env p (Suc (length sql)) sql oids"

end
