(* ===== verification/Portals.thy ===== *)
theory Portals
  imports Middleware
begin

text \<open>
  Running statements: \<open>describe\<close>, \<open>drain_rows\<close> and \<open>Portal.execute\<close> of \<open>pg_mimic/session.py\<close>, and the row
  encoding of \<open>pg_mimic/results.py\<close>. Executing a portal answers with the portal as it is afterwards, since a
  Python portal remembers its row source.
\<close>

section \<open>Results\<close>

definition format_code_for :: "int list \<Rightarrow> nat \<Rightarrow> exc + int" where
  "format_code_for codes index =
     (if codes = [] then Inr 0
      else if length codes = 1 then Inr (hd codes)
      else if index < length codes then Inr (codes ! index) else Inl IndexError)"

definition encode_field :: "result_column list \<Rightarrow> int list \<Rightarrow> nat \<times> pyval \<Rightarrow> exc + bytes option" where
  "encode_field cols codes iv =
     (case iv of (index, v) \<Rightarrow>
       if v = PNone then Inr None
       else rbind (format_code_for codes index) (\<lambda>code.
         if index \<ge> length cols then Inl IndexError
         else let oid = rc_oid (cols ! index) in
           if code = 0 then rbind (encode_value oid v) (\<lambda>t. rbind (utf8_encode t) (\<lambda>b. Inr (Some b)))
           else rbind (encode_value_binary oid v) (\<lambda>b. Inr (Some b))))"

definition encode_row :: "row \<Rightarrow> result_column list \<Rightarrow> int list \<Rightarrow> exc + bytes option list" where
  "encode_row r cols codes = rmap (encode_field cols codes) (List.enumerate 0 r)"

definition field_specs :: "result_column list \<Rightarrow> int list \<Rightarrow> exc + field_spec list" where
  "field_specs cols codes =
     rmap (\<lambda>(i, c). rbind (format_code_for codes i) (\<lambda>code. Inr (FieldSpec (rc_name c) (rc_oid c) code))) (List.enumerate 0 cols)"

section \<open>Describing\<close>

fun statement_describe :: "'u env \<Rightarrow> int \<Rightarrow> statement \<Rightarrow> ('u world, columns) act" where
  "statement_describe env p (StaticStatement sql cols rows effs) = aret cols"
| "statement_describe env p (CallbackStatement sql oids cell) =
     (\<lambda>w. case dict_get (c_described (w_conns w p)) cell of
        Some cols \<Rightarrow> (Inr cols, w)
      | None \<Rightarrow>
          abind (call_author p (e_describe env sql oids)) (\<lambda>cols.
          abind (amod (upd_conn p (\<lambda>c. c\<lparr>c_described := dict_set cell cols (c_described c)\<rparr>))) (\<lambda>_. aret cols)) w)"
| "statement_describe env p (CopyStatement sql parsed) = aret None"
| "statement_describe env p (TypeInfoStatement sql) = aret (Some typeinfo_columns)"
| "statement_describe env p (PreparedExecution prepared args) = statement_describe env p prepared"

section \<open>Executing\<close>

text \<open>
  \<open>drain_rows\<close>: \<open>limit\<close> is \<open>None\<close> without one. Rows, whether the limit stopped it, and what is left of the source.
\<close>

fun drain_rows :: "int \<Rightarrow> nat option \<Rightarrow> row_source \<Rightarrow> 'u world \<Rightarrow> (exc + row list \<times> bool) \<times> row_source \<times> 'u world" where
  "drain_rows p (Some 0) src w = (Inr ([], True), src, w)"
| "drain_rows p limit [] w = (Inr ([], False), [], w)"
| "drain_rows p limit ((acts, r) # src) w =
     (case run_acts p acts w of
        (Inl e, w1) \<Rightarrow> (Inl e, [], w1)
      | (Inr _, w1) \<Rightarrow>
          (case r of
             Inl e \<Rightarrow> (Inl e, [], w1)
           | Inr v \<Rightarrow>
               (case drain_rows p (map_option (\<lambda>n. n - 1) limit) src w1 of
                  (Inl e, left, w2) \<Rightarrow> (Inl e, left, w2)
                | (Inr (vs, suspended), left, w2) \<Rightarrow> (Inr (v # vs, suspended), left, w2))))"

lemma drain_rows_Nil: "drain_rows p limit [] w = (Inr ([], limit = Some 0), [], w)"
proof (cases limit)
  case (Some n)
  then show ?thesis by (cases n) simp_all
qed simp

lemma drain_rows_step:
  "limit \<noteq> Some 0 \<Longrightarrow> drain_rows p limit ((acts, r) # src) w =
     (case run_acts p acts w of
        (Inl e, w1) \<Rightarrow> (Inl e, [], w1)
      | (Inr _, w1) \<Rightarrow>
          (case r of
             Inl e \<Rightarrow> (Inl e, [], w1)
           | Inr v \<Rightarrow>
               (case drain_rows p (map_option (\<lambda>n. n - 1) limit) src w1 of
                  (Inl e, left, w2) \<Rightarrow> (Inl e, left, w2)
                | (Inr (vs, suspended), left, w2) \<Rightarrow> (Inr (v # vs, suspended), left, w2))))"
proof (cases limit)
  case None
  show ?thesis unfolding None by (rule drain_rows.simps(4))
next
  case (Some n)
  moreover assume "limit \<noteq> Some 0"
  ultimately obtain m where "limit = Some (Suc m)" by (cases n) auto
  then show ?thesis by (simp only: drain_rows.simps)
qed

definition row_limit :: "int \<Rightarrow> nat option" where
  "row_limit max_rows = (if max_rows \<le> 0 then None else Some (nat max_rows))"

fun eval_rows :: "'u env \<Rightarrow> 'u world \<Rightarrow> int \<Rightarrow> rows_spec \<Rightarrow> exc + row list" where
  "eval_rows env w p (RowsFixed rows) = Inr rows"
| "eval_rows env w p (RowsShow key) = show_rows env w p key"
| "eval_rows env w p RowsShowAll = show_all_rows env w p"
| "eval_rows env w p (RowsQuery q) = e_rows env w p q"

definition INTERNAL_ERROR :: pystr where "INTERNAL_ERROR = lit ''XX000''"

text \<open>The first call starts the row source (effects first, then the rows), every call drains it.\<close>

fun start_portal :: "'u env \<Rightarrow> int \<Rightarrow> portal \<Rightarrow> ('u world, row_source) act" where
  "start_portal env p (StaticPortal rows effs (Some src)) = aret src"
| "start_portal env p (StaticPortal rows effs None) =
     abind (run_all env p effs) (\<lambda>_. abind (aread (\<lambda>w. eval_rows env w p rows)) (\<lambda>rs. aret (map (\<lambda>r. ([], Inr r)) rs)))"
| "start_portal env p (CallbackPortal sql params (Some src)) = aret src"
| "start_portal env p (CallbackPortal sql params None) = call_author p (e_query env sql params)"
| "start_portal env p (CopyPortal sql parsed) =
     araise (PgError INTERNAL_ERROR (lit ''a COPY portal is driven by the copy sub-protocol, not Portal.execute()'') [])"

fun set_source :: "portal \<Rightarrow> row_source \<Rightarrow> portal" where
  "set_source (StaticPortal rows effs old) src = StaticPortal rows effs (Some src)"
| "set_source (CallbackPortal sql params old) src = CallbackPortal sql params (Some src)"
| "set_source (CopyPortal sql parsed) src = CopyPortal sql parsed"

definition portal_execute ::
    "'u env \<Rightarrow> int \<Rightarrow> portal \<Rightarrow> int \<Rightarrow> 'u world \<Rightarrow> (exc + row list \<times> bool) \<times> portal \<times> 'u world" where
  "portal_execute env p portal max_rows w =
     (case start_portal env p portal w of
        (Inl e, w1) \<Rightarrow> (Inl e, portal, w1)
      | (Inr src, w1) \<Rightarrow>
          (case drain_rows p (row_limit max_rows) src w1 of (r, left, w2) \<Rightarrow> (r, set_source portal left, w2)))"

end
