(* ===== verification/Connection.thy ===== *)
theory Connection
  imports Portals
begin

text \<open>
  \<open>pg_mimic/connection.py\<close>: command tags, statement splitting, the handlers of the simple and the extended
  protocol, the COPY sub-protocol, \<open>_dispatch\<close> with its error reporting, and one turn of the
  command loop. A command runs to its end before another one starts; what other connections do while it waits
  arrives through the acts of the author's methods.
\<close>

section \<open>Command tags\<close>

definition ROW_COUNT_COMMANDS :: "pystr list" where
  "ROW_COUNT_COMMANDS = map lit [''SELECT'', ''DELETE'', ''UPDATE'', ''MOVE'', ''FETCH'', ''COPY'']"

definition TWO_WORD_TAG_RE :: re where
  "TWO_WORD_TAG_RE =
     rseq [RCap 1 (RAlt
       (rseq [rlit ''DISCARD'', ws1, ralt [rlit ''ALL'', rlit ''PLANS'', rlit ''SEQUENCES'', rlit ''TEMP'', rlit ''TEMPORARY'']])
       (rseq [rlit ''DEALLOCATE'', ws1, ROpt (rseq [rlit ''PREPARE'', ws1]), rlit ''ALL''])), rterm]"

definition is_letter :: "pychar \<Rightarrow> bool" where
  "is_letter c \<longleftrightarrow> (65 \<le> c \<and> c \<le> 90) \<or> (97 \<le> c \<and> c \<le> 122)"

text \<open>\<open>s.replace(old, new)\<close>: the occurrences from the left, without overlap.\<close>

function replace_sub :: "'a list \<Rightarrow> 'a list \<Rightarrow> 'a list \<Rightarrow> 'a list" where
  "replace_sub old new s =
     (case s of [] \<Rightarrow> []
      | c # t \<Rightarrow> if old \<noteq> [] \<and> starts_with s old then new @ replace_sub old new (drop (length old) s) else c # replace_sub old new t)"
  by pat_completeness auto
termination
  by (relation "measure (\<lambda>(old, new, s). length s)") auto

declare replace_sub.simps [simp del]

definition command_tag :: "pystr \<Rightarrow> nat \<Rightarrow> pystr" where
  "command_tag sql row_count =
     (let s = py_strip sql in
      case re_match TWO_WORD_TAG_RE s of
        Some m \<Rightarrow>
          (let tag = py_join (lit '' '') (split_ws (py_upper (group m 1))) in
           replace_sub (lit ''DEALLOCATE PREPARE'') (lit ''DEALLOCATE'') (replace_sub (lit ''TEMPORARY'') (lit ''TEMP'') tag))
      | None \<Rightarrow>
          (let keyword = py_upper (takeWhile is_letter s) in
           if keyword = lit ''INSERT'' then lit ''INSERT 0 '' @ nat_str row_count
           else if keyword \<in> set ROW_COUNT_COMMANDS then keyword @ lit '' '' @ nat_str row_count
           else if keyword \<noteq> [] then keyword else lit ''SELECT''))"

section \<open>Splitting a simple query\<close>

text \<open>The pieces between the semicolon tokens, given as first and last position.\<close>

fun cut_statements :: "pystr \<Rightarrow> nat \<Rightarrow> (nat \<times> nat) list \<Rightarrow> pystr list" where
  "cut_statements sql start [] = [drop start sql]"
| "cut_statements sql start ((a, b) # ts) = drop start (take a sql) # cut_statements sql (b + 1) ts"

definition split_statements :: "'u env \<Rightarrow> pystr \<Rightarrow> pystr list" where
  "split_statements env sql =
     (case e_semicolons env sql of
        None \<Rightarrow> [sql]
      | Some toks \<Rightarrow>
          (let parts = filter (\<lambda>s. py_strip s \<noteq> []) (cut_statements sql 0 toks) in
           if 1 < length parts then parts else [sql]))"

section \<open>Reading in copy mode\<close>

definition read_msg :: "int \<Rightarrow> ('u world, byte \<times> bytes) act" where
  "read_msg p w =
     (case read_message (w_max_message_size w) (c_in (w_conns w p)) of
        (r, rest) \<Rightarrow> (r, upd_conn p (\<lambda>c. c\<lparr>c_in := rest\<rparr>) w))"

definition QUERY_CANCELED :: pystr where "QUERY_CANCELED = lit ''57014''"

definition hex2 :: "byte \<Rightarrow> pystr" where
  "hex2 b = py_upper [hex_digit (unat b div 16), hex_digit (unat b mod 16)]"

text \<open>\<open>_read_batch\<close>: the rows of one message, the decoder after it, and whether the copy is done.\<close>

definition read_batch ::
    "int \<Rightarrow> copy_options \<Rightarrow> copy_decoder \<Rightarrow> ('u world, pystr option list list \<times> copy_decoder \<times> bool) act" where
  "read_batch p opts dec =
     abind (read_msg p) (\<lambda>(tag, payload).
       alift (if tag = COPY_DATA then rbind (feed opts payload dec) (\<lambda>(rows, d). Inr (rows, d, False))
         else if tag = COPY_DONE then rbind (finish opts dec) (\<lambda>(rows, d). Inr (rows, d, True))
         else if tag = COPY_FAIL then
           rbind (parse_copy_fail payload) (\<lambda>reason. Inl (PgError QUERY_CANCELED (lit ''COPY from stdin failed: '' @ reason) []))
         else if tag = FLUSH \<or> tag = SYNC then Inr ([], dec, False)
         else Inl (PgError PROTOCOL_VIOLATION (lit ''unexpected message type 0x'' @ hex2 tag @ lit '' during COPY from stdin'') [])))"

text \<open>The rows of a batch handed to the session one by one: the count of those yielded, and its answer if it stopped.\<close>

fun hand_rows :: "'u env \<Rightarrow> int \<Rightarrow> pystr \<Rightarrow> nat \<Rightarrow> pystr option list list \<Rightarrow> ('u world, nat \<times> nat option option) act" where
  "hand_rows env p sql n [] = aret (n, None)"
| "hand_rows env p sql n (r # rs) =
     abind (call_author p (e_copy_in_row env sql r)) (\<lambda>s.
       case s of CopyMore \<Rightarrow> hand_rows env p sql (n + 1) rs | CopyStop m \<Rightarrow> aret (n + 1, Some m))"

text \<open>
  The session's iteration. Each turn reads a message, so the length of the input bounds the turns;
  the result is what \<open>copy_in\<close> returned, the rows yielded, the decoder, and whether the copy is done.
\<close>

fun iterate_copy ::
    "nat \<Rightarrow> 'u env \<Rightarrow> int \<Rightarrow> pystr \<Rightarrow> copy_options \<Rightarrow> copy_decoder \<Rightarrow> nat \<Rightarrow> ('u world, nat option \<times> nat \<times> copy_decoder \<times> bool) act" where
  "iterate_copy 0 env p sql opts dec n = araise ConnectionClosed"
| "iterate_copy (Suc fuel) env p sql opts dec n =
     abind (read_batch p opts dec) (\<lambda>(rows, d, done_now).
     abind (hand_rows env p sql n rows) (\<lambda>(n', stopped).
       case stopped of
         Some m \<Rightarrow> aret (m, n', d, done_now)
       | None \<Rightarrow>
           if done_now then abind (call_author p (e_copy_in_end env sql)) (\<lambda>m. aret (m, n', d, True))
           else iterate_copy fuel env p sql opts d n'))"

text \<open>\<open>_CopyInReader.finish\<close>: the rest of the client's messages.\<close>

fun finish_copy :: "nat \<Rightarrow> int \<Rightarrow> copy_options \<Rightarrow> copy_decoder \<Rightarrow> bool \<Rightarrow> ('u world, unit) act" where
  "finish_copy fuel p opts dec True = aret ()"
| "finish_copy 0 p opts dec False = araise ConnectionClosed"
| "finish_copy (Suc fuel) p opts dec False = abind (read_batch p opts dec) (\<lambda>(rows, d, done_now). finish_copy fuel p opts d done_now)"

definition copy_column_count :: "parsed_copy \<Rightarrow> nat" where
  "copy_column_count pc = (case pc_columns pc of None \<Rightarrow> 0 | Some cs \<Rightarrow> length cs)"

definition copy_in :: "'u env \<Rightarrow> int \<Rightarrow> pystr \<Rightarrow> parsed_copy \<Rightarrow> ('u world, nat) act" where
  "copy_in env p sql pc =
     (let opts = pc_options pc in
      abind (write_msg p (MCopyInResponse (copy_column_count pc))) (\<lambda>_.
      abind (aread (\<lambda>w. Inr (Suc (length (c_in (w_conns w p)))))) (\<lambda>fuel.
      abind (call_author p (e_copy_in_start env sql)) (\<lambda>s.
      abind (case s of CopyStop m \<Rightarrow> aret (m, 0, CopyInDecoder opts, False)
             | CopyMore \<Rightarrow> iterate_copy fuel env p sql opts (CopyInDecoder opts) 0) (\<lambda>(result, n, dec, done_now).
      abind (finish_copy fuel p opts dec done_now) (\<lambda>_.
      aret (case result of None \<Rightarrow> n | Some m \<Rightarrow> m)))))))"

section \<open>Copying out\<close>

definition header_refusal :: exc where
  "header_refusal = unsupported (lit ''COPY TO STDOUT with HEADER needs the column names: list them in the statement ('' @ [34] @
     lit ''COPY t (a, b) TO STDOUT ...'' @ [34] @ lit '') or declare the table in Session.schema()'')"

text \<open>\<open>{name.lower(): value ...}\<close>: the last of the names that fold alike wins.\<close>

definition folded_get :: "(pystr, 'v) dict \<Rightarrow> pystr \<Rightarrow> 'v option" where
  "folded_get d k = dict_get (rev (map (\<lambda>(n, v). (py_lower n, v)) d)) k"

definition table_columns :: "schema \<Rightarrow> pystr \<Rightarrow> exc + pystr list" where
  "table_columns tables name =
     (case (case dict_get tables name of Some t \<Rightarrow> Some t | None \<Rightarrow> folded_get tables name) of
        Some t \<Rightarrow> if t_columns t \<noteq> [] then Inr (map fst (t_columns t)) else Inl header_refusal
      | None \<Rightarrow> Inl header_refusal)"

definition header_names :: "'u env \<Rightarrow> int \<Rightarrow> parsed_copy \<Rightarrow> ('u world, pystr list) act" where
  "header_names env p pc =
     (case pc_columns pc of
        Some (c # cs) \<Rightarrow> aret (c # cs)
      | _ \<Rightarrow>
          (case pc_table pc of
             None \<Rightarrow> alift (table_columns [] [])
           | Some t \<Rightarrow> abind (call_author p (e_schema env)) (\<lambda>d. alift (rbind (schema_resolve d) (\<lambda>tables. table_columns tables t)))))"

definition write_copy :: "int \<Rightarrow> exc + bytes \<Rightarrow> ('u world, unit) act" where
  "write_copy p encoded = abind (alift encoded) (\<lambda>d. write_msg p (MCopyData d))"

text \<open>\<open>async for row in rows\<close>: each row is written as it comes.\<close>

fun write_rows :: "int \<Rightarrow> copy_options \<Rightarrow> row_source \<Rightarrow> nat \<Rightarrow> ('u world, nat) act" where
  "write_rows p opts [] n = aret n"
| "write_rows p opts ((acts, r) # src) n =
     abind (run_acts p acts) (\<lambda>_. abind (alift r) (\<lambda>v. abind (write_copy p (row_line opts v)) (\<lambda>_. write_rows p opts src (n + 1))))"

definition copy_out :: "'u env \<Rightarrow> int \<Rightarrow> pystr \<Rightarrow> parsed_copy \<Rightarrow> ('u world, nat) act" where
  "copy_out env p sql pc =
     (let opts = pc_options pc in
      abind (if co_header opts then abind (header_names env p pc) (\<lambda>h. aret (Some h)) else aret None) (\<lambda>header.
      abind (call_author p (e_copy_out env sql)) (\<lambda>src.
      abind (case src of [] \<Rightarrow> aret None | (acts, r) # _ \<Rightarrow> abind (run_acts p acts) (\<lambda>_. abind (alift r) (\<lambda>v. aret (Some v)))) (\<lambda>first.
      let named = (case header of None \<Rightarrow> 0 | Some h \<Rightarrow> length h);
          count = (case first of Some v \<Rightarrow> length v | None \<Rightarrow> if named \<noteq> 0 then named else copy_column_count pc) in
      abind (write_msg p (MCopyOutResponse count)) (\<lambda>_.
      abind (case header of None \<Rightarrow> aret () | Some h \<Rightarrow> write_copy p (header_line opts h)) (\<lambda>_.
      abind (case first of None \<Rightarrow> aret 0 | Some v \<Rightarrow> abind (write_copy p (row_line opts v)) (\<lambda>_. aret 1)) (\<lambda>n.
      abind (write_rows p opts (tl src) n) (\<lambda>n'.
      abind (write_msg p MCopyDone) (\<lambda>_. aret n')))))))))"

definition run_copy :: "'u env \<Rightarrow> int \<Rightarrow> pystr \<Rightarrow> parsed_copy \<Rightarrow> ('u world, unit) act" where
  "run_copy env p sql pc =
     abind (if pc_direction pc = DIRECTION_IN then copy_in env p sql pc else copy_out env p sql pc)
       (\<lambda>n. write_msg p (MCommandComplete (command_tag sql n)))"

section \<open>The simple protocol\<close>

definition IN_FAILED_SQL_TRANSACTION :: pystr where "IN_FAILED_SQL_TRANSACTION = lit ''25P02''"

definition aborted :: exc where
  "aborted = PgError IN_FAILED_SQL_TRANSACTION (lit ''current transaction is aborted, commands ignored'') []"

definition check_not_failed :: "int \<Rightarrow> pystr \<Rightarrow> ('u world, unit) act" where
  "check_not_failed p sql w =
     (if c_tx_status (w_conns w p) = TxE \<and> \<not> allowed_in_failed_transaction sql then (Inl aborted, w) else (Inr (), w))"

definition run_portal :: "'u env \<Rightarrow> int \<Rightarrow> portal \<Rightarrow> int \<Rightarrow> ('u world, row list \<times> bool) act" where
  "run_portal env p portal max_rows w = (case portal_execute env p portal max_rows w of (r, _, w') \<Rightarrow> (r, w'))"

definition write_row :: "int \<Rightarrow> result_column list \<Rightarrow> row \<Rightarrow> ('u world, unit) act" where
  "write_row p cols r = abind (alift (encode_row r cols [])) (\<lambda>vs. write_msg p (MDataRow vs))"

text \<open>\<open>getattr(statement, "sql", sql) or sql\<close>\<close>

definition tag_sql :: "statement \<Rightarrow> pystr \<Rightarrow> pystr" where
  "tag_sql st sql = (if statement_sql st = [] then sql else statement_sql st)"

text \<open>\<open>isinstance(statement, CopyStatement)\<close>: what the statement copies.\<close>

definition as_copy :: "statement \<Rightarrow> (pystr \<times> parsed_copy) option" where
  "as_copy st = (case st of CopyStatement sql pc \<Rightarrow> Some (sql, pc) | _ \<Rightarrow> None)"

definition execute_one_simple_statement :: "'u env \<Rightarrow> int \<Rightarrow> pystr \<Rightarrow> ('u world, unit) act" where
  "execute_one_simple_statement env p sql =
     abind (check_not_failed p sql) (\<lambda>_.
     if py_strip sql = [] then write_msg p MEmptyQueryResponse
     else abind (prepare env p sql []) (\<lambda>st.
       case as_copy st of
         Some (csql, pc) \<Rightarrow> run_copy env p csql pc
       | None \<Rightarrow>
           abind (statement_describe env p st) (\<lambda>cols.
           abind (run_portal env p (statement_bind st []) 0) (\<lambda>(rows, _).
           abind (case cols of
                    None \<Rightarrow> aret ()
                  | Some cs \<Rightarrow>
                      abind (alift (field_specs cs [])) (\<lambda>fs.
                      abind (write_msg p (MRowDescription fs)) (\<lambda>_. arun (write_row p cs) rows))) (\<lambda>_.
           write_msg p (MCommandComplete (command_tag (tag_sql st sql) (length rows))))))))"

definition handle_simple_query :: "'u env \<Rightarrow> int \<Rightarrow> pystr \<Rightarrow> ('u world, unit) act" where
  "handle_simple_query env p sql =
     (if py_strip sql = [] then write_msg p MEmptyQueryResponse
      else arun (execute_one_simple_statement env p) (split_statements env sql))"

section \<open>The extended protocol\<close>

definition handle_parse :: "'u env \<Rightarrow> int \<Rightarrow> parsed_parse \<Rightarrow> ('u world, unit) act" where
  "handle_parse env p parsed =
     abind (prepare env p (pp_sql parsed) (map (\<lambda>oid. if oid \<noteq> 0 then Some oid else None) (pp_param_oids parsed))) (\<lambda>st.
     abind (amod (upd_state p (\<lambda>s. s\<lparr>statements := dict_set (pp_statement_name parsed) st (statements s)\<rparr>))) (\<lambda>_.
     write_msg p MParseComplete))"

definition get_statement :: "conn \<Rightarrow> pystr \<Rightarrow> exc + statement" where
  "get_statement c name =
     (case dict_get (statements (c_state c)) name of
        Some st \<Rightarrow> Inr st
      | None \<Rightarrow> Inl (PgError INVALID_SQL_STATEMENT_NAME (lit ''prepared statement '' @ [34] @ name @ [34] @ lit '' does not exist'') []))"

definition get_portal :: "conn \<Rightarrow> pystr \<Rightarrow> exc + portal_entry" where
  "get_portal c name =
     (case dict_get (portals (c_state c)) name of
        Some entry \<Rightarrow> Inr entry
      | None \<Rightarrow> Inl (PgError INVALID_SQL_STATEMENT_NAME (lit ''portal '' @ [34] @ name @ [34] @ lit '' does not exist'') []))"

definition no_value_errors :: "'u env \<Rightarrow> exc + 'a \<Rightarrow> exc + 'a" where
  "no_value_errors env r =
     (case r of Inl e \<Rightarrow> if is_value_error e then Inl (unsupported (exc_text env e)) else Inl e | Inr x \<Rightarrow> Inr x)"

definition decode_param :: "'u env \<Rightarrow> bytes option \<Rightarrow> int \<Rightarrow> int option list \<Rightarrow> nat \<Rightarrow> exc + pyval" where
  "decode_param env v format_code param_oids index =
     (case v of
        None \<Rightarrow> Inr PNone
      | Some b \<Rightarrow>
          let oid = (if index < length param_oids then param_oids ! index else None) in
          if format_code = 0 then
            rbind (utf8_decode b) (\<lambda>t. case oid of Some i \<Rightarrow> decode_text_param i t | None \<Rightarrow> Inr (PStr t))
          else case oid of
            None \<Rightarrow> Inl (unsupported (lit ''binary parameter format requires a known type OID (param $'' @ nat_str (index + 1) @ lit '' has none)''))
          | Some i \<Rightarrow> no_value_errors env (decode_binary_param i b))"

definition decode_params :: "'u env \<Rightarrow> parsed_bind \<Rightarrow> int option list \<Rightarrow> exc + pyval list" where
  "decode_params env parsed oids =
     rmap (\<lambda>(i, v). rbind (format_code_for (pb_param_format_codes parsed) i) (\<lambda>code. decode_param env v code oids i))
       (List.enumerate 0 (pb_params parsed))"

definition handle_bind :: "'u env \<Rightarrow> int \<Rightarrow> parsed_bind \<Rightarrow> ('u world, unit) act" where
  "handle_bind env p parsed =
     abind (aread (\<lambda>w. get_statement (w_conns w p) (pb_statement_name parsed))) (\<lambda>st.
     abind (alift (decode_params env parsed (statement_param_oids st))) (\<lambda>params.
     abind (statement_describe env p st) (\<lambda>cols.
     abind (amod (upd_state p (\<lambda>s. s\<lparr>portals := dict_set (pb_portal_name parsed)
              (PortalEntry (statement_bind st params) cols (statement_sql st) (pb_result_format_codes parsed)) (portals s)\<rparr>))) (\<lambda>_.
     write_msg p MBindComplete))))"

definition write_description :: "int \<Rightarrow> columns \<Rightarrow> int list \<Rightarrow> ('u world, unit) act" where
  "write_description p cols codes =
     (case cols of
        None \<Rightarrow> write_msg p MNoData
      | Some cs \<Rightarrow> abind (alift (field_specs cs codes)) (\<lambda>fs. write_msg p (MRowDescription fs)))"

definition handle_describe :: "'u env \<Rightarrow> int \<Rightarrow> parsed_describe \<Rightarrow> ('u world, unit) act" where
  "handle_describe env p parsed =
     (if pd_kind parsed = TARGET_STATEMENT then
        abind (aread (\<lambda>w. get_statement (w_conns w p) (pd_name parsed))) (\<lambda>st.
        abind (write_msg p (MParameterDescription (map (\<lambda>oid. case oid of None \<Rightarrow> 0 | Some i \<Rightarrow> i) (statement_param_oids st)))) (\<lambda>_.
        abind (statement_describe env p st) (\<lambda>cols. write_description p cols [])))
      else
        abind (aread (\<lambda>w. get_portal (w_conns w p) (pd_name parsed))) (\<lambda>entry.
        write_description p (pe_columns entry) (pe_result_format_codes entry)))"

text \<open>
  \<open>entry.portal.execute\<close>: the entry of the dict is the object that changes, unless the statement it ran has
  dropped it from the dict.
\<close>

definition update_entry :: "pystr \<Rightarrow> (portal_entry \<Rightarrow> portal_entry) \<Rightarrow> (pystr, portal_entry) dict \<Rightarrow> (pystr, portal_entry) dict" where
  "update_entry name f d = map (\<lambda>(n, e). (n, if n = name then f e else e)) d"

definition upd_entry :: "int \<Rightarrow> pystr \<Rightarrow> (portal_entry \<Rightarrow> portal_entry) \<Rightarrow> 'u world \<Rightarrow> 'u world" where
  "upd_entry p name f = upd_state p (\<lambda>s. s\<lparr>portals := update_entry name f (portals s)\<rparr>)"

definition run_entry :: "'u env \<Rightarrow> int \<Rightarrow> pystr \<Rightarrow> portal_entry \<Rightarrow> int \<Rightarrow> ('u world, row list \<times> bool) act" where
  "run_entry env p name entry max_rows w =
     (case portal_execute env p (pe_portal entry) max_rows w of
        (r, portal', w') \<Rightarrow> (r, upd_entry p name (\<lambda>e. e\<lparr>pe_portal := portal'\<rparr>) w'))"

definition write_entry_row :: "'u env \<Rightarrow> int \<Rightarrow> portal_entry \<Rightarrow> result_column list \<Rightarrow> row \<Rightarrow> ('u world, unit) act" where
  "write_entry_row env p entry cs r =
     abind (alift (no_value_errors env (encode_row r cs (pe_result_format_codes entry)))) (\<lambda>vs. write_msg p (MDataRow vs))"

definition entry_copy :: "portal_entry \<Rightarrow> (pystr \<times> parsed_copy) option" where
  "entry_copy entry = (case pe_portal entry of CopyPortal sql pc \<Rightarrow> Some (sql, pc) | _ \<Rightarrow> None)"

definition handle_execute :: "'u env \<Rightarrow> int \<Rightarrow> parsed_execute \<Rightarrow> ('u world, unit) act" where
  "handle_execute env p parsed =
     (let name = pe_portal_name parsed in
      abind (aread (\<lambda>w. get_portal (w_conns w p) name)) (\<lambda>entry.
      abind (check_not_failed p (pe_sql entry)) (\<lambda>_.
      case entry_copy entry of
        Some (csql, pc) \<Rightarrow> run_copy env p csql pc
      | None \<Rightarrow>
          abind (run_entry env p name entry (pe_max_rows parsed)) (\<lambda>(rows, suspended).
          let total = pe_rows_returned entry + length rows in
          abind (amod (upd_entry p name (\<lambda>e. e\<lparr>pe_rows_returned := total\<rparr>))) (\<lambda>_.
          abind (case pe_columns entry of None \<Rightarrow> aret () | Some cs \<Rightarrow> arun (write_entry_row env p entry cs) rows) (\<lambda>_.
          if suspended then write_msg p MPortalSuspended
          else write_msg p (MCommandComplete (command_tag (pe_sql entry) total))))))))"

definition handle_close :: "int \<Rightarrow> parsed_describe \<Rightarrow> ('u world, unit) act" where
  "handle_close p parsed =
     abind (amod (upd_state p (\<lambda>s.
       if pd_kind parsed = TARGET_STATEMENT then s\<lparr>statements := dict_pop (pd_name parsed) (statements s)\<rparr>
       else s\<lparr>portals := dict_pop (pd_name parsed) (portals s)\<rparr>))) (\<lambda>_.
     write_msg p MCloseComplete)"

section \<open>Dispatch\<close>

definition byte_repr :: "byte \<Rightarrow> pystr" where
  "byte_repr b = bytes_repr [b]"

definition handle_tag :: "'u env \<Rightarrow> int \<Rightarrow> byte \<Rightarrow> bytes \<Rightarrow> ('u world, unit) act" where
  "handle_tag env p tag payload =
     (if tag = QUERY then abind (alift (parse_query payload)) (handle_simple_query env p)
      else if tag = PARSE then abind (alift (parse_parse payload)) (handle_parse env p)
      else if tag = BIND then abind (alift (parse_bind payload)) (handle_bind env p)
      else if tag = DESCRIBE then abind (alift (parse_describe payload)) (handle_describe env p)
      else if tag = EXECUTE then abind (alift (parse_execute payload)) (handle_execute env p)
      else if tag = CLOSE then abind (alift (parse_close payload)) (handle_close p)
      else if tag = SYNC \<or> tag = FLUSH then aret ()
      else araise (PgError PROTOCOL_VIOLATION (lit ''unsupported message type '' @ byte_repr tag) []))"

definition fail_transaction :: "conn \<Rightarrow> conn" where
  "fail_transaction c =
     c\<lparr>c_tx_status := (if c_tx_status c \<noteq> TxI then TxE else TxI), c_ignore_until_sync := True\<rparr>"

definition error_fields :: "pystr \<Rightarrow> pystr \<Rightarrow> (pystr \<times> pystr) list \<Rightarrow> (pystr \<times> pystr) list" where
  "error_fields code msg fs =
     dict_update [(lit ''S'', lit ''ERROR''), (lit ''V'', lit ''ERROR''), (lit ''C'', code), (lit ''M'', msg)] fs"

definition report_error :: "int \<Rightarrow> (pystr \<times> pystr) list \<Rightarrow> ('u world, unit) act" where
  "report_error p fs = abind (write_msg p (MErrorResponse fs)) (\<lambda>_. amod (upd_conn p fail_transaction))"

definition dispatch :: "'u env \<Rightarrow> int \<Rightarrow> byte \<Rightarrow> bytes \<Rightarrow> ('u world, unit) act" where
  "dispatch env p tag payload w =
     (if c_ignore_until_sync (w_conns w p) \<and> tag \<noteq> SYNC \<and> tag \<noteq> TERMINATE then (Inr (), w)
      else if tag = COPY_DATA \<or> tag = COPY_DONE \<or> tag = COPY_FAIL then (Inr (), w)
      else case handle_tag env p tag payload w of
        (Inr u, w') \<Rightarrow> (Inr (), w')
      | (Inl e, w') \<Rightarrow>
          (case e of
             ProtocolViolation code msg \<Rightarrow> (Inl e, w')
           | PgError code msg fs \<Rightarrow> report_error p (error_fields code msg fs) w'
           | ConnectionClosed \<Rightarrow> (Inl e, w')
           | CancelledError \<Rightarrow> (Inl e, w')
           | _ \<Rightarrow> report_error p (error_fields INTERNAL_ERROR (exc_text env e) []) w'))"

section \<open>The command loop\<close>

definition cancelled_fields :: "(pystr \<times> pystr) list" where
  "cancelled_fields = error_fields QUERY_CANCELED (lit ''canceling statement due to user request'') []"

text \<open>What ends the response to a Query or a Sync: the queued asynchronous messages, then ReadyForQuery.\<close>

definition end_response :: "int \<Rightarrow> ('u world, unit) act" where
  "end_response p =
     abind (amod (flush_async p)) (\<lambda>_.
     abind (\<lambda>w. write_msg p (MReadyForQuery (tx_byte (c_tx_status (w_conns w p)))) w) (\<lambda>_.
     amod (upd_conn p (\<lambda>c. c\<lparr>c_ignore_until_sync := False, c_at_ready_for_query := True\<rparr>))))"

definition ready :: "int \<Rightarrow> ('u world, unit) act" where
  "ready p = abind (flush_parameter_status p) (\<lambda>_. end_response p)"

lemma ready_renders: "\<exists>b. render (MReadyForQuery (tx_byte t)) = Inr b"
  by (cases t) (simp_all add: make_ready_for_query_def message_def pack_int32_def pack_signed_def in_signed_def)

lemma end_response_eq:
  "end_response p w =
     (Inr (), upd_conn p (\<lambda>c. c\<lparr>c_pending_async := [],
        c_out := c_out c @ c_pending_async c @ [MReadyForQuery (tx_byte (c_tx_status c))],
        c_ignore_until_sync := False, c_at_ready_for_query := True\<rparr>) w)"
proof -
  obtain b where "render (MReadyForQuery (tx_byte (c_tx_status (w_conns w p)))) = Inr b" using ready_renders by blast
  then show ?thesis by (simp add: end_response_def abind_def amod_def flush_async_def write_msg_def put_out_def upd_conn_def)
qed

definition run_command :: "'u env \<Rightarrow> int \<Rightarrow> byte \<Rightarrow> bytes \<Rightarrow> ('u world, unit) act" where
  "run_command env p tag payload w =
     (let task = (\<lambda>b. upd_conn p (\<lambda>c. c\<lparr>c_current_task := b, c_cancel_requested := False\<rparr>)) in
      case dispatch env p tag payload (task True w) of
        (Inr u, w') \<Rightarrow> (Inr (), task False w')
      | (Inl e, w') \<Rightarrow>
          if e = CancelledError then
            (case report_error p cancelled_fields w' of (r, w'') \<Rightarrow> (r, task False w''))
          else (Inl e, task False w'))"

text \<open>The rest of the body of the loop, for a message that is not Terminate.\<close>

definition command :: "'u env \<Rightarrow> int \<Rightarrow> byte \<Rightarrow> bytes \<Rightarrow> ('u world, unit) act" where
  "command env p tag payload =
     abind (run_command env p tag payload) (\<lambda>_. awhen (tag = QUERY \<or> tag = SYNC) (ready p))"

end
