(* ===== verification/Base_Session.thy ===== *)
theory Base_Session
  imports Author
begin

text \<open>
  The \<open>Session\<close> class of \<open>pg_mimic/session.py\<close> as it is before an author overrides anything: no rows
  are described, a query is not implemented, parameters and DISCARD are accepted silently, no table is declared
  and neither direction of COPY is offered. \<open>Session\<close> is the \<open>env\<close> of such a session, and an
  author's overrides are updates of its fields.
\<close>

definition NotImplementedError :: exc where "NotImplementedError = OtherError []"

definition Session_init :: "('u, unit) callback" where "Session_init u c = ([], u, Inr ())"
definition Session_close :: "('u, unit) callback" where "Session_close u c = ([], u, Inr ())"

definition Session_describe :: "pystr \<Rightarrow> int option list \<Rightarrow> ('u, columns) callback" where
  "Session_describe sql param_oids u c = ([], u, Inr None)"

definition Session_query :: "pystr \<Rightarrow> pyval list \<Rightarrow> ('u, row_source) callback" where
  "Session_query sql params u c = ([], u, Inl NotImplementedError)"

definition Session_set_parameter :: "pystr \<Rightarrow> pystr option \<Rightarrow> setting_value option \<Rightarrow> ('u, unit) callback" where
  "Session_set_parameter name raw_value parsed_value u c = ([], u, Inr ())"

definition Session_discard :: "discard_kind \<Rightarrow> ('u, unit) callback" where
  "Session_discard kind u c = ([], u, Inr ())"

definition Session_schema :: "('u, declared) callback" where
  "Session_schema u c = ([], u, Inr (DSchema []))"

definition Session_copy_in :: "pystr \<Rightarrow> ('u, copy_in_step) callback" where
  "Session_copy_in sql u c = ([], u, Inl NotImplementedError)"

definition Session_copy_out :: "pystr \<Rightarrow> ('u, row_source) callback" where
  "Session_copy_out sql u c = ([], u, Inl NotImplementedError)"

text \<open>The links that evaluate queries, and the tokenizer, are still the caller's.\<close>

definition Session ::
    "catalog \<Rightarrow> (link \<Rightarrow> 'u world \<Rightarrow> int \<Rightarrow> pystr \<Rightarrow> int option list \<Rightarrow> exc + statement option) \<Rightarrow>
     (pystr \<Rightarrow> query option) \<Rightarrow> (query \<Rightarrow> catalog_input \<Rightarrow> executed) \<Rightarrow> (query \<Rightarrow> catalog_input \<Rightarrow> result_column list option) \<Rightarrow>
     (conn \<Rightarrow> query \<Rightarrow> query) \<Rightarrow> ('u world \<Rightarrow> int \<Rightarrow> pystr \<Rightarrow> exc + row list) \<Rightarrow> (pystr \<Rightarrow> (nat \<times> nat) list option) \<Rightarrow>
     (pystr \<Rightarrow> (bool \<times> pystr) list option) \<Rightarrow> (exc \<Rightarrow> pystr) \<Rightarrow> 'u env" where
  "Session cat links parse execute cols rewrite rows semicolons arguments texts =
     \<lparr>e_catalog = cat, e_middleware = None, e_link = links, e_parse = parse, e_execute = execute, e_columns = cols,
      e_rewrite = rewrite, e_rows = rows, e_semicolons = semicolons,
      e_arguments = arguments, e_exc_text = texts, e_init = Session_init, e_close = Session_close,
      e_describe = Session_describe, e_query = Session_query, e_set_parameter = Session_set_parameter,
      e_discard = Session_discard, e_schema = Session_schema, e_has_copy_in = False, e_has_copy_out = False,
      e_copy_in_start = Session_copy_in, e_copy_in_row = (\<lambda>sql r. Session_copy_in sql),
      e_copy_in_end = (\<lambda>sql u c. ([], u, Inl NotImplementedError)), e_copy_out = Session_copy_out\<rparr>"

text \<open>
  A session over an empty catalogue of settings whose engine answers no query and whose text is one statement,
  for the witnesses.
\<close>

definition plain_session :: "unit env" where
  "plain_session =
     Session [] (\<lambda>link w p sql oids. Inr None) (\<lambda>sql. None) (\<lambda>q cat. Executed [] []) (\<lambda>q cat. None) (\<lambda>c q. q) (\<lambda>w p q. Inr []) (\<lambda>sql. None) (\<lambda>sql. None) (\<lambda>e. [])"

lemmas session_defs = Session_init_def Session_close_def Session_describe_def Session_query_def
  Session_set_parameter_def Session_discard_def Session_schema_def Session_copy_in_def Session_copy_out_def
  Session_def plain_session_def

end
