(* ===== verification/Server.thy ===== *)
theory Server
  imports Connection Base_Session
begin

text \<open>
  \<open>pg_mimic/server.py\<close> and \<open>pg_mimic/auth.py\<close>, and the life of a connection (\<open>Connection.run\<close>): startup negotiation,
  authentication, the startup messages, turns of the command loop, and teardown. Hash functions, the
  SCRAM server of \<open>scramp\<close>, random bytes and the session factory are parameters. The bytes of a client are all in its
  input from the start or appended later; a read past the end is the client hanging up.
\<close>

section \<open>Startup negotiation\<close>

datatype startup = CancelRequest int int | StartupRequest int "(pystr, pystr) dict"

type_synonym pre_stream = "bytes \<times> bmsg list"

definition pre_write :: "bmsg \<Rightarrow> (pre_stream, unit) act" where
  "pre_write m st = (case st of (inp, out) \<Rightarrow> case render m of Inl e \<Rightarrow> (Inl e, st) | Inr _ \<Rightarrow> (Inr (), inp, out @ [m]))"

definition pre_read :: "int \<Rightarrow> (pre_stream, int \<times> bytes) act" where
  "pre_read mx st = (case st of (inp, out) \<Rightarrow> case read_startup_packet mx inp of (r, rest) \<Rightarrow> (r, rest, out))"

definition unsupported_protocol :: "int \<Rightarrow> int \<Rightarrow> exc" where
  "unsupported_protocol major minor =
     ProtocolViolation FEATURE_NOT_SUPPORTED
       (lit ''unsupported frontend protocol '' @ int_str major @ lit ''.'' @ int_str minor @ lit '': server supports '' @
        int_str PROTOCOL_MAJOR @ lit ''.0 to '' @ int_str PROTOCOL_MAJOR @ lit ''.'' @ int_str PROTOCOL_MINOR)"

definition negotiate_startup :: "int \<Rightarrow> (pre_stream, startup) act" where
  "negotiate_startup mx =
     abind (pre_read mx) (\<lambda>first.
     abind (if fst first = SSL_REQUEST_CODE \<or> fst first = GSSENC_REQUEST_CODE
            then abind (pre_write MDecline) (\<lambda>_. pre_read mx) else aret first) (\<lambda>(code, payload).
     if code = CANCEL_REQUEST_CODE then
       abind (alift (parse_cancel_request payload)) (\<lambda>(pid, secret). aret (CancelRequest pid secret))
     else
       let major = code div 65536; minor = code mod 65536 in
       if major \<noteq> PROTOCOL_MAJOR then araise (unsupported_protocol major minor)
       else
         abind (alift (parse_startup_message payload)) (\<lambda>params.
         let extensions = filter (\<lambda>name. starts_with name PROTOCOL_EXTENSION_PREFIX) (map fst params);
             kept = filter (\<lambda>(name, _). \<not> starts_with name PROTOCOL_EXTENSION_PREFIX) params in
         abind (if minor > PROTOCOL_MINOR \<or> extensions \<noteq> [] then pre_write (MNegotiateProtocolVersion PROTOCOL_VERSION extensions)
                else aret ()) (\<lambda>_. aret (StartupRequest code kept)))))"

section \<open>Authentication\<close>

datatype auth_plugin = TrustAuthPlugin | ClearTextPasswordAuthPlugin | Md5PasswordAuthPlugin bytes | ScramSha256AuthPlugin

text \<open>
  \<open>scram\<close> is the SCRAM server for a password, fed the client-first message and the bare form to sign when it was
  patched: the server-first message, and for a client-final message the server-final one; \<open>None\<close> is
  a \<open>ScramException\<close>.
\<close>

record auth_env =
  ae_plugin :: "pystr \<Rightarrow> auth_plugin"
  ae_get_password :: "pystr \<Rightarrow> pystr option"
  ae_md5_hex :: "bytes \<Rightarrow> pystr"
  ae_scram :: "pystr \<Rightarrow> pystr \<Rightarrow> pystr option \<Rightarrow> (pystr \<times> (pystr \<Rightarrow> pystr option)) option"

text \<open>The default plugin, with no provider behind it.\<close>

definition trust_env :: auth_env where
  "trust_env = \<lparr>ae_plugin = (\<lambda>u. TrustAuthPlugin), ae_get_password = (\<lambda>u. None), ae_md5_hex = (\<lambda>b. []), ae_scram = (\<lambda>pw fed bare. None)\<rparr>"

definition INVALID_PASSWORD :: pystr where "INVALID_PASSWORD = lit ''28P01''"

text \<open>\<open>SimpleIdentityProvider.get_password\<close>\<close>

definition simple_get_password :: "(pystr, pystr) dict \<Rightarrow> pystr \<Rightarrow> pystr option" where
  "simple_get_password users username = dict_get users username"

definition read_password :: "int \<Rightarrow> pystr \<Rightarrow> ('u world, bytes) act" where
  "read_password p expected =
     abind (read_msg p) (\<lambda>(tag, payload).
       if tag \<noteq> PASSWORD then araise (PgError INVALID_PASSWORD expected []) else aret payload)"

definition decode_password :: "bytes \<Rightarrow> exc + pystr" where
  "decode_password payload = utf8_decode (py_rstrip_chars [0] payload)"

definition cleartext_authenticate :: "auth_env \<Rightarrow> int \<Rightarrow> pystr \<Rightarrow> ('u world, bool) act" where
  "cleartext_authenticate ae p username =
     abind (write_msg p MAuthenticationCleartextPassword) (\<lambda>_.
     abind (read_password p (lit ''expected a password response'')) (\<lambda>payload.
     abind (alift (decode_password payload)) (\<lambda>password.
     aret (case ae_get_password ae username of None \<Rightarrow> True | Some expected \<Rightarrow> password = expected))))"

definition md5_response :: "auth_env \<Rightarrow> pystr \<Rightarrow> pystr \<Rightarrow> bytes \<Rightarrow> exc + pystr" where
  "md5_response ae password username salt =
     rbind (utf8_encode (password @ username)) (\<lambda>b.
     rbind (ascii_encode (ae_md5_hex ae b)) (\<lambda>inner.
     Inr (lit ''md5'' @ ae_md5_hex ae (inner @ salt))))"

definition md5_authenticate :: "auth_env \<Rightarrow> bytes \<Rightarrow> int \<Rightarrow> pystr \<Rightarrow> ('u world, bool) act" where
  "md5_authenticate ae salt p username =
     abind (write_msg p (MAuthenticationMd5Password salt)) (\<lambda>_.
     abind (read_password p (lit ''expected a password response'')) (\<lambda>payload.
     abind (alift (decode_password payload)) (\<lambda>response.
     case ae_get_password ae username of
       None \<Rightarrow> aret True
     | Some expected_password \<Rightarrow>
         abind (alift (md5_response ae expected_password username salt)) (\<lambda>expected. aret (response = expected)))))"

definition SCRAM_USERNAME_PLACEHOLDER :: pystr where "SCRAM_USERNAME_PLACEHOLDER = lit ''pg-mimic''"

text \<open>\<open>_set_client_first\<close>: what the SCRAM server is fed, and the bare message put back.\<close>

definition set_client_first :: "pystr \<Rightarrow> pystr \<times> pystr option" where
  "set_client_first client_first =
     (let parts = split_on 44 client_first in
      if length parts < 3 \<or> parts ! 2 \<noteq> lit ''n='' then (client_first, None)
      else (py_join (lit '','') (take 2 parts @ [lit ''n='' @ SCRAM_USERNAME_PLACEHOLDER] @ drop 3 parts),
            Some (py_join (lit '','') (drop 2 parts))))"

definition MECHANISM :: pystr where "MECHANISM = lit ''SCRAM-SHA-256''"

definition scram_authenticate :: "auth_env \<Rightarrow> int \<Rightarrow> pystr \<Rightarrow> ('u world, bool) act" where
  "scram_authenticate ae p username =
     (let password = (case ae_get_password ae username of None \<Rightarrow> [] | Some pw \<Rightarrow> pw) in
      abind (write_msg p (MAuthenticationSasl [MECHANISM])) (\<lambda>_.
      abind (read_password p (lit ''expected a SASLInitialResponse'')) (\<lambda>payload.
      abind (alift (parse_sasl_initial_response payload)) (\<lambda>(_, client_first).
      abind (alift (utf8_decode client_first)) (\<lambda>text.
      case set_client_first text of (fed, bare) \<Rightarrow>
      case ae_scram ae password fed bare of
        None \<Rightarrow> aret False
      | Some (server_first, final) \<Rightarrow>
          abind (alift (utf8_encode server_first)) (\<lambda>sf.
          abind (write_msg p (MAuthenticationSaslContinue sf)) (\<lambda>_.
          abind (read_password p (lit ''expected a SASLResponse'')) (\<lambda>payload2.
          abind (alift (utf8_decode payload2)) (\<lambda>client_final.
          case final client_final of
            None \<Rightarrow> aret False
          | Some server_final \<Rightarrow>
              abind (alift (utf8_encode server_final)) (\<lambda>b.
              abind (write_msg p (MAuthenticationSaslFinal b)) (\<lambda>_. aret True)))))))))))"

definition plugin_authenticate :: "auth_env \<Rightarrow> auth_plugin \<Rightarrow> int \<Rightarrow> pystr \<Rightarrow> ('u world, bool) act" where
  "plugin_authenticate ae plugin p username =
     (case plugin of
        TrustAuthPlugin \<Rightarrow> aret True
      | ClearTextPasswordAuthPlugin \<Rightarrow> cleartext_authenticate ae p username
      | Md5PasswordAuthPlugin salt \<Rightarrow> md5_authenticate ae salt p username
      | ScramSha256AuthPlugin \<Rightarrow> scram_authenticate ae p username)"

section \<open>Starting a connection\<close>

definition authenticate :: "auth_env \<Rightarrow> int \<Rightarrow> ('u world, bool) act" where
  "authenticate ae p w =
     (let username = c_username (w_conns w p) in
      abind (plugin_authenticate ae (ae_plugin ae username) p username) (\<lambda>ok.
      if \<not> ok then
        abind (write_msg p (MFatalError INVALID_PASSWORD
          (lit ''password authentication failed for user '' @ [34] @ username @ [34]))) (\<lambda>_. aret False)
      else abind (write_msg p MAuthenticationOk) (\<lambda>_. aret True)) w)"

definition send_startup_completion :: "int \<Rightarrow> ('u world, unit) act" where
  "send_startup_completion p w =
     (let c = w_conns w p; status = w_parameter_status w in
      abind (arun (\<lambda>(name, v). write_msg p (MParameterStatus name v)) status) (\<lambda>_.
      abind (awhen (\<not> dict_has (lit ''application_name'') status)
        (write_msg p (MParameterStatus (lit ''application_name'') (dict_get_or (c_startup_params c) (lit ''application_name'') [])))) (\<lambda>_.
      abind (write_msg p (MBackendKeyData (c_pid c) (c_secret c))) (\<lambda>_.
      write_msg p (MReadyForQuery (tx_byte (c_tx_status c)))))) w)"

definition set_held :: "nat \<Rightarrow> int option \<Rightarrow> 'u world \<Rightarrow> 'u world" where
  "set_held i h w = w\<lparr>w_sessions := (w_sessions w)(i := (w_sessions w i)\<lparr>so_connection := h\<rparr>)\<rparr>"

definition shared_session_text :: "int \<Rightarrow> pystr" where
  "shared_session_text held =
     lit ''this Session is already answering for another connection (pid '' @ int_str held @ lit '') and cannot also answer for this one: a session holds per-connection state, so sharing one gives every connection the last one's identity and settings. Pass a factory that builds one session per connection -- session_factory=MySession rather than session_factory=lambda: shared.''"

definition claim_session :: "int \<Rightarrow> ('u world, bool) act" where
  "claim_session p w =
     (case so_connection (w_sessions w (c_session (w_conns w p))) of
        None \<Rightarrow> (Inr True, w)
      | Some held \<Rightarrow>
          if held = p then (Inr True, w)
          else abind (write_msg p (MFatalError INTERNAL_ERROR (shared_session_text held))) (\<lambda>_. aret False) w)"

text \<open>After the startup burst: the session is attached and told.\<close>

definition attach_session :: "'u env \<Rightarrow> int \<Rightarrow> ('u world, bool) act" where
  "attach_session env p =
     abind (amod (\<lambda>w. set_held (c_session (w_conns w p)) (Some p) w)) (\<lambda>_.
     abind (amod (upd_conn p (\<lambda>c. c\<lparr>c_at_ready_for_query := True\<rparr>))) (\<lambda>_.
     abind (call_author p (e_init env)) (\<lambda>_. aret True)))"

text \<open>The part of \<open>run\<close> before the command loop: whether the loop is entered.\<close>

definition start_connection :: "'u env \<Rightarrow> auth_env \<Rightarrow> int \<Rightarrow> ('u world, bool) act" where
  "start_connection env ae p =
     abind (claim_session p) (\<lambda>claimed.
     if \<not> claimed then aret False
     else abind (authenticate ae p) (\<lambda>ok.
       if \<not> ok then aret False
       else abind (send_startup_completion p) (\<lambda>_. attach_session env p)))"

section \<open>Ending a connection\<close>

text \<open>The \<open>finally\<close> of \<open>run\<close> and of \<open>_handle_client\<close>.\<close>

definition teardown :: "'u env \<Rightarrow> int \<Rightarrow> 'u world \<Rightarrow> 'u world" where
  "teardown env p w =
     (let w1 = drop_listeners p w; i = c_session (w_conns w1 p);
          w2 = (if so_connection (w_sessions w1 i) = Some p then set_held i None w1 else w1);
          w3 = snd (call_author p (e_close env) w2) in
      w3\<lparr>w_connections := set_discard p (w_connections w3)\<rparr>)"

text \<open>
  How \<open>run\<close> ends after an exception: a closed connection silently, a framing error with a FATAL report, any other exception
  by escaping after the teardown.
\<close>

definition end_run :: "'u env \<Rightarrow> int \<Rightarrow> exc \<Rightarrow> ('u world, unit) act" where
  "end_run env p e w =
     (case e of
        ConnectionClosed \<Rightarrow> (Inr (), teardown env p w)
      | ProtocolViolation code msg \<Rightarrow> (case write_msg p (MFatalError code msg) w of (r, w') \<Rightarrow> (r, teardown env p w'))
      | _ \<Rightarrow> (Inl e, teardown env p w))"

section \<open>Steps\<close>

text \<open>
  A startup that fails before there is a connection to report it: what was written to the stream, which is then
  dropped. Only a \<open>PgError\<close> is reported.
\<close>

definition refuse_startup :: "exc \<Rightarrow> bmsg list \<Rightarrow> exc + bmsg list" where
  "refuse_startup e out =
     (case e of
        ConnectionClosed \<Rightarrow> Inr out
      | PgError code msg fs \<Rightarrow> rbind (render (MFatalError code msg)) (\<lambda>_. Inr (out @ [MFatalError code msg]))
      | ProtocolViolation code msg \<Rightarrow> rbind (render (MFatalError code msg)) (\<lambda>_. Inr (out @ [MFatalError code msg]))
      | _ \<Rightarrow> Inl e)"

text \<open>
  A client that connects: the session the factory gave it, the secret drawn for it, its bytes. The new connection's
  pid when its command loop was entered, and what was written to a stream that no connection was made for.
\<close>

definition handle_client :: "'u env \<Rightarrow> auth_env \<Rightarrow> nat \<Rightarrow> int \<Rightarrow> bytes \<Rightarrow> ('u world, int option \<times> bmsg list) act" where
  "handle_client env ae session secret inp w =
     (case negotiate_startup (w_max_message_size w) (inp, []) of
        (Inl e, _, out) \<Rightarrow> (rbind (refuse_startup e out) (\<lambda>written. Inr (None, written)), w)
      | (Inr (CancelRequest pid secret'), _, out) \<Rightarrow> (Inr (None, out), cancel pid secret' w)
      | (Inr (StartupRequest version params), rest, out) \<Rightarrow>
          (case allocate_pid w of (pid, w1) \<Rightarrow>
            let w2 = w1\<lparr>w_conns := (w_conns w1)(pid := (World.Connection rest session pid secret params version)\<lparr>c_out := out\<rparr>),
                       w_connections := set_add pid (w_connections w1)\<rparr> in
            case start_connection env ae pid w2 of
              (Inr True, w3) \<Rightarrow> (Inr (Some pid, []), w3)
            | (Inr False, w3) \<Rightarrow> (Inr (None, []), teardown env pid w3)
            | (Inl e, w3) \<Rightarrow> (case end_run env pid e w3 of (Inl e', w4) \<Rightarrow> (Inl e', w4) | (Inr _, w4) \<Rightarrow> (Inr (None, []), w4))))"

text \<open>\<open>_client_connected_cb\<close>: nothing is served once the server is closing.\<close>

definition client_connected_cb :: "'u env \<Rightarrow> auth_env \<Rightarrow> nat \<Rightarrow> int \<Rightarrow> bytes \<Rightarrow> ('u world, int option \<times> bmsg list) act" where
  "client_connected_cb env ae session secret inp w =
     (if w_closing w then (Inr (None, []), w)
      else case handle_client env ae session secret inp w of
        (Inl e, w') \<Rightarrow> if e = CancelledError then (Inr (None, []), w') else (Inl e, w')
      | (Inr x, w') \<Rightarrow> (Inr x, w'))"

text \<open>\<open>close\<close>: every connection waits in a read, which is cancelled, so each is torn down.\<close>

definition server_close :: "'u env \<Rightarrow> 'u world \<Rightarrow> 'u world" where
  "server_close env w = fold (teardown env) (w_connections w) (w\<lparr>w_closing := True\<rparr>)"

definition dsn :: "pystr \<Rightarrow> pystr \<Rightarrow> pystr \<Rightarrow> 'u world \<Rightarrow> pystr" where
  "dsn user dbname host w =
     lit ''host='' @ host @ lit '' port='' @ nat_str (w_port w) @ lit '' user='' @ user @ lit '' dbname='' @ dbname"

text \<open>One turn of the command loop: whether the connection is still there.\<close>

definition serve_turn :: "'u env \<Rightarrow> int \<Rightarrow> ('u world, bool) act" where
  "serve_turn env p w =
     (case read_msg p w of
        (Inl e, w1) \<Rightarrow> (case end_run env p e w1 of (Inl e', w2) \<Rightarrow> (Inl e', w2) | (Inr _, w2) \<Rightarrow> (Inr False, w2))
      | (Inr (tag, payload), w1) \<Rightarrow>
          let w2 = upd_conn p (\<lambda>c. c\<lparr>c_at_ready_for_query := False\<rparr>) w1 in
          if tag = TERMINATE then (Inr False, teardown env p w2)
          else (case command env p tag payload w2 of
                  (Inr _, w3) \<Rightarrow> (Inr True, w3)
                | (Inl e, w3) \<Rightarrow> (case end_run env p e w3 of (Inl e', w4) \<Rightarrow> (Inl e', w4) | (Inr _, w4) \<Rightarrow> (Inr False, w4))))"

text \<open>
  The running server, as steps of the event loop: a client connects, bytes arrive, a connection takes its turn,
  the server is closed, and code outside any session raises a notification or a notice.
\<close>

inductive server_step :: "'u env \<Rightarrow> auth_env \<Rightarrow> 'u world \<Rightarrow> 'u world \<Rightarrow> bool" for env ae where
  step_connect: "server_step env ae w (snd (client_connected_cb env ae session secret inp w))"
| step_receive: "p \<in> set (w_connections w) \<Longrightarrow> server_step env ae w (upd_conn p (\<lambda>c. c\<lparr>c_in := c_in c @ bs\<rparr>) w)"
| step_turn: "p \<in> set (w_connections w) \<Longrightarrow> server_step env ae w (snd (serve_turn env p w))"
| step_close: "server_step env ae w (server_close env w)"
| step_notify: "server_step env ae w (snd (server_notify channel payload pid w))"
| step_notice: "p \<in> set (w_connections w) \<Longrightarrow> server_step env ae w (snd (notice False p msg severity fs w))"

inductive reachable :: "'u env \<Rightarrow> auth_env \<Rightarrow> 'u world \<Rightarrow> 'u world \<Rightarrow> bool" for env ae w0 where
  reach_start: "reachable env ae w0 w0"
| reach_step: "reachable env ae w0 w \<Longrightarrow> server_step env ae w w' \<Longrightarrow> reachable env ae w0 w'"

text \<open>A server before its first client; \<open>authors\<close> are the sessions the factory will hand out.\<close>

definition DEFAULT_PARAMETER_STATUS :: "(pystr, pystr) dict" where
  "DEFAULT_PARAMETER_STATUS =
     [(lit ''server_encoding'', lit ''UTF8''), (lit ''client_encoding'', lit ''UTF8''), (lit ''DateStyle'', lit ''ISO, MDY''),
      (lit ''IntervalStyle'', lit ''postgres''), (lit ''integer_datetimes'', lit ''on''),
      (lit ''standard_conforming_strings'', lit ''on''), (lit ''TimeZone'', lit ''UTC'')]"

definition PgServer :: "(nat \<Rightarrow> 'u) \<Rightarrow> pystr \<Rightarrow> nat \<Rightarrow> int \<Rightarrow> 'u world" where
  "PgServer authors server_version port max_message_size =
     \<lparr>w_conns = (\<lambda>p. World.Connection [] 0 p 0 [] PROTOCOL_VERSION),
      w_sessions = (\<lambda>i. \<lparr>so_connection = None, so_author = authors i\<rparr>),
      w_connections = [], w_listeners = [],
      w_parameter_status = dict_update DEFAULT_PARAMETER_STATUS [(lit ''server_version'', server_version)],
      w_port = port, w_closing = False, w_next_pid = 10000, w_max_message_size = max_message_size\<rparr>"

end
