(* ===== verification/Guarantees.thy ===== *)
theory Guarantees
  imports Server
begin

text \<open>
  What every handler of a connection guarantees, proved once. A relation \<open>R\<close> between the world before and after is
  guaranteed by an action if the action moves along \<open>R\<close> whatever it returns; \<open>world_preorder\<close> composes actions. The locale \<open>author_guarantee\<close> asks that \<open>R\<close> is
  a preorder that contains the few primitive moves of a session's code: private changes of its own connection,
  notices inside its own command, asynchronous deliveries to any connection and changes of the author's state;
  \<open>deliver_guarantee\<close>, which it includes, is what the author's methods alone need.
  \<open>command_guarantee\<close> extends it by replies (anything but ReadyForQuery and NotificationResponse) and
  \<open>sync_listeners\<close>: every effect, every handler and \<open>dispatch\<close> then guarantees \<open>R\<close>. \<open>turn_guarantee\<close> extends it to a
  whole turn of the command loop and the start of a connection. The theories that use them interpret them for their relations.
\<close>

section \<open>Messages\<close>

fun is_ready :: "bmsg \<Rightarrow> bool" where
  "is_ready (MReadyForQuery s) = True"
| "is_ready _ = False"

fun is_notification :: "bmsg \<Rightarrow> bool" where
  "is_notification (MNotificationResponse q c d) = True"
| "is_notification _ = False"

fun is_notice :: "bmsg \<Rightarrow> bool" where
  "is_notice (MNoticeResponse fs) = True"
| "is_notice _ = False"

abbreviation is_async :: "bmsg \<Rightarrow> bool" where
  "is_async m \<equiv> is_notification m \<or> is_notice m"

abbreviation is_reply :: "bmsg \<Rightarrow> bool" where
  "is_reply m \<equiv> \<not> is_ready m \<and> \<not> is_notification m"

section \<open>Private changes\<close>

text \<open>The part of a connection that others see: its stream, its registrations and its identity.\<close>

definition public_part :: "conn \<Rightarrow> _" where
  "public_part c = (c_out c, c_pending_async c, c_registered_channels c, c_at_ready_for_query c, c_pid c, c_secret c, c_session c, c_current_task c)"

definition own_change :: "(conn \<Rightarrow> conn) \<Rightarrow> bool" where
  "own_change f \<longleftrightarrow> (\<forall>c. public_part (f c) = public_part c)"

lemma upd_state_private: "upd_state p f = upd_conn p (\<lambda>c. c\<lparr>c_state := f (c_state c)\<rparr>)"
  by (simp add: upd_state_def)

lemma abind_post:
  assumes "\<And>w. I w \<Longrightarrow> I (snd (a w))" and "\<And>x w. I w \<Longrightarrow> Q (b x w)" and "\<And>e w. I w \<Longrightarrow> Q (Inl e, w)" and "I w"
  shows "Q (abind a b w)"
  using assms(1)[OF assms(4)] assms(2,3) by (cases "a w"; cases "fst (a w)") (auto simp: abind_def)

lemma snd_resume [simp]: "snd (case x of (Inl e, w) \<Rightarrow> (Inl e, w) | (Inr u, w) \<Rightarrow> (Inr b, w)) = snd x"
  by (auto split: prod.split sum.split)

section \<open>The guarantee\<close>

locale world_preorder =
  fixes R :: "'u world \<Rightarrow> 'u world \<Rightarrow> bool"
  assumes R_refl: "R w w"
    and R_trans: "R a b \<Longrightarrow> R b c \<Longrightarrow> R a c"
begin

definition guar :: "('u world, 'a) act \<Rightarrow> bool" where
  "guar a \<longleftrightarrow> (\<forall>w. R w (snd (a w)))"

lemma guarI: "(\<And>w. R w (snd (a w))) \<Longrightarrow> guar a"
  by (simp add: guar_def)

lemma guarD: "guar a \<Longrightarrow> R w (snd (a w))"
  by (simp add: guar_def)

lemma guarD2: "guar a \<Longrightarrow> a w = (r, w') \<Longrightarrow> R w w'"
  by (metis guarD snd_conv)

lemma guar_ret: "guar (aret x)" "guar (araise e)" "guar (alift r)" "guar (aread g)"
  by (simp_all add: guar_def act_defs aread_def R_refl)

lemma guar_mod: "(\<And>w. R w (f w)) \<Longrightarrow> guar (amod f)"
  by (simp add: guar_def amod_def)

lemma guar_bind: "guar a \<Longrightarrow> (\<And>x. guar (b x)) \<Longrightarrow> guar (abind a b)"
proof (rule guarI)
  fix w
  assume a: "guar a" and b: "\<And>x. guar (b x)"
  show "R w (snd (abind a b w))"
  proof (cases "a w")
    case (Pair r w1)
    then show ?thesis
      using guarD2[OF a Pair] guarD[OF b] R_trans by (cases r) (auto simp: abind_def)
  qed
qed

lemma guar_run: "(\<And>x. guar (f x)) \<Longrightarrow> guar (arun f xs)"
proof (rule guarI)
  fix w
  assume f: "\<And>x. guar (f x)"
  show "R w (snd (arun f xs w))"
  proof (induction xs arbitrary: w)
    case (Cons x xs)
    show ?case
    proof (cases "f x w")
      case (Pair r w1)
      then show ?thesis using guarD2[OF f Pair] Cons R_trans by (cases r) auto
    qed
  qed (simp add: R_refl)
qed

lemma guar_when: "guar a \<Longrightarrow> guar (awhen b a)"
  by (simp add: awhen_def guar_ret)

lemma guar_if: "guar a \<Longrightarrow> guar b \<Longrightarrow> guar (if c then a else b)"
  by simp

lemma guar_option: "guar a \<Longrightarrow> (\<And>x. guar (b x)) \<Longrightarrow> guar (case v of None \<Rightarrow> a | Some x \<Rightarrow> b x)"
  by (cases v) simp_all

lemma guar_prod: "(\<And>x y. guar (b x y)) \<Longrightarrow> guar (case v of (x, y) \<Rightarrow> b x y)"
  by (cases v) simp

lemma guar_let: "guar (b v) \<Longrightarrow> guar (let x = v in b x)"
  by simp

lemma guar_on_exception: "guar (a :: ('u world, 'a) act) \<Longrightarrow> guar h \<Longrightarrow> guar (on_exception a h)"
proof (rule guarI)
  fix w
  assume a: "guar a" and h: "guar h"
  show "R w (snd (on_exception a h w))"
  proof (cases "a w")
    case (Pair r w1)
    have "R w (snd (abind h (\<lambda>_. araise e :: ('u world, 'a) act) w1))" for e
      using R_trans[OF guarD2[OF a Pair] guarD[OF guar_bind[OF h guar_ret(2)]]] .
    then show ?thesis using guarD2[OF a Pair] Pair by (cases r) (simp_all add: on_exception_def)
  qed
qed

lemmas guar_rules = guar_ret guar_bind guar_run guar_when guar_if guar_option guar_prod guar_let guar_on_exception

lemma R_fold: "(\<And>x w. R w (f x w)) \<Longrightarrow> R w (fold f xs w)"
  by (induction xs arbitrary: w) (auto intro: R_refl R_trans)

end

locale deliver_guarantee = world_preorder R for p :: int and R :: "'u world \<Rightarrow> 'u world \<Rightarrow> bool" +
  assumes D_own_notice: "c_current_task (w_conns w p) \<Longrightarrow> is_notice m \<Longrightarrow> R w (put_out p m w)"
    and D_deliver: "is_async m \<Longrightarrow> R w (deliver_async q m w)"
    and D_queue: "R w (upd_state p (\<lambda>s. if x \<in> set (pending_notifies s) then s else s\<lparr>pending_notifies := pending_notifies s @ [x]\<rparr>) w)"
    and D_author: "R w (upd_author p u w)"
begin

lemma guar_notice: "guar (notice own p msg severity fs)"
proof (rule guarI)
  fix w
  define m where "m = MNoticeResponse (dict_update [(lit ''S'', severity), (lit ''V'', severity), (lit ''C'', SUCCESSFUL_COMPLETION), (lit ''M'', msg)] fs)"
  have "is_notice m" by (simp add: m_def)
  then show "R w (snd (notice own p msg severity fs w))"
    unfolding notice_def Let_def m_def[symmetric]
    by (cases "render m") (simp_all add: R_refl D_own_notice D_deliver in_own_command_def)
qed

lemma R_notify: "R w (snd (notify q channel payload pid w))"
proof -
  define m where "m = MNotificationResponse (case pid of None \<Rightarrow> c_pid (w_conns w q) | Some q \<Rightarrow> q) channel payload"
  have "is_async m" by (simp add: m_def)
  then show ?thesis
    unfolding notify_def Let_def m_def[symmetric] by (cases "render m") (simp_all add: R_refl D_deliver)
qed

lemma R_notify_each: "R w (snd (notify_each channel payload pid qs n w))"
proof (induction qs arbitrary: n w)
  case (Cons q qs)
  obtain r w1 where n: "notify q channel payload (Some pid) w = (r, w1)" by fastforce
  have "R w w1" using R_notify[of w q channel payload "Some pid"] n by simp
  then have "R w (snd (notify_each channel payload pid qs k w1))" for k using R_trans Cons.IH by blast
  then show ?case by (cases r) (simp_all add: n)
qed (simp add: R_refl)

lemma R_server_notify: "R w (snd (server_notify channel payload pid w))"
  by (simp add: server_notify_def R_notify_each)

lemma R_notify_listeners: "R w (notify_listeners p channel payload w)"
  by (simp add: notify_listeners_def R_server_notify D_queue)

lemma guar_act: "guar (run_act p a)"
  by (cases a)
     (simp_all add: guar_notice guar_mod R_notify_listeners R_server_notify guarD[OF guar_notice] guarI[OF R_notify])

lemma guar_acts: "guar (run_acts p as)"
  unfolding run_acts_def by (rule guar_run) (rule guar_act)

lemma guar_author: "guar (call_author p cb)"
proof (rule guarI)
  fix w :: "'u world"
  obtain as u r where cb: "cb (so_author (w_sessions w (c_session (w_conns w p)))) (w_conns w p) = (as, u, r)"
    by (metis prod_cases3)
  have "R (upd_author p u w) (snd (abind (run_acts p as) (\<lambda>_. alift r) (upd_author p u w)))"
    by (rule guarD) (intro guar_bind guar_acts guar_ret)
  then show "R w (snd (call_author p cb w))" by (simp add: call_author_def cb Let_def R_trans[OF D_author])
qed

end

text \<open>What else a session's own command may do to its connection without others seeing it.\<close>

locale author_guarantee = world_preorder R for p :: int and R :: "'u world \<Rightarrow> 'u world \<Rightarrow> bool" +
  assumes R_private: "own_change f \<Longrightarrow> R w (upd_conn p f w)"
    and R_own_notice: "c_current_task (w_conns w p) \<Longrightarrow> is_notice m \<Longrightarrow> R w (put_out p m w)"
    and R_deliver: "is_async m \<Longrightarrow> R w (deliver_async q m w)"
    and R_author: "R w (upd_author p u w)"

sublocale author_guarantee \<subseteq> deliver_guarantee p R
proof unfold_locales
  show "R w (upd_state p (\<lambda>s. if x \<in> set (pending_notifies s) then s else s\<lparr>pending_notifies := pending_notifies s @ [x]\<rparr>) w)" for w x
    unfolding upd_state_private by (rule R_private) (simp add: own_change_def public_part_def)
qed (simp_all add: R_own_notice R_deliver R_author)

context author_guarantee
begin

subsection \<open>World\<close>

lemma R_state: "R w (upd_state p f w)"
  unfolding upd_state_private by (rule R_private) (simp add: own_change_def public_part_def)

lemma guar_state: "guar (amod (upd_state p f))"
  by (rule guar_mod) (rule R_state)

lemma guar_private: "own_change f \<Longrightarrow> guar (amod (upd_conn p f))"
  by (rule guar_mod) (rule R_private)

lemma guar_read: "guar (read_msg p)"
  by (rule guarI) (simp add: read_msg_def R_private own_change_def public_part_def split: prod.split)

lemma R_report: "R w (report_parameter p name v w)"
  unfolding report_parameter_def by (rule R_private) (simp add: own_change_def public_part_def)

lemma R_flush_notifies: "R w (flush_pending_notifies p w)"
proof -
  obtain pending s where t: "take_pending_notifies (c_state (w_conns w p)) = (pending, s)" by fastforce
  have "R (upd_state p (\<lambda>_. s) w) (fold (\<lambda>(channel, payload) w'. snd (server_notify channel payload (c_pid (w_conns w' p)) w')) pending
            (upd_state p (\<lambda>_. s) w))"
    by (rule R_fold) (auto simp: R_server_notify split: prod.split)
  then show ?thesis unfolding flush_pending_notifies_def t by (simp add: R_trans[OF R_state])
qed

subsection \<open>Settings and effects\<close>

lemma guar_report_setting: "guar (report_setting env p key)"
  unfolding report_setting_def by (intro guar_rules guar_mod R_report)

lemma guar_apply_set_config: "guar (apply_set_config env p key v local)"
  unfolding apply_set_config_def tell_session_def
  by (intro guar_rules guar_state guar_report_setting guar_author)

lemma guar_reset_all: "guar (reset_all env p)"
  by (rule guarI) (simp add: reset_all_def guarD[OF guar_run] guar_apply_set_config)

lemma guar_report_moved: "guar (report_moved env p vars)"
  by (rule guarI) (simp add: report_moved_def Let_def guarD[OF guar_run] guar_report_setting guar_ret)

lemma R_set_tx: "R w (set_tx p t w)"
  unfolding set_tx_def by (rule R_private) (simp add: own_change_def public_part_def)

end

text \<open>What also writes replies and moves registrations: the end of a transaction, LISTEN and DISCARD, and so every command.\<close>

locale command_guarantee = author_guarantee +
  assumes R_reply: "is_reply m \<Longrightarrow> R w (put_out p m w)"
    and R_sync: "R w (sync_listeners p w)"
begin

lemma guar_write: "is_reply m \<Longrightarrow> guar (write_msg p m)"
  by (rule guarI) (auto simp: write_msg_def R_refl R_reply split: sum.split)


lemma guar_end_transaction: "guar (end_transaction_stmt env p committed)"
proof (rule guarI)
  fix w
  show "R w (snd (end_transaction_stmt env p committed w))"
    unfolding end_transaction_stmt_def Let_def
    by (rule guarD) (intro guar_rules guar_state guar_report_moved guar_mod R_flush_notifies R_sync)
qed

lemma guar_transaction: "guar (transaction_effect env p tag)"
proof (rule guarI)
  fix w
  have two: "R w (upd_state p g (set_tx p t w))" for g t using R_trans[OF R_set_tx R_state] .
  have three: "R w (upd_state p h (upd_state p g (set_tx p t w)))" for g h t using R_trans[OF two R_state] .
  have last: "R w (snd (end_transaction_stmt env p b (upd_state p g (set_tx p t w))))" for b g t
    using R_trans[OF two guarD[OF guar_end_transaction]] .
  show "R w (snd (transaction_effect env p tag w))"
    unfolding transaction_effect_def Let_def by (simp add: R_set_tx two three last)
qed

lemma guar_savepoint: "guar (savepoint_effect env p kind name)"
proof (rule guarI)
  fix w
  have "guar (abind (amod (upd_state p g)) (\<lambda>_. abind (report_moved env p b) (\<lambda>_. abind (amod (sync_listeners p)) (\<lambda>_. amod (set_tx p TxT)))))"
    for g b by (intro guar_rules guar_state guar_report_moved guar_mod R_sync R_set_tx)
  from R_trans[OF R_state guarD[OF this]] R_trans[OF R_state R_state]
  show "R w (snd (savepoint_effect env p kind name w))"
    unfolding savepoint_effect_def Let_def by (cases "last_index name (savepoints (c_state (w_conns w p)))") (simp_all add: R_refl R_state)
qed

lemma guar_discard: "guar (discard_effect env p kind)"
proof (rule guarI)
  fix w
  have "guar (abind (call_author p (e_discard env kind)) (\<lambda>_. if kind \<noteq> DK_ALL then aret () else abind (reset_all env p) (\<lambda>_. abind (amod (upd_state p reset)) (\<lambda>_. amod (sync_listeners p)))))"
    by (intro guar_rules guar_author guar_reset_all guar_state guar_mod R_sync)
  from guarD[OF this] show "R w (snd (discard_effect env p kind w))"
    unfolding discard_effect_def by (simp add: R_refl)
qed

lemma guar_deallocate: "guar (deallocate_effect p every name)"
  by (rule guarI) (simp add: deallocate_effect_def R_state R_refl)

lemma guar_assignment: "guar (assignment_effect env p assignments local)"
proof (rule guarI)
  fix w
  show "R w (snd (assignment_effect env p assignments local w))"
    unfolding assignment_effect_def Let_def
    by (rule guarD) (intro guar_rules guar_notice guar_apply_set_config)
qed

lemma R_sync_if_idle: "R w (sync_if_idle p w)"
  by (simp add: sync_if_idle_def R_sync R_refl)

lemma R_listen: "R w (listen_effect p ch w)" "R w (unlisten_effect p ch' w)"
  unfolding listen_effect_def unlisten_effect_def by (rule R_trans[OF R_state R_sync_if_idle])+

lemma guar_effect: "guar (run_effect env p e)"
  by (cases e; simp only: run_effect.simps)
     (intro guar_transaction guar_savepoint guar_discard guar_deallocate guar_assignment guar_reset_all
       guar_apply_set_config guar_state guar_mod R_notify_listeners R_listen)+

lemma guar_run_all: "guar (run_all env p effs)"
  unfolding run_all_def by (rule guar_run) (rule guar_effect)

subsection \<open>Preparing and executing\<close>

lemma guar_callback_statement: "guar (callback_statement p sql oids)"
  by (rule guarI) (simp add: callback_statement_def Let_def R_private own_change_def public_part_def)

lemma guar_prepared_statements: "(\<And>s os. guar (prep s os)) \<Longrightarrow> guar (prepared_statements env prep p sql)"
  unfolding prepared_statements_def by (intro guar_rules)

lemma guar_declared_schema: "guar (declared_schema env p)"
  unfolding declared_schema_def by (intro guar_rules guar_author)

lemma guar_information_schema: "guar (information_schema env p sql)"
  unfolding information_schema_def information_schema_statement_def by (intro guar_rules guar_declared_schema)

lemma guar_pg_catalog: "guar (pg_catalog env p sql)"
  unfolding pg_catalog_def pg_catalog_statement_def by (intro guar_rules guar_declared_schema)

lemma guar_link: "(\<And>s os. guar (prep s os)) \<Longrightarrow> guar (run_link env prep p sql oids l)"
  unfolding run_link_def by (cases l) (simp_all add: guar_ret guar_prepared_statements guar_information_schema guar_pg_catalog)

lemma guar_chain: "(\<And>s os. guar (prep s os)) \<Longrightarrow> guar (resolve_chain env prep p sql oids ls)"
  by (induction ls) (auto intro!: guar_ret guar_bind guar_option guar_link)

lemma guar_prepare_fuel: "guar (prepare_fuel env p n sql oids)"
proof (induction n arbitrary: sql oids)
  case (Suc n)
  have c: "guar (abind (if ls = [] then aret None else resolve env (prepare_fuel env p n) p sql oids ls)
      (\<lambda>st. case st of Some x \<Rightarrow> aret x | None \<Rightarrow> callback_statement p sql oids))" for ls
    unfolding resolve_def by (intro guar_rules guar_chain guar_callback_statement Suc)
  show ?case by (rule guarI) (simp add: Let_def guarD[OF c] guarD[OF guar_callback_statement])
qed (simp add: guar_ret)

lemma guar_prepare: "guar (prepare env p sql oids)"
  unfolding prepare_def by (rule guar_prepare_fuel)

lemma guar_describe: "guar (statement_describe env p st)"
proof (induction st)
  case (CallbackStatement sql oids cell)
  have "guar (abind (call_author p (e_describe env sql oids)) (\<lambda>cols.
          abind (amod (upd_conn p (\<lambda>c. c\<lparr>c_described := dict_set cell cols (c_described c)\<rparr>))) (\<lambda>_. aret cols)))"
    by (intro guar_rules guar_author guar_private) (simp add: own_change_def public_part_def)
  then show ?case by (intro guarI) (simp add: guarD R_refl split: option.split)
qed (simp_all add: guar_ret)

lemma R_drain: "drain_rows p limit src w = (r, left, w') \<Longrightarrow> R w w'"
proof (induction src arbitrary: limit w r left w')
  case Nil
  then show ?case by (simp add: drain_rows_Nil R_refl)
next
  case (Cons item src)
  obtain acts x where item: "item = (acts, x)" by fastforce
  show ?case
  proof (cases "limit = Some 0")
    case True
    then show ?thesis using Cons.prems by (simp add: R_refl)
  next
    case False
    obtain r1 w1 where a: "run_acts p acts w = (r1, w1)" by fastforce
    have w1: "R w w1" by (rule guarD2[OF guar_acts a])
    obtain r2 l2 w2 where d: "drain_rows p (map_option (\<lambda>n. n - 1) limit) src w1 = (r2, l2, w2)" by (metis prod_cases3)
    have "R w w2" by (rule R_trans[OF w1 Cons.IH[OF d]])
    then show ?thesis
      using Cons.prems w1 a d unfolding item drain_rows_step[OF False]
      by (cases r1; cases x; cases r2) auto
  qed
qed

lemma guar_start_portal: "guar (start_portal env p portal)"
proof -
  have "guar (abind (run_all env p effs) (\<lambda>_. abind (aread (\<lambda>w. eval_rows env w p rows)) (\<lambda>rs. aret (map (\<lambda>r. ([], Inr r)) rs))))"
    for effs rows by (intro guar_rules guar_run_all)
  then show ?thesis by (cases "(env, p, portal)" rule: start_portal.cases) (simp_all add: guar_ret guar_author)
qed

lemma R_portal: "portal_execute env p portal n w = (r, portal', w') \<Longrightarrow> R w w'"
proof -
  assume e: "portal_execute env p portal n w = (r, portal', w')"
  obtain r1 w1 where s: "start_portal env p portal w = (r1, w1)" by fastforce
  have w1: "R w w1" by (rule guarD2[OF guar_start_portal s])
  show ?thesis
  proof (cases r1)
    case (Inl x)
    then show ?thesis using e s w1 by (simp add: portal_execute_def)
  next
    case (Inr src)
    obtain r2 left w2 where d: "drain_rows p (row_limit n) src w1 = (r2, left, w2)" by (metis prod_cases3)
    then show ?thesis using e s Inr R_trans[OF w1 R_drain[OF d]] by (simp add: portal_execute_def)
  qed
qed

lemma guar_run_portal: "guar (run_portal env p portal n)"
  by (rule guarI) (auto simp: run_portal_def intro: R_portal split: prod.split)

subsection \<open>Handlers\<close>

lemma guar_batch: "guar (read_batch p opts dec)"
  unfolding read_batch_def by (intro guar_rules guar_read)

lemma guar_hand_rows: "guar (hand_rows env p sql n rows)"
proof (induction rows arbitrary: n)
  case (Cons r rows)
  have "guar (case s of CopyMore \<Rightarrow> hand_rows env p sql (n + 1) rows | CopyStop m \<Rightarrow> aret (n + 1, Some m))" for s
    using Cons by (cases s) (simp_all add: guar_ret)
  then show ?case unfolding hand_rows.simps by (intro guar_bind guar_author)
qed (simp add: guar_ret)

lemma guar_iterate: "guar (iterate_copy fuel env p sql opts dec n)"
proof (induction fuel arbitrary: dec n)
  case (Suc fuel)
  show ?case unfolding iterate_copy.simps by (intro guar_rules guar_batch guar_hand_rows guar_author Suc)
qed (simp add: guar_ret)

lemma guar_finish: "guar (finish_copy fuel p opts dec b)"
proof (induction fuel arbitrary: dec b)
  case 0
  then show ?case by (cases b) (simp_all add: guar_ret)
next
  case (Suc fuel)
  show ?case
  proof (cases b)
    case False
    have "guar (finish_copy (Suc fuel) p opts dec False)"
      unfolding finish_copy.simps by (intro guar_rules guar_batch Suc)
    then show ?thesis using False by simp
  qed (simp add: guar_ret)
qed

lemma guar_copy_in: "guar (copy_in env p sql pc)"
proof -
  have "guar (case s of CopyStop m \<Rightarrow> aret (m, 0, CopyInDecoder opts, False)
             | CopyMore \<Rightarrow> iterate_copy fuel env p sql opts (CopyInDecoder opts) 0)" for s opts fuel
    by (cases s) (simp_all add: guar_ret guar_iterate)
  then show ?thesis unfolding copy_in_def Let_def by (intro guar_rules guar_write guar_author guar_finish) simp_all
qed

lemma guar_header_names: "guar (header_names env p pc)"
proof -
  have "guar (case pc_table pc of None \<Rightarrow> alift (table_columns [] []) | Some t \<Rightarrow> abind (call_author p (e_schema env)) (\<lambda>d. alift (rbind (schema_resolve d) (\<lambda>tables. table_columns tables t))))"
    by (intro guar_rules guar_author)
  then show ?thesis unfolding header_names_def by (auto simp: guar_ret split: option.split list.split)
qed

lemma guar_write_copy: "guar (write_copy p d)"
  unfolding write_copy_def by (intro guar_rules guar_write) simp_all

lemma guar_write_rows: "guar (write_rows p opts src n)"
proof (induction src arbitrary: n)
  case (Cons item src)
  obtain acts x where "item = (acts, x)" by fastforce
  then show ?case by (simp only: write_rows.simps) (intro guar_rules guar_acts guar_write_copy Cons)
qed (simp add: guar_ret)

lemma guar_copy_out: "guar (copy_out env p sql pc)"
proof -
  have "guar (case src of [] \<Rightarrow> aret None | (acts, r) # _ \<Rightarrow> abind (run_acts p acts) (\<lambda>_. abind (alift r) (\<lambda>v. aret (Some v))))"
    for src :: row_source by (cases src) (auto intro!: guar_rules guar_acts)
  then show ?thesis unfolding copy_out_def Let_def
    by (intro guar_rules guar_header_names guar_author guar_write guar_write_copy guar_write_rows) simp_all
qed

lemma guar_run_copy: "guar (run_copy env p sql pc)"
  unfolding run_copy_def by (intro guar_rules guar_copy_in guar_copy_out guar_write) simp_all

lemma guar_check: "guar (check_not_failed p sql)"
  by (rule guarI) (simp add: check_not_failed_def R_refl)

lemma guar_simple_statement: "guar (execute_one_simple_statement env p sql)"
  unfolding execute_one_simple_statement_def write_row_def
  by (intro guar_rules guar_check guar_write guar_prepare guar_run_copy guar_describe guar_run_portal) simp_all

lemma guar_simple_query: "guar (handle_simple_query env p sql)"
  unfolding handle_simple_query_def by (intro guar_rules guar_write guar_simple_statement) simp_all

lemma guar_parse: "guar (handle_parse env p parsed)"
  unfolding handle_parse_def by (intro guar_rules guar_prepare guar_state guar_write) simp_all

lemma guar_handle_bind: "guar (handle_bind env p parsed)"
  unfolding handle_bind_def by (intro guar_rules guar_describe guar_state guar_write) simp_all

lemma guar_description: "guar (write_description p cols codes)"
  unfolding write_description_def by (intro guar_rules guar_write) simp_all

lemma guar_handle_describe: "guar (handle_describe env p parsed)"
  unfolding handle_describe_def by (intro guar_rules guar_describe guar_description guar_write) simp_all

lemma guar_upd_entry: "guar (amod (upd_entry p name f))"
  unfolding upd_entry_def by (rule guar_state)

lemma guar_run_entry: "guar (run_entry env p name entry n)"
proof (rule guarI)
  fix w
  obtain r portal' w' where e: "portal_execute env p (pe_portal entry) n w = (r, portal', w')" by (metis prod_cases3)
  show "R w (snd (run_entry env p name entry n w))"
    using R_trans[OF R_portal[OF e]] R_state by (simp add: run_entry_def e upd_entry_def)
qed

lemma guar_execute: "guar (handle_execute env p parsed)"
  unfolding handle_execute_def Let_def write_entry_row_def
  by (intro guar_rules guar_check guar_run_copy guar_run_entry guar_upd_entry guar_write) simp_all

lemma guar_close: "guar (handle_close p parsed)"
  unfolding handle_close_def by (intro guar_rules guar_state guar_write) simp_all

lemma guar_tag: "guar (handle_tag env p tag payload)"
  unfolding handle_tag_def
  by (intro guar_rules guar_simple_query guar_parse guar_handle_bind guar_handle_describe guar_execute guar_close)

lemma guar_report_error: "guar (report_error p fs)"
  unfolding report_error_def
  by (intro guar_rules guar_write guar_private) (simp_all add: own_change_def public_part_def fail_transaction_def)

lemma guar_dispatch: "guar (dispatch env p tag payload)"
proof (rule guarI)
  fix w
  obtain r w' where h: "handle_tag env p tag payload w = (r, w')" by fastforce
  have "R w w'" by (rule guarD2[OF guar_tag h])
  moreover have "R w (snd (report_error p fs w'))" for fs by (rule R_trans[OF \<open>R w w'\<close> guarD[OF guar_report_error]])
  ultimately show "R w (snd (dispatch env p tag payload w))"
    unfolding dispatch_def h by (auto simp: R_refl split: sum.split exc.split)
qed

subsection \<open>The start of a connection\<close>

lemma guar_authenticate: "guar (authenticate ae p)"
proof (rule guarI)
  fix w
  have pw: "guar (read_password p t)" for t unfolding read_password_def by (intro guar_rules guar_read)
  have "guar (plugin_authenticate ae plugin p user)" for plugin user
    unfolding plugin_authenticate_def cleartext_authenticate_def md5_authenticate_def scram_authenticate_def Let_def
    by (cases plugin; simp) (intro guar_rules guar_write pw; simp)+
  then have "guar (abind (plugin_authenticate ae plugin p user) (\<lambda>ok.
      if \<not> ok then abind (write_msg p (MFatalError c m)) (\<lambda>_. aret False) else abind (write_msg p MAuthenticationOk) (\<lambda>_. aret True)))" for plugin user c m
    by (intro guar_rules guar_write) simp_all
  then show "R w (snd (authenticate ae p w))" unfolding authenticate_def Let_def by (rule guarD)
qed

lemma guar_claim: "guar (claim_session p)"
proof (rule guarI)
  fix w
  have "guar (abind (write_msg p (MFatalError c m)) (\<lambda>_. aret False))" for c m by (intro guar_rules guar_write) simp_all
  then show "R w (snd (claim_session p w))" unfolding claim_session_def by (auto simp: R_refl guarD split: option.split)
qed

subsection \<open>Before ReadyForQuery\<close>

lemma guar_flush_status: "guar (flush_parameter_status p)"
proof (rule guarI)
  fix w
  show "R w (snd (flush_parameter_status p w))"
    unfolding flush_parameter_status_def
    by (rule guarD) (intro guar_rules guar_write guar_private; simp add: own_change_def public_part_def)
qed

end

text \<open>
  Relations that also hold across whatever a connection does to its own stream, and so across a whole turn of the command loop.
\<close>

definition stream_change :: "(conn \<Rightarrow> conn) \<Rightarrow> bool" where
  "stream_change f \<longleftrightarrow> (\<forall>c. c_registered_channels (f c) = c_registered_channels c \<and> c_session (f c) = c_session c \<and>
     c_pid (f c) = c_pid c \<and> c_secret (f c) = c_secret c)"

locale turn_guarantee = command_guarantee +
  assumes R_stream: "stream_change f \<Longrightarrow> R w (upd_conn p f w)"
begin

lemma R_write: "R w (snd (write_msg p m w))"
  unfolding write_msg_def put_out_def by (cases "render m") (simp_all add: R_refl R_stream stream_change_def)

lemma guar_write_any: "guar (write_msg p m)"
  by (rule guarI) (rule R_write)

lemma guar_stream: "stream_change f \<Longrightarrow> guar (amod (upd_conn p f))"
  by (rule guar_mod) (rule R_stream)

lemma guar_ready: "guar (ready p)"
proof -
  have "guar (end_response p)"
    by (rule guarI) (simp add: end_response_eq R_stream stream_change_def)
  then show ?thesis unfolding ready_def by (intro guar_rules guar_flush_status)
qed

lemma guar_run_command: "guar (run_command env p tag payload)"
proof (rule guarI)
  fix w :: "'a world"
  define task :: "bool \<Rightarrow> 'a world \<Rightarrow> 'a world"
    where "task = (\<lambda>b. upd_conn p (\<lambda>c. c\<lparr>c_current_task := b, c_cancel_requested := False\<rparr>))"
  have t: "upd_conn p (\<lambda>c. c\<lparr>c_current_task := b, c_cancel_requested := False\<rparr>) = task b" for b by (simp add: task_def)
  have task: "R v (task b v)" for b v unfolding task_def by (rule R_stream) (simp add: stream_change_def)
  obtain r w1 where d: "dispatch env p tag payload (task True w) = (r, w1)" by fastforce
  have w1: "R w w1" by (rule R_trans[OF task guarD2[OF guar_dispatch d]])
  obtain r2 w2 where e: "report_error p cancelled_fields w1 = (r2, w2)" by fastforce
  have "R w w2" by (rule R_trans[OF w1 guarD2[OF guar_report_error e]])
  then show "R w (snd (run_command env p tag payload w))"
    unfolding run_command_def Let_def t using d e w1 task
    by (cases r) (auto intro: R_trans)
qed

lemma guar_command: "guar (command env p tag payload)"
  unfolding command_def by (intro guar_rules guar_run_command guar_ready)

lemma guar_startup_completion: "guar (send_startup_completion p)"
proof (rule guarI)
  fix w
  show "R w (snd (send_startup_completion p w))"
    unfolding send_startup_completion_def Let_def by (rule guarD) (intro guar_rules guar_write_any)
qed

end

end
