(* ===== verification/Registry.thy ===== *)
theory Registry
  imports Guarantees
begin

text \<open>
  LISTEN registrations. The locale \<open>channel_registry\<close> is the contract between \<open>PgServer\<close>'s registry and the
  connections that keep their own record of it; \<open>add_listener\<close> and \<open>remove_listener\<close> satisfy it. The registry and the
  connections' records agree in every reachable state of the server, and a closed connection is in no channel.
\<close>

section \<open>The contract\<close>

locale channel_registry =
  fixes subs :: "'r \<Rightarrow> 'ch \<Rightarrow> 'p set"
    and add :: "'ch \<Rightarrow> 'p \<Rightarrow> 'r \<Rightarrow> 'r"
    and remove :: "'ch \<Rightarrow> 'p \<Rightarrow> 'r \<Rightarrow> 'r"
    and clean :: "'r \<Rightarrow> bool"
  assumes subs_add: "subs (add ch p r) c = (if c = ch then insert p (subs r c) else subs r c)"
    and subs_remove: "subs (remove ch p r) c = (if c = ch then subs r c - {p} else subs r c)"
    and clean_add: "clean r \<Longrightarrow> clean (add ch p r)"
    and clean_remove: "clean r \<Longrightarrow> clean (remove ch p r)"
begin

lemma subs_add_all: "subs (fold (\<lambda>ch. add ch p) chs r) c = (if c \<in> set chs then insert p (subs r c) else subs r c)"
  by (induction chs arbitrary: r) (auto simp: subs_add)

lemma subs_remove_all: "subs (fold (\<lambda>ch. remove ch p) chs r) c = (if c \<in> set chs then subs r c - {p} else subs r c)"
  by (induction chs arbitrary: r) (auto simp: subs_remove)

lemma clean_add_all: "clean r \<Longrightarrow> clean (fold (\<lambda>ch. add ch p) chs r)"
  by (induction chs arbitrary: r) (auto simp: clean_add)

lemma clean_remove_all: "clean r \<Longrightarrow> clean (fold (\<lambda>ch. remove ch p) chs r)"
  by (induction chs arbitrary: r) (auto simp: clean_remove)

text \<open>Moving from one set of channels to another, by the differences alone.\<close>

definition resubscribe :: "'p \<Rightarrow> 'ch list \<Rightarrow> 'ch list \<Rightarrow> 'r \<Rightarrow> 'r" where
  "resubscribe p old new r =
     fold (\<lambda>ch. add ch p) (set_diff new old) (fold (\<lambda>ch. remove ch p) (set_diff old new) r)"

lemma resubscribe_self:
  assumes "\<And>c. p \<in> subs r c \<longleftrightarrow> c \<in> set old"
  shows "p \<in> subs (resubscribe p old new r) c \<longleftrightarrow> c \<in> set new"
  using assms[of c] by (auto simp: resubscribe_def subs_add_all subs_remove_all)

lemma resubscribe_other: "q \<noteq> p \<Longrightarrow> q \<in> subs (resubscribe p old new r) c \<longleftrightarrow> q \<in> subs r c"
  by (auto simp: resubscribe_def subs_add_all subs_remove_all)

lemma resubscribe_clean: "clean r \<Longrightarrow> clean (resubscribe p old new r)"
  by (simp add: resubscribe_def clean_add_all clean_remove_all)

end

section \<open>The server's registry\<close>

text \<open>No channel is kept without a listener, and none is kept twice.\<close>

definition registry_clean :: "registry \<Rightarrow> bool" where
  "registry_clean reg \<longleftrightarrow> distinct (map fst reg) \<and> (\<forall>(ch, ps) \<in> set reg. ps \<noteq> [] \<and> distinct ps)"

definition registry_subs :: "registry \<Rightarrow> pystr \<Rightarrow> int set" where
  "registry_subs reg ch = set (listeners reg ch)"

lemma distinct_dict_set: "distinct (map fst d) \<Longrightarrow> distinct (map fst (dict_set k v d))"
  by (rule distinct_update)

lemma distinct_dict_pop: "distinct (map fst d) \<Longrightarrow> distinct (map fst (dict_pop k d))"
  by (simp add: dict_pop_def distinct_map_filter)

lemma listeners_distinct: "registry_clean reg \<Longrightarrow> distinct (listeners reg ch)"
  by (auto simp: listeners_def dict_get_or_def registry_clean_def split: option.split dest: map_of_SomeD)

lemma registry_add_clean: "registry_clean reg \<Longrightarrow> registry_clean (add_listener ch p reg)"
proof -
  assume c: "registry_clean reg"
  have "set_add p (listeners reg ch) \<noteq> []" by (auto simp: set_add_def)
  then show ?thesis
    using c listeners_distinct[OF c, of ch] dict_set_subset[of ch "set_add p (listeners reg ch)" reg]
    by (auto simp: registry_clean_def add_listener_def distinct_dict_set)
qed

lemma registry_remove_clean: "registry_clean reg \<Longrightarrow> registry_clean (remove_listener ch p reg)"
proof -
  assume c: "registry_clean reg"
  show ?thesis
  proof (cases "dict_get reg ch")
    case (Some qs)
    have "distinct qs" using c map_of_SomeD[OF Some] by (auto simp: registry_clean_def)
    then show ?thesis
      using c Some dict_set_subset[of ch "set_discard p qs" reg]
      by (auto simp: registry_clean_def remove_listener_def Let_def distinct_dict_set distinct_dict_pop) (auto simp: dict_pop_def)
  qed (use c in \<open>simp add: remove_listener_def\<close>)
qed

interpretation server_registry: channel_registry registry_subs add_listener remove_listener registry_clean
proof unfold_locales
  fix ch p r c
  show "registry_subs (add_listener ch p r) c = (if c = ch then insert p (registry_subs r c) else registry_subs r c)"
    by (auto simp: registry_subs_def add_listener_def listeners_def dict_get_or_def split: option.splits)
  show "registry_subs (remove_listener ch p r) c = (if c = ch then registry_subs r c - {p} else registry_subs r c)"
  proof (cases "dict_get r ch")
    case None
    then show ?thesis by (simp add: registry_subs_def remove_listener_def listeners_def dict_get_or_def)
  next
    case (Some qs)
    have sd: "set (set_discard p qs) = set qs - {p}" by simp
    have "set qs \<subseteq> {p}" if "set_discard p qs = []" using sd that by auto
    then show ?thesis
      using Some sd by (auto simp: registry_subs_def remove_listener_def listeners_def dict_get_or_def Let_def split: option.splits)
  qed
qed (simp_all add: registry_add_clean registry_remove_clean)

section \<open>The invariant\<close>

text \<open>
  Every connection's record is what the registry says of it, only connections of the server have one, and pids
  are handed out in order.
\<close>

definition registry_inv :: "'u world \<Rightarrow> bool" where
  "registry_inv w \<longleftrightarrow>
     (\<forall>q ch. q \<in> registry_subs (w_listeners w) ch \<longleftrightarrow> ch \<in> set (c_registered_channels (w_conns w q))) \<and>
     registry_clean (w_listeners w) \<and>
     (\<forall>q. q \<notin> set (w_connections w) \<longrightarrow> c_registered_channels (w_conns w q) = []) \<and>
     (\<forall>q \<in> set (w_connections w). q < w_next_pid w)"

definition registry_kept :: "int \<Rightarrow> 'u world \<Rightarrow> 'u world \<Rightarrow> bool" where
  "registry_kept p w w' \<longleftrightarrow>
     (registry_inv w \<and> p \<in> set (w_connections w) \<longrightarrow> registry_inv w' \<and> p \<in> set (w_connections w'))"

text \<open>Moves that leave registrations alone.\<close>

definition registry_same :: "'u world \<Rightarrow> 'u world \<Rightarrow> bool" where
  "registry_same w w' \<longleftrightarrow>
     w_listeners w' = w_listeners w \<and> w_connections w' = w_connections w \<and> w_next_pid w' = w_next_pid w \<and>
     (\<forall>q. c_registered_channels (w_conns w' q) = c_registered_channels (w_conns w q)) \<and>
     (\<forall>q. c_session (w_conns w' q) = c_session (w_conns w q))"

lemma registry_same_inv: "registry_same w w' \<Longrightarrow> registry_inv w' \<longleftrightarrow> registry_inv w"
  by (simp add: registry_same_def registry_inv_def)

lemma registry_same_kept: "registry_same w w' \<Longrightarrow> registry_kept p w w'"
  by (simp add: registry_kept_def registry_same_inv) (simp add: registry_same_def)

lemma own_change_registered: "own_change f \<Longrightarrow> c_registered_channels (f c) = c_registered_channels c \<and> c_session (f c) = c_session c"
  by (simp add: own_change_def public_part_def)

lemma same_upd_conn:
  "(\<And>c. c_registered_channels (f c) = c_registered_channels c \<and> c_session (f c) = c_session c) \<Longrightarrow> registry_same w (upd_conn p f w)"
  by (simp add: registry_same_def upd_conn_def)

lemma upd_conn_inv:
  "(\<And>c. c_registered_channels (f c) = c_registered_channels c \<and> c_session (f c) = c_session c) \<Longrightarrow>
     registry_inv (upd_conn p f w) \<longleftrightarrow> registry_inv w"
  by (rule registry_same_inv) (rule same_upd_conn)

lemma same_deliver: "registry_same w (deliver_async q m w)"
  by (simp add: deliver_async_def put_out_def same_upd_conn)

interpretation same_push: author_guarantee p registry_same for p
proof unfold_locales
  fix w :: "'a world" and f :: "conn \<Rightarrow> conn" and m q u
  show "registry_same w w" by (simp add: registry_same_def)
  show "own_change f \<Longrightarrow> registry_same w (upd_conn p f w)" by (simp add: same_upd_conn own_change_registered)
  show "registry_same w (put_out p m w)" by (simp add: put_out_def same_upd_conn)
  show "registry_same w (deliver_async q m w)" by (rule same_deliver)
  show "registry_same w (upd_author p u w)" by (simp add: upd_author_def registry_same_def Let_def)
qed (auto simp: registry_same_def)

lemma sync_listeners_inv:
  assumes inv: "registry_inv w" and p: "p \<in> set (w_connections w)"
  shows "registry_inv (sync_listeners p w)"
proof -
  let ?old = "c_registered_channels (w_conns w p)" and ?new = "listening (c_state (w_conns w p))"
  have l: "w_listeners (sync_listeners p w) = server_registry.resubscribe p ?old ?new (w_listeners w)"
    by (simp add: sync_listeners_def Let_def upd_conn_def upd_registry_def server_registry.resubscribe_def)
  have c: "c_registered_channels (w_conns (sync_listeners p w) q) = (if q = p then ?new else c_registered_channels (w_conns w q))" for q
    by (simp add: sync_listeners_def Let_def upd_conn_def upd_registry_def)
  have o: "w_connections (sync_listeners p w) = w_connections w" "w_next_pid (sync_listeners p w) = w_next_pid w"
    by (simp_all add: sync_listeners_def Let_def upd_conn_def upd_registry_def)
  have old: "p \<in> registry_subs (w_listeners w) ch \<longleftrightarrow> ch \<in> set ?old" for ch using inv by (simp add: registry_inv_def)
  show ?thesis
    using inv p unfolding registry_inv_def l c o
    by (auto simp: server_registry.resubscribe_self[OF old] server_registry.resubscribe_other server_registry.resubscribe_clean)
qed

lemma sync_listeners_frame:
  "w_connections (sync_listeners p w) = w_connections w" "w_next_pid (sync_listeners p w) = w_next_pid w"
  by (simp_all add: sync_listeners_def Let_def upd_conn_def upd_registry_def)

lemma same_stream: "stream_change f \<Longrightarrow> registry_same w (upd_conn p f w)"
  by (simp add: same_upd_conn stream_change_def)

interpretation registry_command: turn_guarantee p "registry_kept p" for p
proof unfold_locales
  fix w :: "'a world" and f :: "conn \<Rightarrow> conn" and m q u
  show "registry_kept p w w" by (simp add: registry_kept_def)
  show "own_change f \<Longrightarrow> registry_kept p w (upd_conn p f w)" by (rule registry_same_kept[OF same_push.R_private])
  have put: "registry_kept p w (put_out p m w)" by (rule registry_same_kept) (simp add: put_out_def same_upd_conn)
  then show "is_reply m \<Longrightarrow> registry_kept p w (put_out p m w)" by simp
  show "c_current_task (w_conns w p) \<Longrightarrow> is_notice m \<Longrightarrow> registry_kept p w (put_out p m w)" using put by simp
  show "registry_kept p w (deliver_async q m w)" by (rule registry_same_kept[OF same_deliver])
  show "registry_kept p w (upd_author p u w)" by (rule registry_same_kept[OF same_push.R_author])
  show "registry_kept p w (sync_listeners p w)"
    by (simp add: registry_kept_def sync_listeners_inv sync_listeners_frame)
  show "stream_change f \<Longrightarrow> registry_kept p w (upd_conn p f w)" by (rule registry_same_kept[OF same_stream])
qed (auto simp: registry_kept_def)

section \<open>The life of a connection\<close>

lemma same_set_held: "registry_same w (set_held i h w)"
  by (simp add: set_held_def registry_same_def)

lemma start_connection_kept: "registry_kept p w (snd (start_connection env ae p w))"
proof -
  have held: "registry_command.guar p (amod (\<lambda>w. set_held (c_session (w_conns w p)) (Some p) w))"
    by (rule registry_command.guar_mod) (rule registry_same_kept[OF same_set_held])
  have "registry_command.guar p (start_connection env ae p)"
    unfolding start_connection_def attach_session_def
    by (intro registry_command.guar_rules registry_command.guar_claim registry_command.guar_authenticate
        registry_command.guar_startup_completion registry_command.guar_stream registry_command.guar_author held)
       (simp add: stream_change_def)
  then show ?thesis by (rule registry_command.guarD)
qed

lemma drop_listeners_inv:
  assumes inv: "registry_inv w"
  shows "registry_inv (drop_listeners p w) \<and> c_registered_channels (w_conns (drop_listeners p w) p) = []"
proof -
  let ?old = "c_registered_channels (w_conns w p)"
  have l: "w_listeners (drop_listeners p w) = fold (\<lambda>ch. remove_listener ch p) ?old (w_listeners w)"
    by (simp add: drop_listeners_def upd_conn_def upd_registry_def)
  have c: "c_registered_channels (w_conns (drop_listeners p w) q) = (if q = p then [] else c_registered_channels (w_conns w q))" for q
    by (simp add: drop_listeners_def upd_conn_def upd_registry_def)
  have o: "w_connections (drop_listeners p w) = w_connections w" "w_next_pid (drop_listeners p w) = w_next_pid w"
    by (simp_all add: drop_listeners_def upd_conn_def upd_registry_def)
  show ?thesis
    using inv unfolding registry_inv_def l c o server_registry.subs_remove_all
    by (auto simp: server_registry.clean_remove_all)
qed

lemma forget_inv:
  assumes "registry_inv w" "c_registered_channels (w_conns w p) = []"
  shows "registry_inv (w\<lparr>w_connections := set_discard p (w_connections w)\<rparr>)"
  using assms by (auto simp: registry_inv_def)

text \<open>A torn down connection is out of the registry and out of the server's connections; no other is added.\<close>

lemma teardown_inv:
  assumes inv: "registry_inv w"
  shows "registry_inv (teardown env p w)"
    and teardown_connections: "set (w_connections (teardown env p w)) = set (w_connections w) - {p}"
    and teardown_next_pid: "w_next_pid (teardown env p w) = w_next_pid w"
proof -
  define w1 where "w1 = drop_listeners p w"
  define w2 where "w2 = (let i = c_session (w_conns w1 p) in if so_connection (w_sessions w1 i) = Some p then set_held i None w1 else w1)"
  define w3 where "w3 = snd (call_author p (e_close env) w2)"
  have t: "teardown env p w = w3\<lparr>w_connections := set_discard p (w_connections w3)\<rparr>"
    by (simp add: teardown_def w1_def w2_def w3_def Let_def)
  have 1: "registry_inv w1" "c_registered_channels (w_conns w1 p) = []"
    using drop_listeners_inv[OF inv] by (simp_all add: w1_def)
  have "registry_same w1 w2" unfolding w2_def Let_def using same_set_held same_push.R_refl by (rule if_split[THEN iffD2, OF conjI, OF impI impI])
  then have s: "registry_same w1 w3" unfolding w3_def using same_push.R_trans same_push.guarD[OF same_push.guar_author] by blast
  have 3: "registry_inv w3" "c_registered_channels (w_conns w3 p) = []"
    using 1 registry_same_inv[OF s] s by (simp_all add: registry_same_def)
  show "registry_inv (teardown env p w)" unfolding t by (rule forget_inv[OF 3])
  have "w_connections w1 = w_connections w" "w_next_pid w1 = w_next_pid w"
    by (simp_all add: w1_def drop_listeners_def upd_conn_def upd_registry_def)
  then show "set (w_connections (teardown env p w)) = set (w_connections w) - {p}" "w_next_pid (teardown env p w) = w_next_pid w"
    using s unfolding t by (auto simp: registry_same_def)
qed

lemma end_run_inv: "registry_inv w \<Longrightarrow> registry_inv (snd (end_run env p e w))"
proof -
  assume inv: "registry_inv w"
  have "registry_inv (snd (write_msg p m w))" for m
    using inv upd_conn_inv[where f = "\<lambda>c. c\<lparr>c_out := c_out c @ [m]\<rparr>" and w = w and p = p]
    by (simp add: write_msg_def put_out_def stream_change_def split: sum.split)
  from this[THEN teardown_inv(1)] teardown_inv(1)[OF inv]
  show ?thesis by (cases e) (simp_all add: end_run_def split_beta)
qed

lemma serve_turn_inv:
  assumes inv: "registry_inv w" and p: "p \<in> set (w_connections w)"
  shows "registry_inv (snd (serve_turn env p w))"
proof -
  obtain r w1 where m: "read_msg p w = (r, w1)" by fastforce
  have 1: "registry_inv w1" "p \<in> set (w_connections w1)"
    using registry_command.guarD2[OF registry_command.guar_read m] inv p by (simp_all add: registry_kept_def)
  show ?thesis
  proof (cases r)
    case (Inl e)
    then show ?thesis using m end_run_inv[OF 1(1), of env p e] by (simp add: serve_turn_def)
  next
    case (Inr tp)
    obtain tag payload where tp: "tp = (tag, payload)" by fastforce
    define w2 where "w2 = upd_conn p (\<lambda>c. c\<lparr>c_at_ready_for_query := False\<rparr>) w1"
    have 2: "registry_inv w2" "p \<in> set (w_connections w2)"
      using registry_command.R_stream[of "\<lambda>c. c\<lparr>c_at_ready_for_query := False\<rparr>" p w1] 1
      by (simp_all add: registry_kept_def w2_def stream_change_def)
    obtain r3 w3 where c: "command env p tag payload w2 = (r3, w3)" by fastforce
    have 3: "registry_inv w3" using registry_command.guarD2[OF registry_command.guar_command c] 2 by (simp add: registry_kept_def)
    show ?thesis
      using m Inr c teardown_inv(1)[OF 2(1), of env p] end_run_inv[OF 3, of env p] 3
      by (cases r3) (simp_all add: serve_turn_def tp w2_def[symmetric] Let_def)
  qed
qed

lemma new_connection_inv:
  assumes inv: "registry_inv w" and c: "c_registered_channels c = []"
  shows "registry_inv (w\<lparr>w_next_pid := w_next_pid w + 1, w_conns := (w_conns w)(w_next_pid w := c),
           w_connections := set_add (w_next_pid w) (w_connections w)\<rparr>)"
proof -
  have "w_next_pid w \<notin> set (w_connections w)" using inv by (auto simp: registry_inv_def)
  then have "c_registered_channels (w_conns w (w_next_pid w)) = []" using inv by (simp add: registry_inv_def)
  then show ?thesis using inv c by (auto simp: registry_inv_def less_imp_le)
qed

lemma handle_client_inv:
  assumes inv: "registry_inv w"
  shows "registry_inv (snd (handle_client env ae session secret inp w))"
proof -
  obtain r rest out where n: "negotiate_startup (w_max_message_size w) (inp, []) = (r, rest, out)" by (metis prod_cases3)
  have cancel: "registry_inv (cancel pid s w)" for pid s
    using inv upd_conn_inv[where f = request_cancel and w = w and p = pid]
    by (simp add: cancel_def request_cancel_def)
  show ?thesis
  proof (cases r)
    case (Inr st)
    show ?thesis
    proof (cases st)
      case (CancelRequest pid s)
      then show ?thesis using n Inr cancel by (simp add: handle_client_def)
    next
      case (StartupRequest version params)
      let ?pid = "w_next_pid w" and ?c = "(World.Connection rest session (w_next_pid w) secret params version)\<lparr>c_out := out\<rparr>"
      define w2 where "w2 = w\<lparr>w_next_pid := ?pid + 1, w_conns := (w_conns w)(?pid := ?c), w_connections := set_add ?pid (w_connections w)\<rparr>"
      have "registry_inv w2" unfolding w2_def by (rule new_connection_inv[OF inv]) (simp add: World.Connection_def Let_def)
      moreover have "?pid \<in> set (w_connections w2)" by (simp add: w2_def)
      moreover obtain r3 w3 where s: "start_connection env ae ?pid w2 = (r3, w3)" by fastforce
      ultimately have 3: "registry_inv w3"
        using start_connection_kept[of ?pid w2 env ae] by (simp add: registry_kept_def)
      have "snd (handle_client env ae session secret inp w) = (case r3 of
          Inr b \<Rightarrow> if b then w3 else teardown env ?pid w3 | Inl e \<Rightarrow> snd (end_run env ?pid e w3))"
        using n Inr StartupRequest s
        by (auto simp: handle_client_def allocate_pid_def Let_def w2_def[symmetric] split: sum.split bool.split)
      then show ?thesis using 3 teardown_inv(1)[OF 3] end_run_inv[OF 3] by (simp split: sum.split)
    qed
  qed (use n inv in \<open>simp add: handle_client_def\<close>)
qed

lemma close_inv: "registry_inv w \<Longrightarrow> registry_inv (fold (teardown env) ps w) \<and> set (w_connections (fold (teardown env) ps w)) = set (w_connections w) - set ps"
  by (induction ps arbitrary: w) (auto simp: teardown_inv teardown_connections)

lemma server_step_inv: "server_step env ae w w' \<Longrightarrow> registry_inv w \<Longrightarrow> registry_inv w'"
proof (induction rule: server_step.induct)
  case (step_connect w session secret inp)
  then show ?case
    using handle_client_inv[of w env ae session secret inp]
    by (auto simp: client_connected_cb_def split: sum.split prod.split)
next
  case (step_receive p w bs)
  then show ?case using upd_conn_inv[where f = "\<lambda>c. c\<lparr>c_in := c_in c @ bs\<rparr>" and w = w and p = p] by simp
next
  case (step_turn p w)
  then show ?case by (rule serve_turn_inv[rotated])
next
  case (step_close w)
  then have "registry_inv (w\<lparr>w_closing := True\<rparr>)" by (simp add: registry_inv_def)
  then show ?case by (simp add: server_close_def close_inv)
next
  case (step_notify w channel payload pid)
  then show ?case using registry_same_inv[OF same_push.R_server_notify] by blast
next
  case (step_notice p w msg severity fs)
  then show ?case using registry_same_inv[OF same_push.guarD[OF same_push.guar_notice]] by blast
qed

lemma PgServer_inv: "registry_inv (PgServer authors version port mx)"
  by (simp add: registry_inv_def PgServer_def World.Connection_def registry_subs_def listeners_def dict_get_or_def registry_clean_def Let_def)

lemma reachable_inv: "reachable env ae w0 w \<Longrightarrow> registry_inv w0 \<Longrightarrow> registry_inv w"
  by (induction rule: reachable.induct) (auto intro: server_step_inv)

section \<open>Claims\<close>

text \<open>
  C4: In every reachable state of the server, whatever its sessions, clients and the code around it do, a connection is in the
  registry under exactly the channels its own record names; no channel is kept without a listener or twice; and
  a connection that has gone listens to nothing.
\<close>

theorem registry_agrees:
  assumes "reachable env ae (PgServer authors version port mx) w"
  shows "(\<forall>q ch. q \<in> set (listeners (w_listeners w) ch) \<longleftrightarrow> ch \<in> set (c_registered_channels (w_conns w q))) \<and>
    distinct (map fst (w_listeners w)) \<and>
    (\<forall>ch qs. dict_get (w_listeners w) ch = Some qs \<longrightarrow> qs \<noteq> [] \<and> distinct qs) \<and>
    (\<forall>q ch. q \<notin> set (w_connections w) \<longrightarrow> q \<notin> set (listeners (w_listeners w) ch))"
proof -
  have inv: "registry_inv w" by (rule reachable_inv[OF assms PgServer_inv])
  then have a: "q \<in> set (listeners (w_listeners w) ch) \<longleftrightarrow> ch \<in> set (c_registered_channels (w_conns w q))" for q ch
    by (simp add: registry_inv_def registry_subs_def)
  moreover have "q \<notin> set (w_connections w) \<longrightarrow> q \<notin> set (listeners (w_listeners w) ch)" for q ch
    using inv a by (simp add: registry_inv_def)
  moreover have "distinct (map fst (w_listeners w))" "dict_get (w_listeners w) ch = Some qs \<longrightarrow> qs \<noteq> [] \<and> distinct qs" for ch qs
    using inv by (auto simp: registry_inv_def registry_clean_def dest: map_of_SomeD)
  ultimately show ?thesis by blast
qed

theorem registry_agrees_witness:
  "let w = snd (client_connected_cb plain_session trust_env 0 7 [0, 0, 0, 16, 0, 3, 0, 0, 117, 115, 101, 114, 0, 117, 0, 0]
         (PgServer (\<lambda>_. ()) (lit ''16.0'') 5432 1000)) in
   reachable plain_session trust_env (PgServer (\<lambda>_. ()) (lit ''16.0'') 5432 1000) w \<and>
   (\<forall>q ch. q \<in> set (listeners (w_listeners w) ch) \<longleftrightarrow> ch \<in> set (c_registered_channels (w_conns w q)))"
proof -
  have "reachable plain_session trust_env (PgServer (\<lambda>_. ()) (lit ''16.0'') 5432 1000)
      (snd (client_connected_cb plain_session trust_env 0 7 [0, 0, 0, 16, 0, 3, 0, 0, 117, 115, 101, 114, 0, 117, 0, 0]
         (PgServer (\<lambda>_. ()) (lit ''16.0'') 5432 1000)))"
    by (rule reach_step[OF reach_start step_connect])
  then show ?thesis using registry_agrees unfolding Let_def by blast
qed

end
