(* ===== verification/Streams.thy ===== *)
theory Streams
  imports Registry
begin

text \<open>
  Where asynchronous messages may stand in a connection's stream. PostgreSQL lets a NotificationResponse out only
  while no command is being answered: in the gap after a ReadyForQuery, or right before one. The invariant of this theory
  shows that \<open>_deliver_async\<close> and \<open>_flush_async\<close> keep every stream in that form in every reachable state,
  however the connections interleave. A stream that a FATAL report has ended is exempt after the report.
\<close>

section \<open>Streams\<close>

fun is_fatal :: "bmsg \<Rightarrow> bool" where
  "is_fatal (MFatalError c m) = True"
| "is_fatal _ = False"

text \<open>Nothing but asynchronous messages up to a ReadyForQuery.\<close>

fun leads_to_ready :: "bmsg list \<Rightarrow> bool" where
  "leads_to_ready [] = False"
| "leads_to_ready (m # ms) = (is_ready m \<or> is_async m \<and> leads_to_ready ms)"

definition in_gap :: "bmsg list \<Rightarrow> bool" where
  "in_gap out \<longleftrightarrow> leads_to_ready (rev out)"

definition ended :: "bmsg list \<Rightarrow> bool" where
  "ended out \<longleftrightarrow> list_ex is_fatal out"

fun placed_from :: "bmsg list \<Rightarrow> bmsg list \<Rightarrow> bool" where
  "placed_from done [] = True"
| "placed_from done (m # ms) =
     ((is_notification m \<longrightarrow> ended done \<or> in_gap done \<or> leads_to_ready ms) \<and> placed_from (done @ [m]) ms)"

definition placed :: "bmsg list \<Rightarrow> bool" where
  "placed out = placed_from [] out"

lemma leads_to_ready_append: "leads_to_ready ms \<Longrightarrow> leads_to_ready (ms @ ns)"
  by (induction ms) auto

lemma leads_to_ready_async: "list_all is_async as \<Longrightarrow> is_ready r \<Longrightarrow> leads_to_ready (as @ [r])"
  by (induction as) auto

lemma placed_from_append: "placed_from done ms \<Longrightarrow> placed_from (done @ ms) ns \<Longrightarrow> placed_from done (ms @ ns)"
  by (induction ms arbitrary: "done") (auto simp: leads_to_ready_append)

lemma placed_append: "placed xs \<Longrightarrow> placed_from xs ys \<Longrightarrow> placed (xs @ ys)"
  by (simp add: placed_def placed_from_append)

lemma placed_flush: "list_all is_async as \<Longrightarrow> is_ready r \<Longrightarrow> placed_from done (as @ [r])"
  by (induction as arbitrary: "done") (auto simp: leads_to_ready_async elim: is_ready.elims)

lemma placed_quiet: "list_all (\<lambda>m. \<not> is_notification m) ms \<Longrightarrow> placed_from done ms"
  by (induction ms arbitrary: "done") auto

lemma in_gap_ready: "is_ready r \<Longrightarrow> in_gap (out @ [r])"
  by (simp add: in_gap_def)

lemma in_gap_async: "is_async m \<Longrightarrow> in_gap out \<Longrightarrow> in_gap (out @ [m])"
  by (simp add: in_gap_def)

lemma ended_append: "ended out \<Longrightarrow> ended (out @ ms)"
  by (simp add: ended_def)

section \<open>One connection\<close>

definition conn_ok :: "conn \<Rightarrow> bool" where
  "conn_ok c \<longleftrightarrow> placed (c_out c) \<and> list_all is_async (c_pending_async c) \<and>
     (c_at_ready_for_query c \<longrightarrow> (ended (c_out c) \<or> in_gap (c_out c)) \<and> \<not> c_current_task c)"

lemma own_change_ok: "own_change f \<Longrightarrow> conn_ok (f c) = conn_ok c"
  by (simp add: own_change_def public_part_def conn_ok_def)

lemma reply_ok: "conn_ok c \<Longrightarrow> \<not> c_at_ready_for_query c \<Longrightarrow> \<not> is_notification m \<Longrightarrow> conn_ok (c\<lparr>c_out := c_out c @ [m]\<rparr>)"
  by (auto simp: conn_ok_def intro: placed_append)

lemma fatal_ok: "conn_ok c \<Longrightarrow> conn_ok (c\<lparr>c_out := c_out c @ [MFatalError code msg]\<rparr>)"
  by (auto simp: conn_ok_def ended_def intro: placed_append)

lemma gap_ok: "conn_ok c \<Longrightarrow> c_at_ready_for_query c \<Longrightarrow> is_async m \<Longrightarrow> conn_ok (c\<lparr>c_out := c_out c @ [m]\<rparr>)"
  by (auto simp: conn_ok_def in_gap_async ended_append intro: placed_append)

lemma queue_ok: "conn_ok c \<Longrightarrow> is_async m \<Longrightarrow> conn_ok (c\<lparr>c_pending_async := c_pending_async c @ [m]\<rparr>)"
  by (simp add: conn_ok_def)

lemma flush_ok:
  "conn_ok c \<Longrightarrow> \<not> c_current_task c \<Longrightarrow> is_ready r \<Longrightarrow>
     conn_ok (c\<lparr>c_pending_async := [], c_out := c_out c @ c_pending_async c @ [r], c_ignore_until_sync := i, c_at_ready_for_query := b\<rparr>)"
  using in_gap_ready[of r "c_out c @ c_pending_async c"] by (auto simp: conn_ok_def placed_flush intro: placed_append)

section \<open>All connections\<close>

definition stream_inv :: "'u world \<Rightarrow> bool" where
  "stream_inv w \<longleftrightarrow> (\<forall>q. conn_ok (w_conns w q))"

abbreviation same_tasks :: "'u world \<Rightarrow> 'u world \<Rightarrow> bool" where
  "same_tasks w w' \<equiv> \<forall>q. c_current_task (w_conns w' q) = c_current_task (w_conns w q)"

text \<open>Between commands, and while a command is being answered.\<close>

definition calm_kept :: "int \<Rightarrow> 'u world \<Rightarrow> 'u world \<Rightarrow> bool" where
  "calm_kept p w w' \<longleftrightarrow> same_tasks w w' \<and> (stream_inv w \<and> \<not> c_current_task (w_conns w p) \<longrightarrow> stream_inv w')"

definition busy_kept :: "int \<Rightarrow> 'u world \<Rightarrow> 'u world \<Rightarrow> bool" where
  "busy_kept p w w' \<longleftrightarrow> same_tasks w w' \<and>
     (stream_inv w \<and> \<not> c_at_ready_for_query (w_conns w p) \<longrightarrow> stream_inv w' \<and> \<not> c_at_ready_for_query (w_conns w' p))"

lemma stream_inv_upd: "stream_inv w \<Longrightarrow> conn_ok (f (w_conns w p)) \<Longrightarrow> stream_inv (upd_conn p f w)"
  by (simp add: stream_inv_def upd_conn_def)

lemma stream_inv_deliver: "stream_inv w \<Longrightarrow> is_async m \<Longrightarrow> stream_inv (deliver_async q m w)"
proof -
  assume inv: "stream_inv w" and m: "is_async m"
  have "conn_ok (w_conns w q)" using inv by (simp add: stream_inv_def)
  then show ?thesis
    unfolding deliver_async_def put_out_def by (auto intro!: stream_inv_upd[OF inv] gap_ok[OF _ _ m] queue_ok[OF _ m])
qed

lemma deliver_flags:
  "c_current_task (w_conns (deliver_async q m w) q') = c_current_task (w_conns w q')"
  "c_at_ready_for_query (w_conns (deliver_async q m w) q') = c_at_ready_for_query (w_conns w q')"
  by (simp_all add: deliver_async_def put_out_def upd_conn_def)

lemma own_change_inv: "own_change f \<Longrightarrow> stream_inv (upd_conn p f w) = stream_inv w"
  by (auto simp: stream_inv_def upd_conn_def own_change_ok)

lemma own_change_flags:
  "own_change f \<Longrightarrow> c_current_task (w_conns (upd_conn p f w) q) = c_current_task (w_conns w q)"
  "own_change f \<Longrightarrow> c_at_ready_for_query (w_conns (upd_conn p f w) q) = c_at_ready_for_query (w_conns w q)"
  by (simp_all add: own_change_def public_part_def upd_conn_def)

lemma upd_author_conns [simp]: "w_conns (upd_author p u w) = w_conns w"
  by (simp add: upd_author_def Let_def)

interpretation calm: author_guarantee p "calm_kept p" for p
proof unfold_locales
  fix w :: "'a world" and f :: "conn \<Rightarrow> conn" and m q u
  show "own_change f \<Longrightarrow> calm_kept p w (upd_conn p f w)" by (simp add: calm_kept_def own_change_inv own_change_flags)
  show "c_current_task (w_conns w p) \<Longrightarrow> is_notice m \<Longrightarrow> calm_kept p w (put_out p m w)"
    by (simp add: calm_kept_def put_out_def upd_conn_def)
  show "is_async m \<Longrightarrow> calm_kept p w (deliver_async q m w)" by (simp add: calm_kept_def stream_inv_deliver deliver_flags)
  show "calm_kept p w (upd_author p u w)" by (simp add: calm_kept_def stream_inv_def)
qed (auto simp: calm_kept_def)

lemma busy_reply: "\<not> is_notification m \<Longrightarrow> busy_kept p w (put_out p m w)"
  using reply_ok[of "w_conns w p" m] stream_inv_upd[of w "\<lambda>c. c\<lparr>c_out := c_out c @ [m]\<rparr>" p]
  by (simp add: busy_kept_def put_out_def upd_conn_def stream_inv_def)

interpretation busy: command_guarantee p "busy_kept p" for p
proof unfold_locales
  fix w :: "'a world" and f :: "conn \<Rightarrow> conn" and m q u
  show "own_change f \<Longrightarrow> busy_kept p w (upd_conn p f w)" by (simp add: busy_kept_def own_change_inv own_change_flags)
  show "c_current_task (w_conns w p) \<Longrightarrow> is_notice m \<Longrightarrow> busy_kept p w (put_out p m w)"
    by (rule busy_reply) (cases m; simp)
  show "is_reply m \<Longrightarrow> busy_kept p w (put_out p m w)" by (simp add: busy_reply)
  show "is_async m \<Longrightarrow> busy_kept p w (deliver_async q m w)" by (simp add: busy_kept_def stream_inv_deliver deliver_flags)
  show "busy_kept p w (upd_author p u w)" by (simp add: busy_kept_def stream_inv_def)
  show "busy_kept p w (sync_listeners p w)"
    by (simp add: busy_kept_def stream_inv_def sync_listeners_def Let_def upd_conn_def upd_registry_def conn_ok_def)
qed (auto simp: busy_kept_def)

section \<open>A command\<close>

text \<open>What holds of the world while \<open>p\<close> answers: \<open>tasks\<close> are the commands that run.\<close>

abbreviation answering :: "int \<Rightarrow> (int \<Rightarrow> bool) \<Rightarrow> 'u world \<Rightarrow> bool" where
  "answering p tasks w \<equiv> stream_inv w \<and> \<not> c_at_ready_for_query (w_conns w p) \<and> (\<forall>q. c_current_task (w_conns w q) = tasks q)"

definition settled :: "'u world \<Rightarrow> bool" where
  "settled w \<longleftrightarrow> stream_inv w \<and> (\<forall>q. \<not> c_current_task (w_conns w q))"

lemma busy_answering: "busy.guar p a \<Longrightarrow> answering p tasks w \<Longrightarrow> answering p tasks (snd (a w))"
  using busy.guarD[of p a w] by (simp add: busy_kept_def)

lemma calm_settled: "calm.guar p a \<Longrightarrow> settled w \<Longrightarrow> settled (snd (a w))"
  using calm.guarD[of p a w] by (simp add: calm_kept_def settled_def)

lemma ready_settled:
  assumes "answering p (\<lambda>_. False) w"
  shows "settled (snd (ready p w))"
  unfolding ready_def
proof (rule abind_post[where I = "answering p (\<lambda>_. False)" and Q = "\<lambda>x. settled (snd x)"])
  show "answering p (\<lambda>_. False) (snd (flush_parameter_status p w))" if "answering p (\<lambda>_. False) w" for w :: "'a world"
    using busy_answering[OF busy.guar_flush_status that] .
  show "settled (snd (end_response p w))" if "answering p (\<lambda>_. False) w" for w :: "'a world"
  proof -
    have "conn_ok (w_conns w p)" using that by (simp add: stream_inv_def)
    then show ?thesis
      using that flush_ok[of "w_conns w p" "MReadyForQuery (tx_byte (c_tx_status (w_conns w p)))"]
      by (auto simp: settled_def end_response_eq upd_conn_def stream_inv_def)
  qed
qed (use assms in \<open>auto simp: settled_def\<close>)

lemma task_answering:
  "answering p tasks w \<Longrightarrow> answering p (tasks(p := b)) (upd_conn p (\<lambda>c. c\<lparr>c_current_task := b, c_cancel_requested := i\<rparr>) w)"
  by (auto simp: stream_inv_def upd_conn_def conn_ok_def)

lemma run_command_answering:
  assumes "answering p (\<lambda>_. False) w"
  shows "answering p (\<lambda>_. False) (snd (run_command env p tag payload w))"
proof -
  define task :: "bool \<Rightarrow> 'a world \<Rightarrow> 'a world"
    where "task = (\<lambda>b. upd_conn p (\<lambda>c. c\<lparr>c_current_task := b, c_cancel_requested := False\<rparr>))"
  have t: "upd_conn p (\<lambda>c. c\<lparr>c_current_task := b, c_cancel_requested := False\<rparr>) = task b" for b by (simp add: task_def)
  have on: "answering p (tasks(p := b)) (task b v)" if "answering p tasks v" for b tasks v
    unfolding task_def by (rule task_answering[OF that])
  have stop: "answering p (\<lambda>_. False) (task False v)" if "answering p ((\<lambda>_. False)(p := True)) v" for v
    using on[OF that, of False] by (simp add: fun_upd_def)
  obtain r w1 where d: "dispatch env p tag payload (task True w) = (r, w1)" by fastforce
  have 1: "answering p ((\<lambda>_. False)(p := True)) w1"
    using busy_answering[OF busy.guar_dispatch on[OF assms, of True]] d by (metis snd_conv)
  obtain r2 w2 where e: "report_error p cancelled_fields w1 = (r2, w2)" by fastforce
  have 2: "answering p ((\<lambda>_. False)(p := True)) w2"
    using busy_answering[OF busy.guar_report_error 1] e by (metis snd_conv)
  show ?thesis
    unfolding run_command_def Let_def t using d e stop[OF 1] stop[OF 2] by (cases r) simp_all
qed

lemma command_settled:
  assumes "answering p (\<lambda>_. False) w"
  shows "settled (snd (command env p tag payload w))"
  unfolding command_def
proof (rule abind_post[where I = "answering p (\<lambda>_. False)" and Q = "\<lambda>x. settled (snd x)"])
  show "settled (snd (awhen (tag = QUERY \<or> tag = SYNC) (ready p) w))" if "answering p (\<lambda>_. False) w" for w :: "'a world"
    using that ready_settled[OF that] by (simp add: awhen_def aret_def settled_def)
  show "answering p (\<lambda>_. False) (snd (run_command env p tag payload w))" if "answering p (\<lambda>_. False) w" for w :: "'a world"
    by (rule run_command_answering[OF that])
qed (use assms in \<open>auto simp: settled_def\<close>)

section \<open>The life of a connection\<close>

lemma settled_conns: "(\<And>q. conn_ok (w_conns w' q) = conn_ok (w_conns w q) \<and> c_current_task (w_conns w' q) = c_current_task (w_conns w q)) \<Longrightarrow>
    settled w' = settled w"
  by (simp add: settled_def stream_inv_def)

lemma answering_settled: "answering p (\<lambda>_. False) w \<Longrightarrow> settled w"
  by (simp add: settled_def)

text \<open>The startup burst ends with the first ReadyForQuery.\<close>

lemma startup_completion_gap:
  assumes "answering p (\<lambda>_. False) w"
  shows "case send_startup_completion p w of (r, w') \<Rightarrow>
           answering p (\<lambda>_. False) w' \<and> (r = Inr () \<longrightarrow> in_gap (c_out (w_conns w' p)))"
proof -
  let ?I = "answering p (\<lambda>_. False)" and ?Q = "\<lambda>(r, w'). answering p (\<lambda>_. False) w' \<and> (r = Inr () \<longrightarrow> in_gap (c_out (w_conns w' p)))"
  have step: "?Q (abind a (\<lambda>_. b) v)" if "busy.guar p a" "\<And>v. ?I v \<Longrightarrow> ?Q (b v)" "?I v"
    for a b :: "('a world, unit) act" and v
    by (rule abind_post[where I = ?I and Q = ?Q, OF busy_answering[OF that(1)] _ _ that(3)]) (use that(2) in auto)
  have last: "?Q (write_msg p (MReadyForQuery (tx_byte t)) v)" if "?I v" for t and v :: "'a world"
    using that ready_renders[of t] busy_reply[of "MReadyForQuery (tx_byte t)" p v]
    by (auto simp: write_msg_def busy_kept_def put_out_def upd_conn_def in_gap_ready)
  have statuses: "busy.guar p (arun (\<lambda>(n, x). write_msg p (MParameterStatus n x)) kvs :: ('a world, unit) act)" for kvs
    by (intro busy.guar_rules busy.guar_write) simp_all
  have "?Q (abind (write_msg p (MBackendKeyData a b)) (\<lambda>_. write_msg p (MReadyForQuery (tx_byte t))) v)" if "?I v" for a b t and v :: "'a world"
    by (rule step[OF busy.guar_write last that]) simp_all
  note key = this
  have "?Q (abind (awhen c (write_msg p (MParameterStatus n x))) (\<lambda>_. abind (write_msg p (MBackendKeyData a b)) (\<lambda>_. write_msg p (MReadyForQuery (tx_byte t)))) v)"
    if "?I v" for c n x a b t and v :: "'a world"
    by (rule step[OF busy.guar_when[OF busy.guar_write] key that]) simp_all
  from step[OF statuses this assms] show ?thesis unfolding send_startup_completion_def Let_def .
qed

lemma attach_settled:
  assumes "answering p (\<lambda>_. False) w" and "in_gap (c_out (w_conns w p))"
  shows "settled (snd (attach_session env p w))"
proof -
  define w2 where "w2 = upd_conn p (\<lambda>c. c\<lparr>c_at_ready_for_query := True\<rparr>) (set_held (c_session (w_conns w p)) (Some p) w)"
  have "settled w2" using assms by (auto simp: w2_def settled_def stream_inv_def upd_conn_def set_held_def conn_ok_def)
  moreover have "calm.guar p (abind (call_author p (e_init env)) (\<lambda>_. aret True :: ('a world, bool) act))"
    by (intro calm.guar_rules calm.guar_author)
  ultimately have "settled (snd (abind (call_author p (e_init env)) (\<lambda>_. aret True :: ('a world, bool) act) w2))"
    by (rule calm_settled[rotated])
  then show ?thesis unfolding attach_session_def by (simp add: abind_def amod_def w2_def)
qed

lemma start_connection_settled:
  assumes "answering p (\<lambda>_. False) w"
  shows "settled (snd (start_connection env ae p w))"
proof -
  let ?I = "answering p (\<lambda>_. False)" and ?Q = "\<lambda>x. settled (snd x)"
  let ?burst = "abind (send_startup_completion p) (\<lambda>_. attach_session env p)"
  have burst: "settled (snd (?burst v))" if "?I v" for v :: "'a world"
  proof -
    obtain r v' where s: "send_startup_completion p v = (r, v')" by fastforce
    then have "?I v'" "r = Inr () \<longrightarrow> in_gap (c_out (w_conns v' p))" using startup_completion_gap[OF that] by auto
    then show ?thesis using s attach_settled[of v' p env] answering_settled[of v' p] by (cases r) (auto simp: abind_def)
  qed
  have auth: "settled (snd (abind (authenticate ae p) (\<lambda>ok. if \<not> ok then aret False else ?burst) v))" if "?I v" for v :: "'a world"
    by (rule abind_post[where I = ?I and Q = ?Q, OF busy_answering[OF busy.guar_authenticate] _ _ that])
       (auto simp: aret_def answering_settled burst)
  show ?thesis
    unfolding start_connection_def
    by (rule abind_post[where I = ?I and Q = ?Q, OF busy_answering[OF busy.guar_claim] _ _ assms])
       (auto simp: aret_def answering_settled auth)
qed

lemma teardown_settled: "settled w \<Longrightarrow> settled (teardown env p w)"
proof -
  assume s: "settled w"
  define w1 where "w1 = drop_listeners p w"
  define w2 where "w2 = (let i = c_session (w_conns w1 p) in if so_connection (w_sessions w1 i) = Some p then set_held i None w1 else w1)"
  have "settled w1" using s by (simp add: w1_def drop_listeners_def settled_def stream_inv_def upd_conn_def upd_registry_def conn_ok_def)
  then have "settled w2" by (simp add: w2_def Let_def set_held_def settled_def stream_inv_def)
  then have "settled (snd (call_author p (e_close env) w2))" by (rule calm_settled[OF calm.guar_author])
  then show ?thesis by (simp add: teardown_def w1_def[symmetric] Let_def w2_def[unfolded Let_def, symmetric] settled_def stream_inv_def)
qed

lemma fatal_settled: "settled w \<Longrightarrow> settled (snd (write_msg p (MFatalError code msg) w))"
  using fatal_ok[of "w_conns w p" code msg]
  by (auto simp: write_msg_def put_out_def settled_def stream_inv_def upd_conn_def split: sum.split)

lemma end_run_settled: "settled w \<Longrightarrow> settled (snd (end_run env p e w))"
  by (cases e) (simp_all add: end_run_def split_beta teardown_settled fatal_settled)

lemma serve_turn_settled:
  assumes s: "settled w"
  shows "settled (snd (serve_turn env p w))"
proof -
  obtain r w1 where m: "read_msg p w = (r, w1)" by fastforce
  have 1: "settled w1" using calm_settled[OF calm.guar_read s, of p] m by simp
  show ?thesis
  proof (cases r)
    case (Inl e)
    then show ?thesis using m end_run_settled[OF 1, of env p e] by (simp add: serve_turn_def)
  next
    case (Inr tp)
    obtain tag payload where tp: "tp = (tag, payload)" by fastforce
    define w2 where "w2 = upd_conn p (\<lambda>c. c\<lparr>c_at_ready_for_query := False\<rparr>) w1"
    have 2: "answering p (\<lambda>_. False) w2" using 1 by (auto simp: w2_def settled_def stream_inv_def upd_conn_def conn_ok_def)
    obtain r3 w3 where c: "command env p tag payload w2 = (r3, w3)" by fastforce
    have 3: "settled w3" using command_settled[OF 2, of env tag payload] c by simp
    show ?thesis
      using m Inr c teardown_settled[OF answering_settled[OF 2], of env p] end_run_settled[OF 3, of env p] 3
      by (cases r3) (simp_all add: serve_turn_def tp w2_def[symmetric] Let_def)
  qed
qed

section \<open>Steps\<close>

text \<open>Startup negotiation writes no notification.\<close>

definition quiet :: "(pre_stream, 'a) act \<Rightarrow> bool" where
  "quiet a \<longleftrightarrow> (\<forall>st. list_all (\<lambda>m. \<not> is_notification m) (snd st) \<longrightarrow> list_all (\<lambda>m. \<not> is_notification m) (snd (snd (a st))))"

lemma quiet_bind: "quiet a \<Longrightarrow> (\<And>x. quiet (b x)) \<Longrightarrow> quiet (abind a b)"
  by (simp add: quiet_def abind_def split: prod.split sum.split) (metis snd_conv)

lemma quiet_if: "quiet a \<Longrightarrow> quiet b \<Longrightarrow> quiet (if c then a else b)"
  by simp

lemma quiet_prod: "(\<And>x y. quiet (b x y)) \<Longrightarrow> quiet (case v of (x, y) \<Rightarrow> b x y)"
  by (cases v) simp

lemma quiet_basic: "quiet (aret x)" "quiet (araise e)" "quiet (alift r)" "quiet (pre_read mx)"
  "\<not> is_notification m \<Longrightarrow> quiet (pre_write m)"
  by (auto simp: quiet_def act_defs pre_read_def pre_write_def split: prod.split sum.split)

lemma negotiate_quiet: "quiet (negotiate_startup mx)"
  unfolding negotiate_startup_def Let_def
  by (intro quiet_bind quiet_if quiet_prod quiet_basic) simp_all

lemma cancel_settled: "settled w \<Longrightarrow> settled (cancel pid s w)"
  by (auto simp: cancel_def request_cancel_def settled_def stream_inv_def upd_conn_def conn_ok_def)

lemma handle_client_settled:
  assumes s: "settled w"
  shows "settled (snd (handle_client env ae session secret inp w))"
proof -
  obtain r rest out where n: "negotiate_startup (w_max_message_size w) (inp, []) = (r, rest, out)" by (metis prod_cases3)
  have out: "list_all (\<lambda>m. \<not> is_notification m) out"
    using negotiate_quiet[of "w_max_message_size w", unfolded quiet_def, rule_format, of "(inp, [])"] n by simp
  show ?thesis
  proof (cases r)
    case (Inr st)
    show ?thesis
    proof (cases st)
      case (CancelRequest pid s')
      then show ?thesis using n Inr cancel_settled[OF s] by (simp add: handle_client_def)
    next
      case (StartupRequest version params)
      let ?pid = "w_next_pid w" and ?c = "(World.Connection rest session (w_next_pid w) secret params version)\<lparr>c_out := out\<rparr>"
      define w2 where "w2 = w\<lparr>w_next_pid := ?pid + 1, w_conns := (w_conns w)(?pid := ?c), w_connections := set_add ?pid (w_connections w)\<rparr>"
      have "conn_ok ?c" using placed_quiet[OF out, of "[]"] by (simp add: conn_ok_def World.Connection_def Let_def placed_def)
      then have 2: "answering ?pid (\<lambda>_. False) w2"
        using s by (auto simp: w2_def settled_def stream_inv_def World.Connection_def Let_def)
      obtain r3 w3 where c: "start_connection env ae ?pid w2 = (r3, w3)" by fastforce
      have 3: "settled w3" using start_connection_settled[OF 2, of env ae] c by simp
      have "snd (handle_client env ae session secret inp w) = (case r3 of
          Inr b \<Rightarrow> if b then w3 else teardown env ?pid w3 | Inl e \<Rightarrow> snd (end_run env ?pid e w3))"
        using n Inr StartupRequest c
        by (auto simp: handle_client_def allocate_pid_def Let_def w2_def[symmetric] split: sum.split bool.split)
      then show ?thesis using 3 teardown_settled[OF 3] end_run_settled[OF 3] by (simp split: sum.split)
    qed
  qed (use n s in \<open>simp add: handle_client_def\<close>)
qed

lemma close_settled: "settled w \<Longrightarrow> settled (fold (teardown env) ps w)"
  by (induction ps arbitrary: w) (simp_all add: teardown_settled)

lemma server_step_settled: "server_step env ae w w' \<Longrightarrow> settled w \<Longrightarrow> settled w'"
proof (induction rule: server_step.induct)
  case (step_connect w session secret inp)
  then show ?case
    using handle_client_settled[of w env ae session secret inp]
    by (auto simp: client_connected_cb_def split: sum.split prod.split)
next
  case (step_receive p w bs)
  then show ?case by (auto simp: settled_def stream_inv_def upd_conn_def conn_ok_def)
next
  case (step_turn p w)
  then show ?case by (simp add: serve_turn_settled)
next
  case (step_close w)
  then have "settled (w\<lparr>w_closing := True\<rparr>)" by (simp add: settled_def stream_inv_def)
  then show ?case by (simp add: server_close_def close_settled)
next
  case (step_notify w channel payload pid)
  then show ?case using calm.R_server_notify[of 0 w channel payload pid] by (simp add: calm_kept_def settled_def)
next
  case (step_notice p w msg severity fs)
  then show ?case using calm_settled[OF calm.guar_notice] by blast
qed

lemma reachable_settled: "reachable env ae w0 w \<Longrightarrow> settled w0 \<Longrightarrow> settled w"
  by (induction rule: reachable.induct) (auto intro: server_step_settled)

lemma PgServer_settled: "settled (PgServer authors version port mx)"
  by (simp add: settled_def stream_inv_def conn_ok_def PgServer_def World.Connection_def placed_def Let_def)

section \<open>Claims\<close>

text \<open>
  C1: In every reachable state, every NotificationResponse in a connection's stream stands in the gap after a ReadyForQuery or
  in the run of asynchronous messages right before one, and so never inside the response to a command, for any
  interleaving of connections and any session code; only a stream already ended by a FATAL report is exempt.
  What still waits to be sent is asynchronous messages only.
\<close>

theorem notifications_placed:
  assumes "reachable env ae (PgServer authors version port mx) w"
  shows "placed (c_out (w_conns w p)) \<and> list_all is_async (c_pending_async (w_conns w p)) \<and>
    (c_at_ready_for_query (w_conns w p) \<and> \<not> ended (c_out (w_conns w p)) \<longrightarrow> in_gap (c_out (w_conns w p)))"
  using reachable_settled[OF assms PgServer_settled] by (auto simp: settled_def stream_inv_def conn_ok_def)

theorem notifications_placed_witness:
  "placed (c_out (w_conns (snd (server_notify (lit ''jobs'') (lit ''go'') 1 (PgServer (\<lambda>_. ()) (lit ''16.0'') 5432 1000))) 10000)) \<and>
   \<not> placed [MReadyForQuery 0x49, MParseComplete, MNotificationResponse 1 (lit ''jobs'') (lit ''go''), MBindComplete]"
proof -
  let ?w = "snd (server_notify (lit ''jobs'') (lit ''go'') 1 (PgServer (\<lambda>_. ()) (lit ''16.0'') 5432 1000))"
  have "reachable plain_session trust_env (PgServer (\<lambda>_. ()) (lit ''16.0'') 5432 1000) ?w"
    by (rule reach_step[OF reach_start step_notify])
  from notifications_placed[OF this] show ?thesis by (simp add: placed_def in_gap_def ended_def)
qed

end
