(* ===== verification/Responses.thy ===== *)
theory Responses
  imports Registry
begin

text \<open>
  What a command writes and whom it touches: every Query and Sync is answered by exactly one ReadyForQuery, at the end; an error
  is answered once and everything up to the next Sync is skipped; and the turn of one connection
  reaches another one only by asynchronous messages.
\<close>

section \<open>One ReadyForQuery\<close>

abbreviation no_ready :: "bmsg list \<Rightarrow> bool" where
  "no_ready ms \<equiv> list_all (\<lambda>m. \<not> is_ready m) ms"

text \<open>Only replies are added, if what waits to be sent is asynchronous messages.\<close>

definition adds_replies :: "int \<Rightarrow> 'u world \<Rightarrow> 'u world \<Rightarrow> bool" where
  "adds_replies p w w' \<longleftrightarrow>
     (list_all is_async (c_pending_async (w_conns w p)) \<longrightarrow>
        list_all is_async (c_pending_async (w_conns w' p)) \<and>
        (\<exists>ms. c_out (w_conns w' p) = c_out (w_conns w p) @ ms \<and> no_ready ms))"

lemma async_not_ready: "is_async m \<Longrightarrow> \<not> is_ready m"
  by (cases m) simp_all

lemma async_no_ready: "list_all is_async ms \<Longrightarrow> no_ready ms"
  by (induction ms) (auto simp: async_not_ready)

lemma adds_replies_same:
  "c_out (w_conns w' p) = c_out (w_conns w p) \<Longrightarrow> c_pending_async (w_conns w' p) = c_pending_async (w_conns w p) \<Longrightarrow> adds_replies p w w'"
  by (simp add: adds_replies_def)

lemma adds_replies_put: "\<not> is_ready m \<Longrightarrow> adds_replies p w (put_out q m w)"
  by (auto simp: adds_replies_def put_out_def upd_conn_def)

lemma adds_replies_trans: "adds_replies p a b \<Longrightarrow> adds_replies p b c \<Longrightarrow> adds_replies p a c"
  unfolding adds_replies_def by (metis append.assoc list_all_append)

interpretation replies: command_guarantee p "adds_replies p" for p
proof unfold_locales
  fix w :: "'a world" and f :: "conn \<Rightarrow> conn" and m q u
  show "adds_replies p w w" by (rule adds_replies_same) simp_all
  show "own_change f \<Longrightarrow> adds_replies p w (upd_conn p f w)"
    by (rule adds_replies_same) (simp_all add: own_change_def public_part_def upd_conn_def)
  show "is_notice m \<Longrightarrow> adds_replies p w (put_out p m w)" using async_not_ready[of m] by (simp add: adds_replies_put)
  show "is_reply m \<Longrightarrow> adds_replies p w (put_out p m w)" by (simp add: adds_replies_put)
  show "is_async m \<Longrightarrow> adds_replies p w (deliver_async q m w)"
    using async_not_ready[of m] by (auto simp: deliver_async_def adds_replies_put) (auto simp: adds_replies_def upd_conn_def)
  show "adds_replies p w (upd_author p u w)" by (rule adds_replies_same) (simp_all add: upd_author_def Let_def)
  show "adds_replies p w (sync_listeners p w)"
    by (rule adds_replies_same) (simp_all add: sync_listeners_def Let_def upd_conn_def upd_registry_def)
qed (rule adds_replies_trans)

lemma run_command_replies: "run_command env p tag payload w = (r, w') \<Longrightarrow> adds_replies p w w'"
proof -
  assume rc: "run_command env p tag payload w = (r, w')"
  define task :: "bool \<Rightarrow> 'a world \<Rightarrow> 'a world"
    where "task = (\<lambda>b. upd_conn p (\<lambda>c. c\<lparr>c_current_task := b, c_cancel_requested := False\<rparr>))"
  have t: "upd_conn p (\<lambda>c. c\<lparr>c_current_task := b, c_cancel_requested := False\<rparr>) = task b" for b by (simp add: task_def)
  have task: "adds_replies p v (task b v)" for b v by (rule adds_replies_same) (simp_all add: task_def upd_conn_def)
  obtain r1 w1 where d: "dispatch env p tag payload (task True w) = (r1, w1)" by fastforce
  have 1: "adds_replies p w w1" by (rule adds_replies_trans[OF task replies.guarD2[OF replies.guar_dispatch d]])
  obtain r2 w2 where e: "report_error p cancelled_fields w1 = (r2, w2)" by fastforce
  have 2: "adds_replies p w w2" by (rule adds_replies_trans[OF 1 replies.guarD2[OF replies.guar_report_error e]])
  show ?thesis
    using rc d e adds_replies_trans[OF 1 task] adds_replies_trans[OF 2 task] unfolding run_command_def Let_def t
    by (cases r1) (auto split: if_splits)
qed

text \<open>What ends the output of a command that returned.\<close>

definition closing_message :: "exc + unit \<Rightarrow> byte \<Rightarrow> conn \<Rightarrow> bmsg list" where
  "closing_message r tag c =
     (if r = Inr () \<and> (tag = QUERY \<or> tag = SYNC) then [MReadyForQuery (tx_byte (c_tx_status c))] else [])"

lemma ready_replies:
  assumes r: "ready p w = (r, w')" and a: "list_all is_async (c_pending_async (w_conns w p))"
  shows "\<exists>ms. no_ready ms \<and> c_out (w_conns w' p) = c_out (w_conns w p) @ ms @ closing_message r SYNC (w_conns w' p)"
proof -
  obtain r1 w1 where f: "flush_parameter_status p w = (r1, w1)" by fastforce
  have "adds_replies p w w1" by (rule replies.guarD2[OF replies.guar_flush_status f])
  then obtain ms where ms: "c_out (w_conns w1 p) = c_out (w_conns w p) @ ms" "no_ready ms"
    and a1: "list_all is_async (c_pending_async (w_conns w1 p))"
    using a by (auto simp: adds_replies_def)
  show ?thesis
  proof (cases r1)
    case (Inl e)
    then show ?thesis using r f ms by (auto simp: ready_def abind_def closing_message_def)
  next
    case (Inr u)
    then have "r = Inr ()" "c_out (w_conns w' p) = c_out (w_conns w p) @ (ms @ c_pending_async (w_conns w1 p)) @ closing_message r SYNC (w_conns w' p)"
      using r f ms by (auto simp: ready_def abind_def closing_message_def end_response_eq upd_conn_def)
    moreover have "no_ready (ms @ c_pending_async (w_conns w1 p))" using ms(2) async_no_ready[OF a1] by simp
    ultimately show ?thesis by blast
  qed
qed

text \<open>
  C2: Whatever a command does, in any session and any state: a Query or a Sync that returns has written exactly one ReadyForQuery,
  as the last message and with the transaction status the connection is then in; any other command, and one that
  ends the connection, has written none.
\<close>

theorem command_answers_once:
  assumes "command env p tag payload w = (r, w')" and "list_all is_async (c_pending_async (w_conns w p))"
  shows "\<exists>ms. no_ready ms \<and> c_out (w_conns w' p) = c_out (w_conns w p) @ ms @ closing_message r tag (w_conns w' p)"
proof -
  obtain r1 w1 where c: "run_command env p tag payload w = (r1, w1)" by fastforce
  obtain ms where ms: "c_out (w_conns w1 p) = c_out (w_conns w p) @ ms" "no_ready ms"
    and a1: "list_all is_async (c_pending_async (w_conns w1 p))"
    using run_command_replies[OF c] assms(2) by (auto simp: adds_replies_def)
  show ?thesis
  proof (cases "\<exists>u. r1 = Inr u \<and> (tag = QUERY \<or> tag = SYNC)")
    case True
    then have "ready p w1 = (r, w')" using assms(1) c by (auto simp: command_def abind_def awhen_def)
    from ready_replies[OF this a1] obtain ns where "no_ready ns"
      "c_out (w_conns w' p) = c_out (w_conns w p) @ (ms @ ns) @ closing_message r SYNC (w_conns w' p)" using ms(1) by auto
    then show ?thesis using ms(2) True by (intro exI[of _ "ms @ ns"]) (auto simp: closing_message_def)
  next
    case False
    then show ?thesis using assms(1) c ms by (cases r1) (auto simp: command_def abind_def awhen_def aret_def closing_message_def)
  qed
qed

theorem command_answers_once_witness:
  "let w = PgServer (\<lambda>_. ()) (lit ''16.0'') 5432 1000; x = command plain_session 10000 SYNC [] w in
   list_all is_async (c_pending_async (w_conns w 10000)) \<and>
   (\<exists>ms. no_ready ms \<and> c_out (w_conns (snd x) 10000) = ms @ closing_message (fst x) SYNC (w_conns (snd x) 10000))"
proof -
  let ?w = "PgServer (\<lambda>_. ()) (lit ''16.0'') 5432 1000"
  let ?x = "command plain_session 10000 SYNC [] ?w"
  have w: "c_pending_async (w_conns ?w 10000) = []" "c_out (w_conns ?w 10000) = []"
    by (simp_all add: PgServer_def World.Connection_def Let_def)
  have "command plain_session 10000 SYNC [] ?w = (fst ?x, snd ?x)" by simp
  from command_answers_once[OF this] w show ?thesis by (simp add: Let_def)
qed

section \<open>Errors and skipping\<close>

lemma skipped_command:
  assumes "c_ignore_until_sync (w_conns w p)" and "tag \<noteq> SYNC" "tag \<noteq> QUERY" "tag \<noteq> TERMINATE"
  shows "command env p tag payload w = (Inr (), upd_conn p (\<lambda>c. c\<lparr>c_current_task := False, c_cancel_requested := False\<rparr>) w)"
  using assms by (simp add: command_def run_command_def dispatch_def abind_def awhen_def aret_def Let_def upd_conn_def)

lemma skipped_commands:
  assumes "c_ignore_until_sync (w_conns w p)" and "c_current_task (w_conns w p) = False" "c_cancel_requested (w_conns w p) = False"
    and "\<forall>(tag, payload) \<in> set msgs. tag \<notin> {SYNC, QUERY, TERMINATE}"
  shows "arun (\<lambda>(tag, payload). command env p tag payload) msgs w = (Inr (), w)"
  using assms(4)
proof (induction msgs)
  case (Cons m msgs)
  obtain tag payload where m: "m = (tag, payload)" by fastforce
  have "upd_conn p (\<lambda>c. c\<lparr>c_current_task := False, c_cancel_requested := False\<rparr>) w = w"
    using assms(2,3) by (simp add: upd_conn_def fun_upd_idem)
  then have "command env p tag payload w = (Inr (), w)" using skipped_command[OF assms(1), of tag env payload] Cons.prems m by auto
  then show ?case using Cons m by simp
qed simp

text \<open>
  C6: A message of the extended protocol whose handler raises a \<open>PgError\<close> is answered by exactly that ErrorResponse, fails the open transaction,
  and every message after it until the next Sync (or Query, or Terminate) is read and has no effect whatever.
\<close>

theorem failed_command_skips:
  assumes "handle_tag env p tag payload (upd_conn p (\<lambda>c. c\<lparr>c_current_task := True, c_cancel_requested := False\<rparr>) w) =
      (Inl (PgError code msg fs), w1)"
    and "\<not> c_ignore_until_sync (w_conns w p)" and "tag \<notin> {SYNC, QUERY, TERMINATE, COPY_DATA, COPY_DONE, COPY_FAIL}"
    and "render (MErrorResponse (error_fields code msg fs)) = Inr b"
    and "\<forall>(tag, payload) \<in> set msgs. tag \<notin> {SYNC, QUERY, TERMINATE}"
  shows "arun (\<lambda>(tag, payload). command env p tag payload) ((tag, payload) # msgs) w =
    (Inr (), upd_conn p (\<lambda>c. c\<lparr>c_out := c_out c @ [MErrorResponse (error_fields code msg fs)],
       c_tx_status := (if c_tx_status c = TxI then TxI else TxE), c_ignore_until_sync := True,
       c_current_task := False, c_cancel_requested := False\<rparr>) w1)" (is "_ = (_, ?w2)")
proof -
  have "command env p tag payload w = (Inr (), ?w2)"
    using assms(1-4)
    by (simp add: command_def run_command_def dispatch_def report_error_def write_msg_def abind_def amod_def awhen_def aret_def
        put_out_def fail_transaction_def upd_conn_def Let_def)
  then show ?thesis using skipped_commands[of ?w2 p msgs env] assms(5) by (simp add: upd_conn_def)
qed

theorem failed_command_skips_witness:
  "\<exists>w1 b. handle_tag plain_session 7 EXECUTE [0, 0, 0, 0, 0] (upd_conn 7 (\<lambda>c. c\<lparr>c_current_task := True, c_cancel_requested := False\<rparr>)
       (PgServer (\<lambda>_. ()) [] 5432 1000)) =
     (Inl (PgError INVALID_SQL_STATEMENT_NAME (lit ''portal \"\" does not exist'') []), w1) \<and>
   render (MErrorResponse (error_fields INVALID_SQL_STATEMENT_NAME (lit ''portal \"\" does not exist'') [])) = Inr b \<and>
   fst (arun (\<lambda>(tag, payload). command plain_session 7 tag payload) [(EXECUTE, [0, 0, 0, 0, 0]), (BIND, []), (PARSE, [])]
     (PgServer (\<lambda>_. ()) [] 5432 1000)) = Inr ()"
proof -
  let ?w = "PgServer (\<lambda>_. ()) [] 5432 1000"
  let ?w1 = "upd_conn 7 (\<lambda>c. c\<lparr>c_current_task := True, c_cancel_requested := False\<rparr>) ?w"
  have tags: "(EXECUTE :: byte) \<noteq> QUERY" "EXECUTE \<noteq> PARSE" "EXECUTE \<noteq> BIND" "EXECUTE \<noteq> DESCRIBE"
    "EXECUTE \<notin> {SYNC, QUERY, TERMINATE, COPY_DATA, COPY_DONE, COPY_FAIL}" "BIND \<notin> {SYNC, QUERY, TERMINATE}" "PARSE \<notin> {SYNC, QUERY, TERMINATE}"
    by code_simp+
  have parse: "parse_execute [0, 0, 0, 0, 0] = Inr \<lparr>pe_portal_name = [], pe_max_rows = 0\<rparr>" by code_simp
  have p: "dict_get (portals (c_state (w_conns ?w1 7))) [] = None" "\<not> c_ignore_until_sync (w_conns ?w 7)"
    by (simp_all add: PgServer_def World.Connection_def SessionState_def upd_conn_def Let_def)
  have msg: "lit ''portal '' @ [34, 34] @ lit '' does not exist'' = lit ''portal \"\" does not exist''" by code_simp
  have h: "handle_tag plain_session 7 EXECUTE [0, 0, 0, 0, 0] ?w1 =
      (Inl (PgError INVALID_SQL_STATEMENT_NAME (lit ''portal \"\" does not exist'') []), ?w1)"
    using tags p msg by (simp add: handle_tag_def parse abind_def alift_def handle_execute_def aread_def get_portal_def)
  have "\<exists>b. render (MErrorResponse (error_fields INVALID_SQL_STATEMENT_NAME (lit ''portal \"\" does not exist'') [])) = Inr b"
    by (simp add: error_fields_def dict_update_def make_error_response_def fields_message_def ascii_encode_def utf8_encode_def
        INVALID_SQL_STATEMENT_NAME_def lit_def encodable_def utf8_char_def message_def pack_int32_def pack_signed_def in_signed_def)
  then obtain b where b: "render (MErrorResponse (error_fields INVALID_SQL_STATEMENT_NAME (lit ''portal \"\" does not exist'') [])) = Inr b" ..
  show ?thesis
    using h b failed_command_skips[OF h p(2) tags(5) b, of "[(BIND, []), (PARSE, [])]"] tags(6,7) by auto
qed

section \<open>Other connections\<close>

text \<open>What may happen to a connection by the doing of others: asynchronous messages, sent at once in the gap and queued otherwise.\<close>

definition received :: "bmsg list \<Rightarrow> conn \<Rightarrow> conn" where
  "received ms c =
     (if c_at_ready_for_query c then c\<lparr>c_out := c_out c @ ms\<rparr> else c\<lparr>c_pending_async := c_pending_async c @ ms\<rparr>)"

definition only_receives :: "int \<Rightarrow> 'u world \<Rightarrow> 'u world \<Rightarrow> bool" where
  "only_receives p w w' \<longleftrightarrow> (\<forall>q. q \<noteq> p \<longrightarrow> (\<exists>ms. list_all is_async ms \<and> w_conns w' q = received ms (w_conns w q)))"

lemma received_Nil [simp]: "received [] c = c"
  by (simp add: received_def)

lemma received_received [simp]: "received ns (received ms c) = received (ms @ ns) c"
  by (simp add: received_def)

lemma only_receives_own: "(\<And>q. q \<noteq> p \<Longrightarrow> w_conns w' q = w_conns w q) \<Longrightarrow> only_receives p w w'"
  unfolding only_receives_def by (metis list.pred_inject(1) received_Nil)

lemma only_receives_trans: "only_receives p a b \<Longrightarrow> only_receives p b c \<Longrightarrow> only_receives p a c"
  unfolding only_receives_def by (metis list_all_append received_received)

lemma only_receives_deliver: "is_async m \<Longrightarrow> only_receives p w (deliver_async q m w)"
proof -
  assume m: "is_async m"
  have "w_conns (deliver_async q m w) q' = received (if q' = q then [m] else []) (w_conns w q')" for q'
    by (simp add: deliver_async_def put_out_def upd_conn_def received_def)
  moreover have "list_all is_async (if q' = q then [m] else [])" for q' using m by simp
  ultimately show ?thesis unfolding only_receives_def by blast
qed

interpretation others: turn_guarantee p "only_receives p" for p
proof unfold_locales
  fix w :: "'a world" and f :: "conn \<Rightarrow> conn" and m q u
  show "only_receives p w (upd_conn p f w)" "only_receives p w (upd_conn p f w)" by (simp_all add: only_receives_own upd_conn_def)
  show "only_receives p w (put_out p m w)" "only_receives p w (put_out p m w)" by (simp_all add: only_receives_own put_out_def upd_conn_def)
  show "is_async m \<Longrightarrow> only_receives p w (deliver_async q m w)" by (rule only_receives_deliver)
  show "only_receives p w (sync_listeners p w)"
    by (simp add: only_receives_own sync_listeners_def Let_def upd_conn_def upd_registry_def)
qed (auto simp: only_receives_own upd_author_def Let_def intro: only_receives_trans)

lemma teardown_others: "only_receives p w (teardown env p w)"
proof -
  define w1 where "w1 = drop_listeners p w"
  define w2 where "w2 = (let i = c_session (w_conns w1 p) in if so_connection (w_sessions w1 i) = Some p then set_held i None w1 else w1)"
  have "only_receives p w w2"
    by (rule only_receives_own) (simp add: w1_def w2_def drop_listeners_def upd_conn_def upd_registry_def set_held_def Let_def)
  from only_receives_trans[OF this others.guarD[OF others.guar_author]]
  have "only_receives p w (snd (call_author p (e_close env) w2))" .
  then show ?thesis
    by (simp add: teardown_def w1_def[symmetric] Let_def w2_def[unfolded Let_def, symmetric] only_receives_def)
qed

lemma end_run_others: "only_receives p w (snd (end_run env p e w))"
  using teardown_others only_receives_trans[OF others.R_write teardown_others]
  by (cases e) (simp_all add: end_run_def split_beta)

text \<open>
  C3: A turn of one connection, whatever message it reads, whatever its session does and however it ends, changes nothing of any other connection:
  not its prepared statements, settings or transaction status, not its registrations, not its input. The others
  only receive asynchronous messages: at once while they wait for a command, queued otherwise.
\<close>

theorem turn_isolates:
  assumes "q \<noteq> p"
  shows "\<exists>ms. list_all is_async ms \<and> w_conns (snd (serve_turn env p w)) q = received ms (w_conns w q)"
proof -
  obtain r w1 where m: "read_msg p w = (r, w1)" by fastforce
  have 1: "only_receives p w w1" by (rule others.guarD2[OF others.guar_read m])
  have "only_receives p w (snd (serve_turn env p w))"
  proof (cases r)
    case (Inl e)
    then show ?thesis using m only_receives_trans[OF 1 end_run_others] by (simp add: serve_turn_def)
  next
    case (Inr tp)
    obtain tag payload where tp: "tp = (tag, payload)" by fastforce
    define w2 where "w2 = upd_conn p (\<lambda>c. c\<lparr>c_at_ready_for_query := False\<rparr>) w1"
    have 2: "only_receives p w w2" unfolding w2_def by (rule only_receives_trans[OF 1 only_receives_own]) (simp add: upd_conn_def)
    obtain r3 w3 where c: "command env p tag payload w2 = (r3, w3)" by fastforce
    have 3: "only_receives p w w3" by (rule only_receives_trans[OF 2 others.guarD2[OF others.guar_command c]])
    show ?thesis
      using m Inr c 3 only_receives_trans[OF 2 teardown_others] only_receives_trans[OF 3 end_run_others]
      by (cases r3) (simp_all add: serve_turn_def tp w2_def[symmetric] Let_def)
  qed
  then show ?thesis using assms by (simp add: only_receives_def)
qed

theorem turn_isolates_witness:
  "(10001 :: int) \<noteq> 10000 \<and> (\<exists>ms. list_all is_async ms \<and>
     w_conns (snd (serve_turn plain_session 10000 (PgServer (\<lambda>_. ()) [] 5432 1000))) 10001 =
       received ms (w_conns (PgServer (\<lambda>_. ()) [] 5432 1000) 10001))"
  using turn_isolates[of 10001 10000 plain_session "PgServer (\<lambda>_. ()) [] 5432 1000"] by simp

end
