(* ===== verification/Notifications.thy ===== *)
theory Notifications
  imports Responses
begin

text \<open>
  LISTEN and NOTIFY from end to end: what \<open>PgServer.notify\<close> delivers to whom, what a COMMIT delivers of the
  transaction's NOTIFYs, and that a ROLLBACK delivers nothing.
\<close>

section \<open>Delivering\<close>

text \<open>A notification that cannot be encoded is dropped by the fanout.\<close>

definition sendable :: "bmsg \<Rightarrow> bool" where
  "sendable m \<longleftrightarrow> (case render m of Inr _ \<Rightarrow> True | Inl _ \<Rightarrow> False)"

definition sent :: "bmsg \<Rightarrow> bmsg list" where
  "sent m = (if sendable m then [m] else [])"

lemma deliver_received: "deliver_async q m w = upd_conn q (received [m]) w"
  by (simp add: deliver_async_def put_out_def upd_conn_def received_def)

lemma upd_received_Nil: "upd_conn q (received []) w = w"
  by (simp add: upd_conn_def fun_upd_idem)

lemma notify_received:
  "notify q channel payload (Some pid) w =
     (if sendable (MNotificationResponse pid channel payload) then Inr () else Inl (projl (render (MNotificationResponse pid channel payload))),
      upd_conn q (received (sent (MNotificationResponse pid channel payload))) w)"
  by (simp add: notify_def Let_def sendable_def sent_def deliver_received upd_received_Nil del: render.simps split: sum.split)

text \<open>The fanout over distinct connections.\<close>

lemma notify_each_received:
  assumes "distinct qs"
  shows "w_conns (snd (notify_each channel payload pid qs n w)) q =
      (if q \<in> set qs then received (sent (MNotificationResponse pid channel payload)) (w_conns w q) else w_conns w q)"
    and "fst (notify_each channel payload pid qs n w) = n + (if sendable (MNotificationResponse pid channel payload) then length qs else 0)"
    and "w_listeners (snd (notify_each channel payload pid qs n w)) = w_listeners w"
  using assms by (induction qs arbitrary: n w) (auto simp: notify_received upd_conn_def)

text \<open>
  \<open>PgServer.notify\<close> delivers the notification to every connection that listens to the channel, once, and to no other; the
  count it returns is the number of listeners it reached.
\<close>

theorem server_notify_reaches:
  assumes "registry_clean (w_listeners w)"
  shows "w_conns (snd (server_notify channel payload pid w)) q =
      (if q \<in> set (listeners (w_listeners w) channel) then received (sent (MNotificationResponse pid channel payload)) (w_conns w q)
       else w_conns w q) \<and>
    fst (server_notify channel payload pid w) =
      (if sendable (MNotificationResponse pid channel payload) then length (listeners (w_listeners w) channel) else 0)"
  by (simp add: server_notify_def notify_each_received[OF listeners_distinct[OF assms]])

theorem server_notify_reaches_witness:
  "registry_clean [(lit ''jobs'', [1 :: int, 2])] \<and>
   fst (server_notify (lit ''jobs'') [] 1 ((PgServer (\<lambda>_. ()) [] 5432 1000)\<lparr>w_listeners := [(lit ''jobs'', [1, 2])]\<rparr>)) = 2"
proof -
  have c: "registry_clean [(lit ''jobs'', [1 :: int, 2])]" by (simp add: registry_clean_def)
  have s: "sendable (MNotificationResponse 1 (lit ''jobs'') [])"
    by (simp add: sendable_def make_notification_response_def pack_int32_def pack_signed_def in_signed_def cstring_def
        utf8_encode_def lit_def encodable_def utf8_char_def message_def)
  show ?thesis
    using server_notify_reaches[of "(PgServer (\<lambda>_. ()) [] 5432 1000)\<lparr>w_listeners := [(lit ''jobs'', [1, 2])]\<rparr>" "lit ''jobs''" "[]" 1] c s
    by (simp add: listeners_def dict_get_or_def)
qed

section \<open>Committing\<close>

text \<open>What a connection is owed of the NOTIFYs of another's transaction.\<close>

definition notifications_for :: "registry \<Rightarrow> int \<Rightarrow> int \<Rightarrow> (pystr \<times> pystr) list \<Rightarrow> bmsg list" where
  "notifications_for reg pid q posted =
     concat (map (\<lambda>(channel, payload). if q \<in> set (listeners reg channel) then sent (MNotificationResponse pid channel payload) else []) posted)"

lemma received_pid [simp]: "c_pid (received ms c) = c_pid c"
  by (simp add: received_def)

lemma server_notify_received:
  assumes "registry_clean (w_listeners w)"
  shows "w_conns (snd (server_notify channel payload pid w)) q = received (notifications_for (w_listeners w) pid q [(channel, payload)]) (w_conns w q)"
    and "w_listeners (snd (server_notify channel payload pid w)) = w_listeners w"
  by (simp_all add: server_notify_def notifications_for_def notify_each_received[OF listeners_distinct[OF assms]])

lemma flush_received:
  assumes "registry_clean (w_listeners w)" and "pid = c_pid (w_conns w p)"
  shows "w_conns (fold (\<lambda>(channel, payload) w'. snd (server_notify channel payload (c_pid (w_conns w' p)) w')) posted w) q =
      received (notifications_for (w_listeners w) pid q posted) (w_conns w q)"
  using assms
proof (induction posted arbitrary: w)
  case (Cons entry posted)
  obtain channel payload where entry: "entry = (channel, payload)" by fastforce
  let ?w = "snd (server_notify channel payload pid w)"
  have "registry_clean (w_listeners ?w)" "pid = c_pid (w_conns ?w p)"
    using Cons.prems by (simp_all add: server_notify_received)
  then show ?case
    using Cons.IH[of ?w] Cons.prems entry by (simp add: server_notify_received notifications_for_def)
qed (simp add: notifications_for_def)



text \<open>COMMIT does not ask whether the transaction has failed: it commits the settings and sends the notifications.\<close>

lemma failed_transaction_commits:
  assumes "c_tx_status (w_conns w p) = TxE"
  shows "transaction_effect env p TAG_COMMIT w =
    end_transaction_stmt env p True (upd_state p (\<lambda>s. s\<lparr>savepoints := []\<rparr>) (set_tx p TxI w))"
  using assms by (simp add: transaction_effect_def Let_def)

section \<open>Rolling back\<close>

text \<open>Nothing is sent or queued on any connection.\<close>

definition silent :: "'u world \<Rightarrow> 'u world \<Rightarrow> bool" where
  "silent w w' \<longleftrightarrow> (\<forall>q. c_out (w_conns w' q) = c_out (w_conns w q) \<and> c_pending_async (w_conns w' q) = c_pending_async (w_conns w q))"

interpretation silence: world_preorder silent
  by unfold_locales (auto simp: silent_def)

lemma silent_upd_conn: "(\<And>c. c_out (f c) = c_out c \<and> c_pending_async (f c) = c_pending_async c) \<Longrightarrow> silent w (upd_conn p f w)"
  by (simp add: silent_def upd_conn_def)

lemma silent_upd_state: "silent w (upd_state p f w)"
  by (simp add: upd_state_def silent_upd_conn)

lemma silent_sync: "silent w (sync_listeners p w)"
  by (simp add: silent_def sync_listeners_def Let_def upd_conn_def upd_registry_def)

lemma silent_report_setting: "silence.guar (report_setting env p key)"
proof -
  have "silent w (report_parameter p name v w)" for name v and w :: "'a world" by (simp add: report_parameter_def silent_upd_conn)
  then show ?thesis unfolding report_setting_def by (intro silence.guar_rules silence.guar_mod)
qed

lemma silent_report_moved: "silence.guar (report_moved env p vars)"
proof (rule silence.guarI)
  show "silent w (snd (report_moved env p vars w))" for w
    unfolding report_moved_def Let_def by (rule silence.guarD) (intro silence.guar_rules silent_report_setting)
qed

lemma silent_end_transaction: "silence.guar (end_transaction_stmt env p False)"
proof (rule silence.guarI)
  show "silent w (snd (end_transaction_stmt env p False w))" for w
    unfolding end_transaction_stmt_def Let_def awhen_def if_False
    by (rule silence.guarD) (intro silence.guar_rules silence.guar_mod silent_report_moved silent_upd_state silent_sync)
qed

lemma silent_queue:
  assumes "c_tx_status (w_conns w p) \<noteq> TxI"
  shows "silent w (fold (\<lambda>(channel, payload). notify_listeners p channel payload) posted w) \<and>
    c_tx_status (w_conns (fold (\<lambda>(channel, payload). notify_listeners p channel payload) posted w) p) = c_tx_status (w_conns w p)"
  using assms
proof (induction posted arbitrary: w)
  case (Cons entry posted)
  obtain channel payload where entry: "entry = (channel, payload)" by fastforce
  let ?w = "notify_listeners p channel payload w"
  have "silent w ?w" "c_tx_status (w_conns ?w p) = c_tx_status (w_conns w p)"
    using Cons.prems by (simp_all add: notify_listeners_def silent_upd_state) (simp add: upd_state_def upd_conn_def)
  then show ?case using Cons.IH[of ?w] Cons.prems entry silence.R_trans by auto
qed (simp add: silence.R_refl)



end
