(* ===== verification/Fetch.thy ===== *)
theory Fetch
  imports Responses
begin

text \<open>
  Incremental execution of a portal (Execute with a row limit, PortalSuspended, Execute again) against its
  specification, one unlimited Execute: the same rows in the same order, the same effects on the world once
  and in the same order, and the same error when there is one, however the client cuts the fetches.
\<close>

section \<open>Draining in pieces\<close>

text \<open>The outcome of a first drain continued by a second one.\<close>

definition continue_drain ::
    "(exc + row list \<times> bool) \<times> 'l \<times> 'u world \<Rightarrow> ('l \<Rightarrow> 'u world \<Rightarrow> (exc + row list \<times> bool) \<times> 'l \<times> 'u world) \<Rightarrow>
     (exc + row list \<times> bool) \<times> 'l \<times> 'u world" where
  "continue_drain first next =
     (case first of
        (Inl e, left, w) \<Rightarrow> (Inl e, left, w)
      | (Inr (rows, s), left, w) \<Rightarrow>
          (case next left w of
             (Inl e, left', w') \<Rightarrow> (Inl e, left', w')
           | (Inr (rows', s'), left', w') \<Rightarrow> (Inr (rows @ rows', s'), left', w')))"

lemma drain_rows_split:
  "drain_rows p None src w = continue_drain (drain_rows p (Some k) src w) (drain_rows p None)"
proof (induction src arbitrary: k w)
  case Nil
  then show ?case by (simp add: drain_rows_Nil continue_drain_def)
next
  case (Cons item src)
  obtain acts x where item: "item = (acts, x)" by fastforce
  show ?case
  proof (cases k)
    case 0
    then show ?thesis by (simp add: continue_drain_def split: prod.split sum.split)
  next
    case (Suc n)
    obtain r1 w1 where a: "run_acts p acts w = (r1, w1)" by fastforce
    obtain r left w2 where d: "drain_rows p (Some n) src w1 = (r, left, w2)" by (metis prod_cases3)
    show ?thesis
      using Suc a d Cons.IH[of w1 n] unfolding item
      by (cases r1; cases x; cases r) (auto simp: continue_drain_def split: prod.splits sum.splits)
  qed
qed

section \<open>Executing in pieces\<close>

fun execute_each ::
    "'u env \<Rightarrow> int \<Rightarrow> portal \<Rightarrow> int list \<Rightarrow> 'u world \<Rightarrow> (exc + row list) \<times> portal \<times> 'u world" where
  "execute_each env p portal [] w = (Inr [], portal, w)"
| "execute_each env p portal (n # ns) w =
     (case portal_execute env p portal n w of
        (Inl e, portal', w') \<Rightarrow> (Inl e, portal', w')
      | (Inr (rows, suspended), portal', w') \<Rightarrow>
          (case execute_each env p portal' ns w' of
             (Inl e, portal'', w'') \<Rightarrow> (Inl e, portal'', w'')
           | (Inr rows', portal'', w'') \<Rightarrow> (Inr (rows @ rows'), portal'', w'')))"

definition whole_fetch :: "(exc + row list \<times> bool) \<times> portal \<times> 'u world \<Rightarrow> (exc + row list) \<times> portal \<times> 'u world" where
  "whole_fetch x = (case x of (r, portal, w) \<Rightarrow> (case r of Inl e \<Rightarrow> Inl e | Inr (rows, s) \<Rightarrow> Inr rows, portal, w))"

text \<open>A portal that has been started goes on from its row source.\<close>

lemma started_portal: "start_portal env p portal w = (Inr src, w1) \<Longrightarrow> start_portal env p (set_source portal left) v = (Inr left, v)"
  by (cases portal) (auto simp: aret_def araise_def)

lemma set_source_again [simp]: "set_source (set_source portal a) b = set_source portal b"
  by (cases portal) simp_all

lemma portal_execute_split:
  assumes "0 < n"
  shows "portal_execute env p portal 0 w = continue_drain (portal_execute env p portal n w) (\<lambda>portal'. portal_execute env p portal' 0)"
proof (cases "start_portal env p portal w")
  case (Pair r w1)
  show ?thesis
  proof (cases r)
    case (Inl e)
    then show ?thesis using Pair by (simp add: portal_execute_def continue_drain_def)
  next
    case (Inr src)
    have s: "start_portal env p (set_source portal left) v = (Inr left, v)" for left v
      using Pair Inr by (intro started_portal) simp
    obtain r2 left w2 where d: "drain_rows p (Some (nat n)) src w1 = (r2, left, w2)" by (metis prod_cases3)
    show ?thesis
      using Pair Inr s assms drain_rows_split[of p src w1 "nat n"] d
      by (cases r2) (auto simp: portal_execute_def continue_drain_def row_limit_def split: prod.splits sum.splits)
  qed
qed

text \<open>
  C7: Executing a portal in pieces of any positive sizes and then to its end gives what one unlimited Execute gives: the
  same rows, the same state of the portal and of the whole server, and the same exception if a row or
  an effect raises one. The statement's effects run once.
\<close>

theorem execute_in_pieces:
  assumes "\<forall>n \<in> set ns. 0 < n"
  shows "execute_each env p portal (ns @ [0]) w = whole_fetch (portal_execute env p portal 0 w)"
  using assms
proof (induction ns arbitrary: portal w)
  case Nil
  then show ?case by (simp add: whole_fetch_def split: prod.split sum.split)
next
  case (Cons n ns)
  then have n: "0 < n" and ih: "\<And>portal w. execute_each env p portal (ns @ [0]) w = whole_fetch (portal_execute env p portal 0 w)" by auto
  obtain r portal1 w1 where e: "portal_execute env p portal n w = (r, portal1, w1)" by (metis prod_cases3)
  have "portal_execute env p portal 0 w = continue_drain (r, portal1, w1) (\<lambda>portal'. portal_execute env p portal' 0)"
    using portal_execute_split[OF n, of env p portal w] e by simp
  then show ?case
    using ih[of portal1 w1] e by (cases r) (auto simp: whole_fetch_def continue_drain_def split: prod.splits sum.splits)
qed

theorem execute_in_pieces_witness:
  "execute_each plain_session 7 (StaticPortal (RowsFixed [[PInt 1], [PInt 2], [PInt 3]]) [] None) ([2, 1] @ [0]) (PgServer (\<lambda>_. ()) [] 5432 1000) =
     whole_fetch (portal_execute plain_session 7 (StaticPortal (RowsFixed [[PInt 1], [PInt 2], [PInt 3]]) [] None) 0 (PgServer (\<lambda>_. ()) [] 5432 1000)) \<and>
   fst (portal_execute plain_session 7 (StaticPortal (RowsFixed [[PInt 1], [PInt 2], [PInt 3]]) [] None) 2 (PgServer (\<lambda>_. ()) [] 5432 1000)) =
     Inr ([[PInt 1], [PInt 2]], True)"
  using execute_in_pieces[of "[2, 1]" plain_session 7 "StaticPortal (RowsFixed [[PInt 1], [PInt 2], [PInt 3]]) [] None" "PgServer (\<lambda>_. ()) [] 5432 1000"]
  by (simp add: portal_execute_def run_all_def abind_def aread_def aret_def row_limit_def run_acts_def eval_nat_numeral)

end
