(* ===== verification/Session_Claims.thy ===== *)
theory Session_Claims
  imports Responses
begin

text \<open>
  One session, one connection. \<open>_claim_session\<close> refuses a connection whose session is held by another and the teardown of
  \<open>Connection.run\<close> gives the session back, so no two live connections of the server ever answer through
  the same session, whatever the session factory returns.
\<close>

definition holders_same :: "'u world \<Rightarrow> 'u world \<Rightarrow> bool" where
  "holders_same w w' \<longleftrightarrow>
     w_connections w' = w_connections w \<and> w_next_pid w' = w_next_pid w \<and>
     (\<forall>q. c_session (w_conns w' q) = c_session (w_conns w q)) \<and>
     (\<forall>i. so_connection (w_sessions w' i) = so_connection (w_sessions w i))"

lemma holders_upd_conn: "(\<And>c. c_session (f c) = c_session c) \<Longrightarrow> holders_same w (upd_conn p f w)"
  by (simp add: holders_same_def upd_conn_def)

interpretation holders: turn_guarantee p holders_same for p
proof unfold_locales
  fix w :: "'a world" and f :: "conn \<Rightarrow> conn" and m q u
  show "own_change f \<Longrightarrow> holders_same w (upd_conn p f w)" by (simp add: holders_upd_conn own_change_def public_part_def)
  show "stream_change f \<Longrightarrow> holders_same w (upd_conn p f w)" by (simp add: holders_upd_conn stream_change_def)
  show "holders_same w (put_out p m w)" "holders_same w (put_out p m w)" by (simp_all add: put_out_def holders_upd_conn)
  show "holders_same w (deliver_async q m w)" by (simp add: deliver_async_def put_out_def holders_upd_conn)
  show "holders_same w (upd_author p u w)" by (simp add: upd_author_def holders_same_def Let_def)
  show "holders_same w (sync_listeners p w)"
    by (simp add: holders_same_def sync_listeners_def Let_def upd_conn_def upd_registry_def)
qed (auto simp: holders_same_def)

text \<open>Every live connection but the excepted ones holds its session.\<close>

definition holds_session :: "'u world \<Rightarrow> int \<Rightarrow> bool" where
  "holds_session w q \<longleftrightarrow> so_connection (w_sessions w (c_session (w_conns w q))) = Some q"

definition claims_inv :: "int set \<Rightarrow> 'u world \<Rightarrow> bool" where
  "claims_inv except w \<longleftrightarrow> (\<forall>q \<in> set (w_connections w). q < w_next_pid w \<and> (q \<notin> except \<longrightarrow> holds_session w q))"

lemma claims_same: "holders_same w w' \<Longrightarrow> claims_inv X w' = claims_inv X w"
  by (simp add: holders_same_def claims_inv_def holds_session_def)

lemma claims_upd_conn: "(\<And>c. c_session (f c) = c_session c) \<Longrightarrow> claims_inv X (upd_conn p f w) = claims_inv X w"
  by (rule claims_same) (rule holders_upd_conn)

lemma claims_write: "claims_inv X (snd (write_msg p m w)) = claims_inv X w"
  by (rule claims_same) (rule holders.R_write)

lemma attach_started: "holders_same (set_held (c_session (w_conns w p)) (Some p) w) (snd (attach_session env p w))"
proof -
  let ?w = "set_held (c_session (w_conns w p)) (Some p) w"
  let ?w2 = "upd_conn p (\<lambda>c. c\<lparr>c_at_ready_for_query := True\<rparr>) ?w"
  have "holders_same ?w ?w2" by (rule holders_upd_conn) simp
  moreover have "holders_same ?w2 (snd (abind (call_author p (e_init env)) (\<lambda>_. aret True :: ('a world, bool) act) ?w2))"
    by (rule holders.guarD) (intro holders.guar_rules holders.guar_author)
  ultimately show ?thesis
    unfolding attach_session_def using holders.R_trans by (simp add: abind_def[of "amod _"] amod_def) blast
qed

text \<open>Starting a connection either leaves every holder alone or attaches a session that was free.\<close>

lemma start_connection_holders:
  assumes "start_connection env ae p w = (r, w')"
  shows "(r \<noteq> Inr True \<and> holders_same w w') \<or>
    (so_connection (w_sessions w (c_session (w_conns w p))) \<in> {None, Some p} \<and>
     holders_same (set_held (c_session (w_conns w p)) (Some p) w) w')"
proof -
  let ?i = "c_session (w_conns w p)"
  obtain r1 w1 where c: "claim_session p w = (r1, w1)" by fastforce
  have 1: "holders_same w w1" by (rule holders.guarD2[OF holders.guar_claim c])
  obtain r2 w2 where a: "authenticate ae p w1 = (r2, w2)" by fastforce
  have 2: "holders_same w w2" by (rule holders.R_trans[OF 1 holders.guarD2[OF holders.guar_authenticate a]])
  obtain r3 w3 where s: "send_startup_completion p w2 = (r3, w3)" by fastforce
  have 3: "holders_same w w3" by (rule holders.R_trans[OF 2 holders.guarD2[OF holders.guar_startup_completion s]])
  have free: "so_connection (w_sessions w ?i) \<in> {None, Some p}" if "r1 = Inr True"
    using c that by (auto simp: claim_session_def abind_def aret_def split: option.splits if_splits prod.splits sum.splits)
  have "holders_same (set_held ?i (Some p) w) (set_held (c_session (w_conns w3 p)) (Some p) w3)"
    using 3 by (simp add: holders_same_def set_held_def)
  with attach_started[of w3 p env]
  have 4: "holders_same (set_held ?i (Some p) w) (snd (attach_session env p w3))" using holders.R_trans by blast
  have "(r, w') = (case r1 of Inl e \<Rightarrow> (Inl e, w1) | Inr b \<Rightarrow> if \<not> b then (Inr False, w1) else
      case r2 of Inl e \<Rightarrow> (Inl e, w2) | Inr b \<Rightarrow> if \<not> b then (Inr False, w2) else
      case r3 of Inl e \<Rightarrow> (Inl e, w3) | Inr _ \<Rightarrow> attach_session env p w3)"
    using assms c a s unfolding start_connection_def by (cases r1; cases r2; cases r3) (auto simp: abind_def aret_def)
  then show ?thesis using 1 2 3 free 4 by (cases "attach_session env p w3") (auto split: sum.splits if_splits)
qed

text \<open>Taking or giving back a session that is free or held by \<open>p\<close> disturbs no other holder.\<close>

lemma set_held_claims:
  assumes inv: "claims_inv {p} w" and free: "so_connection (w_sessions w i) \<in> {None, Some p}"
  shows "claims_inv {p} (set_held i h w)"
  unfolding claims_inv_def
proof (intro ballI conjI impI)
  fix q
  assume "q \<in> set (w_connections (set_held i h w))"
  then have q: "q \<in> set (w_connections w)" by (simp add: set_held_def)
  then show "q < w_next_pid (set_held i h w)" using inv by (simp add: claims_inv_def set_held_def)
  assume "q \<notin> {p}"
  then have "q \<noteq> p" "so_connection (w_sessions w (c_session (w_conns w q))) = Some q"
    using inv q by (simp_all add: claims_inv_def holds_session_def)
  moreover from this have "c_session (w_conns w q) \<noteq> i" using free by force
  ultimately show "holds_session (set_held i h w) q" by (simp add: holds_session_def set_held_def)
qed

lemma start_connection_claims:
  assumes "start_connection env ae p w = (r, w')" and inv: "claims_inv {p} w"
  shows "claims_inv {p} w'" and "r = Inr True \<Longrightarrow> holds_session w' p"
proof -
  show "claims_inv {p} w'"
    using start_connection_holders[OF assms(1)] claims_same inv set_held_claims[OF inv] by metis
  show "r = Inr True \<Longrightarrow> holds_session w' p"
    using start_connection_holders[OF assms(1)] by (auto simp: holders_same_def holds_session_def set_held_def)
qed

lemma teardown_claims: "claims_inv {p} w \<Longrightarrow> claims_inv {} (teardown env p w)"
proof -
  assume inv: "claims_inv {p} w"
  define w1 where "w1 = drop_listeners p w"
  define w2 where "w2 = (let i = c_session (w_conns w1 p) in if so_connection (w_sessions w1 i) = Some p then set_held i None w1 else w1)"
  have "claims_inv {p} w1"
    using inv by (simp add: w1_def drop_listeners_def claims_inv_def holds_session_def upd_conn_def upd_registry_def)
  then have "claims_inv {p} w2" by (simp add: w2_def Let_def set_held_claims)
  then have "claims_inv {p} (snd (call_author p (e_close env) w2))"
    using claims_same[OF holders.guarD[OF holders.guar_author]] by blast
  then show ?thesis
    by (simp add: teardown_def w1_def[symmetric] Let_def w2_def[unfolded Let_def, symmetric]) (auto simp: claims_inv_def holds_session_def)
qed

lemma claims_weaken: "claims_inv {} w \<Longrightarrow> claims_inv X w"
  by (simp add: claims_inv_def)

lemma claims_full: "claims_inv {p} w \<Longrightarrow> holds_session w p \<Longrightarrow> claims_inv {} w"
  by (auto simp: claims_inv_def)

lemma end_run_claims: "claims_inv {p} w \<Longrightarrow> claims_inv {} (snd (end_run env p e w))"
  by (cases e) (simp_all add: end_run_def split_beta teardown_claims claims_write)

lemma serve_turn_claims:
  assumes inv: "claims_inv {} w"
  shows "claims_inv {} (snd (serve_turn env p w))"
proof -
  obtain r w1 where m: "read_msg p w = (r, w1)" by fastforce
  have 1: "claims_inv {} w1" using claims_same[OF holders.guarD2[OF holders.guar_read m]] inv by blast
  show ?thesis
  proof (cases r)
    case (Inl e)
    then show ?thesis using m end_run_claims[OF claims_weaken[OF 1]] by (simp add: serve_turn_def)
  next
    case (Inr tp)
    obtain tag payload where tp: "tp = (tag, payload)" by fastforce
    define w2 where "w2 = upd_conn p (\<lambda>c. c\<lparr>c_at_ready_for_query := False\<rparr>) w1"
    have 2: "claims_inv {} w2" using 1 by (simp add: w2_def claims_upd_conn)
    obtain r3 w3 where c: "command env p tag payload w2 = (r3, w3)" by fastforce
    have 3: "claims_inv {} w3" using claims_same[OF holders.guarD2[OF holders.guar_command c]] 2 by blast
    show ?thesis
      using m Inr c 3 teardown_claims[OF claims_weaken[OF 2]] end_run_claims[OF claims_weaken[OF 3]]
      by (cases r3) (simp_all add: serve_turn_def tp w2_def[symmetric] Let_def)
  qed
qed

lemma handle_client_claims:
  assumes inv: "claims_inv {} w"
  shows "claims_inv {} (snd (handle_client env ae session secret inp w))"
proof -
  obtain r rest out where n: "negotiate_startup (w_max_message_size w) (inp, []) = (r, rest, out)" by (metis prod_cases3)
  show ?thesis
  proof (cases r)
    case (Inr st)
    show ?thesis
    proof (cases st)
      case (CancelRequest pid s)
      have "claims_inv {} (cancel pid s w)"
        using inv by (simp add: cancel_def claims_upd_conn request_cancel_def)
      then show ?thesis using n Inr CancelRequest by (simp add: handle_client_def)
    next
      case (StartupRequest version params)
      let ?pid = "w_next_pid w" and ?c = "(World.Connection rest session (w_next_pid w) secret params version)\<lparr>c_out := out\<rparr>"
      define w2 where "w2 = w\<lparr>w_next_pid := ?pid + 1, w_conns := (w_conns w)(?pid := ?c), w_connections := set_add ?pid (w_connections w)\<rparr>"
      have 2: "claims_inv {?pid} w2" using inv by (force simp: w2_def claims_inv_def holds_session_def)
      obtain r3 w3 where c: "start_connection env ae ?pid w2 = (r3, w3)" by fastforce
      note 3 = start_connection_claims[OF c 2]
      have "snd (handle_client env ae session secret inp w) = (case r3 of
          Inr b \<Rightarrow> if b then w3 else teardown env ?pid w3 | Inl e \<Rightarrow> snd (end_run env ?pid e w3))"
        using n Inr StartupRequest c
        by (auto simp: handle_client_def allocate_pid_def Let_def w2_def[symmetric] split: sum.split bool.split)
      then show ?thesis using claims_full[OF 3] teardown_claims[OF 3(1)] end_run_claims[OF 3(1)] by (simp split: sum.split)
    qed
  qed (use n inv in \<open>simp add: handle_client_def\<close>)
qed

lemma close_claims: "claims_inv {} w \<Longrightarrow> claims_inv {} (fold (teardown env) ps w)"
  by (induction ps arbitrary: w) (simp_all add: teardown_claims claims_weaken)

lemma server_step_claims: "server_step env ae w w' \<Longrightarrow> claims_inv {} w \<Longrightarrow> claims_inv {} w'"
proof (induction rule: server_step.induct)
  case (step_connect w session secret inp)
  then show ?case
    using handle_client_claims[of w env ae session secret inp]
    by (auto simp: client_connected_cb_def split: sum.split prod.split)
next
  case (step_receive p w bs)
  then show ?case by (simp add: claims_upd_conn)
next
  case (step_turn p w)
  then show ?case by (simp add: serve_turn_claims)
next
  case (step_close w)
  then have "claims_inv {} (w\<lparr>w_closing := True\<rparr>)" by (simp add: claims_inv_def holds_session_def)
  then show ?case by (simp add: server_close_def close_claims)
next
  case (step_notify w channel payload pid)
  then show ?case using claims_same[OF holders.R_server_notify] by blast
next
  case (step_notice p w msg severity fs)
  then show ?case using claims_same[OF holders.guarD[OF holders.guar_notice]] by blast
qed

lemma reachable_claims: "reachable env ae w0 w \<Longrightarrow> claims_inv {} w0 \<Longrightarrow> claims_inv {} w"
  by (induction rule: reachable.induct) (auto intro: server_step_claims)


section \<open>A connection that starts\<close>

definition returns :: "('s, 'a) act \<Rightarrow> bool" where
  "returns a \<longleftrightarrow> (\<forall>s. \<exists>x s'. a s = (Inr x, s'))"

lemma returns_bind: "returns a \<Longrightarrow> (\<And>x. returns (b x)) \<Longrightarrow> returns (abind a b)"
  unfolding returns_def abind_def by (metis (no_types, lifting) case_prod_conv sum.simps(6))

lemma returns_run: "(\<And>x. x \<in> set xs \<Longrightarrow> returns (f x)) \<Longrightarrow> returns (arun f xs)"
proof (induction xs)
  case (Cons x xs)
  then have "returns (f x)" "returns (arun f xs)" by simp_all
  then show ?case unfolding returns_def by simp (metis (no_types, lifting) case_prod_conv sum.simps(6))
qed (simp add: returns_def)

lemma returns_when: "returns a \<Longrightarrow> returns (awhen c a)"
  by (simp add: awhen_def returns_def aret_def)

lemma returns_write: "render m = Inr b \<Longrightarrow> returns (write_msg p m)"
  by (simp add: returns_def write_msg_def)

lemma length_utf8_lit: "length (concat (map utf8_char (lit s))) \<le> 4 * length s"
  by (induction s) (auto simp: lit_def utf8_char_def)

lemma utf8_encode_lit: "\<exists>b. utf8_encode (lit s) = Inr b \<and> length b \<le> 4 * length s"
proof -
  have "of_char c < (0xD800 :: nat)" for c by (rule less_trans[of _ 256]) simp_all
  then have "list_all encodable (lit s)" by (simp add: lit_def list_all_iff encodable_def)
  then show ?thesis using length_utf8_lit by (simp add: utf8_encode_def)
qed

lemma parameter_status_renders:
  assumes "length n + length v < 1000"
  shows "\<exists>b. render (MParameterStatus (lit n) (lit v)) = Inr b"
proof -
  obtain a b where "utf8_encode (lit n) = Inr a" "length a \<le> 4 * length n" "utf8_encode (lit v) = Inr b" "length b \<le> 4 * length v"
    using utf8_encode_lit by metis
  then show ?thesis
    using assms by (simp add: make_parameter_status_def cstring_def message_def pack_int32_def pack_signed_def in_signed_def)
qed

definition sendable_status :: "pystr \<Rightarrow> pystr \<Rightarrow> bool" where
  "sendable_status name v \<longleftrightarrow> (case render (MParameterStatus name v) of Inr _ \<Rightarrow> True | Inl _ \<Rightarrow> False)"

lemma returns_status: "sendable_status name v \<Longrightarrow> returns (write_msg p (MParameterStatus name v))"
  by (auto simp: sendable_status_def simp del: render.simps intro: returns_write split: sum.splits)

lemma startup_completion_returns:
  assumes "\<forall>(name, v) \<in> set (w_parameter_status w). sendable_status name v"
    and "sendable_status (lit ''application_name'') (dict_get_or (c_startup_params (w_conns w p)) (lit ''application_name'') [])"
    and "in_signed 4 (c_pid (w_conns w p))" "in_signed 4 (c_secret (w_conns w p))"
  shows "\<exists>x w'. send_startup_completion p w = (Inr x, w')"
proof -
  have "\<exists>b. render (MBackendKeyData (c_pid (w_conns w p)) (c_secret (w_conns w p))) = Inr b"
    using assms(3,4) by (simp add: make_backend_key_data_def pack_int32_def pack_signed_def message_def length_be_bytes in_signed_def)
  then have "returns (write_msg p (MBackendKeyData (c_pid (w_conns w p)) (c_secret (w_conns w p))) :: ('a world, unit) act)"
    using returns_write by blast
  moreover have "returns (write_msg p (MReadyForQuery (tx_byte (c_tx_status (w_conns w p)))) :: ('a world, unit) act)"
    using ready_renders returns_write by blast
  moreover have "returns (arun (\<lambda>(name, v). write_msg p (MParameterStatus name v)) (w_parameter_status w) :: ('a world, unit) act)"
    by (rule returns_run) (use assms(1) in \<open>auto intro: returns_status\<close>)
  moreover have "returns (awhen c (write_msg p (MParameterStatus (lit ''application_name'')
      (dict_get_or (c_startup_params (w_conns w p)) (lit ''application_name'') []))) :: ('a world, unit) act)" for c
    by (intro returns_when returns_status assms(2))
  ultimately show ?thesis
    unfolding send_startup_completion_def Let_def by (intro returns_bind[unfolded returns_def, rule_format] returns_bind) (auto simp: returns_def)
qed

lemma quiet_init_attaches:
  assumes "\<forall>u c. \<exists>u'. e_init env u c = ([], u', Inr ())"
  shows "\<exists>w'. attach_session env p w = (Inr True, w')"
proof -
  define v where "v = upd_conn p (\<lambda>c. c\<lparr>c_at_ready_for_query := True\<rparr>) (set_held (c_session (w_conns w p)) (Some p) w)"
  obtain u' where "e_init env (so_author (w_sessions v (c_session (w_conns v p)))) (w_conns v p) = ([], u', Inr ())" using assms by blast
  then have "call_author p (e_init env) v = (Inr (), upd_author p u' v)"
    by (simp add: call_author_def run_acts_def abind_def alift_def Let_def)
  then show ?thesis by (simp add: attach_session_def abind_def amod_def v_def[symmetric] aret_def)
qed

lemma trusted_start:
  assumes "so_connection (w_sessions w session) = None" and "\<not> w_closing w"
    and "negotiate_startup (w_max_message_size w) (inp, []) = (Inr (StartupRequest version params), rest, out)"
    and "\<forall>(name, v) \<in> set (w_parameter_status w). sendable_status name v"
    and "sendable_status (lit ''application_name'') (dict_get_or params (lit ''application_name'') [])"
    and "in_signed 4 (w_next_pid w)" and "in_signed 4 secret"
    and "\<forall>u c. \<exists>u'. e_init env u c = ([], u', Inr ())"
  shows "\<exists>w'. client_connected_cb env trust_env session secret inp w = (Inr (Some (w_next_pid w), []), w') \<and>
    w_connections w' = set_add (w_next_pid w) (w_connections w) \<and>
    so_connection (w_sessions w' session) = Some (w_next_pid w)"
proof -
  let ?pid = "w_next_pid w" and ?c = "(World.Connection rest session (w_next_pid w) secret params version)\<lparr>c_out := out\<rparr>"
  define w2 where "w2 = w\<lparr>w_next_pid := ?pid + 1, w_conns := (w_conns w)(?pid := ?c), w_connections := set_add ?pid (w_connections w)\<rparr>"
  define w3 where "w3 = put_out ?pid MAuthenticationOk w2"
  have c: "c_session ?c = session" "c_startup_params ?c = params" "c_pid ?c = ?pid" "c_secret ?c = secret"
    by (simp_all add: World.Connection_def Let_def)
  have claim: "claim_session ?pid w2 = (Inr True, w2)" using assms(1) c by (simp add: claim_session_def w2_def)
  have auth: "authenticate trust_env ?pid w2 = (Inr True, w3)"
    by (simp add: authenticate_def trust_env_def plugin_authenticate_def abind_def aret_def write_msg_def w3_def
        make_authentication_ok_def message_def pack_int32_def pack_signed_def in_signed_def Let_def)
  have "w_conns w3 ?pid = ?c\<lparr>c_out := c_out ?c @ [MAuthenticationOk]\<rparr>" "w_parameter_status w3 = w_parameter_status w"
    by (simp_all add: w3_def w2_def put_out_def upd_conn_def)
  then obtain x w4 where burst: "send_startup_completion ?pid w3 = (Inr x, w4)"
    using startup_completion_returns[of w3 ?pid] assms(4-7) c by auto
  obtain w5 where attach: "attach_session env ?pid w4 = (Inr True, w5)" using quiet_init_attaches[OF assms(8)] by blast
  have start: "start_connection env trust_env ?pid w2 = (Inr True, w5)"
    unfolding start_connection_def using claim auth burst attach by (simp add: abind_def)
  then have "client_connected_cb env trust_env session secret inp w = (Inr (Some ?pid, []), w5)"
    using assms(2,3) by (simp add: client_connected_cb_def handle_client_def allocate_pid_def Let_def w2_def)
  moreover have "holders_same (set_held session (Some ?pid) w2) w5"
    using start_connection_holders[OF start] c by (simp add: w2_def)
  ultimately show ?thesis by (auto simp: holders_same_def set_held_def w2_def)
qed


section \<open>Witnesses\<close>

definition demo_server :: "unit world" where
  "demo_server = PgServer (\<lambda>_. ()) (lit ''16.0'') 5432 1000"

definition demo_startup :: bytes where
  "demo_startup = [0, 0, 0, 16, 0, 3, 0, 0, 117, 115, 101, 114, 0, 117, 0, 0]"

lemma demo_startup_request:
  "negotiate_startup 1000 (demo_startup, []) = (Inr (StartupRequest 196608 [(lit ''user'', lit ''u'')]), [], [])"
  by code_simp

lemma lit_status: "length n + length v < 1000 \<Longrightarrow> sendable_status (lit n) (lit v)"
  using parameter_status_renders[of n v] by (auto simp: sendable_status_def simp del: render.simps)

lemma demo_hypotheses:
  "so_connection (w_sessions demo_server 0) = None" "\<not> w_closing demo_server" "w_max_message_size demo_server = 1000"
  "\<forall>(name, v) \<in> set (w_parameter_status demo_server). sendable_status name v"
  "sendable_status (lit ''application_name'') (dict_get_or [(lit ''user'', lit ''u'')] (lit ''application_name'') [])"
  "w_next_pid demo_server = 10000" "w_connections demo_server = []" "in_signed 4 10000" "in_signed 4 7"
  "\<forall>u c. \<exists>u'. e_init plain_session u c = ([], u', Inr ())"
  using lit_status[of "''application_name''" "[]"]
  by (simp_all add: demo_server_def PgServer_def dict_update_def DEFAULT_PARAMETER_STATUS_def lit_status dict_get_or_def in_signed_def session_defs)


lemma demo_connects:
  "\<exists>w'. server_step plain_session trust_env demo_server w' \<and> w_connections w' = [10000]"
proof -
  obtain w' where "client_connected_cb plain_session trust_env 0 7 demo_startup demo_server = (Inr (Some 10000, []), w')" "w_connections w' = [10000]"
    using trusted_start[of demo_server 0 demo_startup 196608 "[(lit ''user'', lit ''u'')]" "[]" "[]" 7 plain_session]
      demo_hypotheses demo_startup_request by (auto simp: set_add_def)
  moreover have "server_step plain_session trust_env demo_server (snd (client_connected_cb plain_session trust_env 0 7 demo_startup demo_server))"
    by (rule step_connect)
  ultimately show ?thesis by auto
qed


end
