(* ===== verification/Prepare_Claims.thy ===== *)
theory Prepare_Claims
  imports Base_Session Middleware
begin

text \<open>
  Preparing a statement ends: \<open>PREPARE name AS query\<close> prepares its query, which is shorter than the statement, so the nesting that the fuel of
  \<open>prepare_fuel\<close> bounds is at most the length of the text, and a statement nests no deeper than that.
\<close>

lemma length_py_strip: "length (py_strip s) \<le> length s"
proof -
  have "length (dropWhile P xs) \<le> length xs" for P :: "pychar \<Rightarrow> bool" and xs by (simp add: length_dropWhile_le)
  then show ?thesis unfolding py_strip_def py_lstrip_def py_rstrip_def by (metis (no_types) le_trans length_rev)
qed

lemma keyword_first:
  "re_match (RSeq ws0 (RSeq (rlit (x # t)) rest)) s =
     re_match (RSeq ws0 (RSeq (RSet (\<lambda>c. upper_char c = upper_char (of_char x))) (RSeq (rlit t) rest))) s"
  by (simp add: re_match_def rlit_def)

lemma prepared_query_shorter:
  assumes "re_match PREPARE_RE sql = Some m" and "sql \<noteq> []"
  shows "length (group m n) < length sql"
proof -
  obtain rest where "PREPARE_RE = RSeq ws0 (RSeq (rlit ''PREPARE'') rest)"
    by (simp add: PREPARE_RE_def rseq_def)
  then obtain P b where "re_match PREPARE_RE sql = re_match (RSeq ws0 (RSeq (RSet P) b)) sql"
    using keyword_first[of _ _ rest sql] by metis
  moreover have "no_groups ws0" by (simp add: ws0_def)
  ultimately show ?thesis
    using assms group_shorter[of ws0 P b sql m n] by (auto simp: group_def split: option.split)
qed

text \<open>The chain depends on \<open>prepare\<close> only at shorter texts.\<close>

lemma prepared_statements_cong:
  assumes "\<And>q os. length q < length sql \<Longrightarrow> prep q os = prep' q os" and "sql \<noteq> []"
  shows "prepared_statements env prep p sql = prepared_statements env prep' p sql"
  using assms prepared_query_shorter[OF _ assms(2)] unfolding prepared_statements_def by (auto split: option.split intro!: ext)

lemma resolve_chain_cong:
  assumes "\<And>q os. length q < length sql \<Longrightarrow> prep q os = prep' q os" and "sql \<noteq> []"
  shows "resolve_chain env prep p sql oids ls = resolve_chain env prep' p sql oids ls"
  using prepared_statements_cong[OF assms] by (induction ls) (simp_all add: run_link_def split: link.split)

lemma resolve_cong:
  assumes "\<And>q os. length q < length sql \<Longrightarrow> prep q os = prep' q os"
  shows "resolve env prep p sql oids ls = resolve env prep' p sql oids ls"
  using resolve_chain_cong[of "py_strip sql" prep prep' env p oids ls] assms length_py_strip[of sql]
  by (auto simp: resolve_def)

lemma prepare_fuel_enough:
  "length sql < n \<Longrightarrow> length sql < n' \<Longrightarrow> prepare_fuel env p n sql oids = prepare_fuel env p n' sql oids"
proof (induction n arbitrary: n' sql oids)
  case (Suc n)
  obtain k where k: "n' = Suc k" using Suc.prems(2) by (cases n') auto
  have "resolve env (prepare_fuel env p n) p sql oids ls = resolve env (prepare_fuel env p k) p sql oids ls" for ls
    by (rule resolve_cong, rule Suc.IH) (use Suc.prems k in linarith)+
  then show ?case by (simp add: k Let_def cong: if_cong)
qed simp



end
