(* ===== verification/Catalog_Rows.thy ===== *)
theory Catalog_Rows
  imports Catalog
begin

text \<open>
  Lemmas about the rows of the built catalogue: their shape, the numbers and names of \<open>pg_catalog\<close>, the types, and
  the rows of the views of \<open>information_schema\<close>. The claims they carry are in \<open>Catalog_Claims\<close>.

  The locale \<open>catalog_invariant\<close> is the contract of the loop of \<open>_build_pg_catalog\<close>: what holds of the empty
  accumulators and is kept by a table and by a key holds of the result. It is interpreted for the shape of the
  rows (\<open>shape\<close>), for their numbering (\<open>links\<close>) and for the names of the keys (\<open>names\<close>).
\<close>

section \<open>The loop\<close>

locale catalog_invariant =
  fixes s :: schema and P :: "nat \<Rightarrow> pg_build \<Rightarrow> bool"
  assumes empty_holds: "P 0 pg_build_empty"
    and table_keeps: "\<lbrakk>P n b; n < length s; s ! n = (name, t)\<rbrakk> \<Longrightarrow> P (Suc n) (put_table (FIRST_USER_OID + int n) name t b)"
    and key_keeps: "\<lbrakk>P (Suc n) b; n < length s; s ! n = (name, t); k \<in> set (declared_keys t);
          key_name k (b_names b) = Inr kn; key_positions t k = Inr ps\<rbrakk>
        \<Longrightarrow> P (Suc n) (put_key (FIRST_USER_OID + int n) name k kn ps b)"
begin

lemma keys_keep:
  assumes "rfold (add_key (FIRST_USER_OID + int n) name t) ks b = Inr b'" and "set ks \<subseteq> set (declared_keys t)"
    and "n < length s" "s ! n = (name, t)" and "P (Suc n) b"
  shows "P (Suc n) b'"
  using assms
proof (induction ks arbitrary: b)
  case (Cons k ks)
  then obtain b1 where b1: "add_key (FIRST_USER_OID + int n) name t k b = Inr b1"
    and r: "rfold (add_key (FIRST_USER_OID + int n) name t) ks b1 = Inr b'" by auto
  from b1 obtain kn ps where "key_name k (b_names b) = Inr kn" "key_positions t k = Inr ps"
      "b1 = put_key (FIRST_USER_OID + int n) name k kn ps b"
    by (auto simp: add_key_def)
  with Cons.prems key_keeps have "P (Suc n) b1" by auto
  with Cons.prems show ?case by (intro Cons.IH[OF r]) auto
qed simp

lemma tables_keep:
  assumes "rfold add_table (enumerate n (drop n s)) b = Inr b'" and "n \<le> length s" and "P n b"
  shows "P (length s) b'"
  using assms
proof (induction "length s - n" arbitrary: n b)
  case 0
  then show ?case by simp
next
  case (Suc m)
  then have n: "n < length s" by simp
  obtain name t where nt: "s ! n = (name, t)" by fastforce
  obtain b1 where b1: "rfold (add_key (FIRST_USER_OID + int n) name t) (declared_keys t)
        (put_table (FIRST_USER_OID + int n) name t b) = Inr b1"
    and rest: "rfold add_table (enumerate (Suc n) (drop (Suc n) s)) b1 = Inr b'"
    using Suc.prems(1) n nt by (auto simp: Cons_nth_drop_Suc[symmetric] add_table_def Let_def)
  have "P (Suc n) b1" using keys_keep[OF b1 subset_refl n nt table_keeps[OF Suc.prems(3) n nt]] .
  with Suc.hyps(1)[OF _ rest] Suc.hyps(2) n show ?case by simp
qed

lemma built: "rfold add_table (enumerate 0 s) pg_build_empty = Inr b \<Longrightarrow> P (length s) b"
  using tables_keep[of 0 pg_build_empty b] empty_holds by simp

end

section \<open>The shape of the rows\<close>

lemma class_row_fits: "row_fits pg_class_columns (class_row oid name kind am hasindex ident)"
  unfolding pg_class_columns_def class_row_def by (rule row_fits_zip) simp_all

lemma attribute_row_fits: "row_fits pg_attribute_columns (attribute_row oid t i c ty)"
  unfolding pg_attribute_columns_def attribute_row_def by (rule row_fits_zip) simp_all

lemma index_row_fits: "row_fits pg_index_columns (index_row i oid kn name prim cols ps)"
  unfolding pg_index_columns_def index_row_def by (rule row_fits_zip) simp_all

lemma constraint_row_fits: "row_fits pg_constraint_columns (constraint_row c oid i kn prim cols ps)"
  unfolding pg_constraint_columns_def constraint_row_def by (rule row_fits_zip) simp_all

definition rows_shaped :: "pg_build \<Rightarrow> bool" where
  "rows_shaped b \<longleftrightarrow>
     (\<forall>r \<in> set (b_class b). row_fits pg_class_columns r) \<and> (\<forall>r \<in> set (b_attribute b). row_fits pg_attribute_columns r)
     \<and> (\<forall>r \<in> set (b_index b). row_fits pg_index_columns r) \<and> (\<forall>r \<in> set (b_constraint b). row_fits pg_constraint_columns r)"

interpretation shape: catalog_invariant s "\<lambda>n. rows_shaped" for s
  by unfold_locales
     (auto simp: rows_shaped_def pg_build_empty_def put_table_def put_key_def Let_def
       class_row_fits attribute_row_fits index_row_fits constraint_row_fits)

section \<open>Numbers and references\<close>

definition is_relkind :: "string \<Rightarrow> cat_row \<Rightarrow> bool" where
  "is_relkind kind r \<longleftrightarrow> text_at ''relkind'' r = Some (lit kind)"

lemma class_row_gets:
  "int_at ''oid'' (class_row oid name kind am hasindex ident) = Some oid"
  "text_at ''relname'' (class_row oid name kind am hasindex ident) = Some name"
  "is_relkind k (class_row oid name kind am hasindex ident) \<longleftrightarrow> kind = k"
  by (simp_all add: class_row_def int_at_def text_at_def is_relkind_def)

lemma key_row_gets:
  "int_at ''attrelid'' (attribute_row oid t i cn ty) = Some oid"
  "int_at ''indexrelid'' (index_row x oid kn name prim cols ps) = Some x"
  "int_at ''indrelid'' (index_row x oid kn name prim cols ps) = Some oid"
  "int_at ''oid'' (constraint_row c oid x kn prim cols ps) = Some c"
  "int_at ''conrelid'' (constraint_row c oid x kn prim cols ps) = Some oid"
  "int_at ''conindid'' (constraint_row c oid x kn prim cols ps) = Some x"
  "text_at ''conname'' (constraint_row c oid x kn prim cols ps) = Some kn"
  by (simp_all add: attribute_row_def index_row_def constraint_row_def int_at_def text_at_def)

definition table_oids :: "nat \<Rightarrow> int list" where
  "table_oids n = map (\<lambda>i. FIRST_USER_OID + int i) [0..<n]"

definition numbered :: "int \<Rightarrow> string \<Rightarrow> cat_row list \<Rightarrow> bool" where
  "numbered start c rows \<longleftrightarrow> map (int_at c) rows = map (\<lambda>j. Some (start + int j)) [0..<length rows]"

text \<open>
  After \<open>n\<close> tables: the tables of \<open>pg_class\<close> in their order, its indexes in theirs under the names taken, one constraint per
  index pointing at it, and every reference to a table among the first \<open>n\<close>.
\<close>

definition linked :: "nat \<Rightarrow> pg_build \<Rightarrow> bool" where
  "linked n b \<longleftrightarrow>
     map (int_at ''oid'') (filter (is_relkind ''r'') (b_class b)) = map Some (table_oids n)
     \<and> map (int_at ''oid'') (filter (is_relkind ''i'') (b_class b)) = map (int_at ''indexrelid'') (b_index b)
     \<and> map (text_at ''relname'') (filter (is_relkind ''i'') (b_class b)) = map Some (b_names b)
     \<and> (\<forall>r \<in> set (b_class b). is_relkind ''r'' r \<or> is_relkind ''i'' r)
     \<and> numbered FIRST_INDEX_OID ''indexrelid'' (b_index b) \<and> numbered FIRST_CONSTRAINT_OID ''oid'' (b_constraint b)
     \<and> map (int_at ''conindid'') (b_constraint b) = map (int_at ''indexrelid'') (b_index b)
     \<and> map (text_at ''conname'') (b_constraint b) = map Some (b_names b)
     \<and> map (int_at ''conrelid'') (b_constraint b) = map (int_at ''indrelid'') (b_index b)
     \<and> (\<forall>r \<in> set (b_attribute b). int_at ''attrelid'' r \<in> Some ` set (table_oids n))
     \<and> (\<forall>r \<in> set (b_index b). int_at ''indrelid'' r \<in> Some ` set (table_oids n))
     \<and> length (b_names b) = length (b_index b)"

lemma table_oids_Suc: "table_oids (Suc n) = table_oids n @ [FIRST_USER_OID + int n]"
  by (simp add: table_oids_def)

lemma numbered_snoc: "numbered start c rows \<Longrightarrow> int_at c r = Some (start + int (length rows)) \<Longrightarrow> numbered start c (rows @ [r])"
  by (simp add: numbered_def)

lemma attribute_rows_at:
  "r \<in> set (map (\<lambda>(i, (c, ty)). attribute_row oid t i c ty) xs) \<Longrightarrow> int_at ''attrelid'' r = Some oid"
  by (auto simp: key_row_gets)

lemma put_table_linked: "linked n b \<Longrightarrow> linked (Suc n) (put_table (FIRST_USER_OID + int n) name t b)"
  unfolding linked_def put_table_def
  by (auto simp: class_row_gets table_oids_Suc key_row_gets)

lemma fresh_key_name: "key_name k taken = Inr kn \<Longrightarrow> kn \<notin> set taken"
  by (auto simp: key_name_def split: if_splits dest: free_name_fresh)

lemma put_key_linked:
  assumes "linked (Suc n) b" and "kn \<notin> set (b_names b)"
  shows "linked (Suc n) (put_key (FIRST_USER_OID + int n) name k kn ps b)"
proof -
  have len: "length (b_constraint b) = length (b_index b)"
    using assms(1) unfolding linked_def by (metis length_map)
  show ?thesis
    using assms unfolding linked_def put_key_def Let_def
    by (auto simp: class_row_gets key_row_gets table_oids_Suc set_add_def intro!: numbered_snoc)
qed

interpretation links: catalog_invariant s "\<lambda>n b. linked n b \<and> distinct (b_names b)" for s
proof unfold_locales
  show "linked 0 pg_build_empty \<and> distinct (b_names pg_build_empty)"
    by (simp add: linked_def pg_build_empty_def numbered_def table_oids_def)
next
  fix n b name and t :: table
  assume "linked n b \<and> distinct (b_names b)"
  then show "linked (Suc n) (put_table (FIRST_USER_OID + int n) name t b)
      \<and> distinct (b_names (put_table (FIRST_USER_OID + int n) name t b))"
    using put_table_linked by (auto simp: put_table_def)
next
  fix n b name t k kn ps
  assume b: "linked (Suc n) b \<and> distinct (b_names b)" and "key_name k (b_names b) = Inr kn"
  then have "kn \<notin> set (b_names b)" by (blast dest: fresh_key_name)
  with b show "linked (Suc n) (put_key (FIRST_USER_OID + int n) name k kn ps b)
      \<and> distinct (b_names (put_key (FIRST_USER_OID + int n) name k kn ps b))"
    using put_key_linked by (auto simp: put_key_def Let_def)
qed

definition names_fit :: "pg_build \<Rightarrow> bool" where
  "names_fit b \<longleftrightarrow> (length (b_names b) \<le> 10 ^ 9 \<longrightarrow> (\<forall>kn \<in> set (b_names b). fits_name kn))"

interpretation names: catalog_invariant s "\<lambda>n. names_fit" for s
proof unfold_locales
  fix n b name t k kn ps
  assume b: "names_fit b" and kn: "key_name k (b_names b) = Inr kn"
  have "fits_name kn" if "length (b_names b) < 10 ^ 9" using key_name_fresh[OF kn that] by blast
  moreover have "kn \<notin> set (b_names b)" using kn by (rule fresh_key_name)
  ultimately show "names_fit (put_key (FIRST_USER_OID + int n) name k kn ps b)"
    using b by (auto simp: names_fit_def put_key_def Let_def set_add_def)
qed (simp_all add: names_fit_def pg_build_empty_def put_table_def)

section \<open>Rows of the views\<close>

definition nulls :: "(pystr, pystr) dict \<Rightarrow> cat_row" where
  "nulls cols = map (\<lambda>(c, ty). (c, PNone)) cols"

lemma nulls_keys: "map fst (nulls cols) = map fst cols"
  by (auto simp: nulls_def)

lemma row_of_get: "map_of (row_of r) (lit c) = map_of r c"
  by (induction r) auto

lemma row_of_rev: "rev (row_of r) = row_of (rev r)"
  by (simp add: row_of_def rev_map)

lemma update_fits:
  assumes "distinct (map fst cols)" and fit: "\<forall>(c, v) \<in> set derived. \<exists>ty. dict_get cols (lit c) = Some ty \<and> value_fits ty v"
  shows "row_fits cols (dict_update (nulls cols) (row_of derived))"
proof -
  let ?r = "dict_update (nulls cols) (row_of derived)"
  have "fst ` set (row_of derived) \<subseteq> fst ` set (nulls cols)"
    using fit by (force simp: row_of_def nulls_def dest: map_of_SomeD)
  then have keys: "map fst ?r = map fst cols" by (simp add: dict_update_keys nulls_keys)
  moreover have "\<exists>ty. dict_get cols c = Some ty \<and> value_fits ty v" if "(c, v) \<in> set ?r" for c v
  proof -
    have "dict_get ?r c = Some v" using that keys assms(1) by simp
    then consider "(c, v) \<in> set (row_of derived)" | "dict_get (nulls cols) c = Some v"
      by (auto simp: dict_update_get split: option.splits dest: map_of_SomeD)
    then show ?thesis
    proof cases
      case 1
      then show ?thesis using fit by (auto simp: row_of_def)
    next
      case 2
      then have "v = PNone" "c \<in> fst ` set cols" by (force simp: nulls_def dest!: map_of_SomeD)+
      moreover from this(2) obtain ty where "dict_get cols c = Some ty" by (metis map_of_eq_None_iff not_None_eq)
      ultimately show ?thesis by simp
    qed
  qed
  ultimately show ?thesis using assms(1) by (auto simp: row_fits_def)
qed

definition view_document :: "string \<Rightarrow> (string \<times> string) list" where
  "view_document view = (if view = ''tables'' then tables_document else columns_document)"

lemma documents_distinct: "distinct (map fst tables_document)" "distinct (map fst columns_document)"
  by (simp_all add: tables_document_def columns_document_def)

lemma view_types_distinct: "distinct (map fst (view_types (view_document view)))"
proof -
  have "map fst (view_types doc) = map lit (map fst doc)" for doc
    by (simp add: view_types_def declared_types_def comp_def case_prod_unfold)
  then show ?thesis using documents_distinct by (simp add: view_document_def distinct_map inj_on_def)
qed

lemma information_schema_row_returns:
  assumes "view \<in> {''tables'', ''columns''}"
    and "\<forall>(c, v) \<in> set derived. \<exists>ty. dict_get (view_types (view_document view)) (lit c) = Some ty \<and> value_fits ty v"
  defines "r \<equiv> dict_update (nulls (view_types (view_document view))) (row_of derived)"
  shows "information_schema_row view derived = Inr r \<and> row_fits (view_types (view_document view)) r"
proof -
  have "list_all (\<lambda>(c, v). dict_has (lit c) (nulls (view_types (view_document view)))) derived"
    using assms(2) by (force simp: list_all_iff dict_has_iff nulls_def dest: map_of_SomeD)
  then have "information_schema_row view derived = Inr r"
    using assms(1) unfolding information_schema_row_def information_schema_loads r_def nulls_def
    by (auto simp: view_document_def Let_def)
  with update_fits[OF view_types_distinct assms(2)] show ?thesis by (simp add: r_def)
qed

lemma view_types_get:
  "dict_get (view_types doc) (lit c) = map_option (\<lambda>ty. lit (if ty = ''integer'' then ''INT'' else ''TEXT'')) (map_of doc c)"
  by (induction doc) (auto simp: view_types_def)

lemma tables_row_returns: "\<exists>r. tables_row name = Inr r \<and> row_fits (view_types tables_document) r"
proof -
  have "view_document ''tables'' = tables_document" by (simp add: view_document_def)
  with information_schema_row_returns[of "''tables''"
      "[(''table_catalog'', PStr CATALOG_NAME), (''table_schema'', ptext ''public''), (''table_name'', PStr name),
        (''table_type'', ptext ''BASE TABLE''), (''is_insertable_into'', ptext ''YES''), (''is_typed'', ptext ''NO'')]"]
  show ?thesis unfolding tables_row_def by (simp add: view_types_get tables_document_def)
qed

text \<open>What a type adds to a row of \<open>columns\<close> are integers under integer columns that the row does not set otherwise.\<close>

definition fact_names :: "string list" where
  "fact_names = [''character_octet_length'', ''numeric_precision'', ''numeric_precision_radix'', ''numeric_scale'', ''datetime_precision'']"

lemma type_facts_names:
  assumes "(c, n) \<in> set (dict_get_or TYPE_FACTS oid [])"
  shows "c \<in> set fact_names"
proof -
  have all: "list_all (\<lambda>(oid, facts). list_all (\<lambda>(c, n). c \<in> set fact_names) facts) TYPE_FACTS"
    by (simp add: TYPE_FACTS_def fact_names_def)
  obtain facts where "dict_get TYPE_FACTS oid = Some facts" "(c, n) \<in> set facts"
    using assms by (cases "dict_get TYPE_FACTS oid") (simp_all add: dict_get_or_def)
  with all show ?thesis by (fastforce simp: list_all_iff dest: map_of_SomeD)
qed

lemma fact_names_types:
  assumes "c \<in> set fact_names"
  shows "map_of columns_document c = Some ''integer''"
proof -
  have "list_all (\<lambda>c. map_of columns_document c = Some ''integer'') fact_names"
    by (simp add: fact_names_def columns_document_def)
  with assms show ?thesis by (simp add: list_all_iff)
qed

definition column_facts :: "pystr \<Rightarrow> table \<Rightarrow> nat \<Rightarrow> pystr \<Rightarrow> pystr \<Rightarrow> pystr \<Rightarrow> (string \<times> pyval) list" where
  "column_facts name t i c ty udt =
     [(''table_catalog'', PStr CATALOG_NAME), (''table_schema'', ptext ''public''), (''table_name'', PStr name),
      (''column_name'', PStr c), (''ordinal_position'', PInt (int i)),
      (''is_nullable'', ptext (if c \<in> set (t_primary_key t) then ''NO'' else ''YES'')),
      (''data_type'', PStr ty), (''udt_catalog'', PStr CATALOG_NAME), (''udt_schema'', ptext ''pg_catalog''),
      (''udt_name'', PStr udt), (''dtd_identifier'', PStr (nat_str i)), (''is_self_referencing'', ptext ''NO''),
      (''is_identity'', ptext ''NO''), (''identity_cycle'', ptext ''NO''), (''is_generated'', ptext ''NEVER''),
      (''is_updatable'', ptext ''YES'')]
     @ map (\<lambda>(c, n). (c, PInt n)) (dict_get_or TYPE_FACTS (oid_for_declared_type ty) [])"

lemma column_facts_fit:
  assumes "(k, v) \<in> set (column_facts name t i c ty udt)"
  shows "\<exists>kt. dict_get (view_types columns_document) (lit k) = Some kt \<and> value_fits kt v"
proof -
  let ?ok = "\<lambda>(k, v). case map_of columns_document k of None \<Rightarrow> False
      | Some kt \<Rightarrow> value_fits (lit (if kt = ''integer'' then ''INT'' else ''TEXT'')) v"
  have "list_all ?ok (take 16 (column_facts name t i c ty udt))"
    by (simp add: column_facts_def columns_document_def)
  moreover have "list_all ?ok (drop 16 (column_facts name t i c ty udt))"
    by (auto simp: column_facts_def list_all_iff dest!: type_facts_names fact_names_types)
  ultimately have "list_all ?ok (column_facts name t i c ty udt)"
    by (metis append_take_drop_id list_all_append)
  with assms have "?ok (k, v)" unfolding list_all_iff by (rule bspec[rotated])
  then show ?thesis by (cases "map_of columns_document k") (simp_all add: view_types_get)
qed

text \<open>One row of \<open>columns\<close>, with what the type's row of \<open>pg_type\<close> names it.\<close>

lemma columns_row_returns:
  "\<exists>r ty_row udt. columns_row name t i c ty = Inr r \<and> row_fits (view_types columns_document) r
     \<and> ty_row \<in> set pg_type_rows \<and> int_at ''oid'' ty_row = Some (oid_for_declared_type ty)
     \<and> dict_get ty_row (lit ''typname'') = Some (PStr udt)
     \<and> r = dict_update (nulls (view_types columns_document)) (row_of (column_facts name t i c ty udt))"
proof -
  obtain ty_row udt where ty: "dict_get pg_type_by_oid (oid_for_declared_type ty) = Some ty_row" "ty_row \<in> set pg_type_rows"
      "int_at ''oid'' ty_row = Some (oid_for_declared_type ty)" "dict_get ty_row (lit ''typname'') = Some (PStr udt)"
    using known_type[OF declared_type_known] by blast
  have "columns_row name t i c ty = information_schema_row ''columns'' (column_facts name t i c ty udt)"
    by (simp add: columns_row_def ty(1,4) column_facts_def)
  moreover have "view_document ''columns'' = columns_document" by (simp add: view_document_def)
  moreover have "\<forall>(k, v) \<in> set (column_facts name t i c ty udt). \<exists>kt. dict_get (view_types columns_document) (lit k) = Some kt \<and> value_fits kt v"
    using column_facts_fit by fast
  ultimately have "columns_row name t i c ty = Inr (dict_update (nulls (view_types columns_document)) (row_of (column_facts name t i c ty udt)))"
    and "row_fits (view_types columns_document) (dict_update (nulls (view_types columns_document)) (row_of (column_facts name t i c ty udt)))"
    using information_schema_row_returns[of "''columns''" "column_facts name t i c ty udt"] by simp_all
  with ty(2-4) show ?thesis by blast
qed

lemma columns_row_gets:
  assumes "k \<in> {''table_name'', ''column_name'', ''ordinal_position'', ''is_nullable'', ''data_type'', ''udt_name''}"
  shows "dict_get (dict_update (nulls cols) (row_of (column_facts name t i c ty udt))) (lit k)
       = map_of (column_facts name t i c ty udt) k"
proof -
  let ?facts = "map (\<lambda>(c, n). (c, PInt n)) (dict_get_or TYPE_FACTS (oid_for_declared_type ty) [])"
  let ?base = "take 16 (column_facts name t i c ty udt)"
  have split: "column_facts name t i c ty udt = ?base @ ?facts" by (simp add: column_facts_def)
  have "k \<notin> set fact_names" using assms by (auto simp: fact_names_def)
  then have "k \<notin> fst ` set ?facts" using type_facts_names by fastforce
  then have none: "map_of ?facts k = None" "map_of (rev ?facts) k = None" by (simp_all add: map_of_eq_None_iff)
  have "distinct (map fst ?base)" by (simp add: column_facts_def)
  then have base: "map_of (rev ?base) k = map_of ?base k" by (simp only: map_of_rev_distinct)
  have some: "map_of ?base k \<noteq> None" using assms by (auto simp: column_facts_def)
  have "map_of (rev (column_facts name t i c ty udt)) k = map_of (column_facts name t i c ty udt) k"
    by (subst (1 2) split) (simp add: map_add_def none base del: rev_map split: option.split)
  moreover have "map_of (column_facts name t i c ty udt) k \<noteq> None"
    by (subst split) (use some in \<open>simp add: map_add_def none split: option.split\<close>)
  ultimately show ?thesis by (auto simp: dict_update_get row_of_rev row_of_get)
qed

end
