(* ===== verification/Catalog_Claims.thy ===== *)
theory Catalog_Claims
  imports Catalog_Rows "HOL-Library.Multiset"
begin

text \<open>
  What the emulated catalogue promises a client: it can be built, every row has the columns and types its table declares,
  OIDs and references identify relations, and the two halves agree about every column. Two lemmas at the end record
  where the catalogue says something Postgres would not.
\<close>

definition rows_of :: "catalog_input \<Rightarrow> string \<Rightarrow> string \<Rightarrow> cat_row list" where
  "rows_of cat sch tb = (case dict_get (ci_rows cat) (lit sch) of Some ts \<Rightarrow> dict_get_or ts (lit tb) [] | None \<Rightarrow> [])"

definition columns_of :: "catalog_input \<Rightarrow> string \<Rightarrow> string \<Rightarrow> (pystr, pystr) dict" where
  "columns_of cat sch tb = (case dict_get (ci_column_types cat) (lit sch) of Some ts \<Rightarrow> dict_get_or ts (lit tb) [] | None \<Rightarrow> [])"

text \<open>The tables of a schema and those with declared columns are the same, and every row fits.\<close>

definition catalog_fits :: "catalog_input \<Rightarrow> string \<Rightarrow> bool" where
  "catalog_fits cat sch \<longleftrightarrow>
     (\<exists>types rows. dict_get (ci_column_types cat) (lit sch) = Some types \<and> dict_get (ci_rows cat) (lit sch) = Some rows
       \<and> fst ` set types = fst ` set rows
       \<and> (\<forall>(tb, cols) \<in> set types. \<forall>r \<in> set (dict_get_or rows tb []). row_fits cols r))"

section \<open>\<open>pg_catalog\<close> is served\<close>

definition names_encodable :: "schema \<Rightarrow> bool" where
  "names_encodable s \<longleftrightarrow>
     (\<forall>(name, t) \<in> set s. list_all encodable name \<and> (\<forall>(c, ty) \<in> set (t_columns t). list_all encodable c))"

lemma join_encodable: "list_all encodable sep \<Longrightarrow> list_all (list_all encodable) xs \<Longrightarrow> list_all encodable (py_join sep xs)"
  by (induction xs) (auto simp: py_join_def list_all_iff split: if_splits)

lemma lit_encodable: "list_all encodable (lit s)"
  using lit_ascii by (fastforce simp: list_all_iff encodable_def)

lemma stem_encodable:
  assumes "schema_ok s" "names_encodable s" "(name, t) \<in> set s" "k \<in> set (declared_keys t)"
  shows "list_all encodable (key_stem k)"
proof -
  have "name = t_name t" "table_ok t" "list_all encodable name" "\<forall>(c, ty) \<in> set (t_columns t). list_all encodable c"
    using assms(1-3) by (auto simp: schema_ok_def names_encodable_def)
  moreover have "k_table k = t_name t" using assms(4) by (auto simp: declared_keys_def split: if_splits)
  moreover have "set (k_columns k) \<subseteq> fst ` set (t_columns t)"
    using declared_keys_ok[OF \<open>table_ok t\<close> assms(4)] by (simp add: key_ok_def)
  ultimately show ?thesis
    by (force simp: key_stem_def lit_encodable list_all_iff[of "list_all encodable"] intro!: join_encodable)
qed

lemma keys_return:
  assumes "schema_ok s" "names_encodable s" "(name, t) \<in> set s" "set ks \<subseteq> set (declared_keys t)"
  shows "\<exists>b'. rfold (add_key oid name t) ks b = Inr b'"
  using assms(4)
proof (induction ks arbitrary: b)
  case (Cons k ks)
  have ok: "table_ok t" using assms(1,3) by (auto simp: schema_ok_def)
  obtain kn where "key_name k (b_names b) = Inr kn"
    using key_name_returns[OF stem_encodable[OF assms(1-3)], of k "b_names b"] Cons.prems by auto
  moreover obtain ps where "key_positions t k = Inr ps"
    using key_positions_Inr[OF declared_keys_ok[OF ok], of k] Cons.prems by auto
  ultimately show ?case using Cons by (auto simp: add_key_def)
qed simp

lemma tables_return:
  assumes "schema_ok s" "names_encodable s" "set ts \<subseteq> set s"
  shows "\<exists>b'. rfold add_table (enumerate n ts) b = Inr b'"
  using assms(3)
proof (induction ts arbitrary: n b)
  case (Cons x ts)
  obtain name t where x: "x = (name, t)" by fastforce
  then have "(name, t) \<in> set s" using Cons.prems by simp
  from keys_return[OF assms(1,2) this subset_refl] obtain b1 where "add_table (n, name, t) b = Inr b1"
    unfolding add_table_def Let_def by (simp, blast)
  with Cons x show ?case by auto
qed simp

lemma fixed_rows_fit:
  "r \<in> set pg_namespace_rows \<Longrightarrow> row_fits pg_namespace_columns r" "r \<in> set pg_am_rows \<Longrightarrow> row_fits pg_am_columns r"
  "r \<in> set pg_roles_rows \<Longrightarrow> row_fits pg_roles_columns r" "r \<in> set (pg_database_rows db) \<Longrightarrow> row_fits pg_database_columns r"
  unfolding pg_namespace_rows_def pg_am_rows_def pg_roles_rows_def pg_database_rows_def
    pg_namespace_columns_def pg_am_columns_def pg_roles_columns_def pg_database_columns_def
  by (auto simp: row_fits_def)

lemma type_rows_fit: "r \<in> set pg_type_rows \<Longrightarrow> row_fits pg_type_columns r"
  using pg_type_inv by (auto simp: types_inv_def)

lemma built_fits:
  assumes "build_pg_catalog s db = Inr cat"
  shows "catalog_fits cat ''pg_catalog''"
proof -
  obtain b where b: "rfold add_table (enumerate 0 s) pg_build_empty = Inr b"
    and cat: "cat = (case build_pg_catalog s db of Inr c \<Rightarrow> c)"
    using assms by (auto simp: build_pg_catalog_def)
  from shape.built[OF b] have shaped: "rows_shaped b" .
  show ?thesis
    using assms b shaped unfolding build_pg_catalog_def catalog_fits_def
    by (auto simp: PG_CATALOG_SCHEMA_def dict_get_or_def rows_shaped_def fixed_rows_fit type_rows_fit)
qed


lemma pg_catalog_builds:
  assumes "schema_ok s" and "names_encodable s"
  shows "\<exists>cat. build_pg_catalog s db = Inr cat"
proof -
  obtain b where "rfold add_table (enumerate 0 s) pg_build_empty = Inr b"
    using tables_return[OF assms subset_refl] by blast
  then show ?thesis by (auto simp: build_pg_catalog_def)
qed

text \<open>
  C24: for every schema that \<open>resolve\<close> can give, with names that have an encoding, \<open>pg_catalog\<close> can be built, and every
  table of it has exactly the declared columns in every row, each value an integer, a text or a truth value as declared, or
  NULL: no query over it meets a missing column.
\<close>
theorem pg_catalog_served:
  assumes "schema_ok s" and "names_encodable s"
  shows "\<exists>cat. build_pg_catalog s db = Inr cat \<and> catalog_fits cat ''pg_catalog''"
  using pg_catalog_builds[OF assms] built_fits by blast

lemma demo_names_encodable: "names_encodable demo_schema"
  by (simp add: names_encodable_def demo_schema_def lit_encodable)

theorem pg_catalog_served_witness:
  "\<exists>cat. build_pg_catalog demo_schema (lit ''postgres'') = Inr cat \<and> catalog_fits cat ''pg_catalog''"
  by (rule pg_catalog_served[OF demo_schema_ok demo_names_encodable])

section \<open>\<open>information_schema\<close> is served\<close>

lemma view_rows_return: "\<exists>tr crs. view_rows x = Inr (tr, crs) \<and> row_fits (view_types tables_document) tr
    \<and> (\<forall>r \<in> set crs. row_fits (view_types columns_document) r)"
proof -
  obtain name t where x: "x = (name, t)" by fastforce
  obtain tr where tr: "tables_row name = Inr tr" "row_fits (view_types tables_document) tr"
    using tables_row_returns by blast
  let ?f = "\<lambda>(i, (c, ty)). columns_row name t i c ty"
  have "?f y = Inr (projr (?f y)) \<and> row_fits (view_types columns_document) (projr (?f y))" for y
  proof -
    obtain i c ty where "y = (i, (c, ty))" by (metis prod.exhaust)
    with columns_row_returns[of name t i c ty] show ?thesis by auto
  qed
  then have "rmap ?f (enumerate 1 (t_columns t)) = Inr (map (\<lambda>y. projr (?f y)) (enumerate 1 (t_columns t)))"
    and "\<forall>r \<in> set (map (\<lambda>y. projr (?f y)) (enumerate 1 (t_columns t))). row_fits (view_types columns_document) r"
    by (auto intro!: rmap_Inr)
  with tr show ?thesis by (simp add: view_rows_def x)
qed

lemma all_views_return: "\<exists>rows. rmap view_rows s = Inr rows \<and> (\<forall>(tr, crs) \<in> set rows. row_fits (view_types tables_document) tr
    \<and> (\<forall>r \<in> set crs. row_fits (view_types columns_document) r))"
proof (induction s)
  case (Cons x s)
  then show ?case using view_rows_return[of x] by auto
qed simp

text \<open>
  The views of \<open>information_schema\<close> can be built for every declared schema: no declared type is missing from
  \<open>pg_type\<close>, no column that is filled in is missing from the generated document, and every row has all 12 and 44 columns of the
  views with values of their types or NULL.
\<close>
theorem information_schema_served:
  "\<exists>cat. build_information_schema s = Inr cat \<and> catalog_fits cat ''information_schema''"
proof -
  obtain rows where rows: "rmap view_rows s = Inr rows" "\<forall>(tr, crs) \<in> set rows. row_fits (view_types tables_document) tr
      \<and> (\<forall>r \<in> set crs. row_fits (view_types columns_document) r)"
    using all_views_return by blast
  then show ?thesis
    by (fastforce simp: build_information_schema_def information_schema_loads catalog_fits_def dict_get_or_def)
qed

section \<open>Relations and references\<close>

lemma distinct_table_oids: "distinct (table_oids n)"
  by (auto simp: table_oids_def distinct_map inj_on_def)

lemma distinct_numbered: "numbered start c rows \<Longrightarrow> distinct (map (int_at c) rows)"
  by (auto simp: numbered_def distinct_map inj_on_def)

lemma class_oids:
  assumes "linked n b" and "n \<le> 100000"
  shows "distinct (map (int_at ''oid'') (b_class b))"
proof -
  let ?r = "filter (is_relkind ''r'') (b_class b)" and ?i = "filter (is_relkind ''i'') (b_class b)"
  have r: "map (int_at ''oid'') ?r = map Some (table_oids n)"
    and i: "map (int_at ''oid'') ?i = map (int_at ''indexrelid'') (b_index b)"
    and num: "numbered FIRST_INDEX_OID ''indexrelid'' (b_index b)"
    and kinds: "\<forall>r \<in> set (b_class b). is_relkind ''r'' r \<or> is_relkind ''i'' r"
    using assms(1) by (simp_all add: linked_def)
  have "distinct (map (int_at ''oid'') ?r)" unfolding r by (simp add: distinct_map distinct_table_oids)
  moreover have "distinct (map (int_at ''oid'') ?i)" unfolding i by (rule distinct_numbered[OF num])
  moreover have "set (map (int_at ''oid'') ?r) \<inter> set (map (int_at ''oid'') ?i) = {}"
    unfolding r i num[unfolded numbered_def] using assms(2) by (auto simp: table_oids_def FIRST_INDEX_OID_def)
  moreover have other: "filter (\<lambda>x. \<not> is_relkind ''r'' x) (b_class b) = ?i"
  proof (rule filter_cong[OF refl])
    fix x
    assume "x \<in> set (b_class b)"
    with kinds show "(\<not> is_relkind ''r'' x) = is_relkind ''i'' x" by (auto simp: is_relkind_def)
  qed
  ultimately have "distinct (map (int_at ''oid'') (?r @ filter (\<lambda>x. \<not> is_relkind ''r'' x) (b_class b)))" by simp
  moreover have m: "mset (?r @ filter (\<lambda>x. \<not> is_relkind ''r'' x) (b_class b)) = mset (b_class b)" by simp
  have "mset (map (int_at ''oid'') (?r @ filter (\<lambda>x. \<not> is_relkind ''r'' x) (b_class b))) = mset (map (int_at ''oid'') (b_class b))"
    by (simp only: mset_map m)
  ultimately show ?thesis using mset_eq_imp_distinct_iff by blast
qed

definition index_rows :: "cat_row list \<Rightarrow> cat_row list" where
  "index_rows rows = filter (is_relkind ''i'') rows"

definition table_rows :: "cat_row list \<Rightarrow> cat_row list" where
  "table_rows rows = filter (is_relkind ''r'') rows"

text \<open>
  C25: in a catalogue of at most 100000 tables no two relations share an OID and no two constraints do; the tables are numbered
  from 16384 in the order they are declared, whatever keys they have; every index stands in \<open>pg_class\<close> under the OID \<open>pg_index\<close> gives
  it, has exactly one constraint of its name on its table, and every column and index belongs to a table of the catalogue. The
  names of the indexes are different and, below a thousand million of them, no longer than 63 bytes.
\<close>
theorem pg_catalog_links:
  assumes "build_pg_catalog s db = Inr cat" and "length s \<le> 100000"
  defines "classes \<equiv> rows_of cat ''pg_catalog'' ''pg_class''" and "indexes \<equiv> rows_of cat ''pg_catalog'' ''pg_index''"
    and "constraints \<equiv> rows_of cat ''pg_catalog'' ''pg_constraint''" and "attributes \<equiv> rows_of cat ''pg_catalog'' ''pg_attribute''"
  shows "distinct (map (int_at ''oid'') classes) \<and> distinct (map (int_at ''oid'') constraints)
    \<and> map (int_at ''oid'') (table_rows classes) = map (\<lambda>i. Some (FIRST_USER_OID + int i)) [0..<length s]
    \<and> map (int_at ''oid'') (index_rows classes) = map (int_at ''indexrelid'') indexes
    \<and> map (int_at ''conindid'') constraints = map (int_at ''indexrelid'') indexes
    \<and> map (int_at ''conrelid'') constraints = map (int_at ''indrelid'') indexes
    \<and> map (text_at ''conname'') constraints = map (text_at ''relname'') (index_rows classes)
    \<and> (\<forall>r \<in> set attributes. int_at ''attrelid'' r \<in> int_at ''oid'' ` set (table_rows classes))
    \<and> (\<forall>r \<in> set indexes. int_at ''indrelid'' r \<in> int_at ''oid'' ` set (table_rows classes))
    \<and> distinct (map (text_at ''relname'') (index_rows classes))
    \<and> (length indexes \<le> 10 ^ 9 \<longrightarrow> (\<forall>r \<in> set (index_rows classes). \<exists>kn. text_at ''relname'' r = Some kn \<and> fits_name kn))"
proof -
  obtain b where b: "rfold add_table (enumerate 0 s) pg_build_empty = Inr b"
    using assms(1) by (auto simp: build_pg_catalog_def)
  have rows: "classes = b_class b" "indexes = b_index b" "constraints = b_constraint b" "attributes = b_attribute b"
    using assms(1) b unfolding classes_def indexes_def constraints_def attributes_def
    by (auto simp: build_pg_catalog_def rows_of_def dict_get_or_def)
  from links.built[OF b] have lk: "linked (length s) b" and names: "distinct (b_names b)" by auto
  have tabs: "map (int_at ''oid'') (table_rows (b_class b)) = map Some (table_oids (length s))"
    using lk by (simp add: linked_def table_rows_def)
  then have mem: "int_at ''oid'' ` set (table_rows (b_class b)) = Some ` set (table_oids (length s))"
    by (metis list.set_map)
  have relnames: "map (text_at ''relname'') (index_rows (b_class b)) = map Some (b_names b)"
    using lk by (simp add: linked_def index_rows_def)
  have fit: "length (b_index b) \<le> 10 ^ 9 \<longrightarrow>
      (\<forall>r \<in> set (index_rows (b_class b)). \<exists>kn. text_at ''relname'' r = Some kn \<and> fits_name kn)"
  proof (intro impI ballI)
    fix r
    assume "length (b_index b) \<le> 10 ^ 9" "r \<in> set (index_rows (b_class b))"
    moreover from this(2) have "text_at ''relname'' r \<in> set (map (text_at ''relname'') (index_rows (b_class b)))" by simp
    then obtain kn where "text_at ''relname'' r = Some kn" "kn \<in> set (b_names b)" unfolding relnames by auto
    moreover have "length (b_names b) = length (b_index b)" using lk by (simp add: linked_def)
    ultimately show "\<exists>kn. text_at ''relname'' r = Some kn \<and> fits_name kn"
      using names.built[OF b] by (simp add: names_fit_def)
  qed
  have "distinct (map (int_at ''oid'') (b_constraint b))" using lk distinct_numbered by (auto simp: linked_def)
  moreover have "distinct (map (text_at ''relname'') (index_rows (b_class b)))"
    unfolding relnames using names by (simp add: distinct_map)
  moreover have "map Some (table_oids (length s)) = map (\<lambda>i. Some (FIRST_USER_OID + int i)) [0..<length s]"
    by (simp add: table_oids_def)
  ultimately show ?thesis
    unfolding rows mem tabs using class_oids[OF lk assms(2)] lk fit relnames
    by (simp add: linked_def index_rows_def)
qed

theorem pg_catalog_links_witness:
  "\<exists>cat. build_pg_catalog demo_schema (lit ''postgres'') = Inr cat
     \<and> distinct (map (int_at ''oid'') (rows_of cat ''pg_catalog'' ''pg_class''))
     \<and> map (int_at ''oid'') (table_rows (rows_of cat ''pg_catalog'' ''pg_class'')) = [Some 16384]
     \<and> map (int_at ''conindid'') (rows_of cat ''pg_catalog'' ''pg_constraint'')
       = map (int_at ''indexrelid'') (rows_of cat ''pg_catalog'' ''pg_index'')"
proof -
  obtain cat where cat: "build_pg_catalog demo_schema (lit ''postgres'') = Inr cat"
    using pg_catalog_builds[OF demo_schema_ok demo_names_encodable] by blast
  have "length demo_schema \<le> 100000" by (simp add: demo_schema_def)
  from pg_catalog_links[OF cat this] cat show ?thesis by (auto simp: demo_schema_def FIRST_USER_OID_def)
qed

section \<open>The two halves agree\<close>

definition table_attributes :: "nat \<Rightarrow> table \<Rightarrow> cat_row list" where
  "table_attributes i t = map (\<lambda>(position, (c, ty)). attribute_row (FIRST_USER_OID + int i) t position c ty) (enumerate 1 (t_columns t))"

definition schema_attributes :: "nat \<Rightarrow> schema \<Rightarrow> cat_row list" where
  "schema_attributes i s = concat (map (\<lambda>(i, (name, t)). table_attributes i t) (enumerate i s))"

lemma schema_attributes_snoc:
  "schema_attributes i (s @ [(name, t)]) = schema_attributes i s @ table_attributes (i + length s) t"
  by (simp add: schema_attributes_def enumerate_append_eq)

definition attributes_upto :: "schema \<Rightarrow> nat \<Rightarrow> pg_build \<Rightarrow> bool" where
  "attributes_upto s n b \<longleftrightarrow> b_attribute b = schema_attributes 0 (take n s)"

interpretation attributes: catalog_invariant s "attributes_upto s" for s
  by unfold_locales
     (simp_all add: attributes_upto_def schema_attributes_def[of _ "[]"] pg_build_empty_def put_key_def Let_def
       put_table_def take_Suc_conv_app_nth schema_attributes_snoc table_attributes_def)

text \<open>A row of \<open>information_schema.columns\<close> and a row of \<open>pg_attribute\<close> that say the same of one declared column.\<close>

definition same_column :: "schema \<Rightarrow> cat_row \<Rightarrow> cat_row \<Rightarrow> bool" where
  "same_column s c a \<longleftrightarrow>
     text_at ''column_name'' c = text_at ''attname'' a \<and> int_at ''ordinal_position'' c = int_at ''attnum'' a
     \<and> text_at ''data_type'' c = text_at ''attformattype'' a
     \<and> text_at ''is_nullable'' c = Some (lit (if bool_at ''attnotnull'' a = Some True then ''NO'' else ''YES''))
     \<and> (\<exists>ty \<in> set pg_type_rows. int_at ''oid'' ty = int_at ''atttypid'' a \<and> text_at ''typname'' ty = text_at ''udt_name'' c)
     \<and> (\<exists>i < length s. text_at ''table_name'' c = Some (fst (s ! i)) \<and> int_at ''attrelid'' a = Some (FIRST_USER_OID + int i))"

lemma attribute_row_gets:
  "text_at ''attname'' (attribute_row oid t i c ty) = Some c" "int_at ''attnum'' (attribute_row oid t i c ty) = Some (int i)"
  "text_at ''attformattype'' (attribute_row oid t i c ty) = Some ty"
  "bool_at ''attnotnull'' (attribute_row oid t i c ty) = Some (c \<in> set (t_primary_key t))"
  "int_at ''atttypid'' (attribute_row oid t i c ty) = Some (oid_for_declared_type ty)"
  "int_at ''attrelid'' (attribute_row oid t i c ty) = Some oid"
  by (simp_all add: attribute_row_def int_at_def text_at_def bool_at_def)

lemma columns_row_same:
  assumes "columns_row name t pos c ty = Inr r" and "i < length s" and "s ! i = (name, t)"
  shows "same_column s r (attribute_row (FIRST_USER_OID + int i) t pos c ty)"
proof -
  obtain ty_row udt where ty: "ty_row \<in> set pg_type_rows" "int_at ''oid'' ty_row = Some (oid_for_declared_type ty)"
      "dict_get ty_row (lit ''typname'') = Some (PStr udt)"
    and r: "r = dict_update (nulls (view_types columns_document)) (row_of (column_facts name t pos c ty udt))"
    using columns_row_returns[of name t pos c ty] assms(1) by auto
  have gets: "text_at ''column_name'' r = Some c" "int_at ''ordinal_position'' r = Some (int pos)" "text_at ''data_type'' r = Some ty"
    "text_at ''is_nullable'' r = Some (lit (if c \<in> set (t_primary_key t) then ''NO'' else ''YES''))"
    "text_at ''udt_name'' r = Some udt" "text_at ''table_name'' r = Some name"
    unfolding text_at_def int_at_def r by (simp_all add: columns_row_gets) (simp_all add: column_facts_def)
  have "\<exists>ty' \<in> set pg_type_rows. int_at ''oid'' ty' = Some (oid_for_declared_type ty) \<and> text_at ''typname'' ty' = Some udt"
    using ty by (auto simp: text_at_def)
  moreover have "\<exists>j < length s. Some name = Some (fst (s ! j)) \<and> Some (FIRST_USER_OID + int i) = Some (FIRST_USER_OID + int j)"
    using assms(2,3) by (intro exI[of _ i]) simp
  ultimately show ?thesis by (simp add: same_column_def gets attribute_row_gets)
qed

lemma view_rows_same:
  assumes "view_rows (name, t) = Inr (tr, crs)" and "i < length s" and "s ! i = (name, t)"
  shows "list_all2 (same_column s) crs (table_attributes i t)"
proof -
  have "rmap (\<lambda>(pos, (c, ty)). columns_row name t pos c ty) (enumerate 1 (t_columns t)) = Inr crs"
    using assms(1) by (auto simp: view_rows_def)
  then have "list_all2 (\<lambda>(pos, (c, ty)) r. columns_row name t pos c ty = Inr r) (enumerate 1 (t_columns t)) crs"
    by (simp add: rmap_eq_Inr_iff case_prod_unfold)
  then show ?thesis
    unfolding table_attributes_def list_all2_map2 list_all2_conv_all_nth[of "same_column s"]
    using columns_row_same[OF _ assms(2,3)] by (auto simp: list_all2_conv_all_nth case_prod_unfold)
qed

lemma views_same:
  assumes "rmap view_rows ts = Inr rows" and "s = pre @ ts"
  shows "list_all2 (same_column s) (concat (map snd rows)) (schema_attributes (length pre) ts)"
  using assms
proof (induction ts arbitrary: pre rows)
  case Nil
  then show ?case by (simp add: schema_attributes_def)
next
  case (Cons x ts)
  obtain name t where x: "x = (name, t)" by fastforce
  from Cons.prems(1) x obtain tr crs rest where rows: "rows = (tr, crs) # rest" "view_rows (name, t) = Inr (tr, crs)" "rmap view_rows ts = Inr rest"
    by auto
  have "list_all2 (same_column s) crs (table_attributes (length pre) t)"
    using Cons.prems(2) x by (intro view_rows_same[OF rows(2)]) simp_all
  moreover have "list_all2 (same_column s) (concat (map snd rest)) (schema_attributes (length (pre @ [x])) ts)"
    using Cons.prems(2) by (intro Cons.IH[OF rows(3)]) simp
  ultimately show ?case by (simp add: rows(1) x schema_attributes_def list_all2_appendI)
qed

text \<open>
  C26: \<open>information_schema.columns\<close> and \<open>pg_attribute\<close> describe the same columns in the same order: row by row they give the same
  table, name, position and declared type, the type \<open>pg_type\<close> names alike, and the one says \<open>is_nullable = NO\<close> exactly where
  the other sets \<open>attnotnull\<close>.
\<close>
theorem catalogs_agree:
  assumes "build_information_schema s = Inr ic" and "build_pg_catalog s db = Inr pc"
  shows "list_all2 (same_column s) (rows_of ic ''information_schema'' ''columns'') (rows_of pc ''pg_catalog'' ''pg_attribute'')"
proof -
  obtain rows where rows: "rmap view_rows s = Inr rows" and c: "rows_of ic ''information_schema'' ''columns'' = concat (map snd rows)"
    using assms(1) by (auto simp: build_information_schema_def rows_of_def dict_get_or_def)
  obtain b where b: "rfold add_table (enumerate 0 s) pg_build_empty = Inr b" and a: "rows_of pc ''pg_catalog'' ''pg_attribute'' = b_attribute b"
    using assms(2) by (auto simp: build_pg_catalog_def rows_of_def dict_get_or_def)
  have "b_attribute b = schema_attributes 0 s" using attributes.built[OF b] by (simp add: attributes_upto_def)
  with views_same[OF rows, of s "[]"] show ?thesis by (simp add: c a)
qed

lemma information_schema_builds: "\<exists>cat. build_information_schema s = Inr cat"
  using all_views_return[of s] by (auto simp: build_information_schema_def information_schema_loads)

theorem catalogs_agree_witness:
  "\<exists>ic pc. build_information_schema demo_schema = Inr ic \<and> build_pg_catalog demo_schema (lit ''postgres'') = Inr pc
     \<and> list_all2 (same_column demo_schema) (rows_of ic ''information_schema'' ''columns'') (rows_of pc ''pg_catalog'' ''pg_attribute'')"
proof -
  obtain ic pc where "build_information_schema demo_schema = Inr ic" "build_pg_catalog demo_schema (lit ''postgres'') = Inr pc"
    using information_schema_builds pg_catalog_builds[OF demo_schema_ok demo_names_encodable] by blast
  with catalogs_agree[OF this] show ?thesis by blast
qed

section \<open>What Postgres would not say\<close>

text \<open>
  The names of indexes are kept apart from each other but not from the names of tables: a table called
  like another's primary key gives two relations of one name in one namespace.
\<close>

definition shadow_schema :: schema where
  "shadow_schema =
     [(lit ''t'', \<lparr>t_name = lit ''t'', t_columns = [(lit ''a'', lit ''text'')], t_primary_key = [lit ''a''], t_unique = []\<rparr>),
      (lit ''t_pkey'', \<lparr>t_name = lit ''t_pkey'', t_columns = [], t_primary_key = [], t_unique = []\<rparr>)]"

lemma fits_lit: "fits_name (lit s) \<longleftrightarrow> length (concat (map utf8_char (lit s))) \<le> NAME_BYTES"
  by (simp add: fits_name_def utf8_encode_def lit_encodable)

lemma index_name_shadows_table:
  "schema_ok shadow_schema \<and> (\<exists>cat. build_pg_catalog shadow_schema (lit ''db'') = Inr cat
     \<and> map (text_at ''relname'') (rows_of cat ''pg_catalog'' ''pg_class'') = [Some (lit ''t''), Some (lit ''t_pkey''), Some (lit ''t_pkey'')])"
proof -
  let ?k = "\<lparr>k_table = lit ''t'', k_columns = [lit ''a''], k_is_primary = True\<rparr>"
  have stem: "key_stem ?k = lit ''t_pkey''" by (simp add: key_stem_def lit_def)
  have "fits_name (lit ''t_pkey'')" by (simp add: fits_lit NAME_BYTES_def) (simp add: lit_def utf8_char_def)
  then have name: "key_name ?k [] = Inr (lit ''t_pkey'')" using key_name_stem[of ?k "[]"] by (simp add: stem)
  have pos: "key_positions \<lparr>t_name = lit ''t'', t_columns = [(lit ''a'', lit ''text'')], t_primary_key = [lit ''a''], t_unique = []\<rparr> ?k = Inr [1]"
    by (simp add: key_positions_def column_position_def)
  have "schema_ok shadow_schema" by (simp add: shadow_schema_def schema_ok_def table_ok_def key_ok_def)
  moreover have "\<exists>b. rfold add_table (enumerate 0 shadow_schema) pg_build_empty = Inr b
      \<and> map (text_at ''relname'') (b_class b) = [Some (lit ''t''), Some (lit ''t_pkey''), Some (lit ''t_pkey'')]"
    by (simp add: shadow_schema_def add_table_def declared_keys_def add_key_def put_table_def pg_build_empty_def name pos
        put_key_def class_row_gets Let_def)
  ultimately show ?thesis by (auto simp: build_pg_catalog_def rows_of_def dict_get_or_def)
qed

end
