(* ===== verification/Catalog_Answers.thy ===== *)
theory Catalog_Answers
  imports Catalog_Claims Base_Session Server
begin

text \<open>
  What a client is told when sqlglot's executor cannot run its query over the catalogue: \<open>pg_catalog\<close> answers with no rows under the
  names the query asked for, \<open>information_schema\<close> with Postgres' own error.
\<close>

text \<open>What \<open>Session.schema()\<close> returns to connection \<open>p\<close>, when it returns without touching the connection.\<close>

definition declares :: "'u env \<Rightarrow> int \<Rightarrow> 'u world \<Rightarrow> declared \<Rightarrow> 'u world \<Rightarrow> bool" where
  "declares env p w d w' \<longleftrightarrow>
     (\<exists>u. e_schema env (so_author (w_sessions w (c_session (w_conns w p)))) (w_conns w p) = ([], u, Inr d) \<and> w' = upd_author p u w)"

lemma declares_schema:
  assumes "declares env p w d w'" and "schema_resolve d = Inr s"
  shows "declared_schema env p w = (Inr s, w')"
  using assms by (auto simp: declares_def declared_schema_def call_author_def act_defs run_acts_def)

lemma upd_author_conn: "w_conns (upd_author p u w) = w_conns w"
  by (simp add: upd_author_def Let_def)

definition text_columns :: "result_column list \<Rightarrow> pystr list \<Rightarrow> bool" where
  "text_columns cols names \<longleftrightarrow>
     length cols = length names
     \<and> (\<forall>i < length names. rc_oid (cols ! i) = TEXT \<and> rc_name (cols ! i) \<noteq> [] \<and> (names ! i \<noteq> [] \<longrightarrow> rc_name (cols ! i) = names ! i))"

lemma empty_result_columns:
  assumes "q_selects q = Some names" and "names \<noteq> []"
  shows "\<exists>cols. empty_result q = Some (StaticStatement (q_sql q) (Some cols) (RowsFixed []) []) \<and> text_columns cols names"
proof -
  let ?f = "\<lambda>(i, name). \<lparr>rc_name = (if name = [] then lit ''column'' @ nat_str i else name), rc_oid = TEXT\<rparr>"
  have "empty_result q = Some (StaticStatement (q_sql q) (Some (map ?f (enumerate 1 names))) (RowsFixed []) [])"
    using assms by (cases names) (simp_all add: empty_result_def)
  moreover have "text_columns (map ?f (enumerate 1 names)) names"
    by (auto simp: text_columns_def nth_enumerate_eq)
  ultimately show ?thesis by blast
qed


text \<open>A session whose engine knows one query over a \<open>pg_\<close> table and one over a view, and fails to run either.\<close>

definition failing_session :: "unit env" where
  "failing_session = plain_session
     \<lparr>e_parse := (\<lambda>sql. Some \<lparr>q_kind = Q_Select,
         q_tables = [if sql = lit ''c'' then ([], lit ''pg_class'') else (lit ''information_schema'', lit ''tables'')],
         q_sql = sql, q_selects = Some [lit ''oid'']\<rparr>),
      e_execute := (\<lambda>q cat. OptimizeFailed (lit ''Column '' @ [39] @ lit ''x'' @ [39] @ lit '' could not be resolved''))\<rparr>"

definition quiet_world :: "unit world" where
  "quiet_world = PgServer (\<lambda>_. ()) [] 5432 1000"

lemma failing_session_declares: "declares failing_session 7 quiet_world (DSchema []) (upd_author 7 () quiet_world)"
  by (simp add: declares_def failing_session_def session_defs)

lemma failing_session_parses:
  "e_parse failing_session (lit ''c'') = Some \<lparr>q_kind = Q_Select, q_tables = [([], lit ''pg_class'')], q_sql = lit ''c'', q_selects = Some [lit ''oid'']\<rparr>"
  "e_parse failing_session (lit ''v'') = Some \<lparr>q_kind = Q_Select, q_tables = [(lit ''information_schema'', lit ''tables'')], q_sql = lit ''v'', q_selects = Some [lit ''oid'']\<rparr>"
  by (simp_all add: failing_session_def)

lemma failing_session_executes:
  "e_execute failing_session q cat = OptimizeFailed (lit ''Column '' @ [39] @ lit ''x'' @ [39] @ lit '' could not be resolved'' @ [])"
  "e_rewrite failing_session c q = q"
  by (simp_all add: failing_session_def session_defs)


lemma unresolved_column_at:
  assumes "name \<noteq> []" and "39 \<notin> set name"
  shows "unresolved_column (lit ''Column '' @ [39] @ name @ [39] @ lit '' could not be resolved'' @ post) = Some name"
proof -
  have "takeWhile (\<lambda>x. x \<noteq> 39) (name @ 39 # xs) = name" for xs
    using assms(2) by (induction name) auto
  then show ?thesis using assms(1) by (simp add: lit_def)
qed

text \<open>
  A SELECT over \<open>information_schema\<close> with a column the views do not have is refused with SQLSTATE 42703 and Postgres' wording,
  taken from sqlglot's, and one that the executor cannot run for any other reason with 0A000, for every schema a session declares;
  neither is answered by an empty result.
\<close>
theorem information_schema_reports:
  assumes "e_parse env sql = Some q" and "q_kind q = Q_Select"
    and "list_ex (\<lambda>(db, name). py_lower db = lit ''information_schema'') (q_tables q)"
    and "declares env p w d w'" and "schema_resolve d = Inr s"
    and "\<And>cat. e_execute env q cat = failure" and "name \<noteq> []" and "39 \<notin> set name"
  shows "(failure = OptimizeFailed (lit ''Column '' @ [39] @ name @ [39] @ lit '' could not be resolved'' @ post) \<longrightarrow>
      run_link env prep p sql oids L_information_schema w =
        (Inl (PgError (lit ''42703'') (lit ''column '' @ [34] @ name @ [34] @ lit '' does not exist'') []), w'))
    \<and> (failure = ExecutorFailed reason \<longrightarrow>
      run_link env prep p sql oids L_information_schema w =
        (Inl (PgError (lit ''0A000'') (lit ''pg_mimic could not run this information_schema query: '' @ reason) []), w'))"
proof -
  obtain cat where cat: "build_information_schema s = Inr cat" using information_schema_builds by blast
  have run: "run_link env prep p sql oids L_information_schema w = (as_statement env q cat True, w')"
    using assms(1-3)
    by (simp add: run_link_def information_schema_def information_schema_statement_def abind_def declares_schema[OF assms(4,5)] alift_def cat)
  show ?thesis
    unfolding run using assms(6) unresolved_column_at[OF assms(7,8)]
    by (simp add: as_statement_def undefined_column_message_def UNDEFINED_COLUMN_def FEATURE_NOT_SUPPORTED_def)
qed

theorem information_schema_reports_witness:
  "run_link failing_session (prepare failing_session 7) 7 (lit ''v'') [] L_information_schema quiet_world =
     (Inl (PgError (lit ''42703'') (lit ''column '' @ [34] @ lit ''x'' @ [34] @ lit '' does not exist'') []), upd_author 7 () quiet_world)"
proof -
  have "py_lower (lit ''information_schema'') = lit ''information_schema''" by (simp add: lit_def lower_char_def)
  then show ?thesis
    using information_schema_reports[OF failing_session_parses(2) _ _ failing_session_declares schema_resolve.simps(2)
        failing_session_executes(1), where name = "lit ''x''" and post = "[]" and prep = "prepare failing_session 7" and oids = "[]"]
    by (simp add: lit_def[of "''x''"])
qed

end
