(* ===== verification/Auth_Claims.thy ===== *)
theory Auth_Claims
  imports Server
begin

text \<open>
  The password exchanges of \<open>pg_mimic/auth.py\<close> over the wire: what a client that sends a framed password is told. The salted digest
  of the MD5 exchange is \<open>md5_response\<close> over the hash parameter \<open>ae_md5_hex\<close>.
\<close>

lemma decode_password_cstring:
  assumes "cstring_ok pw"
  shows "decode_password (utf8_bytes pw @ [0]) = Inr pw"
proof -
  have "0 \<notin> set (utf8_bytes pw)" using utf8_bytes_no_nul[OF assms] .
  then have "py_rstrip_chars [0] (utf8_bytes pw @ [0]) = utf8_bytes pw"
    by (cases "utf8_bytes pw" rule: rev_cases) (auto simp: py_rstrip_chars_def)
  then show ?thesis using assms by (simp add: decode_password_def utf8_decode_bytes cstring_ok_def)
qed

text \<open>The client of connection \<open>p\<close> has sent a password message, and then \<open>rest\<close>.\<close>

definition sent_password :: "int \<Rightarrow> pystr \<Rightarrow> bytes \<Rightarrow> 'u world \<Rightarrow> bool" where
  "sent_password p pw rest w \<longleftrightarrow>
     cstring_ok pw \<and> int (length (utf8_bytes pw)) + 5 \<le> w_max_message_size w
     \<and> (\<exists>frame. message PASSWORD (utf8_bytes pw @ [0]) = Inr frame \<and> c_in (w_conns w p) = frame @ rest)"

lemma read_password_sent:
  assumes "sent_password p pw rest w"
  shows "read_password p expected w = (Inr (utf8_bytes pw @ [0]), upd_conn p (\<lambda>c. c\<lparr>c_in := rest\<rparr>) w)"
proof -
  obtain frame where f: "message PASSWORD (utf8_bytes pw @ [0]) = Inr frame" "c_in (w_conns w p) = frame @ rest"
    using assms by (auto simp: sent_password_def)
  have "read_message (w_max_message_size w) (frame @ rest) = (Inr (PASSWORD, utf8_bytes pw @ [0]), rest)"
    using assms by (intro read_message_message[OF f(1)]) (simp add: sent_password_def)
  then show ?thesis by (simp add: read_password_def read_msg_def abind_def f(2) aret_def)
qed

lemma sent_password_put: "sent_password p pw rest (put_out p m w) = sent_password p pw rest w"
  by (simp add: sent_password_def put_out_def upd_conn_def)

text \<open>What the server does to the connection of a client whose password it has read: the request it wrote and the bytes left.\<close>

definition asked :: "int \<Rightarrow> bmsg \<Rightarrow> bytes \<Rightarrow> 'u world \<Rightarrow> 'u world" where
  "asked p m rest w = upd_conn p (\<lambda>c. c\<lparr>c_in := rest\<rparr>) (put_out p m w)"


definition one_user :: auth_env where
  "one_user = trust_env\<lparr>ae_get_password := simple_get_password [(lit ''u'', lit ''ab'')]\<rparr>"

definition waiting_client :: "unit world" where
  "waiting_client = upd_conn 7 (\<lambda>c. c\<lparr>c_in := [0x70, 0, 0, 0, 7, 97, 98, 0] @ [0x51]\<rparr>) (PgServer (\<lambda>_. ()) [] 5432 1000)"

lemma waiting_client_sent: "sent_password 7 (lit ''ab'') [0x51] waiting_client"
  by (simp add: sent_password_def waiting_client_def upd_conn_def PgServer_def message_def PASSWORD_def wire_simps
      cstring_ok_def utf8_bytes_def lit_def utf8_char_def encodable_def)


end
