(* ===== verification/Syntax_Tree.thy ===== *)
theory Syntax_Tree
  imports Values
begin

text \<open>
  The syntax trees the code reads. sqlglot is a package of its own: its parser, optimizer, annotator and
  executor are parameters of the model, and what is given here is the data they hand over. A node has
  a class with the plain arguments the code looks at, the type the annotator put on it (nothing before
  annotation) and its child expressions in the order of its arguments, where \<open>this\<close> comes first.

  \<open>find_all\<close> visits a tree breadth first (\<open>walk_tree\<close>). A loop that replaces nodes while it runs over \<open>list(find_all(...))\<close> decides
  on each node before it reaches the children, so it is a substitution from the top (\<open>subst_tree\<close>); the root has no
  parent to be replaced in.
\<close>

section \<open>Nodes\<close>

text \<open>\<open>exp.DataType\<close>: a member of \<open>exp.DataType.Type\<close> by its name, and the types inside.\<close>

datatype dtype = DataType (dt_this: string) (dt_expressions: "dtype list")

text \<open>
  The classes the code tells apart. \<open>E_Func\<close> is a function with a class of its own (its class and \<open>sql_name()\<close>),
  \<open>E_Anonymous\<close> a function without, \<open>E_Binary\<close> a binary operator (with its \<open>sql_name()\<close> where it is a function as well); \<open>E_Distinct\<close> says whether there is an ON,
  \<open>E_Ordered\<close> whether the order is descending and puts NULL first;
  \<open>E_Other\<close> is any other class.
\<close>

datatype head =
    E_Literal bool pystr
  | E_Null
  | E_Boolean bool
  | E_Column pystr pystr
  | E_Parameter pystr
  | E_Paren
  | E_Neg
  | E_Cast
  | E_DataType dtype
  | E_Alias pystr
  | E_Anonymous pystr
  | E_Func string string
  | E_Binary string "string option"
  | E_Operator pystr
  | E_Table pystr pystr
  | E_CTE pystr
  | E_Distinct bool
  | E_Ordered bool bool
  | E_Subquery
  | E_Select
  | E_Limit
  | E_Offset
  | E_Other string

datatype expr = Expr (e_head: head) (e_type: "dtype option") (e_kids: "expr list")

abbreviation leaf :: "head \<Rightarrow> expr" where
  "leaf h \<equiv> Expr h None []"

abbreviation string_literal :: "pystr \<Rightarrow> expr" where
  "string_literal s \<equiv> leaf (E_Literal True s)"

abbreviation number_literal_node :: "pystr \<Rightarrow> expr" where
  "number_literal_node s \<equiv> leaf (E_Literal False s)"

fun head_class :: "head \<Rightarrow> string" where
  "head_class (E_Func c n) = c" | "head_class (E_Binary c n) = c" | "head_class (E_Other c) = c"
| "head_class (E_Operator op) = ''Operator''" | "head_class (E_Anonymous n) = ''Anonymous''" | "head_class (E_Literal s t) = ''Literal''"
| "head_class E_Null = ''Null''" | "head_class (E_Boolean b) = ''Boolean''" | "head_class (E_Column t n) = ''Column''"
| "head_class (E_Parameter n) = ''Parameter''" | "head_class E_Paren = ''Paren''" | "head_class E_Neg = ''Neg''"
| "head_class E_Cast = ''Cast''" | "head_class (E_DataType d) = ''DataType''" | "head_class (E_Alias a) = ''Alias''"
| "head_class (E_CTE n) = ''CTE''" | "head_class (E_Distinct on) = ''Distinct''" | "head_class (E_Ordered d n) = ''Ordered''"
| "head_class (E_Table d n) = ''Table''" | "head_class E_Subquery = ''Subquery''" | "head_class E_Select = ''Select''"
| "head_class E_Limit = ''Limit''" | "head_class E_Offset = ''Offset''"

text \<open>\<open>node.unalias()\<close>; \<open>is_int\<close> of a literal, with the integer it is.\<close>

fun unalias :: "expr \<Rightarrow> expr" where
  "unalias (Expr (E_Alias a) t (k # ks)) = k"
| "unalias e = e"

fun int_literal :: "expr \<Rightarrow> int option" where
  "int_literal (Expr (E_Literal False s) t ks) = parse_int_text s"
| "int_literal _ = None"

fun is_number_literal :: "expr \<Rightarrow> bool" where
  "is_number_literal (Expr (E_Literal string s) t ks) = (\<not> string)"
| "is_number_literal _ = False"

section \<open>Walking\<close>

lemma kids_smaller: "size_list size (e_kids e) < size e"
  by (cases e) simp

function walk_queue :: "expr list \<Rightarrow> expr list" where
  "walk_queue [] = []"
| "walk_queue (e # queue) = e # walk_queue (queue @ e_kids e)"
  by pat_completeness auto

termination
  by (relation "measure (size_list size)") (auto simp: size_list_append intro: kids_smaller less_SucI)

definition walk_tree :: "expr \<Rightarrow> expr list" where
  "walk_tree e = walk_queue [e]"

definition find_all :: "(head \<Rightarrow> bool) \<Rightarrow> expr \<Rightarrow> expr list" where
  "find_all cls e = filter (\<lambda>n. cls (e_head n)) (walk_tree e)"

text \<open>Every node below the root for which \<open>f\<close> gives a replacement is replaced, the outermost first.\<close>

fun subst_node :: "(expr \<Rightarrow> expr option) \<Rightarrow> expr \<Rightarrow> expr" where
  "subst_node f (Expr h t ks) = (case f (Expr h t ks) of Some r \<Rightarrow> r | None \<Rightarrow> Expr h t (map (subst_node f) ks))"

definition subst_tree :: "(expr \<Rightarrow> expr option) \<Rightarrow> expr \<Rightarrow> expr" where
  "subst_tree f e = Expr (e_head e) (e_type e) (map (subst_node f) (e_kids e))"

section \<open>Lemmas\<close>

fun nodes :: "expr \<Rightarrow> expr set" where
  "nodes (Expr h t ks) = insert (Expr h t ks) (\<Union>k \<in> set ks. nodes k)"

lemma nodes_unfold: "nodes e = insert e (\<Union>k \<in> set (e_kids e). nodes k)"
  by (cases e) simp

lemma set_walk_queue: "set (walk_queue q) = (\<Union>e \<in> set q. nodes e)"
proof (induction q rule: walk_queue.induct)
  case (2 e queue)
  then show ?case using nodes_unfold[of e] by auto
qed simp

lemma set_walk_tree [simp]: "set (walk_tree e) = nodes e"
  by (simp add: walk_tree_def set_walk_queue del: walk_queue.simps)

lemma subst_node_none: "(\<And>n. n \<in> nodes e \<Longrightarrow> f n = None) \<Longrightarrow> subst_node f e = e"
proof (induction e)
  case (Expr h t ks)
  from Expr.prems have "f (Expr h t ks) = None" by simp
  moreover have "map (subst_node f) ks = ks"
    using Expr.IH Expr.prems by (auto intro!: map_idI)
  ultimately show ?case by simp
qed

lemma subst_tree_none: "(\<And>n. n \<in> nodes e \<Longrightarrow> f n = None) \<Longrightarrow> subst_tree f e = e"
  by (cases e) (auto simp: subst_tree_def intro!: map_idI subst_node_none)

end
