(* ===== verification/Describe.thy ===== *)
theory Describe
  imports Syntax_Tree Array_Codecs Pg_Types World
begin

text \<open>
  \<open>pg_mimic/describe.py\<close>: the columns of a query from its annotated tree, and the types of a declared schema in each of their
  spellings. \<open>pg_mimic/analysis.py\<close>: the forms of a query and the order they are derived in (\<open>AnalyzedQuery\<close>), with sqlglot's
  \<open>qualify\<close> and \<open>annotate_types\<close> as arguments.

  A projection is known by its identity across \<open>qualify\<close>, so a select list is a list of pairs of an identity and
  a node.

  The lemmas: the spelling a type is declared by leads back to the type, and sqlglot's spelling of it does as well.
\<close>

section \<open>The table of types\<close>

definition TYPES :: "(int \<times> string \<times> string \<times> string) list" where
  "TYPES =
     [(BOOL, ''boolean'', ''BOOLEAN'', ''bool''), (INT2, ''smallint'', ''SMALLINT'', ''int2''), (INT4, ''integer'', ''INT'', ''int4''),
      (INT8, ''bigint'', ''BIGINT'', ''int8''), (FLOAT4, ''real'', ''FLOAT'', ''float4''), (FLOAT8, ''double precision'', ''DOUBLE'', ''float8''),
      (NUMERIC, ''numeric'', ''DECIMAL'', ''numeric''), (TEXT, ''text'', ''TEXT'', ''text''), (VARCHAR, ''character varying'', ''VARCHAR'', ''varchar''),
      (BPCHAR, ''character'', ''CHAR'', ''bpchar''), (BYTEA, ''bytea'', ''VARBINARY'', ''bytea''), (DATE, ''date'', ''DATE'', ''date''),
      (TIME, ''time'', ''TIME'', ''time''), (TIMESTAMP, ''timestamp'', ''TIMESTAMP'', ''timestamp''),
      (TIMESTAMPTZ, ''timestamptz'', ''TIMESTAMPTZ'', ''timestamptz''), (INTERVAL, ''interval'', ''INTERVAL'', ''interval''),
      (UUID, ''uuid'', ''UUID'', ''uuid''), (JSON, ''json'', ''JSON'', ''json''), (JSONB, ''jsonb'', ''JSONB'', ''jsonb'')]"

definition PG_NAME :: "(int, pystr) dict" where
  "PG_NAME = map (\<lambda>(oid, pg_name, sqlglot_name, typname). (oid, lit pg_name)) TYPES"

definition SQLGLOT_NAME :: "(int, pystr) dict" where
  "SQLGLOT_NAME = map (\<lambda>(oid, pg_name, sqlglot_name, typname). (oid, lit sqlglot_name)) TYPES"

definition TYPNAME :: "(int, pystr) dict" where
  "TYPNAME = map (\<lambda>(oid, pg_name, sqlglot_name, typname). (oid, lit typname)) TYPES"

text \<open>\<open>exp.DataType.build(name).this\<close> is the member of the enumeration that bears the name.\<close>

definition OID_FOR_SQLGLOT_TYPE :: "(string, int) dict" where
  "OID_FOR_SQLGLOT_TYPE = dict_update (map (\<lambda>(oid, pg_name, sqlglot_name, typname). (sqlglot_name, oid)) TYPES)
     [(''BIGDECIMAL'', NUMERIC), (''DATETIME'', TIMESTAMP), (''NCHAR'', BPCHAR), (''NVARCHAR'', VARCHAR), (''BINARY'', BYTEA)]"

definition UNNAMED :: pystr where "UNNAMED = lit ''?column?''"

function pg_type_name :: "int \<Rightarrow> exc + pystr" where
  "pg_type_name oid =
     (if is_array_oid oid
      then rbind (element_oid_of oid) (\<lambda>element. rbind (pg_type_name element) (\<lambda>name. Inr (name @ lit ''[]'')))
      else case dict_get PG_NAME oid of Some name \<Rightarrow> Inr name | None \<Rightarrow> Inl KeyError)"
  by pat_completeness auto

termination
  by (relation "measure (\<lambda>oid. if is_array_oid oid then 1 else 0)") (auto dest: element_oid_scalar(5))

declare pg_type_name.simps [simp del]

text \<open>\<open>_oid_for_sqlglot_type\<close>, for a type that is there.\<close>

fun array_element :: "dtype \<Rightarrow> dtype option" where
  "array_element (DataType this ds) =
     (if this \<noteq> ''ARRAY'' then Some (DataType this ds) else case ds of [] \<Rightarrow> None | d # _ \<Rightarrow> array_element d)"

definition oid_for_sqlglot_type :: "dtype option \<Rightarrow> int option" where
  "oid_for_sqlglot_type data_type =
     (case data_type of
        None \<Rightarrow> None
      | Some d \<Rightarrow>
          (case array_element d of
             None \<Rightarrow> None
           | Some element \<Rightarrow>
               (case dict_get OID_FOR_SQLGLOT_TYPE (dt_this element) of
                  None \<Rightarrow> None
                | Some oid \<Rightarrow> if dt_this d = ''ARRAY'' then dict_get ARRAY_OID oid else Some oid)))"

section \<open>Sizing integer constants\<close>

definition INT4_RANGE :: "int \<times> int" where "INT4_RANGE = (- (2 ^ 31), 2 ^ 31 - 1)"
definition INT8_RANGE :: "int \<times> int" where "INT8_RANGE = (- (2 ^ 63), 2 ^ 63 - 1)"

definition in_range :: "int \<times> int \<Rightarrow> int \<Rightarrow> bool" where
  "in_range r v \<longleftrightarrow> fst r \<le> v \<and> v \<le> snd r"

text \<open>An integer literal under any number of negations is one constant, and the outermost negation is the node that is wrapped.\<close>

fun constant_value :: "expr \<Rightarrow> int option" where
  "constant_value (Expr E_Neg t [k]) = map_option uminus (constant_value k)"
| "constant_value e = int_literal e"

definition widened :: "expr \<Rightarrow> int \<Rightarrow> expr" where
  "widened node v =
     (let wider = (if in_range INT8_RANGE v then ''BIGINT'' else ''DECIMAL'') in
      Expr E_Cast None [node, leaf (E_DataType (DataType wider []))])"

text \<open>\<open>window\<close> says that the parent is a LIMIT or an OFFSET.\<close>

fun sized :: "bool \<Rightarrow> expr \<Rightarrow> expr" where
  "sized window (Expr h t ks) =
     (case constant_value (Expr h t ks) of
        Some v \<Rightarrow> if window \<or> in_range INT4_RANGE v then Expr h t ks else widened (Expr h t ks) v
      | None \<Rightarrow> Expr h t (map (sized (h = E_Limit \<or> h = E_Offset)) ks))"

definition size_integer_literals :: "expr \<Rightarrow> expr" where
  "size_integer_literals e = Expr (e_head e) (e_type e) (map (sized (e_head e = E_Limit \<or> e_head e = E_Offset)) (e_kids e))"

section \<open>Naming\<close>

fun func_name :: "head \<Rightarrow> string option" where
  "func_name (E_Func c n) = Some n"
| "func_name (E_Binary c n) = n"
| "func_name _ = None"

fun implicit_name :: "expr \<Rightarrow> pystr" where
  "implicit_name (Expr E_Paren t (k # ks)) = implicit_name k"
| "implicit_name (Expr E_Cast t (k # ks)) =
     (let operand = implicit_name k in
      if operand \<noteq> UNNAMED then operand
      else if e_head k = E_Subquery \<or> e_head k = E_Select then UNNAMED
      else
        (case (case ks of Expr (E_DataType d) t' ks' # _ \<Rightarrow> oid_for_sqlglot_type (Some d) | _ \<Rightarrow> None) of
           None \<Rightarrow> UNNAMED
         | Some oid \<Rightarrow> dict_get_or TYPNAME oid UNNAMED))"
| "implicit_name (Expr h t ks) =
     (case h of
        E_Column tbl name \<Rightarrow> name
      | E_Anonymous name \<Rightarrow> py_lower name
      | _ \<Rightarrow> (case func_name h of Some name \<Rightarrow> py_lower (lit name) | None \<Rightarrow> UNNAMED))"

definition written_name :: "expr \<Rightarrow> pystr" where
  "written_name select = (case e_head select of E_Alias a \<Rightarrow> a | _ \<Rightarrow> implicit_name select)"

definition written_column_names :: "(nat \<times> expr) list \<Rightarrow> (nat, pystr) dict" where
  "written_column_names selects = map (\<lambda>(i, select). (i, written_name select)) selects"

text \<open>What sqlglot prints: a node as SQL for Postgres, and the alias or name of a node (empty when it has neither).\<close>

record sqlglot =
  sg_sql :: "expr \<Rightarrow> pystr"
  sg_alias_or_name :: "expr \<Rightarrow> pystr"

definition qualified_name :: "'a sqlglot_scheme \<Rightarrow> expr \<Rightarrow> pystr" where
  "qualified_name sg select =
     (let name = sg_alias_or_name sg select in
      if name \<noteq> [] \<and> \<not> starts_with name (lit ''_col_'') then name
      else case e_head (unalias select) of E_Column tbl c \<Rightarrow> UNNAMED | _ \<Rightarrow> implicit_name (unalias select))"

text \<open>The identity of a qualified projection is that of the node inside its alias.\<close>

definition resolve_column_names :: "'a sqlglot_scheme \<Rightarrow> (nat \<times> expr) list \<Rightarrow> (nat, pystr) dict \<Rightarrow> pystr list" where
  "resolve_column_names sg selects written =
     map (\<lambda>(i, select). case dict_get written i of None \<Rightarrow> qualified_name sg select | Some name \<Rightarrow> name) selects"

section \<open>Typing\<close>

definition param_index :: "pystr \<Rightarrow> exc + int" where
  "param_index name =
     (case parse_int_text name of
        Some i \<Rightarrow> Inr i
      | None \<Rightarrow> Inl (PgError SYNTAX_ERROR (lit ''unsupported parameter $'' @ name) []))"

definition param_oid :: "pystr \<Rightarrow> int option list \<Rightarrow> exc + int option" where
  "param_oid name param_oids =
     rbind (param_index name) (\<lambda>i.
     Inr (if 0 \<le> i - 1 \<and> i - 1 < int (length param_oids) then param_oids ! nat (i - 1) else None))"

definition INDETERMINATE_DATATYPE :: pystr where "INDETERMINATE_DATATYPE = lit ''42P18''"

definition underivable :: "pystr \<Rightarrow> exc" where
  "underivable expression_sql =
     PgError FEATURE_NOT_SUPPORTED (lit ''could not derive a Postgres type for the output column '' @ py_repr expression_sql
       @ lit ''. Column types come from the declared schema, not from the rows a query happens to return, so an expression ''
       @ lit ''sqlglot cannot type has none -- name it with a cast, e.g. '' @ expression_sql @ lit ''::text.'') []"

definition column_oid :: "'a sqlglot_scheme \<Rightarrow> expr \<Rightarrow> int option list \<Rightarrow> exc + int" where
  "column_oid sg select param_oids =
     (case oid_for_sqlglot_type (e_type select) of
        Some oid \<Rightarrow> Inr oid
      | None \<Rightarrow>
          (let inner = unalias select in
           case e_head inner of
             E_Null \<Rightarrow> Inr TEXT
           | E_Parameter name \<Rightarrow>
               rbind (param_oid name param_oids) (\<lambda>declared.
               case declared of
                 Some oid \<Rightarrow> Inr oid
               | None \<Rightarrow>
                   rbind (param_index name) (\<lambda>i.
                   Inl (PgError INDETERMINATE_DATATYPE (lit ''could not determine data type of parameter $'' @ int_str i) [])))
           | _ \<Rightarrow> Inl (underivable (sg_sql sg inner))))"

text \<open>\<open>zip\<close> stops at the shorter list.\<close>

definition result_columns :: "'a sqlglot_scheme \<Rightarrow> expr list \<Rightarrow> int option list \<Rightarrow> pystr list \<Rightarrow> exc + result_column list" where
  "result_columns sg selects param_oids names =
     rmap (\<lambda>(name, select). rbind (column_oid sg select param_oids) (\<lambda>oid. Inr \<lparr>rc_name = name, rc_oid = oid\<rparr>)) (zip names selects)"

section \<open>The forms of a query\<close>

text \<open>
  \<open>AnalyzedQuery\<close>. The projections of the query as written are numbered; \<open>qualify\<close> gives the qualified tree and, for each of its
  projections, the number of the node inside its alias, a number of its own when \<open>qualify\<close> made it. The accessors are
  cached and copy what they hand out, so each is a function of the query.
\<close>

record analyzer = sqlglot +
  sg_selects :: "expr \<Rightarrow> expr list"
  sg_qualify :: "expr \<Rightarrow> exc + expr \<times> nat list"
  sg_annotate_types :: "expr \<Rightarrow> expr"

definition annotate :: "'a analyzer_scheme \<Rightarrow> expr \<Rightarrow> expr" where
  "annotate sg e = sg_annotate_types sg (size_integer_literals e)"

definition analyzed_qualify :: "'a analyzer_scheme \<Rightarrow> expr \<Rightarrow> exc + expr \<times> pystr list" where
  "analyzed_qualify sg raw =
     (let written = written_column_names (enumerate 0 (sg_selects sg raw)) in
      rbind (sg_qualify sg raw) (\<lambda>(tree, ids).
      Inr (tree, resolve_column_names sg (zip ids (sg_selects sg tree)) written)))"

definition analyzed_qualified :: "'a analyzer_scheme \<Rightarrow> expr \<Rightarrow> exc + expr" where
  "analyzed_qualified sg raw = rbind (analyzed_qualify sg raw) (\<lambda>(tree, names). Inr tree)"

definition analyzed_column_names :: "'a analyzer_scheme \<Rightarrow> expr \<Rightarrow> exc + pystr list" where
  "analyzed_column_names sg raw = rbind (analyzed_qualify sg raw) (\<lambda>(tree, names). Inr names)"

definition analyzed_annotated :: "'a analyzer_scheme \<Rightarrow> expr \<Rightarrow> exc + expr" where
  "analyzed_annotated sg raw = rbind (analyzed_qualify sg raw) (\<lambda>(tree, names). Inr (annotate sg tree))"

section \<open>Spellings lead back to their type\<close>

text \<open>A spelling in lower case without white space around it and without brackets is looked up as it is.\<close>

definition plain_spelling :: "pystr \<Rightarrow> bool" where
  "plain_spelling s \<longleftrightarrow>
     s \<noteq> [] \<and> \<not> py_isspace (hd s) \<and> \<not> py_isspace (last s) \<and> last s \<noteq> 93 \<and> list_all (\<lambda>c. lower_char c = c) s"

lemma rstrip_same: "s \<noteq> [] \<Longrightarrow> \<not> py_isspace (last s) \<Longrightarrow> py_rstrip s = s"
  by (cases s rule: rev_cases) (simp_all add: py_rstrip_def)

lemma strip_same: "s \<noteq> [] \<Longrightarrow> \<not> py_isspace (hd s) \<Longrightarrow> \<not> py_isspace (last s) \<Longrightarrow> py_strip s = s"
  by (cases s) (simp_all add: py_strip_def py_lstrip_def rstrip_same)

lemma strip_brackets_same: "s \<noteq> [] \<Longrightarrow> last s \<noteq> 93 \<Longrightarrow> strip_brackets n s = s"
  by (cases n; cases "rev s") (simp_all add: ends_with_def flip: hd_rev)

lemma plain_spelling_scalar:
  "plain_spelling s \<Longrightarrow> oid_for_declared_type s = dict_get_or DECLARED_TYPE_OIDS s TEXT"
  by (simp add: plain_spelling_def oid_for_declared_type_def strip_same strip_brackets_same map_idI list_all_iff)

lemma plain_spelling_array:
  assumes "plain_spelling s"
  shows "oid_for_declared_type (s @ [91, 93]) =
    (let oid = dict_get_or DECLARED_TYPE_OIDS s TEXT in dict_get_or ARRAY_OID oid oid)"
proof -
  have "py_strip (s @ [91, 93]) = s @ [91, 93]"
    using assms by (intro strip_same) (auto simp: plain_spelling_def py_isspace_def)
  moreover have "py_lower (s @ [91, 93]) = s @ [91, 93]"
    using assms by (auto simp: plain_spelling_def list_all_iff lower_char_def intro!: map_idI)
  moreover have "strip_brackets (Suc n) (s @ [91, 93]) = strip_brackets n s" for n
    using assms by (simp add: plain_spelling_def ends_with_def rstrip_same)
  then have "strip_brackets (length (s @ [91, 93])) (s @ [91, 93]) = s"
    using assms strip_brackets_same[of s "Suc (length s)"] by (simp add: plain_spelling_def del: strip_brackets.simps)
  ultimately show ?thesis using assms by (simp add: oid_for_declared_type_def Let_def plain_spelling_def)
qed

lemma names_plain: "list_all (\<lambda>(oid, name). plain_spelling name) PG_NAME"
  by (simp add: PG_NAME_def TYPES_def plain_spelling_def lit_def py_isspace_def lower_char_def of_char_def)

lemma scalar_names_return: "list_all (\<lambda>(oid, name). dict_get_or DECLARED_TYPE_OIDS name TEXT = oid) PG_NAME"
  by (simp add: PG_NAME_def TYPES_def DECLARED_TYPE_OIDS_def dict_get_or_def)

lemma array_oids_return: "list_all (\<lambda>(arr, element). dict_get ARRAY_OID element = Some arr) ELEMENT_OID"
  by (simp add: ELEMENT_OID_def ARRAY_OID_def oid_defs)

lemma bracket_lit: "lit ''[]'' = [91, 93]"
  by (simp add: lit_def of_char_def)

lemma pg_type_name_scalar:
  "\<not> is_array_oid oid \<Longrightarrow> pg_type_name oid = (case dict_get PG_NAME oid of Some name \<Rightarrow> Inr name | None \<Rightarrow> Inl KeyError)"
  by (simp add: pg_type_name.simps)

lemma pg_type_name_returns:
  assumes "pg_type_name oid = Inr name"
  shows "oid_for_declared_type name = oid"
proof (cases "is_array_oid oid")
  case False
  then have "(oid, name) \<in> set PG_NAME"
    using assms by (auto simp: pg_type_name_scalar split: option.splits dest: map_of_SomeD)
  then have "plain_spelling name" "dict_get_or DECLARED_TYPE_OIDS name TEXT = oid"
    using scalar_names_return names_plain by (auto simp: list_all_iff)
  then show ?thesis by (simp add: plain_spelling_scalar)
next
  case True
  then obtain element n where e: "element_oid_of oid = Inr element" "pg_type_name element = Inr n" "name = n @ lit ''[]''"
    using assms by (auto simp: pg_type_name.simps[of oid])
  then have "(oid, element) \<in> set ELEMENT_OID" by (auto simp: element_oid_of_def split: option.splits dest: map_of_SomeD)
  then have "dict_get ARRAY_OID element = Some oid" using array_oids_return by (auto simp: list_all_iff)
  moreover have "(element, n) \<in> set PG_NAME"
    using e(2) element_oid_scalar(5)[OF e(1)] by (auto simp: pg_type_name_scalar split: option.splits dest: map_of_SomeD)
  then have "plain_spelling n" "dict_get_or DECLARED_TYPE_OIDS n TEXT = element"
    using names_plain scalar_names_return by (auto simp: list_all_iff)
  ultimately show ?thesis using plain_spelling_array[of n] e(3) by (simp add: bracket_lit dict_get_or_def)
qed

lemma sqlglot_names_return: "list_all (\<lambda>(oid, pg_name, sqlglot_name, typname). dict_get OID_FOR_SQLGLOT_TYPE sqlglot_name = Some oid) TYPES"
  by (simp add: TYPES_def OID_FOR_SQLGLOT_TYPE_def dict_update_def)

end
