(* ===== verification/Table_Params.thy ===== *)
theory Table_Params
  imports Describe
begin

text \<open>
  \<open>pg_mimic/tables.py\<close>, bind parameters: each \<open>$n\<close> of the query becomes the literal its text means for the type of what it stands next
  to (\<open>_bind_parameters\<close>, \<open>_comparison_type\<close>, \<open>_literal\<close>). \<open>exp.Literal.number\<close> of sqlglot is the argument \<open>sg_number\<close>.

  The parameters are visited breadth first, so those of one parent come together, and a parameter that is already bound
  has no type when its neighbour is looked at.

  The lemmas: no parameter is left, and what is put in its place is made of literals only.
\<close>

section \<open>Literals\<close>

record param_literals = sqlglot +
  sg_number :: "pystr \<Rightarrow> expr"

definition INVALID_TEXT_REPRESENTATION :: pystr where "INVALID_TEXT_REPRESENTATION = lit ''22P02''"

definition TRUE_TEXTS :: "pystr list" where
  "TRUE_TEXTS = map lit [''t'', ''true'', ''y'', ''yes'', ''on'', ''1'']"

definition FALSE_TEXTS :: "pystr list" where
  "FALSE_TEXTS = map lit [''f'', ''false'', ''n'', ''no'', ''off'', ''0'']"

definition CAST_FOR :: "(int, string) dict" where
  "CAST_FOR = [(DATE, ''DATE''), (TIME, ''TIME''), (TIMESTAMP, ''TIMESTAMP''), (TIMESTAMPTZ, ''TIMESTAMP'')]"

definition NUMBERS :: "int list" where "NUMBERS = [INT2, INT4, INT8, FLOAT4, FLOAT8, NUMERIC]"
definition INTEGERS :: "int list" where "INTEGERS = [INT2, INT4, INT8]"

definition NON_FINITE :: "pystr list" where
  "NON_FINITE = map lit [''inf'', ''infinity'', ''-inf'', ''-infinity'', ''nan'']"

text \<open>The patterns \<open>_INTEGER_TEXT\<close> and \<open>_DECIMAL_TEXT\<close>.\<close>

definition digits1 :: "pystr \<Rightarrow> bool" where
  "digits1 s \<longleftrightarrow> s \<noteq> [] \<and> all_digits s"

definition unsigned :: "pystr \<Rightarrow> pystr" where
  "unsigned s = (case s of c # cs \<Rightarrow> if c = 43 \<or> c = 45 then cs else s | [] \<Rightarrow> [])"

definition integer_text :: "pystr \<Rightarrow> bool" where
  "integer_text s \<longleftrightarrow> digits1 (unsigned s)"

definition exponent_text :: "pystr \<Rightarrow> bool" where
  "exponent_text s \<longleftrightarrow> (case s of [] \<Rightarrow> True | c # cs \<Rightarrow> (c = 101 \<or> c = 69) \<and> digits1 (unsigned cs))"

definition decimal_text :: "pystr \<Rightarrow> bool" where
  "decimal_text s \<longleftrightarrow>
     (let u = unsigned s; whole = takeWhile is_digit u; rest = dropWhile is_digit u in
      case rest of
        c # cs \<Rightarrow>
          if c = 46 then (whole \<noteq> [] \<or> takeWhile is_digit cs \<noteq> []) \<and> exponent_text (dropWhile is_digit cs)
          else whole \<noteq> [] \<and> exponent_text rest
      | [] \<Rightarrow> whole \<noteq> [])"

definition cast_literal :: "pystr \<Rightarrow> string \<Rightarrow> expr" where
  "cast_literal s name = Expr E_Cast None [string_literal s, leaf (E_DataType (DataType name []))]"

definition decimal_literal :: "pystr \<Rightarrow> expr" where
  "decimal_literal s = cast_literal s ''DECIMAL''"

definition invalid_input :: "pystr \<Rightarrow> pystr \<Rightarrow> exc" where
  "invalid_input type_text shown =
     PgError INVALID_TEXT_REPRESENTATION (lit ''invalid input syntax for type '' @ type_text @ lit '': \"'' @ shown @ lit ''\"'') []"

definition bool_literal :: "pyval \<Rightarrow> exc + expr" where
  "bool_literal v =
     (let t = py_lower (py_strip (py_str_val v)) in
      if t \<in> set TRUE_TEXTS then Inr (leaf (E_Boolean True))
      else if t \<in> set FALSE_TEXTS then Inr (leaf (E_Boolean False))
      else Inl (invalid_input (lit ''boolean'') (py_str_val v)))"

definition number_literal :: "'a param_literals_scheme \<Rightarrow> pyval \<Rightarrow> int \<Rightarrow> exc + expr" where
  "number_literal sg v oid =
     (let t = py_strip (py_str_val v); name = dict_get_or PG_NAME oid [] in
      if oid \<notin> set INTEGERS \<and> py_lower t \<in> set NON_FINITE
      then Inl (PgError FEATURE_NOT_SUPPORTED (lit ''TableSession cannot pass the '' @ name @ lit '' value \"'' @ py_str_val v @ lit ''\" to sqlglot''
                @ [39] @ lit ''s executor, which has no literal for infinity or NaN.'') [])
      else if \<not> (if oid \<in> set INTEGERS then integer_text t else decimal_text t) then Inl (invalid_input name (py_str_val v))
      else if oid = NUMERIC then Inr (decimal_literal t)
      else Inr (sg_number sg t))"

text \<open>\<open>element_oid_of\<close> is only asked of an array OID.\<close>

definition element_type :: "int option \<Rightarrow> int option" where
  "element_type oid =
     (case oid of None \<Rightarrow> None | Some i \<Rightarrow> if is_array_oid i then (case element_oid_of i of Inr e \<Rightarrow> Some e | Inl x \<Rightarrow> None) else None)"

definition scalar_literal :: "'a param_literals_scheme \<Rightarrow> int option \<Rightarrow> pyval \<Rightarrow> exc + expr" where
  "scalar_literal sg oid v =
     (case oid of
        None \<Rightarrow> Inr (string_literal (py_str_val v))
      | Some i \<Rightarrow>
          if i \<in> set NUMBERS then number_literal sg v i
          else if i = BOOL then bool_literal v
          else case dict_get CAST_FOR i of
            Some name \<Rightarrow> Inr (cast_literal (py_str_val v) name)
          | None \<Rightarrow> Inr (string_literal (py_str_val v)))"

fun literal :: "'a param_literals_scheme \<Rightarrow> int option \<Rightarrow> pyval \<Rightarrow> exc + expr" where
  "literal sg oid PNone = Inr (leaf E_Null)"
| "literal sg oid (PList vs) = rbind (rmap (literal sg (element_type oid)) vs) (\<lambda>es. Inr (Expr (E_Func ''Array'' ''ARRAY'') None es))"
| "literal sg oid v = scalar_literal sg oid v"

section \<open>Binding\<close>

definition UNTYPED :: "string list" where "UNTYPED = [''UNKNOWN'', ''NULL'']"

text \<open>The type of a parameter from its parent's class and its siblings.\<close>

definition comparison_type :: "head \<Rightarrow> expr list \<Rightarrow> dtype option" where
  "comparison_type parent siblings =
     (if parent = E_Limit \<or> parent = E_Offset then Some (DataType ''BIGINT'' [])
      else case find (\<lambda>t. case t of Some d \<Rightarrow> dt_this d \<notin> set UNTYPED | None \<Rightarrow> False) (map e_type siblings) of
        Some t \<Rightarrow> t
      | None \<Rightarrow> None)"

definition bound_value :: "'a param_literals_scheme \<Rightarrow> pyval list \<Rightarrow> pystr \<Rightarrow> dtype option \<Rightarrow> exc + expr" where
  "bound_value sg params name ty =
     rbind (param_index name) (\<lambda>i.
     if 1 \<le> i \<and> i \<le> int (length params) then literal sg (oid_for_sqlglot_type ty) (params ! nat (i - 1))
     else Inl (PgError SYNTAX_ERROR (lit ''there is no parameter $'' @ int_str i) []))"

fun bind_kids :: "'a param_literals_scheme \<Rightarrow> pyval list \<Rightarrow> head \<Rightarrow> expr list \<Rightarrow> expr list \<Rightarrow> exc + expr list" where
  "bind_kids sg params parent bound [] = Inr bound"
| "bind_kids sg params parent bound (k # ks) =
     (case e_head k of
        E_Parameter name \<Rightarrow>
          rbind (bound_value sg params name (comparison_type parent (bound @ ks))) (\<lambda>l. bind_kids sg params parent (bound @ [l]) ks)
      | _ \<Rightarrow> bind_kids sg params parent (bound @ [k]) ks)"

fun bind_tree :: "'a param_literals_scheme \<Rightarrow> pyval list \<Rightarrow> expr \<Rightarrow> expr" where
  "bind_tree sg params (Expr h t ks) =
     Expr h t (case bind_kids sg params h [] (map (bind_tree sg params) ks) of Inr ks' \<Rightarrow> ks' | Inl e \<Rightarrow> ks)"

definition bind_parameters :: "'a param_literals_scheme \<Rightarrow> expr \<Rightarrow> pyval list \<Rightarrow> exc + expr" where
  "bind_parameters sg e params =
     rbind (rmap (\<lambda>n. bind_kids sg params (e_head n) [] (e_kids n)) (walk_tree e)) (\<lambda>_. Inr (bind_tree sg params e))"

text \<open>\<open>_parameter_oids\<close>: a declared type stays, the others are those of the neighbours; a later occurrence of a parameter wins.\<close>

definition inferred_params :: "expr \<Rightarrow> exc + (int, int option) dict" where
  "inferred_params e =
     rbind (rmap (\<lambda>(name, ty). rbind (param_index name) (\<lambda>i. Inr (i - 1, oid_for_sqlglot_type ty)))
        (concat (map (\<lambda>n. concat (map (\<lambda>i. case e_head (e_kids n ! i) of
              E_Parameter name \<Rightarrow> [(name, comparison_type (e_head n) (take i (e_kids n) @ drop (Suc i) (e_kids n)))] | _ \<Rightarrow> [])
            [0..<length (e_kids n)])) (walk_tree e)))) (\<lambda>ps. Inr (dict_update [] ps))"

definition parameter_oids :: "expr \<Rightarrow> int option list \<Rightarrow> exc + int option list" where
  "parameter_oids e declared =
     rbind (inferred_params e) (\<lambda>inferred.
     let count = foldl max (int (length declared)) (map (\<lambda>(i, t). i + 1) inferred) in
     Inr (map (\<lambda>i. if i < length declared \<and> declared ! i \<noteq> None then declared ! i
                   else (case dict_get inferred (int i) of Some t \<Rightarrow> t | None \<Rightarrow> None)) [0..<nat count]))"

section \<open>What binding puts into a query\<close>

fun literal_head :: "head \<Rightarrow> bool" where
  "literal_head (E_Literal s t) = True" | "literal_head E_Null = True" | "literal_head (E_Boolean b) = True" | "literal_head E_Neg = True"
| "literal_head E_Cast = True" | "literal_head (E_DataType d) = True" | "literal_head (E_Func c n) = (c = ''Array'')"
| "literal_head _ = False"

definition literals_only :: "expr \<Rightarrow> bool" where
  "literals_only e \<longleftrightarrow> (\<forall>n \<in> nodes e. literal_head (e_head n))"

lemma literals_only_Expr [simp]: "literals_only (Expr h t ks) \<longleftrightarrow> literal_head h \<and> (\<forall>k \<in> set ks. literals_only k)"
  by (auto simp: literals_only_def)

lemma scalar_literals:
  assumes "scalar_literal sg oid v = Inr e" and "\<And>t. literals_only (sg_number sg t)"
  shows "literals_only e"
proof -
  have b: "bool_literal v = Inr e \<Longrightarrow> literals_only e" by (auto simp: bool_literal_def Let_def split: if_splits)
  have n: "number_literal sg v i = Inr e \<Longrightarrow> literals_only e" for i
    by (auto simp: number_literal_def Let_def decimal_literal_def cast_literal_def assms(2) split: if_splits)
  show ?thesis using assms(1) b n by (auto simp: scalar_literal_def cast_literal_def split: option.splits if_splits)
qed

lemma literal_literals:
  assumes "literal sg oid v = Inr e" and "\<And>t. literals_only (sg_number sg t)"
  shows "literals_only e"
  using assms
proof (induction sg oid v arbitrary: e rule: literal.induct)
  case (2 sg oid vs)
  then obtain es where es: "rmap (literal sg (element_type oid)) vs = Inr es" "e = Expr (E_Func ''Array'' ''ARRAY'') None es" by auto
  then have "literals_only x" if "x \<in> set es" for x using rmap_elem[OF es(1) that] 2 by blast
  then show ?case using es(2) by simp
qed (auto elim: scalar_literals)

definition is_parameter :: "expr \<Rightarrow> bool" where
  "is_parameter e \<longleftrightarrow> (\<exists>name. e_head e = E_Parameter name)"

text \<open>The same tree but for the parameters, which are literals now.\<close>

inductive bound_from :: "expr \<Rightarrow> expr \<Rightarrow> bool" where
  "list_all2 (\<lambda>k k'. is_parameter k \<and> literals_only k' \<or> \<not> is_parameter k \<and> bound_from k k') ks ks' \<Longrightarrow> bound_from (Expr h t ks) (Expr h t ks')"

lemma comparison_type_same: "map e_type xs = map e_type ys \<Longrightarrow> comparison_type h xs = comparison_type h ys"
  by (simp add: comparison_type_def)

lemma bind_kids_bound:
  assumes "bind_kids sg params h bound ks = Inr out" and "list_all2 (\<lambda>k k'. e_head k' = e_head k \<and> e_type k' = e_type k) ks ks'"
    and "map e_type bound = map e_type bound'" and "\<And>t. literals_only (sg_number sg t)"
  shows "\<exists>new. bind_kids sg params h bound' ks' = Inr (bound' @ new)
    \<and> list_all2 (\<lambda>k' n. is_parameter k' \<and> literals_only n \<or> \<not> is_parameter k' \<and> n = k') ks' new"
  using assms(1-3)
proof (induction ks arbitrary: ks' bound bound')
  case (Cons k ks)
  from Cons.prems(2) obtain k' rest where ks': "ks' = k' # rest" "e_head k' = e_head k" "e_type k' = e_type k"
    "list_all2 (\<lambda>k k'. e_head k' = e_head k \<and> e_type k' = e_type k) ks rest" by (auto simp: list_all2_Cons1)
  show ?case
  proof (cases "is_parameter k")
    case True
    then obtain name where n: "e_head k = E_Parameter name" by (auto simp: is_parameter_def)
    then obtain l where l: "bound_value sg params name (comparison_type h (bound @ ks)) = Inr l" "bind_kids sg params h (bound @ [l]) ks = Inr out"
      using Cons.prems(1) by auto
    have "map e_type ks = map e_type rest" using ks'(4) by (auto simp: list_all2_conv_all_nth intro!: nth_equalityI)
    then have "comparison_type h (bound @ ks) = comparison_type h (bound' @ rest)"
      using Cons.prems(3) by (intro comparison_type_same) simp
    moreover have "literals_only l"
      using l(1) literal_literals[OF _ assms(4)] by (auto simp: bound_value_def split: if_splits)
    moreover obtain new where "bind_kids sg params h (bound' @ [l]) rest = Inr ((bound' @ [l]) @ new)"
      "list_all2 (\<lambda>k' n. is_parameter k' \<and> literals_only n \<or> \<not> is_parameter k' \<and> n = k') rest new"
      using Cons.IH[OF l(2) ks'(4)] Cons.prems(3) by (metis (no_types, lifting) map_append)
    ultimately show ?thesis using ks' n l(1) True by (intro exI[of _ "l # new"]) (auto simp: is_parameter_def)
  next
    case False
    then have "bind_kids sg params h (bound @ [k]) ks = Inr out"
      using Cons.prems(1) by (auto simp: is_parameter_def split: head.splits)
    moreover have "map e_type (bound @ [k]) = map e_type (bound' @ [k'])" using Cons.prems(3) ks' by simp
    ultimately obtain new where "bind_kids sg params h (bound' @ [k']) rest = Inr ((bound' @ [k']) @ new)"
      "list_all2 (\<lambda>k' n. is_parameter k' \<and> literals_only n \<or> \<not> is_parameter k' \<and> n = k') rest new"
      using Cons.IH[OF _ ks'(4)] by blast
    then show ?thesis using ks' False by (intro exI[of _ "k' # new"]) (auto simp: is_parameter_def split: head.splits)
  qed
qed auto

lemma bind_tree_same: "e_head (bind_tree sg params e) = e_head e \<and> e_type (bind_tree sg params e) = e_type e"
  by (cases e) simp

lemma bind_tree_bound:
  assumes "\<forall>n \<in> nodes e. \<exists>out. bind_kids sg params (e_head n) [] (e_kids n) = Inr out" and "\<And>t. literals_only (sg_number sg t)"
  shows "bound_from e (bind_tree sg params e)"
  using assms(1)
proof (induction e)
  case (Expr h t ks)
  then obtain out where "bind_kids sg params h [] ks = Inr out" by auto
  from bind_kids_bound[OF this, of "map (bind_tree sg params) ks" "[]"] assms(2) obtain new
    where new: "bind_kids sg params h [] (map (bind_tree sg params) ks) = Inr new"
      "list_all2 (\<lambda>k' n. is_parameter k' \<and> literals_only n \<or> \<not> is_parameter k' \<and> n = k') (map (bind_tree sg params) ks) new"
    by (auto simp: list_all2_map2 bind_tree_same list.rel_refl)
  have "list_all2 (\<lambda>k k'. is_parameter k \<and> literals_only k' \<or> \<not> is_parameter k \<and> bound_from k k') ks new"
    using new(2) Expr by (auto simp: list_all2_conv_all_nth is_parameter_def bind_tree_same)
  then show ?case using new(1) by (auto intro: bound_from.intros)
qed


definition demo_binder :: param_literals where
  "demo_binder = \<lparr>sg_sql = (\<lambda>e. []), sg_alias_or_name = (\<lambda>e. []), sg_number = number_literal_node\<rparr>"

text \<open>\<open>WHERE id = $1\<close>, with \<open>id\<close> a bigint.\<close>

definition demo_condition :: "pystr \<Rightarrow> expr" where
  "demo_condition name = Expr (E_Other ''Where'') None [Expr (E_Binary ''EQ'' None) None
     [Expr (E_Column (lit ''t'') (lit ''id'')) (Some (DataType ''BIGINT'' [])) [], leaf (E_Parameter name)]]"


end
