(* ===== verification/Py_Order.thy ===== *)
theory Py_Order
  imports Values "HOL-Library.List_Lexorder" "HOL-Library.Multiset"
begin

text \<open>
  Python's \<open>==\<close> and \<open><\<close> on the values rows hold, and \<open>sorted\<close>.

  A value that can be ordered has a kind and a key: numbers of every type compare by value, text and bytes
  by their elements, times by the instant, and two values of different kinds are unequal and raise when they are ordered.
  NaN equals nothing; \<open>Decimal("NaN")\<close> cannot be ordered. \<open>sorted\<close> is stable; which comparisons it makes shows only when one of them
  raises.

  The locale \<open>weak_order\<close> is what \<open>sorted\<close> relies on: a comparison that is asymmetric and whose negation is transitive. In it the result of
  \<open>sorted\<close> is a permutation in order that keeps equal elements in their places.
\<close>

section \<open>Kinds and keys\<close>

datatype kind = K_Number | K_Nan | K_Text | K_Bytes | K_Naive | K_Aware | K_Date | K_NaiveTime | K_AwareTime | K_Timedelta | K_Uuid

fun order_key :: "pyval \<Rightarrow> (kind \<times> rat list) option" where
  "order_key (PBool b) = Some (K_Number, [0, of_bool b])"
| "order_key (PInt i) = Some (K_Number, [0, of_int i])"
| "order_key (PFloat w) =
     (if f64_nan w then Some (K_Nan, [])
      else if f64_inf w then Some (K_Number, [if f64_sign w then - 1 else 1])
      else Some (K_Number, [0, f64_val w]))"
| "order_key (PDecimal d) =
     (case d of DNan \<Rightarrow> Some (K_Nan, []) | DInf neg \<Rightarrow> Some (K_Number, [if neg then - 1 else 1]) | DFin neg c e \<Rightarrow> Some (K_Number, [0, dec_rat neg c e]))"
| "order_key (PStr s) = Some (K_Text, map of_nat s)"
| "order_key (PBytes b) = Some (K_Bytes, map (\<lambda>x. of_nat (unat x)) b)"
| "order_key (PBytearray b) = Some (K_Bytes, map (\<lambda>x. of_nat (unat x)) b)"
| "order_key (PDatetime d t tz) =
     (case tz of None \<Rightarrow> Some (K_Naive, [of_int (instant d t)]) | Some off \<Rightarrow> Some (K_Aware, [of_int (instant d t - off)]))"
| "order_key (PDate d) = Some (K_Date, [of_nat d])"
| "order_key (PTime t tz) = (case tz of None \<Rightarrow> Some (K_NaiveTime, [of_nat t]) | Some off \<Rightarrow> Some (K_AwareTime, [of_int (int t - off)]))"
| "order_key (PTimedelta u) = Some (K_Timedelta, [of_int u])"
| "order_key (PUuid b) = Some (K_Uuid, [of_int (be_val b)])"
| "order_key _ = None"

section \<open>Equality and order\<close>

definition scalar_eq :: "pyval \<Rightarrow> pyval \<Rightarrow> bool" where
  "scalar_eq v w =
     (case (order_key v, order_key w) of
        (Some (k, x), Some (l, y)) \<Rightarrow> k = l \<and> k \<noteq> K_Nan \<and> x = y
      | (None, None) \<Rightarrow> v = w
      | _ \<Rightarrow> False)"

function (sequential) py_eq :: "pyval \<Rightarrow> pyval \<Rightarrow> bool" and py_eq_list :: "pyval list \<Rightarrow> pyval list \<Rightarrow> bool"
  and py_eq_items :: "(pyval \<times> pyval) list \<Rightarrow> (pyval \<times> pyval) list \<Rightarrow> bool" where
  "py_eq (PList xs) w = (case w of PList ys \<Rightarrow> py_eq_list xs ys | _ \<Rightarrow> False)"
| "py_eq (PDict d) w = (case w of PDict e \<Rightarrow> length d = length e \<and> py_eq_items d e | _ \<Rightarrow> False)"
| "py_eq v w = scalar_eq v w"
| "py_eq_list [] ys = (ys = [])"
| "py_eq_list (x # xs) ys = (case ys of [] \<Rightarrow> False | y # ys' \<Rightarrow> py_eq x y \<and> py_eq_list xs ys')"
| "py_eq_items [] e = True"
| "py_eq_items ((k, v) # d) e = (list_ex (\<lambda>(l, w). py_eq k l \<and> py_eq v w) e \<and> py_eq_items d e)"
  by pat_completeness auto

termination
  by (relation "measure (case_sum (\<lambda>(v, w). size v)
    (case_sum (\<lambda>(xs, ys). size_list size xs) (\<lambda>(d, e). size_list (size_prod size size) d)))") auto

definition unorderable :: "pyval \<Rightarrow> pyval \<Rightarrow> exc" where
  "unorderable v w =
     TypeError ([39] @ lit ''<'' @ [39] @ lit '' not supported between instances of '' @ [39] @ type_name v @ [39] @ lit '' and ''
       @ [39] @ type_name w @ [39])"

definition is_decimal_nan :: "pyval \<Rightarrow> bool" where
  "is_decimal_nan v \<longleftrightarrow> v = PDecimal DNan"

definition scalar_less :: "pyval \<Rightarrow> pyval \<Rightarrow> exc + bool" where
  "scalar_less v w =
     (case (order_key v, order_key w) of
        (Some (k, x), Some (l, y)) \<Rightarrow>
          if k = l \<and> k \<noteq> K_Nan then Inr (x < y)
          else if k \<in> {K_Number, K_Nan} \<and> l \<in> {K_Number, K_Nan}
          then (if is_decimal_nan v \<or> is_decimal_nan w
                then Inl (OtherError (lit ''[<class '' @ [39] @ lit ''decimal.InvalidOperation'' @ [39] @ lit ''>]''))
                else Inr False)
          else Inl (unorderable v w)
      | _ \<Rightarrow> Inl (unorderable v w))"

fun py_less :: "pyval \<Rightarrow> pyval \<Rightarrow> exc + bool" and py_less_list :: "pyval list \<Rightarrow> pyval list \<Rightarrow> exc + bool" where
  "py_less (PList xs) w = (case w of PList ys \<Rightarrow> py_less_list xs ys | _ \<Rightarrow> Inl (unorderable (PList xs) w))"
| "py_less v w = scalar_less v w"
| "py_less_list [] ys = Inr (ys \<noteq> [])"
| "py_less_list (x # xs) ys =
     (case ys of [] \<Rightarrow> Inr False | y # ys' \<Rightarrow> if py_eq x y then py_less_list xs ys' else py_less x y)"

section \<open>\<open>sorted\<close>\<close>

fun insert_sorted :: "('a \<Rightarrow> 'a \<Rightarrow> exc + bool) \<Rightarrow> 'a \<Rightarrow> 'a list \<Rightarrow> exc + 'a list" where
  "insert_sorted lt x [] = Inr [x]"
| "insert_sorted lt x (y # ys) =
     rbind (lt y x) (\<lambda>b. if b then rbind (insert_sorted lt x ys) (\<lambda>zs. Inr (y # zs)) else Inr (x # y # ys))"

fun py_sorted :: "('a \<Rightarrow> 'a \<Rightarrow> exc + bool) \<Rightarrow> 'a list \<Rightarrow> exc + 'a list" where
  "py_sorted lt [] = Inr []"
| "py_sorted lt (x # xs) = rbind (py_sorted lt xs) (insert_sorted lt x)"

section \<open>What a weak order gives\<close>

locale weak_order =
  fixes before :: "'a \<Rightarrow> 'a \<Rightarrow> bool"
  assumes asym: "before x y \<Longrightarrow> \<not> before y x"
    and negative: "\<not> before x y \<Longrightarrow> \<not> before y z \<Longrightarrow> \<not> before x z"
begin

definition same :: "'a \<Rightarrow> 'a \<Rightarrow> bool" where
  "same x y \<longleftrightarrow> \<not> before x y \<and> \<not> before y x"

definition ordered :: "'a list \<Rightarrow> bool" where
  "ordered xs \<longleftrightarrow> sorted_wrt (\<lambda>x y. \<not> before y x) xs"

fun place :: "'a \<Rightarrow> 'a list \<Rightarrow> 'a list" where
  "place x [] = [x]"
| "place x (y # ys) = (if before y x then y # place x ys else x # y # ys)"

lemma mset_place: "mset (place x ys) = add_mset x (mset ys)"
  by (induction ys) auto

lemma set_place: "set (place x ys) = insert x (set ys)"
  by (induction ys) auto

lemma ordered_place: "ordered ys \<Longrightarrow> ordered (place x ys)"
proof (induction ys)
  case (Cons y ys)
  show ?case
  proof (cases "before y x")
    case True
    then show ?thesis using Cons asym[of y x] by (simp add: ordered_def set_place)
  next
    case False
    then have "\<forall>z \<in> set ys. \<not> before z x" using Cons.prems negative[of _ y x] by (auto simp: ordered_def)
    then show ?thesis using Cons.prems False by (simp add: ordered_def)
  qed
qed (simp add: ordered_def)

lemma same_place: "filter (same z) (place x ys) = (if same z x then x # filter (same z) ys else filter (same z) ys)"
proof (induction ys)
  case (Cons y ys)
  have "\<not> (same z x \<and> same z y)" if "before y x" using that negative[of y z x] by (auto simp: same_def)
  then show ?case using Cons by auto
qed simp

lemma insert_sorted_place:
  assumes "\<forall>y \<in> set ys. lt y x = Inr (before y x)"
  shows "insert_sorted lt x ys = Inr (place x ys)"
  using assms by (induction ys) auto

lemma py_sorted_stable:
  assumes "\<forall>x \<in> set xs. \<forall>y \<in> set xs. lt y x = Inr (before y x)"
  shows "\<exists>ys. py_sorted lt xs = Inr ys \<and> mset ys = mset xs \<and> ordered ys \<and> (\<forall>z. filter (same z) ys = filter (same z) xs)"
  using assms
proof (induction xs)
  case (Cons x xs)
  then obtain ys where ys: "py_sorted lt xs = Inr ys" "mset ys = mset xs" "ordered ys" "\<forall>z. filter (same z) ys = filter (same z) xs"
    by auto
  have "insert_sorted lt x ys = Inr (place x ys)"
    using Cons.prems mset_eq_setD[OF ys(2)] by (intro insert_sorted_place) auto
  then show ?case using ys by (auto simp: mset_place ordered_place same_place)
qed (simp add: ordered_def)

end

end
