(* ===== verification/Table_Session.thy ===== *)
theory Table_Session
  imports Describe Declared
begin

text \<open>
  \<open>pg_mimic/tables.py\<close>, the half that declares: \<open>TableSession.__init__\<close>, which settles the columns and the types of every table from
  what the author declared and from the rows, once, or refuses. A row is a mapping or a sequence; \<open>columns\<close> gives types or
  only names. How sqlglot quotes an identifier is the argument \<open>quoted\<close>.

  The lemmas: the schema is well formed, every row has exactly the declared columns, an inferred type is the type of every
  value in the column, and the catalogue and the query engine are told the same type.
\<close>

section \<open>What the author hands over\<close>

datatype given_row = MappingRow "(pystr, pyval) dict" | SequenceRow "pyval list"

datatype declared_type = DeclOid int | DeclType py_type

datatype declared_columns = ColumnTypes "(pystr, declared_type) dict" | ColumnList "pystr list"

record table_declaration =
  td_pg_types :: "(pystr, pystr) dict"
  td_sqlglot_types :: "(pystr, pystr) dict"
  td_rows :: "(pystr, pyval) dict list"

text \<open>A dict built from pairs: a key keeps its place and takes its last value.\<close>

definition dict_of :: "('k \<times> 'v) list \<Rightarrow> ('k, 'v) dict" where
  "dict_of ps = dict_update [] ps"

definition list_repr :: "pystr list \<Rightarrow> pystr" where
  "list_repr xs = lit ''['' @ py_join (lit '', '') (map py_repr xs) @ lit '']''"

fun is_mapping :: "given_row \<Rightarrow> bool" where
  "is_mapping (MappingRow d) = True"
| "is_mapping (SequenceRow vs) = False"

section \<open>Columns\<close>

fun declared_names :: "declared_columns option \<Rightarrow> pystr list" where
  "declared_names None = []"
| "declared_names (Some (ColumnTypes d)) = map fst d"
| "declared_names (Some (ColumnList names)) = names"

fun declared_types_of :: "declared_columns option \<Rightarrow> (pystr, declared_type) dict" where
  "declared_types_of (Some (ColumnTypes d)) = d"
| "declared_types_of _ = []"

definition row_keys :: "given_row \<Rightarrow> pystr list" where
  "row_keys row = (case row of MappingRow d \<Rightarrow> map fst d | SequenceRow vs \<Rightarrow> [])"

definition column_names :: "pystr \<Rightarrow> given_row list \<Rightarrow> declared_columns option \<Rightarrow> exc + pystr list" where
  "column_names name rows declared =
     (if \<not> list_all is_mapping rows then
        (if declared_names declared = []
         then Inl (ValueError (lit ''table \"'' @ name @ lit ''\" has rows given as tuples, so its column names must be declared: ''
                   @ lit ''columns={\"'' @ name @ lit ''\": [\"id\", \"name\"]}''))
         else Inr (declared_names declared))
      else
        let names = fold set_add (concat (map row_keys rows) @ declared_names declared) [] in
        if names = []
        then Inl (ValueError (lit ''table \"'' @ name @ lit ''\" is empty, so its columns cannot be inferred -- declare them: ''
                  @ lit ''columns={\"'' @ name @ lit ''\": {\"id\": int, \"name\": str}}''))
        else Inr names)"

definition row_as_dict :: "pystr \<Rightarrow> nat \<Rightarrow> given_row \<Rightarrow> pystr list \<Rightarrow> exc + (pystr, pyval) dict" where
  "row_as_dict name index row columns =
     (case row of
        MappingRow d \<Rightarrow>
          let unknown = sort (set_diff (map fst d) columns) in
          if unknown \<noteq> []
          then Inl (ValueError (lit ''table \"'' @ name @ lit ''\" row '' @ nat_str index @ lit '' has column(s) '' @ list_repr unknown
                    @ lit '' that the declared columns '' @ list_repr columns @ lit '' do not include''))
          else Inr (dict_of (map (\<lambda>c. (c, dict_get_or d c PNone)) columns))
      | SequenceRow vs \<Rightarrow>
          if length vs \<noteq> length columns
          then Inl (ValueError (lit ''table \"'' @ name @ lit ''\" row '' @ nat_str index @ lit '' has '' @ nat_str (length vs) @ lit '' value(s) but ''
                    @ nat_str (length columns) @ lit '' column(s) are declared''))
          else Inr (dict_of (zip columns vs)))"

section \<open>Types\<close>

definition column_label :: "pystr \<Rightarrow> pystr \<Rightarrow> pystr" where
  "column_label name col = lit ''column \"'' @ name @ lit ''\".\"'' @ col @ lit ''\"''"

definition declared_column_oid :: "pystr \<Rightarrow> pystr \<Rightarrow> declared_type \<Rightarrow> exc + int" where
  "declared_column_oid name col declared =
     (case declared of
        DeclOid oid \<Rightarrow> Inr oid
      | DeclType t \<Rightarrow>
          (case oid_for_type t of
             Inl (TypeError m) \<Rightarrow> Inl (TypeError (column_label name col @ lit '': '' @ m))
           | r \<Rightarrow> r))"

text \<open>The loop of \<open>_inferred_oid\<close>: the set of the OIDs of the values that are there.\<close>

fun value_oids :: "pystr \<Rightarrow> pystr \<Rightarrow> pyval list \<Rightarrow> int list \<Rightarrow> exc + int list" where
  "value_oids name col [] oids = Inr oids"
| "value_oids name col (v # vs) oids =
     (case v of
        PNone \<Rightarrow> value_oids name col vs oids
      | _ \<Rightarrow>
          if type_of v = TyList \<or> type_of v = TyDict
          then Inl (TypeError (column_label name col @ lit '' holds a '' @ type_name v
                    @ lit '', which is equally a Postgres array or a json document -- declare which: columns={\"'' @ name @ lit ''\": {\"'' @ col
                    @ lit ''\": list[str]}} or {\"'' @ col @ lit ''\": JSONB}''))
          else rbind (oid_for_type (type_of v)) (\<lambda>oid. value_oids name col vs (set_add oid oids)))"

definition inferred_oid :: "pystr \<Rightarrow> pystr \<Rightarrow> pyval list \<Rightarrow> exc + int" where
  "inferred_oid name col vs =
     rbind (value_oids name col vs []) (\<lambda>oids.
     case oids of
       [oid] \<Rightarrow> Inr oid
     | [] \<Rightarrow> Inl (ValueError (column_label name col @ lit '' has no non-NULL value to infer a type from -- declare it: ''
                 @ lit ''columns={\"'' @ name @ lit ''\": {\"'' @ col @ lit ''\": str}}''))
     | _ \<Rightarrow>
         let types = sort (remdups (map type_name (filter (\<lambda>v. v \<noteq> PNone) vs))) in
         Inl (ValueError (column_label name col @ lit '' holds values of more than one type ('' @ py_join (lit '', '') types
              @ lit ''), which no Postgres column can -- fix the rows, or declare the type you mean: columns={\"'' @ name @ lit ''\": {\"'' @ col
              @ lit ''\": str}}'')))"

definition unservable :: "pystr \<Rightarrow> pystr \<Rightarrow> int \<Rightarrow> exc" where
  "unservable name col oid =
     ValueError (column_label name col @ lit '' declares OID '' @ int_str oid @ lit '', which has no equivalent in sqlglot'' @ [39]
       @ lit ''s type system, so TableSession cannot describe it to the query engine. Declare one of: ''
       @ py_join (lit '', '') (sort (map snd PG_NAME)) @ lit '' (or serve this table from a Session of your own).'')"

function sqlglot_type_name :: "pystr \<Rightarrow> pystr \<Rightarrow> int \<Rightarrow> exc + pystr" where
  "sqlglot_type_name name col oid =
     (if is_array_oid oid
      then rbind (element_oid_of oid) (\<lambda>element. rbind (sqlglot_type_name name col element) (\<lambda>n. Inr (n @ lit ''[]'')))
      else case dict_get SQLGLOT_NAME oid of Some n \<Rightarrow> Inr n | None \<Rightarrow> Inl (unservable name col oid))"
  by pat_completeness auto

termination
  by (relation "measure (\<lambda>(name, col, oid). if is_array_oid oid then 1 else 0)") (auto dest: element_oid_scalar(5))

declare sqlglot_type_name.simps [simp del]

section \<open>A table and a session\<close>

definition row_value :: "pystr \<Rightarrow> (pystr, pyval) dict \<Rightarrow> exc + pyval" where
  "row_value col row = (case dict_get row col of Some v \<Rightarrow> Inr v | None \<Rightarrow> Inl KeyError)"

text \<open>The OID of one column: as declared, or inferred from the values.\<close>

definition settled_oid ::
    "pystr \<Rightarrow> (pystr, declared_type) dict \<Rightarrow> (pystr, pyval) dict list \<Rightarrow> pystr \<Rightarrow> exc + int" where
  "settled_oid name types rows col =
     (case dict_get types col of
        Some t \<Rightarrow> declared_column_oid name col t
      | None \<Rightarrow> rbind (rmap (row_value col) rows) (inferred_oid name col))"

definition declare_table ::
    "(pystr \<Rightarrow> pystr) \<Rightarrow> pystr \<Rightarrow> given_row list \<Rightarrow> declared_columns option \<Rightarrow> exc + table_declaration" where
  "declare_table quoted name rows declared =
     rbind (column_names name rows declared) (\<lambda>columns.
     rbind (rmap (\<lambda>(index, row). row_as_dict name index row columns) (enumerate 0 rows)) (\<lambda>normalised.
     rbind (rmap (\<lambda>c. rbind (settled_oid name (declared_types_of declared) normalised c) (\<lambda>oid. Inr (c, oid))) columns) (\<lambda>pairs.
     let oids = dict_of pairs in
     rbind (rmap (\<lambda>(c, oid). rbind (sqlglot_type_name name c oid) (\<lambda>n. Inr (c, n))) oids) (\<lambda>sqlglot_types.
     rbind (rmap (\<lambda>(c, oid). rbind (pg_type_name oid) (\<lambda>n. Inr (c, n))) oids) (\<lambda>pg_types.
     Inr \<lparr>td_pg_types = pg_types,
       td_sqlglot_types = dict_of (map (\<lambda>(c, n). (quoted c, n)) sqlglot_types),
       td_rows = map (\<lambda>row. dict_of (map (\<lambda>(c, v). (quoted c, v)) row)) normalised\<rparr>)))))"

record table_session =
  ts_schema :: schema
  ts_rows :: "(pystr, (pystr, pyval) dict list) dict"
  ts_sqlglot_schema :: "(pystr, (pystr, pystr) dict) dict"

definition TableSession ::
    "(pystr \<Rightarrow> pystr) \<Rightarrow> (pystr, given_row list) dict \<Rightarrow> (pystr, declared_columns) dict \<Rightarrow> exc + table_session" where
  "TableSession quoted tables columns =
     (let unknown = sort (set_diff (map fst columns) (map fst tables)) in
      if unknown \<noteq> []
      then Inl (ValueError (lit ''columns declares table(s) '' @ list_repr unknown @ lit '' that are not in tables (''
                @ list_repr (sort (map fst tables)) @ lit '')''))
      else
        rbind (rmap (\<lambda>(name, rows). rbind (declare_table quoted name rows (dict_get columns name)) (\<lambda>td. Inr (name, td))) tables) (\<lambda>declared.
        rbind (rmap (\<lambda>(name, td). rbind (Table (PStr name) (map (\<lambda>(c, ty). (PStr c, PStr ty)) (td_pg_types td)) (KeyNames []) (UniqueKeys []))
                 (\<lambda>t. Inr (ATable t))) declared) (\<lambda>its.
        rbind (Schema its) (\<lambda>schema.
        Inr \<lparr>ts_schema = schema, ts_rows = dict_of (map (\<lambda>(name, td). (quoted name, td_rows td)) declared),
          ts_sqlglot_schema = dict_of (map (\<lambda>(name, td). (quoted name, td_sqlglot_types td)) declared)\<rparr>))))"

section \<open>Lemmas on dicts\<close>

lemma dict_of_snoc: "dict_of (ps @ [(k, v)]) = dict_set k v (dict_of ps)"
  by (simp add: dict_of_def dict_update_def)

lemma dict_of_keys: "map fst (dict_of ps) = fold set_add (map fst ps) []"
proof (induction ps rule: rev_induct)
  case (snoc p ps)
  have "fst ` set (dict_of ps) = set (fold set_add (map fst ps) [])" by (simp flip: set_map snoc)
  then show ?case using snoc by (cases p) (auto simp: dict_of_snoc update_keys set_add_def)
qed (simp add: dict_of_def dict_update_def)

lemma dict_of_get: "dict_get (dict_of ps) k = map_of (rev ps) k"
  by (simp add: dict_of_def dict_update_get split: option.split)

lemma set_fold_add: "set (fold set_add xs ys) = set xs \<union> set ys"
  by (induction xs arbitrary: ys) auto

lemma distinct_fold_add: "distinct ys \<Longrightarrow> distinct (fold set_add xs ys)"
  by (induction xs arbitrary: ys) auto

lemma distinct_dict_of: "distinct (map fst (dict_of ps))"
  by (simp add: dict_of_keys distinct_fold_add)

lemma dict_of_set: "set (dict_of ps) \<subseteq> set ps"
proof (clarify)
  fix k v
  assume "(k, v) \<in> set (dict_of ps)"
  then have "dict_get (dict_of ps) k = Some v" by (simp add: map_of_eq_Some_iff[OF distinct_dict_of])
  then have "(k, v) \<in> set (rev ps)" by (simp only: dict_of_get map_of_SomeD)
  then show "(k, v) \<in> set ps" by simp
qed

lemma fold_add_map: "inj f \<Longrightarrow> fold set_add (map f xs) (map f ys) = map f (fold set_add xs ys)"
proof (induction xs arbitrary: ys)
  case (Cons x xs)
  have "set_add (f x) (map f ys) = map f (set_add x ys)" using Cons.prems by (auto simp: set_add_def inj_image_mem_iff)
  then show ?case using Cons by simp
qed simp

text \<open>A dict under renamed keys.\<close>

lemma dict_of_distinct: "distinct (map fst ps) \<Longrightarrow> dict_of ps = ps"
proof (induction ps rule: rev_induct)
  case (snoc p ps)
  then show ?case by (cases p) (auto simp: dict_of_snoc dict_set_new)
qed (simp add: dict_of_def dict_update_def)

lemma quoted_dict:
  assumes "inj f" and "distinct (map fst ps)"
  shows "dict_of (map (\<lambda>(c, v). (f c, v)) ps) = map (\<lambda>(c, v). (f c, v)) ps"
  using assms by (intro dict_of_distinct) (simp add: comp_def case_prod_unfold distinct_map inj_on_def inj_def)

lemma quoted_get: "inj f \<Longrightarrow> dict_get (map (\<lambda>(c, v). (f c, v)) ps) (f c) = dict_get ps c"
  by (induction ps) (auto simp: inj_eq)

text \<open>A comprehension over a dict that keeps the keys.\<close>

lemma rmap_values:
  assumes "rmap (\<lambda>(c, x). rbind (f c x) (\<lambda>y. Inr (c, y))) d = Inr d'"
  shows "map fst d' = map fst d \<and> (\<forall>(c, y) \<in> set d'. \<exists>x. (c, x) \<in> set d \<and> f c x = Inr y)"
  using assms by (induction d arbitrary: d') (fastforce elim!: rbind_eq_InrE)+

lemma rmap_keyed:
  assumes "rmap (\<lambda>c. rbind (f c) (\<lambda>y. Inr (c, y))) cs = Inr d"
  shows "map fst d = cs \<and> (\<forall>(c, y) \<in> set d. f c = Inr y)"
  using assms by (induction cs arbitrary: d) (auto elim!: rbind_eq_InrE)

section \<open>What a declaration settles\<close>

lemma row_as_dict_keys: "row_as_dict name i row columns = Inr d \<Longrightarrow> map fst d = fold set_add columns []"
  by (auto simp: row_as_dict_def dict_of_keys comp_def Let_def split: given_row.splits if_splits)

lemma value_oids_Cons:
  "value_oids name col (x # vs) oids = Inr res \<longleftrightarrow>
     (if x = PNone then value_oids name col vs oids = Inr res
      else \<exists>oid. oid_for_type (type_of x) = Inr oid \<and> value_oids name col vs (set_add oid oids) = Inr res)"
  by (cases x) auto

lemma value_oids_mono: "value_oids name col vs oids = Inr res \<Longrightarrow> set oids \<subseteq> set res"
proof (induction vs arbitrary: oids)
  case (Cons x vs)
  then show ?case using set_set_add by (fastforce simp: value_oids_Cons simp del: value_oids.simps split: if_splits)
qed simp

lemma value_oids_all:
  assumes "value_oids name col vs oids = Inr res" and "v \<in> set vs" and "v \<noteq> PNone"
  shows "\<exists>oid \<in> set res. oid_for_type (type_of v) = Inr oid"
  using assms
proof (induction vs arbitrary: oids)
  case (Cons x vs)
  then show ?case
  proof (cases "x = PNone \<or> x \<noteq> v")
    case True
    then show ?thesis using Cons by (auto simp: value_oids_Cons simp del: value_oids.simps split: if_splits)
  next
    case False
    then obtain oid where "oid_for_type (type_of v) = Inr oid" "value_oids name col vs (set_add oid oids) = Inr res"
      using Cons.prems(1) by (auto simp: value_oids_Cons simp del: value_oids.simps)
    then show ?thesis using value_oids_mono[of name col vs "set_add oid oids" res] by auto
  qed
qed simp

lemma inferred_oid_all:
  assumes "inferred_oid name col vs = Inr oid" and "v \<in> set vs" and "v \<noteq> PNone"
  shows "oid_for_type (type_of v) = Inr oid"
proof -
  from assms(1) have "value_oids name col vs [] = Inr [oid]"
    by (auto simp: inferred_oid_def Let_def split: list.splits)
  from value_oids_all[OF this assms(2,3)] show ?thesis by simp
qed

text \<open>Everything \<open>declare_table\<close> settles: the columns with their types, and the rows before their keys are quoted.\<close>

lemma declare_table_parts:
  assumes "declare_table quoted name rows declared = Inr td" and "inj quoted"
  obtains normalised sg where
    "td_sqlglot_types td = map (\<lambda>(c, n). (quoted c, n)) sg" "map fst sg = map fst (td_pg_types td)" "distinct (map fst (td_pg_types td))"
    "td_rows td = map (map (\<lambda>(c, v). (quoted c, v))) normalised" "\<forall>d \<in> set normalised. map fst d = map fst (td_pg_types td)"
    "\<forall>(c, ty) \<in> set (td_pg_types td). settled_oid name (declared_types_of declared) normalised c = Inr (oid_for_declared_type ty)
       \<and> (\<exists>n. (c, n) \<in> set sg \<and> sqlglot_type_name name c (oid_for_declared_type ty) = Inr n)"
proof -
  obtain columns normalised pairs sg pg where
    n: "rmap (\<lambda>(index, row). row_as_dict name index row columns) (enumerate 0 rows) = Inr normalised"
    and p: "rmap (\<lambda>c. rbind (settled_oid name (declared_types_of declared) normalised c) (\<lambda>oid. Inr (c, oid))) columns = Inr pairs"
    and sg: "rmap (\<lambda>(c, oid). rbind (sqlglot_type_name name c oid) (\<lambda>n. Inr (c, n))) (dict_of pairs) = Inr sg"
    and pg: "rmap (\<lambda>(c, oid). rbind (pg_type_name oid) (\<lambda>n. Inr (c, n))) (dict_of pairs) = Inr pg"
    and td: "td = \<lparr>td_pg_types = pg, td_sqlglot_types = dict_of (map (\<lambda>(c, n). (quoted c, n)) sg),
       td_rows = map (\<lambda>row. dict_of (map (\<lambda>(c, v). (quoted c, v)) row)) normalised\<rparr>"
    using assms(1) unfolding declare_table_def Let_def by (elim rbind_eq_InrE) simp
  note sgv = rmap_values[OF sg] and pgv = rmap_values[OF pg] and pk = rmap_keyed[OF p]
  have dist: "distinct (map fst pg)" "map fst sg = map fst pg" using sgv pgv distinct_dict_of[of pairs] by simp_all
  have keys: "map fst d = map fst pg" if "d \<in> set normalised" for d
    using rmap_elem[OF n that] row_as_dict_keys[of name _ _ columns d] pgv pk by (auto simp: dict_of_keys)
  have one: "oid = oid'" if "(c, oid) \<in> set (dict_of pairs)" "(c, oid') \<in> set (dict_of pairs)" for c oid oid'
    using that distinct_dict_of[of pairs] by (metis map_of_is_SomeI option.inject)
  have "settled_oid name (declared_types_of declared) normalised c = Inr (oid_for_declared_type ty)
       \<and> (\<exists>n. (c, n) \<in> set sg \<and> sqlglot_type_name name c (oid_for_declared_type ty) = Inr n)" if m: "(c, ty) \<in> set pg" for c ty
  proof -
    obtain oid where "(c, oid) \<in> set (dict_of pairs)" "pg_type_name oid = Inr ty"
      using bspec[OF conjunct2[OF pgv] m] by auto
    then have oid: "(c, oid) \<in> set (dict_of pairs)" "oid_for_declared_type ty = oid" by (simp_all add: pg_type_name_returns)
    then have "settled_oid name (declared_types_of declared) normalised c = Inr oid" using pk dict_of_set[of pairs] by fastforce
    moreover have "c \<in> set (map fst sg)" using m dist(2) by force
    then obtain n where cn: "(c, n) \<in> set sg" by force
    then obtain oid' where "(c, oid') \<in> set (dict_of pairs)" "sqlglot_type_name name c oid' = Inr n" using sgv by fastforce
    ultimately show ?thesis using one oid cn by blast
  qed
  moreover have "dict_of (map (\<lambda>(c, n). (quoted c, n)) sg) = map (\<lambda>(c, n). (quoted c, n)) sg"
    using quoted_dict[OF assms(2), of sg] dist by simp
  moreover have "map (\<lambda>row. dict_of (map (\<lambda>(c, v). (quoted c, v)) row)) normalised = map (map (\<lambda>(c, v). (quoted c, v))) normalised"
    using keys dist by (auto intro!: quoted_dict[OF assms(2)])
  ultimately show thesis using that[of sg normalised] dist keys td by auto
qed

lemma declare_table_types:
  assumes "declare_table quoted name rows declared = Inr td" and "inj quoted"
  shows "map fst (td_sqlglot_types td) = map (quoted \<circ> fst) (td_pg_types td)"
    and "\<forall>row \<in> set (td_rows td). map fst row = map (quoted \<circ> fst) (td_pg_types td)"
    and "\<forall>(c, ty) \<in> set (td_pg_types td). \<exists>n. dict_get (td_sqlglot_types td) (quoted c) = Some n
      \<and> sqlglot_type_name name c (oid_for_declared_type ty) = Inr n"
proof -
  obtain normalised sg where sg: "td_sqlglot_types td = map (\<lambda>(c, n). (quoted c, n)) sg" "map fst sg = map fst (td_pg_types td)"
      "distinct (map fst (td_pg_types td))"
    and rows: "td_rows td = map (map (\<lambda>(c, v). (quoted c, v))) normalised" "\<forall>d \<in> set normalised. map fst d = map fst (td_pg_types td)"
    and settled: "\<forall>(c, ty) \<in> set (td_pg_types td). settled_oid name (declared_types_of declared) normalised c = Inr (oid_for_declared_type ty)
       \<and> (\<exists>n. (c, n) \<in> set sg \<and> sqlglot_type_name name c (oid_for_declared_type ty) = Inr n)"
    by (rule declare_table_parts[OF assms])
  have q: "map fst (map (\<lambda>(c, v). (quoted c, v)) d) = map quoted (map fst d)" for d :: "(pystr \<times> 'v) list"
    by (simp add: case_prod_unfold)
  show "map fst (td_sqlglot_types td) = map (quoted \<circ> fst) (td_pg_types td)" using q[of sg] by (simp add: sg)
  show "\<forall>row \<in> set (td_rows td). map fst row = map (quoted \<circ> fst) (td_pg_types td)"
  proof
    fix row
    assume "row \<in> set (td_rows td)"
    then obtain d where "d \<in> set normalised" "row = map (\<lambda>(c, v). (quoted c, v)) d" by (auto simp: rows(1))
    then show "map fst row = map (quoted \<circ> fst) (td_pg_types td)" using q[of d] rows(2) by simp
  qed
  show "\<forall>(c, ty) \<in> set (td_pg_types td). \<exists>n. dict_get (td_sqlglot_types td) (quoted c) = Some n
      \<and> sqlglot_type_name name c (oid_for_declared_type ty) = Inr n"
    using settled sg(2,3) by (fastforce simp: sg(1) quoted_get[OF assms(2)])
qed

lemma declare_table_values:
  assumes "declare_table quoted name rows declared = Inr td" and "inj quoted"
    and "(c, ty) \<in> set (td_pg_types td)" and "dict_get (declared_types_of declared) c = None"
    and "row \<in> set (td_rows td)" and "dict_get row (quoted c) = Some v" and "v \<noteq> PNone"
  shows "oid_for_type (type_of v) = Inr (oid_for_declared_type ty)"
proof -
  obtain normalised where rows: "td_rows td = map (map (\<lambda>(c, v). (quoted c, v))) normalised"
    and settled: "settled_oid name (declared_types_of declared) normalised c = Inr (oid_for_declared_type ty)"
    by (rule declare_table_parts[OF assms(1,2)]) (use assms(3) in auto)
  obtain vs where vs: "rmap (row_value c) normalised = Inr vs" "inferred_oid name c vs = Inr (oid_for_declared_type ty)"
    using settled assms(4) by (auto simp: settled_oid_def)
  obtain d where d: "d \<in> set normalised" "dict_get d c = Some v" using assms(5,6) by (auto simp: rows quoted_get[OF assms(2)])
  then obtain i where "i < length normalised" "row_value c (normalised ! i) = Inr v" by (auto simp: in_set_conv_nth row_value_def)
  then have "v \<in> set vs" using vs(1) by (auto simp: rmap_eq_Inr_iff list_all2_conv_all_nth in_set_conv_nth)
  from inferred_oid_all[OF vs(2) this assms(7)] show ?thesis .
qed

section \<open>What a session serves\<close>

lemma tables_declared:
  assumes "rmap (\<lambda>(name, td). rbind (Table (PStr name) (map (\<lambda>(c, ty). (PStr c, PStr ty)) (td_pg_types td)) (KeyNames []) (UniqueKeys []))
      (\<lambda>t. Inr (ATable t))) declared = Inr its" and "\<forall>(name, td) \<in> set declared. distinct (map fst (td_pg_types td))"
  shows "\<exists>ts. its = map ATable ts \<and> list_all table_ok ts
    \<and> map (\<lambda>t. (t_name t, t_columns t)) ts = map (\<lambda>(name, td). (name, td_pg_types td)) declared"
  using assms
proof (induction declared arbitrary: its)
  case (Cons d declared)
  obtain name td where d: "d = (name, td)" by fastforce
  let ?cols = "map (\<lambda>(c, ty). (PStr c, PStr ty)) (td_pg_types td)"
  obtain t its' where t: "Table (PStr name) ?cols (KeyNames []) (UniqueKeys []) = Inr t" and its: "its = ATable t # its'"
    and rest: "rmap (\<lambda>(name, td). rbind (Table (PStr name) (map (\<lambda>(c, ty). (PStr c, PStr ty)) (td_pg_types td)) (KeyNames []) (UniqueKeys []))
      (\<lambda>t. Inr (ATable t))) declared = Inr its'"
    using Cons.prems(1) by (auto simp: d elim!: rbind_eq_InrE)
  obtain ts where ts: "its' = map ATable ts" "list_all table_ok ts" "map (\<lambda>t. (t_name t, t_columns t)) ts = map (\<lambda>(name, td). (name, td_pg_types td)) declared"
    using Cons.IH[OF rest] Cons.prems(2) by auto
  have "mapping_ok ?cols"
    using Cons.prems(2) by (auto simp: d mapping_ok_def comp_def case_prod_unfold distinct_map inj_on_def)
  from Table_ok[OF t this] have "table_ok t" "t_name t = name" "map (\<lambda>(c, ty). (PStr c, PStr ty)) (t_columns t) = ?cols" by auto
  moreover from this(3) have "t_columns t = td_pg_types td" by (rule map_injective) (auto simp: inj_def)
  ultimately have "its = map ATable (t # ts)" "list_all table_ok (t # ts)"
    "map (\<lambda>t. (t_name t, t_columns t)) (t # ts) = map (\<lambda>(name, td). (name, td_pg_types td)) (d # declared)" using its ts d by simp_all
  then show ?case by blast
qed auto

lemma TableSession_parts:
  assumes "TableSession quoted tables columns = Inr ts" and "inj quoted" and "mapping_ok tables"
  obtains declared where "map fst declared = map fst tables" "schema_ok (ts_schema ts)"
    "map (\<lambda>(name, t). (name, t_columns t)) (ts_schema ts) = map (\<lambda>(name, td). (name, td_pg_types td)) declared"
    "\<forall>(name, td) \<in> set declared. dict_get (ts_rows ts) (quoted name) = Some (td_rows td)
       \<and> dict_get (ts_sqlglot_schema ts) (quoted name) = Some (td_sqlglot_types td)
       \<and> (\<exists>rows. declare_table quoted name rows (dict_get columns name) = Inr td)"
proof -
  obtain declared its where
    d: "rmap (\<lambda>(name, rows). rbind (declare_table quoted name rows (dict_get columns name)) (\<lambda>td. Inr (name, td))) tables = Inr declared"
    and its: "rmap (\<lambda>(name, td). rbind (Table (PStr name) (map (\<lambda>(c, ty). (PStr c, PStr ty)) (td_pg_types td)) (KeyNames []) (UniqueKeys []))
      (\<lambda>t. Inr (ATable t))) declared = Inr its"
    and schema: "Schema its = Inr (ts_schema ts)"
    and ts: "ts_rows ts = dict_of (map (\<lambda>(name, td). (quoted name, td_rows td)) declared)"
      "ts_sqlglot_schema ts = dict_of (map (\<lambda>(name, td). (quoted name, td_sqlglot_types td)) declared)"
    using assms(1) unfolding TableSession_def Let_def by (auto split: if_splits elim!: rbind_eq_InrE)
  have dv: "map fst declared = map fst tables" "\<forall>(name, td) \<in> set declared. \<exists>rows. declare_table quoted name rows (dict_get columns name) = Inr td"
    using rmap_values[OF d] by fastforce+
  then have dist: "distinct (map fst declared)" using assms(3) by (simp add: mapping_ok_def)
  have "\<forall>(name, td) \<in> set declared. distinct (map fst (td_pg_types td))"
    using dv(2) by (auto elim!: declare_table_parts[OF _ assms(2)] dest!: bspec)
  from tables_declared[OF its this] obtain tabs where tabs: "its = map ATable tabs" "list_all table_ok tabs"
    "map (\<lambda>t. (t_name t, t_columns t)) tabs = map (\<lambda>(name, td). (name, td_pg_types td)) declared" by blast
  have "map t_name tabs = map fst declared"
    using arg_cong[OF tabs(3), of "map fst"] by (simp add: comp_def case_prod_unfold)
  then have sch: "ts_schema ts = map (\<lambda>t. (t_name t, t)) tabs"
    using schema schema_add_distinct[of "[]" tabs] dist by (simp add: Schema_def tabs(1))
  have ok: "schema_ok (ts_schema ts)" using Schema_ok[OF schema] tabs(1,2) by (auto simp: list_all_iff)
  have same: "map (\<lambda>(name, t). (name, t_columns t)) (ts_schema ts) = map (\<lambda>(name, td). (name, td_pg_types td)) declared"
    using tabs(3) by (simp add: sch comp_def)
  have get: "dict_get (dict_of (map (\<lambda>(name, td). (quoted name, f td)) declared)) (quoted n) = Some (f x)"
    if "(n, x) \<in> set declared" for f :: "table_declaration \<Rightarrow> 'v" and n x
  proof -
    let ?q = "map (\<lambda>(name, td). (quoted name, f td)) declared"
    have "map fst ?q = map quoted (map fst declared)" by (simp add: case_prod_unfold)
    then have k: "distinct (map fst ?q)" using dist inj_on_subset[OF assms(2) subset_UNIV] by (simp only: distinct_map[of quoted])
    have "(quoted n, f x) \<in> set ?q" using that by force
    then show ?thesis unfolding dict_of_distinct[OF k] by (rule map_of_is_SomeI[OF k])
  qed
  have "\<forall>(name, td) \<in> set declared. dict_get (ts_rows ts) (quoted name) = Some (td_rows td)
      \<and> dict_get (ts_sqlglot_schema ts) (quoted name) = Some (td_sqlglot_types td)"
    by (auto simp: ts get[of _ _ td_rows] get[of _ _ td_sqlglot_types])
  then show thesis using that[of declared] dv ok same by fast
qed

text \<open>
  C30: a TableSession that accepts its tables declares them alike to everyone who asks: its schema is well formed and has the tables it
  was given, in their order; the query engine is told the same columns for each, every row has a value for exactly those columns, and
  the type the catalogue reports for a column is the type the query engine is told.
\<close>
theorem table_session_declares:
  assumes "TableSession quoted tables columns = Inr ts" and "inj quoted" and "mapping_ok tables"
  shows "schema_ok (ts_schema ts) \<and> map fst (ts_schema ts) = map fst tables \<and>
    (\<forall>(name, t) \<in> set (ts_schema ts). \<exists>types rows.
       dict_get (ts_sqlglot_schema ts) (quoted name) = Some types \<and> dict_get (ts_rows ts) (quoted name) = Some rows \<and>
       map fst types = map (quoted \<circ> fst) (t_columns t) \<and> (\<forall>row \<in> set rows. map fst row = map fst types) \<and>
       (\<forall>(c, ty) \<in> set (t_columns t). \<exists>n. dict_get types (quoted c) = Some n
          \<and> sqlglot_type_name name c (oid_for_declared_type ty) = Inr n))"
proof -
  obtain declared where d: "map fst declared = map fst tables" "schema_ok (ts_schema ts)"
    and same: "map (\<lambda>(name, t). (name, t_columns t)) (ts_schema ts) = map (\<lambda>(name, td). (name, td_pg_types td)) declared"
    and served: "\<forall>(name, td) \<in> set declared. dict_get (ts_rows ts) (quoted name) = Some (td_rows td)
       \<and> dict_get (ts_sqlglot_schema ts) (quoted name) = Some (td_sqlglot_types td)
       \<and> (\<exists>rows. declare_table quoted name rows (dict_get columns name) = Inr td)"
    by (rule TableSession_parts[OF assms])
  have "map fst (ts_schema ts) = map fst declared"
    using arg_cong[OF same, of "map fst"] by (simp add: comp_def case_prod_unfold)
  moreover have "\<exists>types rows.
       dict_get (ts_sqlglot_schema ts) (quoted name) = Some types \<and> dict_get (ts_rows ts) (quoted name) = Some rows \<and>
       map fst types = map (quoted \<circ> fst) (t_columns t) \<and> (\<forall>row \<in> set rows. map fst row = map fst types) \<and>
       (\<forall>(c, ty) \<in> set (t_columns t). \<exists>n. dict_get types (quoted c) = Some n
          \<and> sqlglot_type_name name c (oid_for_declared_type ty) = Inr n)" if "(name, t) \<in> set (ts_schema ts)" for name t
  proof -
    have "(name, t_columns t) \<in> set (map (\<lambda>(name, t). (name, t_columns t)) (ts_schema ts))" using that by force
    then obtain td where td: "(name, td) \<in> set declared" "t_columns t = td_pg_types td" unfolding same by auto
    then obtain rows where "declare_table quoted name rows (dict_get columns name) = Inr td" using served by blast
    from declare_table_types[OF this assms(2)] show ?thesis using bspec[OF served td(1)] td(2) by auto
  qed
  ultimately show ?thesis using d by auto
qed

text \<open>Postgres quoting, and a session with one table, one column of which is declared.\<close>

definition demo_quoted :: "pystr \<Rightarrow> pystr" where
  "demo_quoted s = 34 # replace_char 34 [34, 34] s @ [34]"

lemma inj_demo_quoted: "inj demo_quoted"
proof (rule injI)
  fix s t
  assume "demo_quoted s = demo_quoted t"
  then have "undouble 34 (replace_char 34 [34, 34] s) = undouble 34 (replace_char 34 [34, 34] t)" by (simp add: demo_quoted_def)
  then show "s = t" by (simp add: undouble_double)
qed

definition demo_rows :: "(pystr, given_row list) dict" where
  "demo_rows = [(lit ''users'', [MappingRow [(lit ''id'', PInt 1), (lit ''tags'', PList [])], MappingRow [(lit ''id'', PInt 2)]])]"

definition demo_types :: "(pystr, declared_columns) dict" where
  "demo_types = [(lit ''users'', ColumnTypes [(lit ''tags'', DeclType (TyListOf [TyStr]))])]"

lemma demo_table_session:
  "TableSession demo_quoted demo_rows demo_types = Inr
     \<lparr>ts_schema = [(lit ''users'', \<lparr>t_name = lit ''users'', t_columns = [(lit ''id'', lit ''bigint''), (lit ''tags'', lit ''text[]'')],
        t_primary_key = [], t_unique = []\<rparr>)],
      ts_rows = [(demo_quoted (lit ''users''), [[(demo_quoted (lit ''id''), PInt 1), (demo_quoted (lit ''tags''), PList [])],
        [(demo_quoted (lit ''id''), PInt 2), (demo_quoted (lit ''tags''), PNone)]])],
      ts_sqlglot_schema = [(demo_quoted (lit ''users''), [(demo_quoted (lit ''id''), lit ''BIGINT''), (demo_quoted (lit ''tags''), lit ''TEXT[]'')])]\<rparr>"
  by code_simp

theorem table_session_declares_witness:
  "inj demo_quoted \<and> mapping_ok demo_rows \<and> (\<exists>ts. TableSession demo_quoted demo_rows demo_types = Inr ts \<and>
     schema_ok (ts_schema ts) \<and> map fst (ts_schema ts) = [lit ''users''])"
proof -
  have "mapping_ok demo_rows" by (simp add: mapping_ok_def demo_rows_def)
  then show ?thesis using table_session_declares[OF demo_table_session inj_demo_quoted] demo_table_session inj_demo_quoted
    by (auto simp: demo_rows_def)
qed

text \<open>
  C31: a column whose type was not declared gets a type only when every value in it has that type: whatever row and value of it a
  TableSession serves, NULL apart, Python's type of the value is the type the catalogue reports.
\<close>
theorem inferred_types_hold:
  assumes "TableSession quoted tables columns = Inr ts" and "inj quoted" and "mapping_ok tables"
    and "(name, t) \<in> set (ts_schema ts)" and "(c, ty) \<in> set (t_columns t)"
    and "dict_get (declared_types_of (dict_get columns name)) c = None"
    and "dict_get (ts_rows ts) (quoted name) = Some rows" and "row \<in> set rows" and "dict_get row (quoted c) = Some v" and "v \<noteq> PNone"
  shows "oid_for_type (type_of v) = Inr (oid_for_declared_type ty)"
proof -
  obtain declared where same: "map (\<lambda>(name, t). (name, t_columns t)) (ts_schema ts) = map (\<lambda>(name, td). (name, td_pg_types td)) declared"
    and served: "\<forall>(name, td) \<in> set declared. dict_get (ts_rows ts) (quoted name) = Some (td_rows td)
       \<and> dict_get (ts_sqlglot_schema ts) (quoted name) = Some (td_sqlglot_types td)
       \<and> (\<exists>rows. declare_table quoted name rows (dict_get columns name) = Inr td)"
    by (rule TableSession_parts[OF assms(1-3)])
  have "(name, t_columns t) \<in> set (map (\<lambda>(name, t). (name, t_columns t)) (ts_schema ts))" using assms(4) by force
  then obtain td where td: "(name, td) \<in> set declared" "t_columns t = td_pg_types td" unfolding same by auto
  then obtain given where g: "declare_table quoted name given (dict_get columns name) = Inr td" and "td_rows td = rows"
    using served assms(7) by fastforce
  then show ?thesis using declare_table_values[OF g assms(2) _ assms(6) _ assms(9,10)] assms(5,8) td(2) by simp
qed

theorem inferred_types_hold_witness:
  "inj demo_quoted \<and> mapping_ok demo_rows \<and> dict_get (declared_types_of (dict_get demo_types (lit ''users''))) (lit ''id'') = None \<and>
   oid_for_type (type_of (PInt 2)) = Inr (oid_for_declared_type (lit ''bigint''))"
proof -
  have m: "mapping_ok demo_rows" by (simp add: mapping_ok_def demo_rows_def)
  have u: "dict_get (declared_types_of (dict_get demo_types (lit ''users''))) (lit ''id'') = None" by (simp add: demo_types_def)
  have q: "demo_quoted (lit ''id'') \<noteq> demo_quoted (lit ''tags'')" using inj_demo_quoted by (simp add: inj_eq)
  show ?thesis
    using inferred_types_hold[OF demo_table_session inj_demo_quoted m, where name = "lit ''users''" and c = "lit ''id''" and ty = "lit ''bigint''"
        and v = "PInt 2" and row = "[(demo_quoted (lit ''id''), PInt 2), (demo_quoted (lit ''tags''), PNone)]", simplified, OF refl _ u refl]
      m u inj_demo_quoted q by simp
qed

end
