(* ===== verification/Table_Rows.thy ===== *)
theory Table_Rows
  imports Py_Order Table_Session "HOL-Library.Sublist"
begin

text \<open>
  \<open>pg_mimic/tables.py\<close>, what a TableSession does to the rows sqlglot's executor returns: the first row of each DISTINCT ON key
  (\<open>_first_row_per_key\<close>), the ORDER BY of a SELECT DISTINCT (\<open>_sorted_rows\<close>), and the row window.
\<close>

section \<open>Operations\<close>

definition row_item :: "row \<Rightarrow> nat \<Rightarrow> exc + pyval" where
  "row_item r i = (if i < length r then Inr (r ! i) else Inl IndexError)"

text \<open>A tuple is shown as a list: no tuple reaches a row.\<close>

fun hashable :: "pyval \<Rightarrow> exc + pyval" where
  "hashable (PList xs) = rbind (rmap hashable xs) (\<lambda>ys. Inr (PList ys))"
| "hashable (PDict d) =
     rbind (rmap (\<lambda>(k, v). rbind (hashable v) (\<lambda>h. Inr (k, h))) d) (\<lambda>items.
     rbind (py_sorted (\<lambda>(k, v) (l, w). if py_eq k l then py_less v w else py_less k l) items) (\<lambda>sorted_items.
     Inr (PList (map (\<lambda>(k, v). PList [k, v]) sorted_items))))"
| "hashable v = Inr v"

definition distinct_key :: "nat list \<Rightarrow> row \<Rightarrow> exc + pyval list" where
  "distinct_key keys r = rmap (\<lambda>k. rbind (row_item r k) hashable) keys"

fun keep_first :: "nat list \<Rightarrow> pyval list list \<Rightarrow> row list \<Rightarrow> row list \<Rightarrow> exc + row list" where
  "keep_first keys seen kept [] = Inr kept"
| "keep_first keys seen kept (r # rs) =
     rbind (distinct_key keys r) (\<lambda>key.
     if list_ex (py_eq_list key) seen then keep_first keys seen kept rs
     else keep_first keys (seen @ [key]) (kept @ [r]) rs)"

definition first_row_per_key :: "row list \<Rightarrow> nat list \<Rightarrow> exc + row list" where
  "first_row_per_key rs keys = keep_first keys [] [] rs"

type_synonym sort_term = "nat \<times> bool \<times> bool"

fun compare_rows :: "sort_term list \<Rightarrow> row \<Rightarrow> row \<Rightarrow> exc + int" where
  "compare_rows [] left right = Inr 0"
| "compare_rows ((position, descending, nulls_first) # keys) left right =
     rbind (row_item left position) (\<lambda>a. rbind (row_item right position) (\<lambda>b.
     if a = PNone \<and> b = PNone then compare_rows keys left right
     else if a = PNone \<or> b = PNone then Inr (if (a = PNone) = nulls_first then - 1 else 1)
     else if py_eq a b then compare_rows keys left right
     else rbind (py_less a b) (\<lambda>less. Inr ((if less then - 1 else 1) * (if descending then - 1 else 1)))))"

definition sorted_rows :: "row list \<Rightarrow> sort_term list \<Rightarrow> exc + row list" where
  "sorted_rows rs keys = py_sorted (\<lambda>left right. rbind (compare_rows keys left right) (\<lambda>c. Inr (c < 0))) rs"

definition row_window :: "int option \<Rightarrow> int \<Rightarrow> row list \<Rightarrow> row list" where
  "row_window limit offset rs =
     py_slice rs offset (case limit of None \<Rightarrow> int (length rs) | Some n \<Rightarrow> offset + n)"

text \<open>The rest of \<open>query\<close> after the executor: DISTINCT ON, the order, the window, and the columns that were only added for a key.\<close>

definition finish_rows :: "nat list \<Rightarrow> sort_term list \<Rightarrow> int option \<Rightarrow> int \<Rightarrow> nat \<Rightarrow> nat \<Rightarrow> row list \<Rightarrow> exc + row list" where
  "finish_rows distinct_on sort_keys limit offset visible selected rs =
     rbind (if distinct_on = [] then Inr rs else first_row_per_key rs distinct_on) (\<lambda>kept.
     rbind (if sort_keys = [] then Inr kept else sorted_rows kept sort_keys) (\<lambda>ordered.
     Inr (let rows = row_window limit offset ordered in if visible < selected then map (take visible) rows else rows)))"

text \<open>
  An object and the array of its pairs have one key, and so have \<open>{}\<close> and \<open>[]\<close>: a DISTINCT ON over a json column drops a row that
  has a document of its own.
\<close>

lemma documents_share_key: "hashable (PDict [(k, PInt i)]) = Inr (PList [PList [k, PInt i]])"
  "first_row_per_key [[PDict []], [PList []]] [0] = Inr [[PDict []]]"
  by (simp_all add: first_row_per_key_def distinct_key_def row_item_def)

section \<open>SQL's order\<close>

definition rank :: "pyval \<Rightarrow> rat list" where
  "rank v = (case order_key v of Some (k, x) \<Rightarrow> x | None \<Rightarrow> [])"

text \<open>The values one column can hold: NULL, and values of one kind that are no NaN.\<close>

definition of_kind :: "kind \<Rightarrow> pyval \<Rightarrow> bool" where
  "of_kind k v \<longleftrightarrow> v = PNone \<or> k \<noteq> K_Nan \<and> (\<exists>x. order_key v = Some (k, x))"

text \<open>One term of an ORDER BY, on the values of the term in two rows.\<close>

definition term_before :: "bool \<Rightarrow> bool \<Rightarrow> pyval \<Rightarrow> pyval \<Rightarrow> bool" where
  "term_before descending nulls_first a b \<longleftrightarrow>
     (if a = PNone \<or> b = PNone then a \<noteq> b \<and> (a = PNone) = nulls_first
      else if descending then rank b < rank a else rank a < rank b)"

fun row_before :: "sort_term list \<Rightarrow> row \<Rightarrow> row \<Rightarrow> bool" where
  "row_before [] left right = False"
| "row_before ((position, descending, nulls_first) # keys) left right =
     (term_before descending nulls_first (left ! position) (right ! position)
      \<or> \<not> term_before descending nulls_first (right ! position) (left ! position) \<and> row_before keys left right)"

lemma term_before_asym: "term_before d n a b \<Longrightarrow> \<not> term_before d n b a"
  by (auto simp: term_before_def split: if_splits)

lemma term_before_negative: "\<not> term_before d n a b \<Longrightarrow> \<not> term_before d n b c \<Longrightarrow> \<not> term_before d n a c"
  by (auto simp: term_before_def split: if_splits)

interpretation sql_order: weak_order "row_before keys" for keys
proof
  show "\<not> row_before keys y x" if "row_before keys x y" for x y
    using that by (induction keys) (auto dest: term_before_asym)
  show "\<not> row_before keys x z" if "\<not> row_before keys x y" "\<not> row_before keys y z" for x y z
    using that
  proof (induction keys)
    case (Cons key keys)
    obtain p d n where "key = (p, d, n)" by (cases key)
    then show ?case using Cons term_before_negative[of d n] by auto
  qed simp
qed

lemma scalar_order:
  assumes "order_key v = Some (k, x)"
  shows "py_eq v w = scalar_eq v w" "py_less v w = scalar_less v w" "v \<noteq> PNone"
  using assms by (cases v; simp)+

lemma compare_same_kind:
  assumes "of_kind k v" "of_kind k w" "v \<noteq> PNone" "w \<noteq> PNone"
  shows "py_eq v w \<longleftrightarrow> rank v = rank w" "py_less v w = Inr (rank v < rank w)"
  using assms by (auto simp: of_kind_def scalar_order scalar_eq_def scalar_less_def rank_def)

text \<open>The rows an ORDER BY is well defined on: every term finds its value, and the values of a term are of one kind.\<close>

definition orderable :: "sort_term list \<Rightarrow> row list \<Rightarrow> bool" where
  "orderable keys rs \<longleftrightarrow> (\<forall>(position, descending, nulls_first) \<in> set keys. \<exists>k. \<forall>r \<in> set rs. position < length r \<and> of_kind k (r ! position))"

lemma compare_rows_before:
  assumes "orderable keys rs" "left \<in> set rs" "right \<in> set rs"
  shows "\<exists>c. compare_rows keys left right = Inr c \<and> (c < 0) = row_before keys left right"
  using assms(1)
proof (induction keys)
  case (Cons key keys)
  obtain p d n where key: "key = (p, d, n)" by (cases key)
  obtain k where k: "p < length left" "p < length right" "of_kind k (left ! p)" "of_kind k (right ! p)"
    using Cons.prems assms(2,3) by (auto simp: orderable_def key)
  have ih: "\<exists>c. compare_rows keys left right = Inr c \<and> (c < 0) = row_before keys left right"
    using Cons by (simp add: orderable_def)
  consider "left ! p = PNone" | "right ! p = PNone" | "left ! p \<noteq> PNone" "right ! p \<noteq> PNone" by blast
  then show ?case
  proof cases
    case 3
    then show ?thesis using ih compare_same_kind[OF k(3,4)] k(1,2) by (auto simp: key row_item_def term_before_def)
  qed (use ih k(1,2) in \<open>auto simp: key row_item_def term_before_def\<close>)
qed simp

text \<open>
  C32: the ORDER BY of a SELECT DISTINCT gives SQL's order: when each term finds its values, all of one kind, in every row, the rows come back
  complete, no row stands before one that precedes it by the terms (descending and NULLS FIRST as written), and rows equal in
  every term keep the order they had.
\<close>
theorem sorted_rows_order:
  assumes "orderable keys rs"
  shows "\<exists>out. sorted_rows rs keys = Inr out \<and> mset out = mset rs \<and> sorted_wrt (\<lambda>l r. \<not> row_before keys r l) out \<and>
    (\<forall>z. filter (\<lambda>r. \<not> row_before keys z r \<and> \<not> row_before keys r z) out = filter (\<lambda>r. \<not> row_before keys z r \<and> \<not> row_before keys r z) rs)"
proof -
  have "\<forall>x \<in> set rs. \<forall>y \<in> set rs. rbind (compare_rows keys y x) (\<lambda>c. Inr (c < 0)) = Inr (row_before keys y x)"
    using compare_rows_before[OF assms] by fastforce
  from sql_order.py_sorted_stable[OF this] show ?thesis
    by (simp add: sorted_rows_def sql_order.ordered_def sql_order.same_def[abs_def])
qed

theorem sorted_rows_order_witness:
  "orderable [(0, True, True)] [[PInt 1], [PNone], [PInt 2]] \<and>
   (\<exists>out. sorted_rows [[PInt 1], [PNone], [PInt 2]] [(0, True, True)] = Inr out \<and> length out = 3) \<and>
   sorted_rows [[PInt 1], [PNone], [PInt 2]] [(0, True, True)] = Inr [[PNone], [PInt 2], [PInt 1]]"
proof -
  have "orderable [(0, True, True)] [[PInt 1], [PNone], [PInt 2]]"
    by (auto simp: orderable_def of_kind_def intro!: exI[of _ K_Number])
  then show ?thesis using sorted_rows_order[of "[(0, True, True)]" "[[PInt 1], [PNone], [PInt 2]]"]
    by (auto simp: sorted_rows_def row_item_def scalar_order scalar_eq_def scalar_less_def dest!: mset_eq_length)
qed

section \<open>DISTINCT ON\<close>

lemma keep_first_split:
  assumes "keep_first keys seen kept (pre @ rs) = Inr out"
  shows "\<exists>new ks. keep_first keys seen kept pre = Inr (kept @ new) \<and> rmap (distinct_key keys) new = Inr ks \<and> subseq new pre
    \<and> keep_first keys (seen @ ks) (kept @ new) rs = Inr out"
  using assms
proof (induction pre arbitrary: seen kept)
  case (Cons r pre)
  obtain key where k: "distinct_key keys r = Inr key" using Cons.prems by auto
  show ?case
  proof (cases "list_ex (py_eq_list key) seen")
    case True
    then have "keep_first keys seen kept (pre @ rs) = Inr out" using Cons.prems k by simp
    from Cons.IH[OF this] show ?thesis using True k by (fastforce intro: subseq_Cons')
  next
    case False
    then have "keep_first keys (seen @ [key]) (kept @ [r]) (pre @ rs) = Inr out" using Cons.prems k by simp
    from Cons.IH[OF this] obtain new ks where n: "keep_first keys (seen @ [key]) (kept @ [r]) pre = Inr (kept @ r # new)"
      "rmap (distinct_key keys) new = Inr ks" "subseq new pre" "keep_first keys (seen @ key # ks) (kept @ r # new) rs = Inr out" by auto
    then show ?thesis using False k by (intro exI[of _ "r # new"] exI[of _ "key # ks"]) simp
  qed
qed simp

text \<open>
  C33: DISTINCT ON keeps the first row of each key: what is kept of the rows before a row does not depend on it, the row
  itself is kept exactly when its key equals the key of no row kept before it, and the later rows only add rows of theirs, in their order.
  The LIMIT and OFFSET of the query count the rows that are left.
\<close>
theorem distinct_on_keeps_first:
  assumes "first_row_per_key (pre @ r # post) keys = Inr kept"
  shows "\<exists>kept0 ks key rest. first_row_per_key pre keys = Inr kept0 \<and> rmap (distinct_key keys) kept0 = Inr ks \<and> distinct_key keys r = Inr key \<and>
      kept = kept0 @ (if list_ex (py_eq_list key) ks then [] else [r]) @ rest \<and> subseq kept0 pre \<and> subseq rest post \<and>
      (keys \<noteq> [] \<longrightarrow> finish_rows keys [] (Some (int n)) (int m) visible visible (pre @ r # post) = Inr (take n (drop m kept)))"
proof -
  obtain kept0 ks where k0: "keep_first keys [] [] pre = Inr kept0" "rmap (distinct_key keys) kept0 = Inr ks" "subseq kept0 pre"
    "keep_first keys ks kept0 (r # post) = Inr kept"
    using keep_first_split[of keys "[]" "[]" pre "r # post" kept] assms by (auto simp: first_row_per_key_def)
  then obtain key where key: "distinct_key keys r = Inr key" by auto
  let ?new = "if list_ex (py_eq_list key) ks then [] else [r]"
  have "keep_first keys (ks @ map (\<lambda>_. key) ?new) (kept0 @ ?new) (post @ []) = Inr kept" using k0(4) key by (simp split: if_splits)
  from keep_first_split[OF this] obtain rest where "kept = kept0 @ ?new @ rest" "subseq rest post" by auto
  moreover have "row_window (Some (int n)) (int m) kept = take n (drop m kept)"
    by (simp add: row_window_def py_slice_def clip_index_def Let_def nat_add_distrib take_drop min_def add.commute)
  ultimately show ?thesis using k0 key assms by (auto simp: first_row_per_key_def finish_rows_def)
qed

theorem distinct_on_keeps_first_witness:
  "first_row_per_key [[PInt 1, PInt 5], [PBool True, PInt 6], [PInt 2, PInt 7]] [0] = Inr [[PInt 1, PInt 5], [PInt 2, PInt 7]] \<and>
   finish_rows [0] [] (Some 1) 1 2 2 [[PInt 1, PInt 5], [PBool True, PInt 6], [PInt 2, PInt 7]] = Inr [[PInt 2, PInt 7]]"
proof -
  have f: "first_row_per_key [[PInt 1, PInt 5], [PBool True, PInt 6], [PInt 2, PInt 7]] [0] = Inr [[PInt 1, PInt 5], [PInt 2, PInt 7]]"
    by (simp add: first_row_per_key_def distinct_key_def row_item_def scalar_eq_def)
  then have "first_row_per_key ([[PInt 1, PInt 5]] @ [PBool True, PInt 6] # [[PInt 2, PInt 7]]) [0] = Inr [[PInt 1, PInt 5], [PInt 2, PInt 7]]"
    by simp
  from distinct_on_keeps_first[OF this, of 1 1 2]
  have "finish_rows [0] [] (Some (int 1)) (int 1) 2 2 ([[PInt 1, PInt 5]] @ [PBool True, PInt 6] # [[PInt 2, PInt 7]]) =
      Inr (take 1 (drop 1 [[PInt 1, PInt 5], [PInt 2, PInt 7]]))" by blast
  then show ?thesis using f by simp
qed

end
