(* ===== verification/Table_Query.thy ===== *)
theory Table_Query
  imports Table_Params Table_Rows Catalog_Query
begin

text \<open>
  \<open>pg_mimic/tables.py\<close>, the half that answers: how a TableSession plans a query (\<open>_plan\<close> with its refusals and rewrites), describes
  its columns and runs it. sqlglot's parser, normalizer, \<open>qualify\<close>, annotator and executor are the fields of \<open>engine\<close>; what the code
  does between them is defined here.

  A query is its class and its child expressions under the names of their arguments, in order; a parenthesized query
  (\<open>exp.Subquery\<close>) has the query it wraps apart.

  The lemmas: a query and its description have the same columns, and what is refused is refused whatever the executor would answer.
\<close>

section \<open>Queries\<close>

record query_tree =
  qt_head :: head
  qt_args :: "(string \<times> expr) list"

datatype parsed =
    P_Write
  | P_Other
  | P_Query query_tree
  | P_Subquery pystr parsed "(string \<times> expr) list"

definition get_arg :: "string \<Rightarrow> (string \<times> expr) list \<Rightarrow> expr option" where
  "get_arg a args = map_of args a"

definition set_arg :: "string \<Rightarrow> expr \<Rightarrow> (string \<times> expr) list \<Rightarrow> (string \<times> expr) list" where
  "set_arg a e args = AList.update a e args"

definition drop_arg :: "string \<Rightarrow> (string \<times> expr) list \<Rightarrow> (string \<times> expr) list" where
  "drop_arg a args = filter (\<lambda>(b, e). b \<noteq> a) args"

definition set_args :: "query_tree \<Rightarrow> (string \<times> expr) list \<Rightarrow> query_tree" where
  "set_args q args = q\<lparr>qt_args := args\<rparr>"

text \<open>The root as a node, and the root after its children changed.\<close>

definition root_expr :: "query_tree \<Rightarrow> expr" where
  "root_expr q = Expr (qt_head q) None (map snd (qt_args q))"

definition with_kids :: "query_tree \<Rightarrow> expr \<Rightarrow> query_tree" where
  "with_kids q e = set_args q (zip (map fst (qt_args q)) (e_kids e))"

record engine = param_literals +
  sg_parse_one :: "pystr \<Rightarrow> pystr + parsed"
  sg_normalize :: "parsed \<Rightarrow> parsed"
  sg_set_operation_selects :: "query_tree \<Rightarrow> expr list"
  sg_qualified :: "parsed \<Rightarrow> pystr + query_tree \<times> nat list"
  sg_annotated :: "query_tree \<Rightarrow> query_tree"
  sg_quoted :: "pystr \<Rightarrow> pystr"
  sg_cast :: "pyval \<Rightarrow> dtype \<Rightarrow> exc + pyval"
  sg_executor :: "(pyval \<Rightarrow> dtype \<Rightarrow> exc + pyval) \<Rightarrow> query_tree \<Rightarrow> table_session \<Rightarrow> pystr + row list"

text \<open>\<open>expression.selects\<close>\<close>

definition selects :: "'a engine_scheme \<Rightarrow> query_tree \<Rightarrow> expr list" where
  "selects sg q =
     (if qt_head q = E_Select then map snd (filter (\<lambda>(a, e). a = ''expressions'') (qt_args q)) else sg_set_operation_selects sg q)"

fun parsed_selects :: "'a engine_scheme \<Rightarrow> parsed \<Rightarrow> expr list" where
  "parsed_selects sg (P_Query q) = selects sg q"
| "parsed_selects sg (P_Subquery alias this args) = parsed_selects sg this"
| "parsed_selects sg _ = []"

text \<open>\<open>expression.select(e)\<close> puts \<open>e\<close> behind the projections.\<close>

definition add_select :: "expr \<Rightarrow> query_tree \<Rightarrow> query_tree" where
  "add_select e q =
     (let upto = dropWhile (\<lambda>(a, x). a \<noteq> ''expressions'') (rev (qt_args q)); behind = takeWhile (\<lambda>(a, x). a \<noteq> ''expressions'') (rev (qt_args q)) in
      set_args q (rev upto @ (''expressions'', e) # rev behind))"

section \<open>Refusals\<close>

definition READ_ONLY_SQL_TRANSACTION :: pystr where "READ_ONLY_SQL_TRANSACTION = lit ''25006''"
definition UNDEFINED_TABLE :: pystr where "UNDEFINED_TABLE = lit ''42P01''"
definition UNRESOLVED :: pystr where "UNRESOLVED = lit ''could not be resolved''"

definition statement_tag :: "pystr \<Rightarrow> pystr" where
  "statement_tag sql = (case split_ws sql of [] \<Rightarrow> lit ''statement'' | w # ws \<Rightarrow> py_upper w)"

definition reject_non_select :: "pystr \<Rightarrow> parsed \<Rightarrow> exc + unit" where
  "reject_non_select sql p =
     (case p of
        P_Write \<Rightarrow> Inl (PgError READ_ONLY_SQL_TRANSACTION (lit ''cannot execute '' @ statement_tag sql
           @ lit '' in a read-only session -- TableSession serves its tables read-only'') [])
      | P_Other \<Rightarrow> Inl (PgError FEATURE_NOT_SUPPORTED (lit ''TableSession answers SELECT only, and cannot run '' @ statement_tag sql) [])
      | _ \<Rightarrow> Inr ())"

definition nested_window :: exc where
  "nested_window = PgError FEATURE_NOT_SUPPORTED (lit ''TableSession applies LIMIT/OFFSET to the rows sqlglot'' @ [39]
     @ lit ''s executor returns, which it can only do for the whole query -- a parenthesized query with a row window of its own is two of them, ''
     @ lit ''and answering with the wrong rows is worse than refusing.'') []"

fun own_args :: "parsed \<Rightarrow> (string \<times> expr) list option" where
  "own_args (P_Query q) = Some (qt_args q)"
| "own_args (P_Subquery alias this args) = Some args"
| "own_args _ = None"

definition fold_clauses :: "(string \<times> expr) list \<Rightarrow> (string \<times> expr) list \<Rightarrow> (string \<times> expr) list" where
  "fold_clauses outer args =
     fold (\<lambda>a args. case get_arg a outer of Some e \<Rightarrow> set_arg a e args | None \<Rightarrow> args) [''order'', ''limit'', ''offset''] args"

text \<open>\<open>outer\<close> holds the clauses of the wrappers that were taken off.\<close>

fun flatten_onto :: "(string \<times> expr) list \<Rightarrow> parsed \<Rightarrow> exc + parsed" where
  "flatten_onto outer (P_Query q) = Inr (P_Query (set_args q (fold_clauses outer (qt_args q))))"
| "flatten_onto outer (P_Subquery alias this args) =
     (let args' = fold_clauses outer args in
      if alias \<noteq> [] then Inr (P_Subquery alias this args')
      else case own_args this of
        None \<Rightarrow> Inr (P_Subquery alias this args')
      | Some inner \<Rightarrow>
          if get_arg ''limit'' inner \<noteq> None \<or> get_arg ''offset'' inner \<noteq> None then Inl nested_window
          else flatten_onto args' this)"
| "flatten_onto outer p = Inr p"

definition flatten_parenthesized :: "parsed \<Rightarrow> exc + parsed" where
  "flatten_parenthesized p = flatten_onto [] p"

definition ignored_sample :: exc where
  "ignored_sample = PgError FEATURE_NOT_SUPPORTED (lit ''sqlglot'' @ [39] @ lit ''s executor ignores TABLESAMPLE, so TableSession refuses the query rather than ''
     @ lit ''answering it with the wrong rows'') []"

definition nested_distinct_on :: exc where
  "nested_distinct_on = PgError FEATURE_NOT_SUPPORTED (lit ''TableSession applies DISTINCT ON to the rows sqlglot'' @ [39]
     @ lit ''s executor returns, which it can only do for the whole query -- one inside a subquery or a UNION branch would be ignored, ''
     @ lit ''and answering with the wrong rows is worse than refusing. Lift it to the outermost SELECT.'') []"

text \<open>
  Every node below the root, breadth first. The DISTINCT of the root is a child of it, so it is left out where only nested ones
  are meant.
\<close>

fun parsed_expr :: "parsed \<Rightarrow> expr" where
  "parsed_expr (P_Query q) = root_expr q"
| "parsed_expr (P_Subquery alias this args) = Expr E_Subquery None (parsed_expr this # map snd args)"
| "parsed_expr _ = leaf (E_Other ''Statement'')"

definition below :: "parsed \<Rightarrow> expr list" where
  "below p = walk_queue (e_kids (parsed_expr p))"

definition below_distinct :: "parsed \<Rightarrow> expr list" where
  "below_distinct p =
     (case p of P_Query q \<Rightarrow> walk_queue (concat (map (\<lambda>(a, e). if a = ''distinct'' then e_kids e else [e]) (qt_args q))) | _ \<Rightarrow> below p)"

definition reject_silently_ignored :: "parsed \<Rightarrow> exc + unit" where
  "reject_silently_ignored p =
     (if list_ex (\<lambda>n. e_head n = E_Other ''TableSample'') (below p) then Inl ignored_sample
      else if list_ex (\<lambda>n. e_head n = E_Distinct True) (below_distinct p) then Inl nested_distinct_on
      else Inr ())"

definition missing_relation :: "pystr \<Rightarrow> exc" where
  "missing_relation name = PgError UNDEFINED_TABLE (lit ''relation \"'' @ name @ lit ''\" does not exist'') []"

fun check_tables :: "schema \<Rightarrow> pystr list \<Rightarrow> expr list \<Rightarrow> exc + unit" where
  "check_tables s ctes [] = Inr ()"
| "check_tables s ctes (n # ns) =
     (case e_head n of
        E_Table db name \<Rightarrow>
          if db \<noteq> [] \<and> db \<noteq> lit ''public'' then Inl (missing_relation (db @ lit ''.'' @ name))
          else if \<not> dict_has name s \<and> name \<notin> set ctes then Inl (missing_relation name)
          else check_tables s ctes ns
      | _ \<Rightarrow> check_tables s ctes ns)"

definition cte_names :: "expr list \<Rightarrow> pystr list" where
  "cte_names ns = concat (map (\<lambda>n. case e_head n of E_CTE name \<Rightarrow> [name] | _ \<Rightarrow> []) ns)"

definition reject_unknown_tables :: "table_session \<Rightarrow> parsed \<Rightarrow> exc + unit" where
  "reject_unknown_tables ts p = check_tables (ts_schema ts) (cte_names (below p)) (below p)"

section \<open>Rewrites\<close>

text \<open>\<open>_cast\<close>, which replaces the executor's CAST.\<close>

definition DECIMAL_TYPES :: "string list" where "DECIMAL_TYPES = [''DECIMAL'', ''BIGDECIMAL'']"

definition exact_cast :: "(pyval \<Rightarrow> dtype \<Rightarrow> exc + pyval) \<Rightarrow> pyval \<Rightarrow> dtype \<Rightarrow> exc + pyval" where
  "exact_cast base this to =
     (if this \<noteq> PNone \<and> dt_this to \<in> set DECIMAL_TYPES
      then (case parse_decimal (py_str_val this) of
              Some d \<Rightarrow> Inr (PDecimal d)
            | None \<Rightarrow> Inl (OtherError (lit ''[<class '' @ [39] @ lit ''decimal.ConversionSyntax'' @ [39] @ lit ''>]'')))
      else base this to)"

definition COMPARISONS :: "string list" where
  "COMPARISONS = [''EQ'', ''NEQ'', ''NullSafeEQ'', ''NullSafeNEQ'', ''GT'', ''GTE'', ''LT'', ''LTE'', ''In'', ''Between'']"

definition is_decimal :: "expr \<Rightarrow> bool" where
  "is_decimal e \<longleftrightarrow> (case e_type e of Some d \<Rightarrow> dt_this d \<in> set DECIMAL_TYPES | None \<Rightarrow> False)"

definition exact_operand :: "expr \<Rightarrow> expr" where
  "exact_operand e =
     (case e_head e of E_Literal string s \<Rightarrow> if \<not> string \<and> int_literal e = None then decimal_literal s else e | _ \<Rightarrow> e)"

fun exact_comparisons :: "expr \<Rightarrow> expr" where
  "exact_comparisons (Expr h t ks) =
     Expr h t (if head_class h \<in> set COMPARISONS \<and> list_ex is_decimal ks
               then map (\<lambda>k. exact_operand (exact_comparisons k)) ks else map exact_comparisons ks)"

definition make_decimal_comparisons_exact :: "query_tree \<Rightarrow> query_tree" where
  "make_decimal_comparisons_exact q = with_kids q (exact_comparisons (root_expr q))"

definition output_position :: "'a engine_scheme \<Rightarrow> query_tree \<Rightarrow> expr \<Rightarrow> nat option" where
  "output_position sg q key =
     (let wanted = sg_sql sg key in
      map_option fst (find (\<lambda>(position, select). wanted = sg_sql sg (unalias select) \<or> wanted = sg_quoted sg (sg_alias_or_name sg select))
        (enumerate 0 (selects sg q))))"

fun key_positions_on :: "'a engine_scheme \<Rightarrow> query_tree \<Rightarrow> expr list \<Rightarrow> nat list \<times> query_tree" where
  "key_positions_on sg q [] = ([], q)"
| "key_positions_on sg q (key # on) =
     (case output_position sg q key of
        Some position \<Rightarrow> (case key_positions_on sg q on of (keys, q') \<Rightarrow> (position # keys, q'))
      | None \<Rightarrow>
          let position = length (selects sg q); q1 = add_select (Expr (E_Alias (lit ''_distinct_on_'' @ nat_str position)) None [key]) q in
          (case key_positions_on sg q1 on of (keys, q') \<Rightarrow> (position # keys, q')))"

fun on_keys :: "expr option \<Rightarrow> expr list" where
  "on_keys (Some (Expr (E_Distinct True) t ks)) = (case rev ks of [] \<Rightarrow> [] | on # rest \<Rightarrow> e_kids on)"
| "on_keys _ = []"

definition order_terms :: "query_tree \<Rightarrow> expr list" where
  "order_terms q = (case get_arg ''order'' (qt_args q) of Some order \<Rightarrow> e_kids order | None \<Rightarrow> [])"

definition ordered_this :: "expr \<Rightarrow> expr" where
  "ordered_this e = (case e_kids e of k # ks \<Rightarrow> k | [] \<Rightarrow> e)"

definition has_distinct_on :: "query_tree \<Rightarrow> bool" where
  "has_distinct_on q \<longleftrightarrow> (case get_arg ''distinct'' (qt_args q) of Some d \<Rightarrow> e_head d = E_Distinct True | None \<Rightarrow> False)"

text \<open>The positions to deduplicate on, how many columns the client asked for, and the query without the clause.\<close>

definition distinct_on_keys :: "'a engine_scheme \<Rightarrow> query_tree \<Rightarrow> exc + nat list \<times> nat \<times> query_tree" where
  "distinct_on_keys sg q =
     (let visible = length (selects sg q); on = on_keys (get_arg ''distinct'' (qt_args q)) in
      if \<not> has_distinct_on q then Inr ([], visible, q)
      else if get_arg ''order'' (qt_args q) \<noteq> None
           \<and> map (\<lambda>e. sg_sql sg (ordered_this e)) (take (length on) (order_terms q)) \<noteq> map (sg_sql sg) on
      then Inl (PgError SYNTAX_ERROR (lit ''SELECT DISTINCT ON expressions must match initial ORDER BY expressions'') [])
      else
        (case key_positions_on sg q on of (keys, q') \<Rightarrow> Inr (keys, visible, set_args q' (drop_arg ''distinct'' (qt_args q')))))"

definition sort_term_of :: "'a engine_scheme \<Rightarrow> query_tree \<Rightarrow> expr \<Rightarrow> exc + sort_term" where
  "sort_term_of sg q ordered =
     (case output_position sg q (ordered_this ordered) of
        None \<Rightarrow> Inl (PgError UNDEFINED_COLUMN (lit ''for SELECT DISTINCT, ORDER BY expressions must appear in the select list, and ''
                  @ sg_sql sg (ordered_this ordered) @ lit '' does not'') [])
      | Some position \<Rightarrow> Inr (case e_head ordered of E_Ordered desc nulls_first \<Rightarrow> (position, desc, nulls_first) | _ \<Rightarrow> (position, False, False)))"

definition take_result_order :: "'a engine_scheme \<Rightarrow> query_tree \<Rightarrow> exc + sort_term list \<times> query_tree" where
  "take_result_order sg q =
     (if get_arg ''order'' (qt_args q) = None
        \<or> \<not> (case get_arg ''distinct'' (qt_args q) of Some d \<Rightarrow> (case e_head d of E_Distinct on \<Rightarrow> True | _ \<Rightarrow> False) | None \<Rightarrow> False)
      then Inr ([], q)
      else rbind (rmap (sort_term_of sg q) (order_terms q)) (\<lambda>keys. Inr (keys, set_args q (drop_arg ''order'' (qt_args q)))))"

section \<open>The plan\<close>

record query_plan =
  pl_expression :: query_tree
  pl_column_names :: "pystr list"
  pl_distinct_on :: "nat list"
  pl_sort_keys :: "sort_term list"
  pl_visible_columns :: nat
  pl_rows_sliced_here :: bool

definition analysis_error :: "pystr \<Rightarrow> exc" where
  "analysis_error msg = PgError (if contains UNRESOLVED msg then UNDEFINED_COLUMN else FEATURE_NOT_SUPPORTED) msg []"

definition size_query :: "query_tree \<Rightarrow> query_tree" where
  "size_query q = with_kids q (size_integer_literals (root_expr q))"

definition plan_query :: "'a engine_scheme \<Rightarrow> table_session \<Rightarrow> pystr \<Rightarrow> exc + query_plan" where
  "plan_query sg ts sql =
     (case sg_parse_one sg sql of
        Inl msg \<Rightarrow> Inl (PgError SYNTAX_ERROR msg [])
      | Inr parsed \<Rightarrow>
          let expression = sg_normalize sg parsed in
          rbind (reject_non_select sql expression) (\<lambda>_.
          rbind (flatten_parenthesized expression) (\<lambda>flat.
          rbind (reject_silently_ignored flat) (\<lambda>_.
          rbind (reject_unknown_tables ts flat) (\<lambda>_.
          case sg_qualified sg flat of
            Inl msg \<Rightarrow> Inl (analysis_error msg)
          | Inr (qualified, ids) \<Rightarrow>
              let written = written_column_names (enumerate 0 (parsed_selects sg flat));
                  names = resolve_column_names sg (zip ids (selects sg qualified)) written in
              rbind (distinct_on_keys sg qualified) (\<lambda>(distinct_on, visible, q).
              let annotated = make_decimal_comparisons_exact (sg_annotated sg (size_query q)) in
              rbind (take_result_order sg annotated) (\<lambda>(sort_keys, planned).
              Inr \<lparr>pl_expression = planned, pl_column_names = names, pl_distinct_on = distinct_on, pl_sort_keys = sort_keys,
                pl_visible_columns = visible, pl_rows_sliced_here = (distinct_on \<noteq> [] \<or> sort_keys \<noteq> [])\<rparr>)))))))"

section \<open>The session's methods\<close>

definition table_describe :: "'a engine_scheme \<Rightarrow> table_session \<Rightarrow> pystr \<Rightarrow> int option list \<Rightarrow> exc + result_column list" where
  "table_describe sg ts sql param_oids =
     rbind (plan_query sg ts sql) (\<lambda>plan.
     rbind (result_columns sg (selects sg (pl_expression plan)) param_oids (pl_column_names plan)) (\<lambda>cols.
     Inr (take (pl_visible_columns plan) cols)))"

definition row_count :: "'a engine_scheme \<Rightarrow> string \<Rightarrow> expr option \<Rightarrow> exc + int option" where
  "row_count sg clause node =
     (case node of
        None \<Rightarrow> Inr None
      | Some n \<Rightarrow>
          (case e_kids n of
             [] \<Rightarrow> Inr None
           | v # vs \<Rightarrow>
               (case int_literal v of
                  Some i \<Rightarrow> Inr (Some i)
                | None \<Rightarrow>
                    if e_head v = E_Null then Inr None
                    else Inl (PgError FEATURE_NOT_SUPPORTED (lit ''TableSession applies '' @ lit clause @ lit '' to the rows sqlglot'' @ [39]
                          @ lit ''s executor returns and needs a row count to do it, but this one is '' @ py_repr (sg_sql sg v) @ lit ''.'') []))))"

definition take_row_window :: "'a engine_scheme \<Rightarrow> query_tree \<Rightarrow> exc + int option \<times> int \<times> query_tree" where
  "take_row_window sg q =
     rbind (row_count sg ''LIMIT'' (get_arg ''limit'' (qt_args q))) (\<lambda>limit.
     rbind (row_count sg ''OFFSET'' (get_arg ''offset'' (qt_args q))) (\<lambda>offset.
     Inr (limit, (case offset of Some n \<Rightarrow> n | None \<Rightarrow> 0), set_args q (drop_arg ''offset'' (drop_arg ''limit'' (qt_args q))))))"

definition executor_error :: "pystr \<Rightarrow> exc" where
  "executor_error msg = PgError FEATURE_NOT_SUPPORTED (lit ''TableSession could not run this query: '' @ msg @ lit ''. sqlglot'' @ [39]
     @ lit ''s executor is not a complete SQL engine -- it has no recursive CTEs and implements only part of Postgres'' @ [39]
     @ lit ''s function library.'') []"

definition table_query :: "'a engine_scheme \<Rightarrow> table_session \<Rightarrow> pystr \<Rightarrow> pyval list \<Rightarrow> exc + row list" where
  "table_query sg ts sql params =
     rbind (plan_query sg ts sql) (\<lambda>plan.
     rbind (bind_parameters sg (root_expr (pl_expression plan)) params) (\<lambda>bound.
     let expression = with_kids (pl_expression plan) bound in
     rbind (if pl_rows_sliced_here plan then take_row_window sg expression else Inr (None, 0, expression)) (\<lambda>(limit, offset, run).
     case sg_executor sg (exact_cast (sg_cast sg)) run ts of
       Inl msg \<Rightarrow> Inl (executor_error msg)
     | Inr rs \<Rightarrow>
         finish_rows (pl_distinct_on plan) (pl_sort_keys plan) limit offset (pl_visible_columns plan)
           (length (selects sg (pl_expression plan))) rs)))"

section \<open>Widths\<close>

text \<open>The number of projections of a SELECT depends on the names of its arguments only.\<close>

definition width :: "string list \<Rightarrow> nat" where
  "width names = length (filter (\<lambda>a. a = ''expressions'') names)"

lemma width_append [simp]: "width (xs @ ys) = width xs + width ys"
  by (simp add: width_def)

lemma width_Cons [simp]: "width (a # xs) = (if a = ''expressions'' then Suc (width xs) else width xs)"
  by (simp add: width_def)

lemma length_selects: "qt_head q = E_Select \<Longrightarrow> length (selects sg q) = width (map fst (qt_args q))"
  by (simp add: selects_def width_def filter_map comp_def case_prod_unfold)

lemma with_kids_shape:
  assumes "length (e_kids e) = length (qt_args q)"
  shows "qt_head (with_kids q e) = qt_head q" "map fst (qt_args (with_kids q e)) = map fst (qt_args q)"
  using assms by (simp_all add: with_kids_def set_args_def)

lemma size_query_shape: "qt_head (size_query q) = qt_head q" "map fst (qt_args (size_query q)) = map fst (qt_args q)"
  by (simp_all add: size_query_def with_kids_shape size_integer_literals_def root_expr_def)

lemma exact_comparisons_shape:
  "qt_head (make_decimal_comparisons_exact q) = qt_head q" "map fst (qt_args (make_decimal_comparisons_exact q)) = map fst (qt_args q)"
  by (simp_all add: make_decimal_comparisons_exact_def with_kids_shape root_expr_def)

lemma width_drop_arg: "a \<noteq> ''expressions'' \<Longrightarrow> width (map fst (drop_arg a args)) = width (map fst args)"
  by (induction args) (auto simp: drop_arg_def)

lemma add_select_shape: "qt_head (add_select e q) = qt_head q" "width (map fst (qt_args (add_select e q))) = Suc (width (map fst (qt_args q)))"
proof -
  let ?P = "\<lambda>(a, x). a \<noteq> ''expressions''"
  have "qt_args q = rev (dropWhile ?P (rev (qt_args q))) @ rev (takeWhile ?P (rev (qt_args q)))"
    by (metis rev_append rev_rev_ident takeWhile_dropWhile_id)
  then have "map fst (qt_args q) = map fst (rev (dropWhile ?P (rev (qt_args q)))) @ map fst (rev (takeWhile ?P (rev (qt_args q))))"
    by (metis map_append)
  then show "width (map fst (qt_args (add_select e q))) = Suc (width (map fst (qt_args q)))"
    by (simp add: add_select_def Let_def set_args_def)
  show "qt_head (add_select e q) = qt_head q" by (simp add: add_select_def Let_def set_args_def)
qed

lemma key_positions_shape:
  assumes "key_positions_on sg q on = (keys, q')"
  shows "qt_head q' = qt_head q \<and> width (map fst (qt_args q)) \<le> width (map fst (qt_args q'))"
  using assms
proof (induction on arbitrary: q keys)
  case (Cons key on)
  let ?added = "add_select (Expr (E_Alias (lit ''_distinct_on_'' @ nat_str (length (selects sg q)))) None [key]) q"
  show ?case
  proof (cases "output_position sg q key")
    case None
    then obtain ks where "key_positions_on sg ?added on = (ks, q')" using Cons.prems by (auto simp: Let_def split: prod.splits)
    from Cons.IH[OF this] show ?thesis using add_select_shape[of _ q] by fastforce
  next
    case (Some position)
    then show ?thesis using Cons by (auto split: prod.splits)
  qed
qed simp

lemma distinct_on_shape:
  assumes "distinct_on_keys sg q = Inr (keys, visible, q')"
  shows "visible = length (selects sg q)" "qt_head q' = qt_head q" "width (map fst (qt_args q)) \<le> width (map fst (qt_args q'))"
proof -
  show "visible = length (selects sg q)" using assms by (auto simp: distinct_on_keys_def Let_def split: if_splits prod.splits)
  show "qt_head q' = qt_head q" "width (map fst (qt_args q)) \<le> width (map fst (qt_args q'))"
    using assms key_positions_shape[of sg q "on_keys (get_arg ''distinct'' (qt_args q))"]
    by (auto simp: distinct_on_keys_def Let_def set_args_def width_drop_arg split: if_splits prod.splits)
qed

lemma result_order_shape:
  "take_result_order sg q = Inr (keys, q') \<Longrightarrow> qt_head q' = qt_head q \<and> width (map fst (qt_args q')) = width (map fst (qt_args q))"
  by (auto simp: take_result_order_def set_args_def width_drop_arg split: if_splits)

text \<open>What is relied on of sqlglot: the annotator keeps the shape of a query, and \<open>qualify\<close> says of each projection where it comes from.\<close>

definition keeps_shape :: "'a engine_scheme \<Rightarrow> bool" where
  "keeps_shape sg \<longleftrightarrow>
     (\<forall>q. qt_head (sg_annotated sg q) = qt_head q \<and> map fst (qt_args (sg_annotated sg q)) = map fst (qt_args q)) \<and>
     (\<forall>p q ids. sg_qualified sg p = Inr (q, ids) \<longrightarrow> length ids = length (selects sg q))"

lemma plan_shape:
  assumes "plan_query sg ts sql = Inr plan" and "keeps_shape sg" and "qt_head (pl_expression plan) = E_Select"
  shows "length (pl_column_names plan) = pl_visible_columns plan"
    "pl_visible_columns plan \<le> length (selects sg (pl_expression plan))"
proof -
  obtain p ql ids written distinct_on visible q sort_keys planned where
    qd: "sg_qualified sg p = Inr (ql, ids)" and d: "distinct_on_keys sg ql = Inr (distinct_on, visible, q)"
    and o: "take_result_order sg (make_decimal_comparisons_exact (sg_annotated sg (size_query q))) = Inr (sort_keys, planned)"
    and pl: "pl_expression plan = planned" "pl_column_names plan = resolve_column_names sg (zip ids (selects sg ql)) written"
      "pl_visible_columns plan = visible"
    using assms(1) unfolding plan_query_def Let_def by (auto split: sum.splits prod.splits elim!: rbind_eq_InrE)
  have keep: "\<And>q. qt_head (sg_annotated sg q) = qt_head q" "\<And>q. map fst (qt_args (sg_annotated sg q)) = map fst (qt_args q)"
    using assms(2) by (simp_all add: keeps_shape_def)
  have hp: "qt_head ql = E_Select" "qt_head planned = E_Select" "width (map fst (qt_args planned)) = width (map fst (qt_args q))"
    using result_order_shape[OF o] distinct_on_shape(2)[OF d] assms(3) pl(1)
    by (simp_all add: exact_comparisons_shape keep size_query_shape)
  show "length (pl_column_names plan) = pl_visible_columns plan"
    using assms(2) qd distinct_on_shape(1)[OF d] pl by (simp add: keeps_shape_def resolve_column_names_def)
  show "pl_visible_columns plan \<le> length (selects sg (pl_expression plan))"
    using distinct_on_shape[OF d] hp pl by (simp add: length_selects)
qed

lemma insert_sorted_set: "insert_sorted lt x ys = Inr zs \<Longrightarrow> set zs = insert x (set ys)"
  by (induction ys arbitrary: zs) (auto split: if_splits elim!: rbind_eq_InrE)

lemma py_sorted_set: "py_sorted lt xs = Inr ys \<Longrightarrow> set ys = set xs"
  by (induction xs arbitrary: ys) (auto dest!: insert_sorted_set)

lemma subseq_subset: "subseq xs ys \<Longrightarrow> set xs \<subseteq> set ys"
  by (induction rule: list_emb.induct) auto

lemma finish_rows_width:
  assumes "finish_rows distinct_on keys limit offset visible selected rs = Inr out" and "\<forall>r \<in> set rs. length r = selected"
    and "visible \<le> selected" and "r \<in> set out"
  shows "length r = visible"
proof -
  obtain kept ordered where k: "(if distinct_on = [] then Inr rs else first_row_per_key rs distinct_on) = Inr kept"
    and o: "(if keys = [] then Inr kept else sorted_rows kept keys) = Inr ordered"
    and out: "out = (if visible < selected then map (take visible) (row_window limit offset ordered) else row_window limit offset ordered)"
    using assms(1) by (auto simp: finish_rows_def Let_def)
  have "set kept \<subseteq> set rs"
    using k keep_first_split[of distinct_on "[]" "[]" rs "[]" kept]
    by (auto simp: first_row_per_key_def split: if_splits dest: subseq_subset)
  moreover have "set ordered = set kept" using o py_sorted_set by (auto simp: sorted_rows_def split: if_splits)
  moreover have "set (row_window limit offset ordered) \<subseteq> set ordered"
    by (auto simp: row_window_def py_slice_def Let_def dest: in_set_dropD in_set_takeD)
  ultimately have "length x = selected" if "x \<in> set (row_window limit offset ordered)" for x using assms(2) that by blast
  then show ?thesis using assms(3,4) out by (auto split: if_splits)
qed

lemma bind_kids_length: "bind_kids sg params h bound ks = Inr out \<Longrightarrow> length out = length bound + length ks"
  by (induction ks arbitrary: bound) (fastforce split: head.splits elim!: rbind_eq_InrE)+

lemma bind_parameters_length:
  assumes "bind_parameters sg e params = Inr e'"
  shows "length (e_kids e') = length (e_kids e)"
  using assms by (cases e) (auto simp: bind_parameters_def split: sum.splits dest!: bind_kids_length)

lemma row_window_shape:
  "take_row_window sg q = Inr (limit, offset, q') \<Longrightarrow> qt_head q' = qt_head q \<and> width (map fst (qt_args q')) = width (map fst (qt_args q))"
  by (auto simp: take_row_window_def set_args_def width_drop_arg)

text \<open>The executor answers a query with rows as wide as its projections.\<close>

definition executor_width :: "'a engine_scheme \<Rightarrow> bool" where
  "executor_width sg \<longleftrightarrow> (\<forall>cast q ts rs. sg_executor sg cast q ts = Inr rs \<longrightarrow> (\<forall>r \<in> set rs. length r = length (selects sg q)))"

lemma described_columns:
  assumes "table_describe sg ts sql oids = Inr cols" and "plan_query sg ts sql = Inr plan" and "keeps_shape sg"
    and "qt_head (pl_expression plan) = E_Select"
  shows "length cols = pl_visible_columns plan"
  using assms(1,2) plan_shape[OF assms(2-4)] by (auto simp: table_describe_def result_columns_def dest!: length_rmap)

text \<open>
  The ORDER BY around a parenthesized DISTINCT ON takes the place of the one inside, which says what row of a key comes first.
\<close>

lemma flattened_order: "get_arg ''limit'' (qt_args q) = None \<Longrightarrow> get_arg ''offset'' (qt_args q) = None \<Longrightarrow>
    flatten_parenthesized (P_Subquery [] (P_Query q) [(''order'', e)]) = Inr (P_Query (set_args q (set_arg ''order'' e (qt_args q))))"
  by (simp add: flatten_parenthesized_def fold_clauses_def get_arg_def set_arg_def)

text \<open>
  C35: Describe and Execute agree: every row a SELECT answers with has as many values as the row description announced columns, with
  DISTINCT ON keys that are not selected, an ORDER BY of the result and a row window among what the query may have.
\<close>
theorem described_width:
  assumes "table_describe sg ts sql oids = Inr cols" and "table_query sg ts sql params = Inr rs"
    and "plan_query sg ts sql = Inr plan" and "qt_head (pl_expression plan) = E_Select"
    and "keeps_shape sg" and "executor_width sg"
  shows "\<forall>r \<in> set rs. length r = length cols"
proof
  fix r assume r: "r \<in> set rs"
  let ?q = "pl_expression plan"
  obtain bound limit offset run answer where b: "bind_parameters sg (root_expr ?q) params = Inr bound"
    and w: "(if pl_rows_sliced_here plan then take_row_window sg (with_kids ?q bound) else Inr (None, 0, with_kids ?q bound)) = Inr (limit, offset, run)"
    and x: "sg_executor sg (exact_cast (sg_cast sg)) run ts = Inr answer"
    and f: "finish_rows (pl_distinct_on plan) (pl_sort_keys plan) limit offset (pl_visible_columns plan) (length (selects sg ?q)) answer = Inr rs"
    using assms(2,3) by (auto simp: table_query_def Let_def split: sum.splits prod.splits elim!: rbind_eq_InrE)
  have k: "qt_head (with_kids ?q bound) = qt_head ?q" "map fst (qt_args (with_kids ?q bound)) = map fst (qt_args ?q)"
    using bind_parameters_length[OF b] by (simp_all add: with_kids_shape root_expr_def)
  then have "qt_head run = qt_head ?q \<and> width (map fst (qt_args run)) = width (map fst (qt_args ?q))"
    using w row_window_shape[of sg "with_kids ?q bound"] by (auto split: if_splits)
  then have "length (selects sg run) = length (selects sg ?q)" using assms(4) by (simp add: length_selects)
  then have "\<forall>r \<in> set answer. length r = length (selects sg ?q)" using assms(6) x by (simp add: executor_width_def)
  then have "length r = pl_visible_columns plan"
    using finish_rows_width[OF f _ _ r] plan_shape[OF assms(3,5,4)] by blast
  then show "length r = length cols" using described_columns[OF assms(1,3,5,4)] by simp
qed

text \<open>
  \<open>SELECT DISTINCT ON (tag) id FROM users ORDER BY tag\<close> over \<open>users(id bigint, tag text)\<close>, with a sqlglot whose executor has
  two rows per projection.
\<close>

definition demo_column :: "string \<Rightarrow> string \<Rightarrow> expr" where
  "demo_column c t = Expr (E_Column (lit ''users'') (lit c)) (Some (DataType t [])) []"

definition demo_select :: query_tree where
  "demo_select = \<lparr>qt_head = E_Select, qt_args = [(''expressions'', demo_column ''id'' ''BIGINT''),
     (''distinct'', Expr (E_Distinct True) None [Expr (E_Other ''Tuple'') None [demo_column ''tag'' ''TEXT'']]),
     (''from'', leaf (E_Table [] (lit ''users''))),
     (''order'', Expr (E_Other ''Order'') None [Expr (E_Ordered False False) None [demo_column ''tag'' ''TEXT'']])]\<rparr>"

definition demo_engine :: engine where
  "demo_engine = \<lparr>sg_sql = (\<lambda>e. case e_head e of E_Column t c \<Rightarrow> c | _ \<Rightarrow> []), sg_alias_or_name = (\<lambda>e. case e_head e of E_Column t c \<Rightarrow> c | _ \<Rightarrow> []),
     sg_number = number_literal_node, sg_parse_one = (\<lambda>sql. Inr (P_Query demo_select)), sg_normalize = (\<lambda>p. p),
     sg_set_operation_selects = (\<lambda>q. []), sg_qualified = (\<lambda>p. Inr (demo_select, [0])), sg_annotated = (\<lambda>q. q),
     sg_quoted = demo_quoted, sg_cast = (\<lambda>v t. Inr v),
     sg_executor = (\<lambda>cast q ts. let n = if qt_head q = E_Select then width (map fst (qt_args q)) else 0 in
        Inr [replicate n (PInt 2), replicate n (PInt 1)])\<rparr>"

definition demo_table :: table where
  "demo_table = \<lparr>t_name = lit ''users'', t_columns = [(lit ''id'', lit ''bigint''), (lit ''tag'', lit ''text'')], t_primary_key = [], t_unique = []\<rparr>"

definition demo_session :: table_session where
  "demo_session = \<lparr>ts_schema = [(lit ''users'', demo_table)], ts_rows = [], ts_sqlglot_schema = []\<rparr>"

lemma demo_engine_laws: "keeps_shape demo_engine" "executor_width demo_engine"
proof -
  show "keeps_shape demo_engine" by (simp add: keeps_shape_def demo_engine_def demo_select_def selects_def)
  show "executor_width demo_engine"
    by (auto simp: executor_width_def demo_engine_def selects_def width_def filter_map comp_def case_prod_unfold Let_def)
qed

definition demo_keyed :: query_tree where
  "demo_keyed = \<lparr>qt_head = E_Select, qt_args = [(''expressions'', demo_column ''id'' ''BIGINT''),
     (''expressions'', Expr (E_Alias (lit ''_distinct_on_1'')) None [demo_column ''tag'' ''TEXT'']),
     (''from'', leaf (E_Table [] (lit ''users''))),
     (''order'', Expr (E_Other ''Order'') None [Expr (E_Ordered False False) None [demo_column ''tag'' ''TEXT'']])]\<rparr>"

lemma demo_flat: "flatten_parenthesized (P_Query demo_select) = Inr (P_Query demo_select)"
  by (simp add: flatten_parenthesized_def fold_clauses_def get_arg_def set_args_def demo_select_def)

lemma demo_not_ignored: "reject_silently_ignored (P_Query demo_select) = Inr ()"
  by (simp add: reject_silently_ignored_def below_def below_distinct_def demo_select_def root_expr_def demo_column_def)

lemma demo_known: "reject_unknown_tables demo_session (P_Query demo_select) = Inr ()"
  by (simp add: reject_unknown_tables_def below_def demo_select_def root_expr_def demo_column_def demo_session_def cte_names_def dict_has_def)

lemma demo_keys: "distinct_on_keys demo_engine demo_select = Inr ([1], 1, demo_keyed)"
proof -
  have "nat_str (Suc 0) = [49]" by code_simp
  then show ?thesis by (simp add: distinct_on_keys_def has_distinct_on_def get_arg_def order_terms_def ordered_this_def Let_def demo_select_def demo_engine_def
     demo_column_def selects_def output_position_def add_select_def drop_arg_def set_args_def demo_keyed_def demo_quoted_def lit_def of_char_def)
qed

lemma demo_exact: "make_decimal_comparisons_exact (sg_annotated demo_engine (size_query demo_keyed)) = demo_keyed"
  by (simp add: make_decimal_comparisons_exact_def size_query_def with_kids_def set_args_def demo_keyed_def demo_engine_def root_expr_def size_integer_literals_def demo_column_def COMPARISONS_def)
lemma demo_order: "take_result_order demo_engine demo_keyed = Inr ([], demo_keyed)"
  by (simp add: take_result_order_def get_arg_def demo_keyed_def)

definition demo_query_plan :: query_plan where
  "demo_query_plan = \<lparr>pl_expression = demo_keyed, pl_column_names = [lit ''id''], pl_distinct_on = [1], pl_sort_keys = [],
     pl_visible_columns = 1, pl_rows_sliced_here = True\<rparr>"

lemma demo_plan: "plan_query demo_engine demo_session sql = Inr demo_query_plan"
proof -
  have p: "sg_parse_one demo_engine sql = Inr (P_Query demo_select)" "sg_normalize demo_engine p = p"
    "sg_qualified demo_engine p = Inr (demo_select, [0])" for p by (simp_all add: demo_engine_def)
  have w: "resolve_column_names demo_engine (zip [0] (selects demo_engine demo_select)) (written_column_names (enumerate 0 (selects demo_engine demo_select)))
      = [lit ''id'']"
    by (simp add: resolve_column_names_def selects_def demo_select_def written_column_names_def demo_column_def demo_engine_def written_name_def)
  show ?thesis
    by (simp add: plan_query_def p demo_flat demo_not_ignored demo_known demo_keys demo_exact demo_order w Let_def reject_non_select_def demo_query_plan_def)
qed

lemma demo_described: "table_describe demo_engine demo_session sql [] = Inr [\<lparr>rc_name = lit ''id'', rc_oid = INT8\<rparr>]"
  by (simp add: table_describe_def demo_plan demo_query_plan_def demo_keyed_def selects_def result_columns_def column_oid_def demo_column_def
    oid_for_sqlglot_type_def OID_FOR_SQLGLOT_TYPE_def TYPES_def dict_update_def)

lemma demo_answer: "table_query demo_engine demo_session sql [] = Inr [[PInt 2], [PInt 1]]"
proof -
  have b: "bind_parameters demo_engine (root_expr demo_keyed) [] = Inr (root_expr demo_keyed)"
    by (simp add: bind_parameters_def walk_tree_def root_expr_def demo_keyed_def demo_column_def)
  have k: "with_kids demo_keyed (root_expr demo_keyed) = demo_keyed"
    by (simp add: with_kids_def root_expr_def set_args_def demo_keyed_def)
  have w: "take_row_window demo_engine demo_keyed = Inr (None, 0, demo_keyed)"
    by (simp add: take_row_window_def row_count_def get_arg_def drop_arg_def set_args_def demo_keyed_def)
  have x: "sg_executor demo_engine c demo_keyed ts = Inr [[PInt 2, PInt 2], [PInt 1, PInt 1]]" "length (selects demo_engine demo_keyed) = 2" for c ts
    by (simp_all add: demo_engine_def selects_def demo_keyed_def width_def Let_def)
  have "finish_rows [1] [] None 0 1 2 [[PInt 2, PInt 2], [PInt 1, PInt 1]] = Inr [[PInt 2], [PInt 1]]"
    by (simp add: finish_rows_def first_row_per_key_def distinct_key_def row_item_def row_window_def py_slice_def clip_index_def scalar_eq_def)
  then show ?thesis by (simp add: table_query_def demo_plan demo_query_plan_def b k w x)
qed

theorem described_width_witness:
  "keeps_shape demo_engine \<and> executor_width demo_engine \<and> plan_query demo_engine demo_session [] = Inr demo_query_plan
   \<and> qt_head (pl_expression demo_query_plan) = E_Select \<and> table_describe demo_engine demo_session [] [] = Inr [\<lparr>rc_name = lit ''id'', rc_oid = INT8\<rparr>]
   \<and> table_query demo_engine demo_session [] [] = Inr [[PInt 2], [PInt 1]]
   \<and> list_all (\<lambda>r. length r = length [\<lparr>rc_name = lit ''id'', rc_oid = INT8\<rparr>]) [[PInt 2], [PInt 1]]"
proof -
  have "qt_head (pl_expression demo_query_plan) = E_Select" by (simp add: demo_query_plan_def demo_keyed_def)
  then show ?thesis
    using described_width[OF demo_described demo_answer demo_plan _ demo_engine_laws] demo_engine_laws demo_plan demo_described demo_answer by (simp add: list_all_iff)
qed


end
