(* ===== verification/Table_Serving.thy ===== *)
theory Table_Serving
  imports Table_Query Base_Session Server
begin

text \<open>
  \<open>TableSession\<close> of \<open>pg_mimic/tables.py\<close> as a session of the server: \<open>describe\<close>, \<open>query\<close> and \<open>schema\<close> are the author's methods, and
  \<open>prepare\<close> gives a statement the parameter types the plan of its query shows.
\<close>

definition TableSession_env :: "'a engine_scheme \<Rightarrow> table_session \<Rightarrow> 'u env \<Rightarrow> 'u env" where
  "TableSession_env sg ts base =
     base\<lparr>e_describe := (\<lambda>sql oids u c. ([], u, rbind (table_describe sg ts sql oids) (\<lambda>cols. Inr (Some cols)))),
       e_query := (\<lambda>sql params u c. ([], u, rbind (table_query sg ts sql params) (\<lambda>rs. Inr (map (\<lambda>r. ([], Inr r)) rs)))),
       e_schema := (\<lambda>u c. ([], u, Inr (DSchema (ts_schema ts))))\<rparr>"

definition statement_parameter_oids :: "'a engine_scheme \<Rightarrow> table_session \<Rightarrow> pystr \<Rightarrow> int option list \<Rightarrow> exc + int option list" where
  "statement_parameter_oids sg ts sql declared =
     rbind (plan_query sg ts sql) (\<lambda>plan. parameter_oids (root_expr (pl_expression plan)) declared)"

definition with_parameter_oids :: "'a engine_scheme \<Rightarrow> table_session \<Rightarrow> pystr \<Rightarrow> int option list \<Rightarrow> statement \<Rightarrow> exc + statement" where
  "with_parameter_oids sg ts sql param_oids st =
     (case st of
        CallbackStatement s oids cell \<Rightarrow>
          if 36 \<in> set sql then rbind (statement_parameter_oids sg ts sql param_oids) (\<lambda>inferred. Inr (CallbackStatement s inferred cell))
          else Inr st
      | _ \<Rightarrow> Inr st)"

definition table_prepare :: "'a engine_scheme \<Rightarrow> table_session \<Rightarrow> 'u env \<Rightarrow> int \<Rightarrow> pystr \<Rightarrow> int option list \<Rightarrow> ('u world, statement) act" where
  "table_prepare sg ts base p sql param_oids =
     abind (prepare (TableSession_env sg ts base) p sql param_oids) (\<lambda>st. alift (with_parameter_oids sg ts sql param_oids st))"

section \<open>Parameter types\<close>

lemma foldl_max: "foldl max (a :: int) xs \<ge> a" "x \<in> set xs \<Longrightarrow> x \<le> foldl max a xs"
proof -
  have a: "foldl max a xs \<ge> a" for a and xs :: "int list" by (induction xs arbitrary: a) (auto intro: order_trans[OF max.cobounded1])
  show "foldl max a xs \<ge> a" by (rule a)
  show "x \<in> set xs \<Longrightarrow> x \<le> foldl max a xs"
  proof (induction xs arbitrary: a)
    case (Cons y ys)
    have "max a y \<le> foldl max (max a y) ys" by (rule a)
    then show ?case using Cons by auto
  qed simp
qed

lemma dict_update_fst: "k \<in> fst ` set fs \<Longrightarrow> k \<in> fst ` set (dict_update [] fs)"
proof (rule ccontr)
  assume k: "k \<in> fst ` set fs" and n: "k \<notin> fst ` set (dict_update [] fs)"
  from n have "dict_get (dict_update [] fs) k = None" by (simp add: map_of_eq_None_iff)
  then have "map_of (rev fs) k = None" by (simp add: dict_update_get split: option.splits)
  then show False using k by (simp add: map_of_eq_None_iff)
qed

lemma rmap_each: "rmap f xs = Inr ys \<Longrightarrow> x \<in> set xs \<Longrightarrow> \<exists>y \<in> set ys. f x = Inr y"
  by (induction xs arbitrary: ys) (fastforce elim!: rbind_eq_InrE)+

lemma parameter_slots:
  assumes "parameter_oids e declared = Inr oids"
  shows "length declared \<le> length oids" "i < length declared \<Longrightarrow> declared ! i \<noteq> None \<Longrightarrow> oids ! i = declared ! i"
    "n \<in> nodes e \<Longrightarrow> k \<in> set (e_kids n) \<Longrightarrow> e_head k = E_Parameter name \<Longrightarrow> \<exists>i. param_index name = Inr i \<and> i \<le> int (length oids)"
proof -
  obtain inferred where inf: "inferred_params e = Inr inferred"
    and oids: "oids = map (\<lambda>i. if i < length declared \<and> declared ! i \<noteq> None then declared ! i
                   else (case dict_get inferred (int i) of Some t \<Rightarrow> t | None \<Rightarrow> None))
        [0..<nat (foldl max (int (length declared)) (map (\<lambda>(i, t). i + 1) inferred))]"
    using assms by (auto simp: parameter_oids_def Let_def)
  let ?count = "foldl max (int (length declared)) (map (\<lambda>(i, t). i + 1) inferred)"
  have len: "length oids = nat ?count" using oids by simp
  have c: "int (length declared) \<le> ?count" by (rule foldl_max)
  show l: "length declared \<le> length oids" using len c by linarith
  show "oids ! i = declared ! i" if "i < length declared" "declared ! i \<noteq> None"
    using that l len oids by (simp add: nth_map)
  show "\<exists>i. param_index name = Inr i \<and> i \<le> int (length oids)" if n: "n \<in> nodes e" and k: "k \<in> set (e_kids n)" and h: "e_head k = E_Parameter name"
  proof -
    obtain j where j: "j < length (e_kids n)" "e_kids n ! j = k" using k by (auto simp: in_set_conv_nth)
    let ?of = "\<lambda>n. concat (map (\<lambda>i. case e_head (e_kids n ! i) of
              E_Parameter name \<Rightarrow> [(name, comparison_type (e_head n) (take i (e_kids n) @ drop (Suc i) (e_kids n)))] | _ \<Rightarrow> [])
            [0..<length (e_kids n)])"
    let ?f = "\<lambda>(name, ty). rbind (param_index name) (\<lambda>i. Inr (i - 1, oid_for_sqlglot_type ty))"
    obtain ps where ps: "rmap ?f (concat (map ?of (walk_tree e))) = Inr ps" "inferred = dict_update [] ps"
      using inf by (auto simp: inferred_params_def)
    let ?ty = "comparison_type (e_head n) (take j (e_kids n) @ drop (Suc j) (e_kids n))"
    have "(name, ?ty) \<in> set (?of n)" using j h by (auto intro!: bexI[of _ j])
    then have "(name, ?ty) \<in> set (concat (map ?of (walk_tree e)))" using n by (auto simp: set_walk_tree)
    then obtain x where "x \<in> set ps" "?f (name, ?ty) = Inr x" using rmap_each[OF ps(1)] by blast
    then obtain i where i: "param_index name = Inr i" "(i - 1, oid_for_sqlglot_type ?ty) \<in> set ps" by auto
    then have "i - 1 \<in> fst ` set inferred" using ps(2) dict_update_fst[of "i - 1" ps] by (simp add: rev_image_eqI)
    then obtain t where "(i - 1, t) \<in> set inferred" by auto
    then have "i \<in> set (map (\<lambda>(i, t). i + 1) inferred)" by (auto intro!: image_eqI[of i _ "(i - 1, t)"])
    then have "i \<le> ?count" by (rule foldl_max)
    then show ?thesis using i len by auto
  qed
qed

text \<open>
  C36: what PREPARE answers about parameters: a statement of the session keeps every type the client declared and has a type slot for every
  placeholder of its query, so a driver that leaves the types to the server learns how many values to bind.
\<close>
theorem prepared_parameters:
  assumes "table_prepare sg ts base p sql declared w = (Inr (CallbackStatement s oids cell), w')" and "36 \<in> set sql"
    and "plan_query sg ts sql = Inr plan"
  shows "length declared \<le> length oids \<and> (\<forall>i < length declared. declared ! i \<noteq> None \<longrightarrow> oids ! i = declared ! i) \<and>
    (\<forall>n \<in> nodes (root_expr (pl_expression plan)). \<forall>k \<in> set (e_kids n). \<forall>name. e_head k = E_Parameter name \<longrightarrow>
       (\<exists>i. param_index name = Inr i \<and> i \<le> int (length oids)))"
proof -
  obtain st w1 where "with_parameter_oids sg ts sql declared st = Inr (CallbackStatement s oids cell)"
    using assms(1) by (auto simp: table_prepare_def abind_def alift_def split: prod.splits sum.splits)
  then have "parameter_oids (root_expr (pl_expression plan)) declared = Inr oids"
    using assms(2,3) by (auto simp: with_parameter_oids_def statement_parameter_oids_def split: statement.splits)
  from parameter_slots[OF this] show ?thesis by blast
qed

text \<open>\<open>SELECT id FROM users WHERE id = $1\<close>, with no type declared by the client.\<close>

definition demo_asked :: query_tree where
  "demo_asked = \<lparr>qt_head = E_Select, qt_args = [(''expressions'', demo_column ''id'' ''BIGINT''), (''from'', leaf (E_Table [] (lit ''users''))),
     (''where'', demo_condition [49])]\<rparr>"

definition demo_asked_engine :: engine where
  "demo_asked_engine = demo_engine\<lparr>sg_parse_one := (\<lambda>sql. Inr (P_Query demo_asked)), sg_qualified := (\<lambda>p. Inr (demo_asked, [0]))\<rparr>"

definition demo_asked_plan :: query_plan where
  "demo_asked_plan = \<lparr>pl_expression = demo_asked, pl_column_names = [lit ''id''], pl_distinct_on = [], pl_sort_keys = [],
     pl_visible_columns = 1, pl_rows_sliced_here = False\<rparr>"

lemma demo_asked_plan: "plan_query demo_asked_engine demo_session sql = Inr demo_asked_plan"
proof -
  have p: "sg_parse_one demo_asked_engine sql = Inr (P_Query demo_asked)" "sg_normalize demo_asked_engine p = p"
    "sg_qualified demo_asked_engine p = Inr (demo_asked, [0])" for p by (simp_all add: demo_asked_engine_def demo_engine_def)
  have f: "flatten_parenthesized (P_Query demo_asked) = Inr (P_Query demo_asked)"
    by (simp add: flatten_parenthesized_def fold_clauses_def get_arg_def set_args_def demo_asked_def)
  have r: "reject_silently_ignored (P_Query demo_asked) = Inr ()"
    by (simp add: reject_silently_ignored_def below_def below_distinct_def demo_asked_def root_expr_def demo_column_def demo_condition_def)
  have t: "reject_unknown_tables demo_session (P_Query demo_asked) = Inr ()"
    by (simp add: reject_unknown_tables_def below_def demo_asked_def root_expr_def demo_column_def demo_condition_def demo_session_def cte_names_def
        dict_has_def)
  have d: "distinct_on_keys demo_asked_engine demo_asked = Inr ([], 1, demo_asked)"
    by (simp add: distinct_on_keys_def has_distinct_on_def get_arg_def Let_def demo_asked_def selects_def)
  have x: "make_decimal_comparisons_exact (sg_annotated demo_asked_engine (size_query demo_asked)) = demo_asked"
    by (simp add: make_decimal_comparisons_exact_def size_query_def with_kids_def set_args_def demo_asked_def demo_asked_engine_def demo_engine_def
        root_expr_def size_integer_literals_def demo_column_def demo_condition_def COMPARISONS_def is_decimal_def DECIMAL_TYPES_def)
  have o: "take_result_order demo_asked_engine demo_asked = Inr ([], demo_asked)"
    by (simp add: take_result_order_def get_arg_def demo_asked_def)
  have w: "resolve_column_names demo_asked_engine (zip [0] (selects demo_asked_engine demo_asked))
      (written_column_names (enumerate 0 (selects demo_asked_engine demo_asked))) = [lit ''id'']"
    by (simp add: resolve_column_names_def selects_def demo_asked_def written_column_names_def demo_column_def written_name_def)
  show ?thesis
    by (simp add: plan_query_def p f r t d x o w Let_def reject_non_select_def demo_asked_plan_def)
qed

theorem prepared_parameters_witness:
  "\<exists>oids w. table_prepare demo_asked_engine demo_session plain_session 7 [36] [] (PgServer (\<lambda>_. ()) [] 5432 1000) = (Inr (CallbackStatement [36] oids 0), w)
     \<and> plan_query demo_asked_engine demo_session [36] = Inr demo_asked_plan \<and> oids = [Some INT8] \<and> 1 \<le> int (length oids)"
proof -
  have t: "oid_for_sqlglot_type (comparison_type (E_Binary ''EQ'' None) [Expr (E_Column (lit ''t'') (lit ''id'')) (Some (DataType ''BIGINT'' [])) []]) = Some INT8"
    by (simp add: comparison_type_def UNTYPED_def oid_for_sqlglot_type_def OID_FOR_SQLGLOT_TYPE_def TYPES_def dict_update_def)
  have "py_strip [49] = [49]" by (auto intro!: strip_same simp: py_isspace_def)
  then have i: "param_index [49] = Inr 1" by (simp add: param_index_def parse_int_text_def take_sign_def is_digit_def)
  have "statement_parameter_oids demo_asked_engine demo_session [36] [] = Inr [Some INT8]"
    by (simp add: statement_parameter_oids_def demo_asked_plan demo_asked_plan_def demo_asked_def root_expr_def demo_condition_def demo_column_def
        parameter_oids_def inferred_params_def walk_tree_def i t dict_update_def)
  then obtain w where w: "table_prepare demo_asked_engine demo_session plain_session 7 [36] [] (PgServer (\<lambda>_. ()) [] 5432 1000)
      = (Inr (CallbackStatement [36] [Some INT8] 0), w)"
    by (simp add: table_prepare_def prepare_def abind_def alift_def callback_statement_def PgServer_def Connection_def Let_def with_parameter_oids_def)
  let ?eq = "Expr (E_Binary ''EQ'' None) None [Expr (E_Column (lit ''t'') (lit ''id'')) (Some (DataType ''BIGINT'' [])) [], leaf (E_Parameter [49])]"
  have n: "?eq \<in> nodes (root_expr (pl_expression demo_asked_plan))" "leaf (E_Parameter [49]) \<in> set (e_kids ?eq)"
    by (simp_all add: demo_asked_plan_def demo_asked_def root_expr_def demo_condition_def)
  have "\<forall>n \<in> nodes (root_expr (pl_expression demo_asked_plan)). \<forall>k \<in> set (e_kids n). \<forall>name. e_head k = E_Parameter name \<longrightarrow>
       (\<exists>i. param_index name = Inr i \<and> i \<le> int (length [Some INT8]))"
    using prepared_parameters[OF w _ demo_asked_plan] by simp
  from this[rule_format, OF n, of "[49]"] have "1 \<le> int (length [Some INT8])" using i by simp
  then show ?thesis using w demo_asked_plan by blast
qed

end
