(* ===== verification/Catalog_Rewrite.thy ===== *)
theory Catalog_Rewrite
  imports Table_Params Catalog_Data
begin

text \<open>
  \<open>pg_mimic/catalog_rewrite.py\<close>: psql's catalogue queries made executable. Each loop of \<open>rewrite_for_executor\<close> is a pass over the tree that
  is given by its rule, on a node as the pass finds it and the children as the pass leaves them; the root stays. A pass that
  runs over \<open>list(find_all(...))\<close> reaches a node before the nodes below it, so what a rule looks at is the node before the pass.

  The query is a SELECT, so the root is no \<open>exp.Dot\<close>. \<open>str.isdigit\<close> is taken on ASCII digits, which is what OIDs are written in. The two
  functions that are put into the executor's environment are the executor's.

  The lemmas: no construct the executor cannot run is left, and a query without any is left alone.
\<close>

section \<open>Passes\<close>

fun rewrite_below :: "(expr \<Rightarrow> expr list \<Rightarrow> expr option) \<Rightarrow> expr \<Rightarrow> expr" where
  "rewrite_below f (Expr h t ks) =
     (let ks' = map (rewrite_below f) ks in case f (Expr h t ks) ks' of Some r \<Rightarrow> r | None \<Rightarrow> Expr h t ks')"

definition rewrite_tree :: "(expr \<Rightarrow> expr list \<Rightarrow> expr option) \<Rightarrow> expr \<Rightarrow> expr" where
  "rewrite_tree f e = Expr (e_head e) (e_type e) (map (rewrite_below f) (e_kids e))"

section \<open>Constant functions\<close>

definition CATALOG_FUNCTIONS :: "pystr \<Rightarrow> (pystr, expr) dict" where
  "CATALOG_FUNCTIONS username =
     [(lit ''pg_get_userbyid'', string_literal username),
      (lit ''pg_table_is_visible'', leaf (E_Boolean True)), (lit ''pg_type_is_visible'', leaf (E_Boolean True)),
      (lit ''pg_function_is_visible'', leaf (E_Boolean True)),
      (lit ''pg_get_expr'', string_literal []), (lit ''pg_get_partkeydef'', leaf E_Null), (lit ''pg_get_viewdef'', string_literal []),
      (lit ''pg_relation_size'', number_literal_node (lit ''0'')), (lit ''pg_total_relation_size'', number_literal_node (lit ''0'')),
      (lit ''pg_size_pretty'', string_literal (lit ''0 bytes'')), (lit ''pg_encoding_to_char'', string_literal (lit ''UTF8'')),
      (lit ''array_to_string'', string_literal []), (lit ''obj_description'', leaf E_Null), (lit ''col_description'', leaf E_Null),
      (lit ''shobj_description'', leaf E_Null)]"

definition catalog_function :: "pystr \<Rightarrow> pystr \<Rightarrow> expr option" where
  "catalog_function username name = dict_get (CATALOG_FUNCTIONS username) (py_lower name)"

text \<open>\<open>pg_catalog.f(...)\<close> is a \<open>Dot\<close> around the call.\<close>

definition dot_rule :: "pystr \<Rightarrow> expr \<Rightarrow> expr list \<Rightarrow> expr option" where
  "dot_rule username e ks =
     (if head_class (e_head e) \<noteq> ''Dot'' then None
      else case (e_kids e, ks) of
        ([this, inner], [this', inner']) \<Rightarrow>
          (case e_head inner of
             E_Anonymous name \<Rightarrow>
               (case catalog_function username name of
                  Some r \<Rightarrow> Some r
                | None \<Rightarrow>
                    (case e_kids inner' of
                       k # rest \<Rightarrow> if py_lower name \<in> set [lit ''array_length'', lit ''array_upper''] then Some (Expr (E_Func ''ArraySize'' ''ARRAY_SIZE'') None [k]) else None
                     | [] \<Rightarrow> None))
           | _ \<Rightarrow> None)
      | _ \<Rightarrow> None)"

definition call_rule :: "pystr \<Rightarrow> expr \<Rightarrow> expr list \<Rightarrow> expr option" where
  "call_rule username e ks = (case e_head e of E_Anonymous name \<Rightarrow> catalog_function username name | _ \<Rightarrow> None)"

section \<open>Operators and collations\<close>

definition REGEX_OPERATORS :: "pystr list" where
  "REGEX_OPERATORS = map lit [''~'', ''!~'', ''~*'', ''!~*'']"

definition operator_name :: "pystr \<Rightarrow> pystr" where
  "operator_name op = last (split_on 46 op)"

definition operator_rule :: "expr \<Rightarrow> expr list \<Rightarrow> expr option" where
  "operator_rule e ks =
     (case e_head e of
        E_Operator op \<Rightarrow>
          if operator_name op \<in> set REGEX_OPERATORS then
            let like = Expr (E_Binary ''RegexpLike'' (Some ''REGEXP_LIKE'')) None ks in
            Some (if starts_with (operator_name op) [33] then Expr (E_Other ''Not'') None [like] else like)
          else None
      | _ \<Rightarrow> None)"

definition collate_rule :: "expr \<Rightarrow> expr list \<Rightarrow> expr option" where
  "collate_rule e ks = (if head_class (e_head e) = ''Collate'' then (case ks of this # rest \<Rightarrow> Some this | [] \<Rightarrow> None) else None)"

section \<open>Functions of the row\<close>

text \<open>\<open>rendered\<close> is the column that carries the answer, by the name of the function and of its first argument.\<close>

definition format_type_column :: "pystr \<Rightarrow> pystr \<Rightarrow> pystr option" where
  "format_type_column name col =
     (if name \<noteq> lit ''format_type'' then None
      else Some (if py_lower col = lit ''atttypid'' then lit ''attformattype'' else lit ''typname''))"

definition ROW_DEPENDENT_FUNCTIONS :: "(pystr, pystr) dict" where
  "ROW_DEPENDENT_FUNCTIONS = [(lit ''pg_get_indexdef'', lit ''indexdef''), (lit ''pg_get_constraintdef'', lit ''condef'')]"

definition row_dependent_column :: "pystr \<Rightarrow> pystr \<Rightarrow> pystr option" where
  "row_dependent_column name col = dict_get ROW_DEPENDENT_FUNCTIONS name"

definition row_column :: "(pystr \<Rightarrow> pystr \<Rightarrow> pystr option) \<Rightarrow> expr \<Rightarrow> expr option" where
  "row_column rendered e =
     (case (e_head e, e_kids e) of
        (E_Anonymous name, first # rest) \<Rightarrow>
          (case e_head first of
             E_Column tbl col \<Rightarrow> map_option (\<lambda>c. leaf (E_Column tbl c)) (rendered (py_lower name) col)
           | _ \<Rightarrow> None)
      | _ \<Rightarrow> None)"

definition row_rule :: "(pystr \<Rightarrow> pystr \<Rightarrow> pystr option) \<Rightarrow> expr \<Rightarrow> expr list \<Rightarrow> expr option" where
  "row_rule rendered e ks =
     (if head_class (e_head e) = ''Dot''
      then (case find (\<lambda>k. row_column rendered k \<noteq> None) (e_kids e) of Some k \<Rightarrow> row_column rendered k | None \<Rightarrow> None)
      else row_column rendered e)"

section \<open>Subqueries, literals and casts\<close>

definition ALWAYS_EMPTY_TABLES :: "pystr list" where
  "ALWAYS_EMPTY_TABLES =
     map lit [''pg_attrdef'', ''pg_collation'', ''pg_inherits'', ''pg_rewrite'', ''pg_trigger'', ''pg_policy'', ''pg_statistic_ext'']"

fun always_empty :: "head \<Rightarrow> bool" where
  "always_empty (E_Table db name) = (py_lower name \<in> set ALWAYS_EMPTY_TABLES)"
| "always_empty _ = False"

definition empty_rule :: "expr \<Rightarrow> expr list \<Rightarrow> expr option" where
  "empty_rule e ks = (if e_head e = E_Subquery \<and> find_all always_empty e \<noteq> [] then Some (leaf E_Null) else None)"

fun is_binary :: "head \<Rightarrow> bool" where
  "is_binary (E_Binary c n) = True" | "is_binary (E_Operator op) = True" | "is_binary _ = False"

definition digits_text :: "pystr \<Rightarrow> bool" where
  "digits_text s \<longleftrightarrow> digits1 (dropWhile (\<lambda>c. c = 45) s)"

definition oid_text :: "expr \<Rightarrow> expr \<Rightarrow> pystr option" where
  "oid_text column_node literal_node =
     (case (e_head column_node, e_head literal_node) of
        (E_Column tbl col, E_Literal string s) \<Rightarrow> if col \<in> set INTEGER_COLUMNS \<and> string \<and> digits_text s then Some s else None
      | _ \<Rightarrow> None)"

definition coerce_rule :: "'a param_literals_scheme \<Rightarrow> expr \<Rightarrow> expr list \<Rightarrow> expr option" where
  "coerce_rule sg e ks =
     (case (e_kids e, ks) of
        (a # b # rest, a' # b' # rest') \<Rightarrow>
          if \<not> is_binary (e_head e) then None
          else (case oid_text a b of
            Some s \<Rightarrow> Some (Expr (e_head e) (e_type e) (a' # sg_number sg s # rest'))
          | None \<Rightarrow> map_option (\<lambda>s. Expr (e_head e) (e_type e) (sg_number sg s # b' # rest')) (oid_text b a))
      | _ \<Rightarrow> None)"

definition cast_rule :: "'a sqlglot_scheme \<Rightarrow> expr \<Rightarrow> expr list \<Rightarrow> expr option" where
  "cast_rule sg e ks =
     (if e_head e \<noteq> E_Cast then None
      else let target = (case e_kids e of this # to # rest \<Rightarrow> py_lower (sg_sql sg to) | _ \<Rightarrow> []) in
        if 46 \<in> set target \<or> starts_with target (lit ''reg'') then (case ks of this # rest \<Rightarrow> Some this | [] \<Rightarrow> None) else None)"

definition rewrite_for_executor :: "'a param_literals_scheme \<Rightarrow> pystr \<Rightarrow> expr \<Rightarrow> expr" where
  "rewrite_for_executor sg username e =
     fold rewrite_tree [dot_rule username, call_rule username, operator_rule, collate_rule, row_rule format_type_column,
       row_rule row_dependent_column, empty_rule, coerce_rule sg, cast_rule sg] e"

section \<open>What a pass leaves\<close>

text \<open>A node without what stands below it: its head, and whether it has children.\<close>

definition outline :: "expr \<Rightarrow> head \<times> bool" where
  "outline n = (e_head n, e_kids n = [])"

definition below_root :: "expr \<Rightarrow> expr set" where
  "below_root e = (\<Union>k \<in> set (e_kids e). nodes k)"

text \<open>A rule makes nodes outlined in \<open>new\<close> and keeps nodes of the children.\<close>

definition makes :: "(head \<times> bool) set \<Rightarrow> (expr \<Rightarrow> expr list \<Rightarrow> expr option) \<Rightarrow> bool" where
  "makes new f \<longleftrightarrow> (\<forall>e ks r. f e ks = Some r \<longrightarrow> length ks = length (e_kids e) \<longrightarrow>
     outline ` nodes r \<subseteq> new \<union> {outline e} \<union> (\<Union>k \<in> set ks. outline ` nodes k))"

lemma rewrite_below_outline: "makes new f \<Longrightarrow> outline ` nodes (rewrite_below f e) \<subseteq> new \<union> outline ` nodes e"
proof (induction e)
  case (Expr h t ks)
  let ?ks = "map (rewrite_below f) ks"
  have k: "(\<Union>k \<in> set ?ks. outline ` nodes k) \<subseteq> new \<union> (\<Union>k \<in> set ks. outline ` nodes k)" using Expr by fastforce
  show ?case
  proof (cases "f (Expr h t ks) ?ks")
    case None
    then show ?thesis using k by (auto simp: outline_def)
  next
    case (Some r)
    then have "outline ` nodes r \<subseteq> new \<union> {outline (Expr h t ks)} \<union> (\<Union>k \<in> set ?ks. outline ` nodes k)"
      using Expr.prems unfolding makes_def by (metis length_map expr.sel(3))
    then show ?thesis using k Some by (auto simp: Let_def)
  qed
qed

text \<open>The nodes the rules make.\<close>

fun made_head :: "head \<Rightarrow> bool" where
  "made_head (E_Literal s t) = True" | "made_head E_Null = True" | "made_head (E_Boolean b) = True" | "made_head E_Neg = True"
| "made_head (E_Column t c) = True" | "made_head (E_Binary c n) = (c = ''RegexpLike'')" | "made_head (E_Other c) = (c = ''Not'')"
| "made_head (E_Func c n) = (c = ''ArraySize'')" | "made_head _ = False"

definition made :: "(head \<times> bool) set" where
  "made = {(h, l). made_head h}"

definition plain_numbers :: "'a param_literals_scheme \<Rightarrow> bool" where
  "plain_numbers sg \<longleftrightarrow> (\<forall>t. \<forall>n \<in> nodes (sg_number sg t). made_head (e_head n))"

lemma outline_made [simp]: "outline n \<in> made \<longleftrightarrow> made_head (e_head n)"
  by (simp add: outline_def made_def)

lemma constants_made:
  assumes "catalog_function username name = Some r" and "n \<in> nodes r"
  shows "made_head (e_head n)"
proof -
  have "(py_lower name, r) \<in> set (CATALOG_FUNCTIONS username)" using assms(1) by (auto simp: catalog_function_def dest: map_of_SomeD)
  then show ?thesis using assms(2) by (auto simp: CATALOG_FUNCTIONS_def)
qed

lemma row_column_made: "row_column rendered e = Some r \<Longrightarrow> n \<in> nodes r \<Longrightarrow> made_head (e_head n)"
  by (auto simp: row_column_def split: head.splits list.splits)

lemma makes_dot: "makes made (dot_rule username)"
  unfolding makes_def
proof (intro allI impI)
  fix e ks r assume r: "dot_rule username e ks = Some r" and l: "length ks = length (e_kids e)"
  from r obtain this inner this' inner' name where k: "ks = [this', inner']" "e_head inner = E_Anonymous name"
    and c: "catalog_function username name = Some r \<or> (\<exists>a rest. e_kids inner' = a # rest \<and> r = Expr (E_Func ''ArraySize'' ''ARRAY_SIZE'') None [a])"
    by (auto simp: dot_rule_def split: if_splits list.splits head.splits option.splits)
  from c show "outline ` nodes r \<subseteq> made \<union> {outline e} \<union> (\<Union>k \<in> set ks. outline ` nodes k)"
  proof (elim disjE exE conjE)
    fix a rest assume a: "e_kids inner' = a # rest" "r = Expr (E_Func ''ArraySize'' ''ARRAY_SIZE'') None [a]"
    have "nodes a \<subseteq> nodes inner'" using a(1) nodes_unfold[of inner'] by auto
    then show ?thesis using a(2) k by (auto simp: outline_def made_def)
  qed (use constants_made in fastforce)
qed

lemma makes_call: "makes made (call_rule username)"
  unfolding makes_def call_rule_def using constants_made by (fastforce split: head.splits)

lemma makes_operator: "makes made operator_rule"
  by (auto simp: makes_def operator_rule_def Let_def outline_def made_def split: head.splits if_splits)

lemma makes_collate: "makes made collate_rule"
  by (auto simp: makes_def collate_rule_def split: if_splits list.splits)

lemma makes_row: "makes made (row_rule rendered)"
  unfolding makes_def row_rule_def using row_column_made[of rendered] by (fastforce split: if_splits option.splits)

lemma makes_empty: "makes made empty_rule"
  by (auto simp: makes_def empty_rule_def split: if_splits)

lemma makes_coerce: "plain_numbers sg \<Longrightarrow> makes made (coerce_rule sg)"
  unfolding makes_def
proof (intro allI impI)
  fix e ks r assume p: "plain_numbers sg" and r: "coerce_rule sg e ks = Some r"
  obtain a b rest a' b' rest' where k: "e_kids e = a # b # rest" "ks = a' # b' # rest'"
    and r: "(\<exists>s. r = Expr (e_head e) (e_type e) (a' # sg_number sg s # rest')) \<or> (\<exists>s. r = Expr (e_head e) (e_type e) (sg_number sg s # b' # rest'))"
    using r by (auto simp: coerce_rule_def split: if_splits list.splits option.splits)
  have o: "outline e = (e_head e, False)" using k by (simp add: outline_def)
  have m: "outline n \<in> made" if "n \<in> nodes (sg_number sg s)" for n s using p that by (simp add: plain_numbers_def)
  have n: "n = r \<or> (\<exists>s. n \<in> nodes (sg_number sg s)) \<or> (\<exists>k \<in> set ks. n \<in> nodes k)" if "n \<in> nodes r" for n using r k that by auto
  have e: "outline r = outline e" using r o by (auto simp: outline_def)
  have "outline n \<in> made \<union> {outline e} \<union> (\<Union>k \<in> set ks. outline ` nodes k)" if "n \<in> nodes r" for n
    using n[OF that] by (elim disjE exE bexE) (simp_all only: e m UN_iff Un_iff, auto)
  then show "outline ` nodes r \<subseteq> made \<union> {outline e} \<union> (\<Union>k \<in> set ks. outline ` nodes k)" by blast
qed

lemma makes_cast: "makes made (cast_rule sg)"
  by (auto simp: makes_def cast_rule_def Let_def split: if_splits list.splits)

lemmas makes_rules = makes_dot makes_call makes_operator makes_collate makes_row makes_empty makes_coerce makes_cast

lemma below_pass: "outline ` below_root (rewrite_tree f e) = (\<Union>k \<in> set (e_kids e). outline ` nodes (rewrite_below f k))"
  by (simp add: below_root_def rewrite_tree_def image_UN)

lemma pass_outline: "makes made f \<Longrightarrow> outline ` below_root (rewrite_tree f e) \<subseteq> made \<union> outline ` below_root e"
  unfolding below_pass by (intro UN_least order_trans[OF rewrite_below_outline]) (auto simp: below_root_def)

lemma chain: "A \<subseteq> M \<union> B \<Longrightarrow> B \<subseteq> M \<union> C \<Longrightarrow> A \<subseteq> M \<union> C"
  by blast

text \<open>A pass whose rule fires on every node of some outline leaves none of it.\<close>

definition removes :: "(head \<times> bool) set \<Rightarrow> (expr \<Rightarrow> expr list \<Rightarrow> expr option) \<Rightarrow> bool" where
  "removes bad f \<longleftrightarrow> (\<forall>e ks. outline e \<in> bad \<longrightarrow> length ks = length (e_kids e) \<longrightarrow>
     (\<exists>r. f e ks = Some r \<and> outline ` nodes r \<subseteq> made \<union> (\<Union>k \<in> set ks. outline ` nodes k)))"

lemma avoids:
  "A \<subseteq> M \<union> U \<Longrightarrow> U \<inter> B = {} \<Longrightarrow> M \<inter> B = {} \<Longrightarrow> A \<inter> B = {}"
  "A \<subseteq> M \<union> {x} \<union> U \<Longrightarrow> U \<inter> B = {} \<Longrightarrow> M \<inter> B = {} \<Longrightarrow> x \<notin> B \<Longrightarrow> A \<inter> B = {}"
  by blast+

lemma rewrite_below_removes:
  assumes "makes made f" and "removes bad f" and "made \<inter> bad = {}"
  shows "outline ` nodes (rewrite_below f e) \<inter> bad = {}"
proof (induction e)
  case (Expr h t ks)
  let ?e = "Expr h t ks" and ?ks = "map (rewrite_below f) ks"
  have k: "(\<Union>k \<in> set ?ks. outline ` nodes k) \<inter> bad = {}" using Expr by auto
  show ?case
  proof (cases "outline ?e \<in> bad")
    case True
    then obtain r where "f ?e ?ks = Some r" "outline ` nodes r \<subseteq> made \<union> (\<Union>k \<in> set ?ks. outline ` nodes k)"
      using assms(2) unfolding removes_def by (metis length_map expr.sel(3))
    moreover from this have "rewrite_below f ?e = r" by (simp add: Let_def)
    ultimately show ?thesis using avoids(1)[OF _ k assms(3)] by simp
  next
    case out: False
    show ?thesis
    proof (cases "f ?e ?ks")
      case None
      then show ?thesis using k out by (auto simp: outline_def)
    next
      case (Some r)
      then have "outline ` nodes r \<subseteq> made \<union> {outline ?e} \<union> (\<Union>k \<in> set ?ks. outline ` nodes k)"
        using assms(1) unfolding makes_def by (metis length_map expr.sel(3))
      moreover from Some have "rewrite_below f ?e = r" by (simp add: Let_def)
      ultimately show ?thesis using avoids(2)[OF _ k assms(3) out] by simp
    qed
  qed
qed

lemma pass_removes:
  "makes made f \<Longrightarrow> removes bad f \<Longrightarrow> made \<inter> bad = {} \<Longrightarrow> outline ` below_root (rewrite_tree f e) \<inter> bad = {}"
  unfolding below_pass using rewrite_below_removes[of f bad] by (simp only: Int_UN_distrib Int_commute[of _ bad] UN_empty2 UN_constant)

section \<open>What psql's spelling leaves behind\<close>

definition constant_calls :: "pystr \<Rightarrow> (head \<times> bool) set" where
  "constant_calls username = {(h, l). \<exists>name. h = E_Anonymous name \<and> catalog_function username name \<noteq> None}"

definition regex_operators :: "(head \<times> bool) set" where
  "regex_operators = {(h, l). \<exists>op. h = E_Operator op \<and> operator_name op \<in> set REGEX_OPERATORS}"

definition collations :: "(head \<times> bool) set" where
  "collations = {(h, l). head_class h = ''Collate'' \<and> \<not> l}"

lemma made_apart: "made \<inter> constant_calls username = {}" "made \<inter> regex_operators = {}" "made \<inter> collations = {}"
  by (auto simp: made_def constant_calls_def regex_operators_def collations_def elim: made_head.elims)

lemma call_rule_removes: "removes (constant_calls username) (call_rule username)"
  unfolding removes_def
proof (intro allI impI)
  fix e :: expr and ks :: "expr list" assume "outline e \<in> constant_calls username"
  then obtain name r where "e_head e = E_Anonymous name" "catalog_function username name = Some r"
    by (auto simp: outline_def constant_calls_def)
  moreover from this(2) have "outline ` nodes r \<subseteq> made" using constants_made by auto
  ultimately show "\<exists>r. call_rule username e ks = Some r \<and> outline ` nodes r \<subseteq> made \<union> (\<Union>k \<in> set ks. outline ` nodes k)"
    by (auto simp: call_rule_def)
qed

lemma outline_regex: "outline e \<in> regex_operators \<longleftrightarrow> (\<exists>op. e_head e = E_Operator op \<and> operator_name op \<in> set REGEX_OPERATORS)"
  by (simp add: outline_def regex_operators_def)

lemma operator_rule_removes: "removes regex_operators operator_rule"
  unfolding removes_def
proof (intro allI impI)
  fix e :: expr and ks :: "expr list" assume "outline e \<in> regex_operators"
  then obtain r where r: "operator_rule e ks = Some r" "nodes r \<subseteq> {n. made_head (e_head n)} \<union> (\<Union>k \<in> set ks. nodes k)"
    by (auto simp: outline_regex operator_rule_def Let_def)
  have "outline n \<in> made \<union> (\<Union>k \<in> set ks. outline ` nodes k)" if n: "n \<in> nodes r" for n
  proof -
    from n r(2) consider "made_head (e_head n)" | k where "k \<in> set ks" "n \<in> nodes k" by blast
    then show ?thesis by cases auto
  qed
  then have "outline ` nodes r \<subseteq> made \<union> (\<Union>k \<in> set ks. outline ` nodes k)" by blast
  then show "\<exists>r. operator_rule e ks = Some r \<and> outline ` nodes r \<subseteq> made \<union> (\<Union>k \<in> set ks. outline ` nodes k)" using r(1) by blast
qed

lemma collate_rule_removes: "removes collations collate_rule"
  by (auto simp: removes_def collations_def collate_rule_def outline_def split: list.splits)

text \<open>The subqueries over tables that are always empty.\<close>

definition over_empty :: "expr \<Rightarrow> bool" where
  "over_empty n \<longleftrightarrow> e_head n = E_Subquery \<and> (\<exists>m \<in> nodes n. always_empty (e_head m))"

definition tidy :: "expr \<Rightarrow> bool" where
  "tidy e \<longleftrightarrow> (\<forall>n \<in> nodes e. \<not> over_empty n)"

lemma made_not_empty: "made_head h \<Longrightarrow> \<not> always_empty h" "made_head h \<Longrightarrow> h \<noteq> E_Subquery"
  by (cases h; simp)+

lemma empty_tables_kept:
  assumes "makes made f" and "m \<in> nodes (rewrite_below f e)" and "always_empty (e_head m)"
  shows "\<exists>m' \<in> nodes e. always_empty (e_head m')"
proof -
  have "outline m \<in> made \<union> outline ` nodes e" using rewrite_below_outline[OF assms(1), of e] assms(2) by auto
  then show ?thesis using made_not_empty assms(3) by (auto simp: outline_def made_def)
qed

lemma empty_rule_tidy: "tidy (rewrite_below empty_rule e)"
proof (induction e)
  case (Expr h t ks)
  let ?e = "Expr h t ks" and ?ks = "map (rewrite_below empty_rule) ks"
  show ?case
  proof (cases "empty_rule ?e ?ks")
    case None
    then have r: "rewrite_below empty_rule ?e = Expr h t ?ks" by simp
    have "\<not> over_empty (Expr h t ?ks)"
    proof
      assume o: "over_empty (Expr h t ?ks)"
      then obtain m where "m \<in> nodes ?e" "always_empty (e_head m)"
        using empty_tables_kept[OF makes_empty, of _ ?e] r unfolding over_empty_def by metis
      then have "find_all always_empty ?e \<noteq> []" by (auto simp: find_all_def filter_empty_conv)
      then show False using None o by (simp add: empty_rule_def over_empty_def)
    qed
    then show ?thesis using r Expr by (auto simp: tidy_def)
  qed (auto simp: tidy_def over_empty_def empty_rule_def split: if_splits)
qed

text \<open>A rule that builds no subquery keeps a tidy tree tidy.\<close>

definition keeps_subqueries :: "(expr \<Rightarrow> expr list \<Rightarrow> expr option) \<Rightarrow> bool" where
  "keeps_subqueries f \<longleftrightarrow> (\<forall>e ks r n. f e ks = Some r \<longrightarrow> n \<in> nodes r \<longrightarrow> e_head n = E_Subquery \<longrightarrow> (\<exists>k \<in> set ks. n \<in> nodes k))"

lemma coerce_rule_keeps: "plain_numbers sg \<Longrightarrow> keeps_subqueries (coerce_rule sg)"
  using made_not_empty(2) by (fastforce simp: keeps_subqueries_def coerce_rule_def plain_numbers_def split: if_splits list.splits option.splits)

lemma cast_rule_keeps: "keeps_subqueries (cast_rule sg)"
  by (auto simp: keeps_subqueries_def cast_rule_def Let_def split: if_splits list.splits)

lemma rewrite_below_tidy:
  assumes "makes made f" and "keeps_subqueries f" and "tidy e"
  shows "tidy (rewrite_below f e)"
  using assms(3)
proof (induction e)
  case (Expr h t ks)
  let ?e = "Expr h t ks" and ?ks = "map (rewrite_below f) ks"
  have ks: "tidy k" if "k \<in> set ?ks" for k using Expr that by (auto simp: tidy_def)
  show ?case
  proof (cases "f ?e ?ks")
    case None
    then have r: "rewrite_below f ?e = Expr h t ?ks" by simp
    have "\<not> over_empty (Expr h t ?ks)"
    proof
      assume o: "over_empty (Expr h t ?ks)"
      then have "\<exists>m \<in> nodes ?e. always_empty (e_head m)"
        using empty_tables_kept[OF assms(1), of _ ?e] r unfolding over_empty_def by metis
      then show False using Expr.prems o by (auto simp: tidy_def over_empty_def)
    qed
    then show ?thesis using r ks by (auto simp: tidy_def)
  next
    case (Some r)
    then have "\<not> over_empty n" if "n \<in> nodes r" for n
      using assms(2) that ks unfolding keeps_subqueries_def tidy_def over_empty_def by blast
    then show ?thesis using Some by (simp add: tidy_def Let_def)
  qed
qed


text \<open>\<open>SELECT pg_catalog.pg_get_userbyid(c.relowner) FROM ... WHERE c.relname OPERATOR(pg_catalog.!~) '^pg' COLLATE pg_catalog.default\<close>\<close>

definition demo_catalog_query :: expr where
  "demo_catalog_query =
     (let pg_catalog = leaf (E_Other ''Identifier''); col = (\<lambda>c. leaf (E_Column (lit ''c'') (lit c))) in
      Expr E_Select None
        [Expr (E_Binary ''Dot'' None) None [pg_catalog, Expr (E_Anonymous (lit ''PG_GET_USERBYID'')) None [col ''relowner'']],
         Expr (E_Other ''Where'') None
           [Expr (E_Operator (lit ''pg_catalog.!~'')) None
             [col ''relname'', Expr (E_Binary ''Collate'' (Some ''COLLATE'')) None [string_literal (lit ''^pg''), pg_catalog]]]])"

lemma demo_names:
  "catalog_function (lit ''ann'') (lit ''PG_GET_USERBYID'') = Some (string_literal (lit ''ann''))"
  "operator_name (lit ''pg_catalog.!~'') = lit ''!~''" "starts_with (lit ''!~'') [33]"
  by (simp_all add: catalog_function_def CATALOG_FUNCTIONS_def operator_name_def lit_def of_char_def lower_char_def)

lemma demo_rewritten:
  "rewrite_for_executor demo_binder (lit ''ann'') demo_catalog_query = Expr E_Select None
     [string_literal (lit ''ann''),
      Expr (E_Other ''Where'') None
        [Expr (E_Other ''Not'') None
          [Expr (E_Binary ''RegexpLike'' (Some ''REGEXP_LIKE'')) None [leaf (E_Column (lit ''c'') (lit ''relname'')), string_literal (lit ''^pg'')]]]]"
proof -
  have d: "digits_text (lit ''^pg'') = False"
    by (simp add: digits_text_def digits1_def all_digits_def lit_def of_char_def is_digit_def)
  show ?thesis
    by (simp add: rewrite_for_executor_def rewrite_tree_def demo_catalog_query_def Let_def dot_rule_def demo_names
      call_rule_def operator_rule_def REGEX_OPERATORS_def collate_rule_def row_rule_def row_column_def empty_rule_def
      coerce_rule_def oid_text_def d cast_rule_def)
qed


text \<open>
  A cast is dropped after the literals were coerced, so \<open>c.oid = '16384'::regclass\<close> is run as a comparison with a text. A derived table is
  a subquery as well, and one that joins an empty table is replaced by NULL although its rows need not be none.
\<close>

lemma cast_literal_stays_text:
  assumes "starts_with (py_lower (sg_sql sg (leaf (E_DataType d)))) (lit ''reg'')"
  shows "rewrite_tree (cast_rule sg) (rewrite_tree (coerce_rule sg)
      (Expr (E_Other ''Where'') None [Expr (E_Binary ''EQ'' None) None [leaf (E_Column t c), Expr E_Cast None [string_literal s, leaf (E_DataType d)]]]))
    = Expr (E_Other ''Where'') None [Expr (E_Binary ''EQ'' None) None [leaf (E_Column t c), string_literal s]]"
  using assms by (simp add: rewrite_tree_def coerce_rule_def cast_rule_def oid_text_def)

lemma derived_table_replaced:
  "rewrite_tree empty_rule (Expr E_Select None [Expr (E_Other ''From'') None [Expr E_Subquery None [Expr E_Select None
      [leaf (E_Table [] (lit ''pg_class'')), Expr (E_Other ''Join'') None [leaf (E_Table [] (lit ''pg_attrdef''))]]]]])
    = Expr E_Select None [Expr (E_Other ''From'') None [leaf E_Null]]"
  by (simp add: rewrite_tree_def empty_rule_def find_all_def walk_tree_def ALWAYS_EMPTY_TABLES_def lit_def of_char_def lower_char_def)

section \<open>What is left alone\<close>

lemma rewrite_below_same: "(\<And>n. n \<in> nodes e \<Longrightarrow> f n (e_kids n) = None) \<Longrightarrow> rewrite_below f e = e"
proof (induction e)
  case (Expr h t ks)
  then have "map (rewrite_below f) ks = ks" by (intro map_idI) auto
  then show ?case using Expr.prems[of "Expr h t ks"] by simp
qed

lemma rewrite_tree_same: "(\<And>n. n \<in> nodes e \<Longrightarrow> f n (e_kids n) = None) \<Longrightarrow> rewrite_tree f e = e"
  by (cases e) (auto simp: rewrite_tree_def intro!: map_idI rewrite_below_same)

lemma plain_query_unchanged:
  assumes "\<And>n. n \<in> nodes e \<Longrightarrow> \<not> is_binary (e_head n) \<and> (\<forall>f. e_head n \<noteq> E_Anonymous f) \<and> e_head n \<noteq> E_Subquery \<and> e_head n \<noteq> E_Cast
      \<and> head_class (e_head n) \<notin> {''Dot'', ''Collate''}"
  shows "rewrite_for_executor sg username e = e"
proof -
  have f: "f n (e_kids n) = None" if "n \<in> nodes e"
    and "f \<in> {dot_rule username, call_rule username, operator_rule, collate_rule, row_rule format_type_column,
       row_rule row_dependent_column, empty_rule, coerce_rule sg, cast_rule sg}" for f n
    using assms[OF that(1)] that(2)
    by (auto simp: dot_rule_def call_rule_def operator_rule_def collate_rule_def row_rule_def row_column_def empty_rule_def coerce_rule_def cast_rule_def
        split: head.splits list.splits)
  show ?thesis unfolding rewrite_for_executor_def by (simp add: rewrite_tree_same f)
qed

end
