(* ===== verification/Session_Functions.thy ===== *)
theory Session_Functions
  imports Table_Params Server Base_Session
begin

text \<open>
  The links \<open>session_functions\<close> and \<open>static_select\<close> of \<open>pg_mimic/middleware.py\<close>: a SELECT without tables whose calls of session functions
  (\<open>version()\<close>, \<open>current_setting\<close>, \<open>set_config\<close>, \<open>pg_notify\<close>, ...) are replaced by literals and which sqlglot's executor then evaluates. Parser and
  executor are the fields of \<open>session_engine\<close>.

  The calls are visited breadth first. A call inside one that is replaced is visited as well, since the list of calls is made before, but what it is
  replaced by is lost. The rows of the statement are computed again at Execute, from the state of then; what
  \<open>set_config\<close> and \<open>pg_notify\<close> do is left to Execute as well.
\<close>

record session_engine = param_literals +
  sg_parse_select :: "pystr \<Rightarrow> expr option"
  sg_execute :: "expr \<Rightarrow> pystr + pystr list \<times> row list"

section \<open>Literals for calls\<close>

definition SESSION_NULLARY_FUNCS :: "'u world \<Rightarrow> conn \<Rightarrow> (string \<times> pystr) list" where
  "SESSION_NULLARY_FUNCS w c =
     [(''CurrentDatabase'', c_database c), (''CurrentSchema'', lit ''public''), (''CurrentUser'', c_username c), (''SessionUser'', c_username c),
      (''CurrentVersion'', dict_get_or (w_parameter_status w) (lit ''server_version'') [])]"

definition replace_class :: "string \<Rightarrow> pystr \<Rightarrow> expr \<Rightarrow> expr" where
  "replace_class cls t e = subst_tree (\<lambda>n. if head_class (e_head n) = cls then Some (string_literal t) else None) e"

definition substitute_nullary :: "(string \<times> pystr) list \<Rightarrow> expr \<Rightarrow> expr \<times> nat" where
  "substitute_nullary funcs e =
     foldl (\<lambda>(e, count) (cls, t). (replace_class cls t e, count + length (find_all (\<lambda>h. head_class h = cls) e))) (e, 0) funcs"

definition missing_ok :: "expr \<Rightarrow> bool option" where
  "missing_ok e =
     (case e_head e of
        E_Boolean b \<Rightarrow> Some b
      | E_Literal string s \<Rightarrow>
          let t = py_lower (py_strip s) in
          if \<not> string then None else if t \<in> set TRUE_TEXTS then Some True else if t \<in> set FALSE_TEXTS then Some False else None
      | _ \<Rightarrow> None)"

definition literal_text :: "expr \<Rightarrow> pystr option" where
  "literal_text e =
     (case e_head e of
        E_Literal string s \<Rightarrow> Some s
      | E_Boolean b \<Rightarrow> Some (if b then lit ''on'' else lit ''off'')
      | _ \<Rightarrow> None)"

text \<open>\<open>rest\<close> is what follows the name; nothing is the answer for a flag that cannot be read.\<close>

definition setting_literal :: "'u env \<Rightarrow> 'u world \<Rightarrow> int \<Rightarrow> pystr \<Rightarrow> bool \<Rightarrow> exc + expr option" where
  "setting_literal env w p raw missing =
     rbind (read_setting env w p (py_lower raw)) (\<lambda>v.
     case v of
       Some t \<Rightarrow> Inr (Some (string_literal t))
     | None \<Rightarrow> if missing then Inr (Some (leaf E_Null)) else Inl (unrecognized_setting raw))"

definition current_setting_literal :: "'u env \<Rightarrow> 'u world \<Rightarrow> int \<Rightarrow> pystr \<Rightarrow> expr list \<Rightarrow> exc + expr option" where
  "current_setting_literal env w p raw rest =
     (case rest of
        [] \<Rightarrow> setting_literal env w p raw False
      | flag # others \<Rightarrow>
          if e_head flag = E_Null then Inr (Some (leaf E_Null))
          else (case missing_ok flag of
            None \<Rightarrow> Inr None
          | Some ok \<Rightarrow> setting_literal env w p raw ok))"

type_synonym replacement = "(expr \<times> effect list) option"

definition set_config_call :: "expr list \<Rightarrow> replacement" where
  "set_config_call arguments =
     (case arguments of
        a # v # others \<Rightarrow>
          (case e_head a of
             E_Literal string s \<Rightarrow>
               if literal_text v = None \<and> e_head v \<noteq> E_Null then None
               else Some (string_literal (case literal_text v of Some t \<Rightarrow> t | None \<Rightarrow> []), [ESetConfig (py_lower s) (literal_text v)])
           | _ \<Rightarrow> None)
      | _ \<Rightarrow> None)"

definition pg_notify_call :: "expr list \<Rightarrow> replacement" where
  "pg_notify_call arguments =
     (case arguments of
        [c, m] \<Rightarrow>
          map_option (\<lambda>channel. (string_literal [], [ENotify channel (case literal_text m of Some t \<Rightarrow> t | None \<Rightarrow> [])])) (literal_text c)
      | _ \<Rightarrow> None)"

definition session_call :: "'a param_literals_scheme \<Rightarrow> 'u env \<Rightarrow> 'u world \<Rightarrow> int \<Rightarrow> expr \<Rightarrow> exc + replacement" where
  "session_call sg env w p e =
     (case e_head e of
        E_Anonymous raw_name \<Rightarrow>
          let name = py_lower raw_name in
          if name = lit ''current_setting'' then
            (case e_kids e of
               a # rest \<Rightarrow>
                 (case e_head a of
                    E_Literal string s \<Rightarrow> rbind (current_setting_literal env w p s rest) (\<lambda>r. Inr (map_option (\<lambda>x. (x, [])) r))
                  | _ \<Rightarrow> Inr None)
             | [] \<Rightarrow> Inr None)
          else if name = lit ''set_config'' then Inr (set_config_call (e_kids e))
          else if name = lit ''pg_notify'' then Inr (pg_notify_call (e_kids e))
          else if name = lit ''pg_backend_pid'' then Inr (Some (sg_number sg (int_str p), []))
          else Inr None
      | _ \<Rightarrow> Inr None)"

fun is_anonymous :: "head \<Rightarrow> bool" where
  "is_anonymous (E_Anonymous n) = True" | "is_anonymous _ = False"

text \<open>The query, the number of replacements, and what is left to Execute.\<close>

definition substitute_session_functions ::
    "'a param_literals_scheme \<Rightarrow> 'u env \<Rightarrow> 'u world \<Rightarrow> int \<Rightarrow> expr \<Rightarrow> exc + expr \<times> nat \<times> effect list" where
  "substitute_session_functions sg env w p e =
     (case substitute_nullary (SESSION_NULLARY_FUNCS w (w_conns w p)) e of
        (e1, count) \<Rightarrow>
          rbind (rmap (session_call sg env w p) (find_all is_anonymous e1)) (\<lambda>rs.
          let made = concat (map (\<lambda>r. case r of Some x \<Rightarrow> [x] | None \<Rightarrow> []) rs) in
          Inr (subst_tree (\<lambda>n. case session_call sg env w p n of Inr (Some (x, effs)) \<Rightarrow> Some x | _ \<Rightarrow> None) e1,
               count + length made, concat (map snd made))))"

section \<open>The links\<close>

fun is_table :: "head \<Rightarrow> bool" where
  "is_table (E_Table db n) = True" | "is_table _ = False"

definition select_without_tables :: "'a session_engine_scheme \<Rightarrow> pystr \<Rightarrow> expr option" where
  "select_without_tables sg sql =
     (case sg_parse_select sg sql of
        Some e \<Rightarrow> if e_head e = E_Select \<and> find_all is_table e = [] then Some e else None
      | None \<Rightarrow> None)"

text \<open>\<open>rows_again\<close>\<close>

definition rows_again :: "'a session_engine_scheme \<Rightarrow> 'u env \<Rightarrow> 'u world \<Rightarrow> int \<Rightarrow> expr \<Rightarrow> exc + row list" where
  "rows_again sg env w p original =
     rbind (substitute_session_functions sg env w p original) (\<lambda>(again, count, effs).
     case sg_execute sg again of Inl msg \<Rightarrow> Inl (OtherError msg) | Inr (names, rs) \<Rightarrow> Inr rs)"

definition evaluate_select ::
    "'a session_engine_scheme \<Rightarrow> 'u env \<Rightarrow> 'u world \<Rightarrow> int \<Rightarrow> pystr \<Rightarrow> bool \<Rightarrow> expr \<Rightarrow> expr \<Rightarrow> effect list \<Rightarrow> exc + statement option" where
  "evaluate_select sg env w p sql again substituted original effs =
     (case sg_execute sg substituted of
        Inl msg \<Rightarrow> Inr None
      | Inr (names, rs) \<Rightarrow>
          rbind (if again then rows_again sg env w p original else Inr rs) (\<lambda>sample.
          rbind (statement_from_rows (sg_sql sg original) names (if again then RowsQuery sql else RowsFixed rs) sample effs) (\<lambda>st. Inr (Some st))))"

definition session_functions :: "'a session_engine_scheme \<Rightarrow> 'u env \<Rightarrow> 'u world \<Rightarrow> int \<Rightarrow> pystr \<Rightarrow> exc + statement option" where
  "session_functions sg env w p sql =
     (case select_without_tables sg sql of
        None \<Rightarrow> Inr None
      | Some e \<Rightarrow>
          rbind (substitute_session_functions sg env w p e) (\<lambda>(substituted, count, effs).
          if count = 0 then Inr None else evaluate_select sg env w p sql True substituted e effs))"

definition static_select :: "'a session_engine_scheme \<Rightarrow> 'u env \<Rightarrow> 'u world \<Rightarrow> int \<Rightarrow> pystr \<Rightarrow> exc + statement option" where
  "static_select sg env w p sql =
     (case select_without_tables sg sql of
        None \<Rightarrow> Inr None
      | Some e \<Rightarrow>
          rbind (substitute_session_functions sg env w p e) (\<lambda>(substituted, count, effs).
          evaluate_select sg env w p sql False substituted e effs))"

text \<open>An author's session with the link, and with \<open>static_select\<close> as its own link \<open>n\<close>. The query a statement closes over is the one its text parses to.\<close>

definition with_session_functions :: "'a session_engine_scheme \<Rightarrow> nat \<Rightarrow> 'u env \<Rightarrow> 'u env" where
  "with_session_functions sg n env =
     env\<lparr>e_link := (\<lambda>link w p sql oids.
           if link = L_session_functions then session_functions sg env w p sql
           else if link = L_custom n then static_select sg env w p sql else e_link env link w p sql oids),
         e_rows := (\<lambda>w p sql. case select_without_tables sg sql of Some e \<Rightarrow> rows_again sg env w p e | None \<Rightarrow> e_rows env w p sql)\<rparr>"

section \<open>Lemmas\<close>

text \<open>What makes a SELECT the connection's business.\<close>

definition asks_session :: "expr \<Rightarrow> bool" where
  "asks_session n \<longleftrightarrow>
     head_class (e_head n) \<in> {''CurrentDatabase'', ''CurrentSchema'', ''CurrentUser'', ''SessionUser'', ''CurrentVersion''}
     \<or> (\<exists>name. e_head n = E_Anonymous name
         \<and> py_lower name \<in> {lit ''current_setting'', lit ''set_config'', lit ''pg_notify'', lit ''pg_backend_pid''})"

lemma replace_class_none:
  assumes "\<forall>n \<in> nodes e. head_class (e_head n) \<noteq> cls"
  shows "replace_class cls t e = e" "find_all (\<lambda>h. head_class h = cls) e = []"
  using assms by (auto simp: replace_class_def find_all_def filter_empty_conv intro!: subst_tree_none)

lemma substitute_nullary_none:
  "\<forall>n \<in> nodes e. head_class (e_head n) \<notin> fst ` set funcs \<Longrightarrow> substitute_nullary funcs e = (e, 0)"
proof (induction funcs)
  case (Cons x funcs)
  obtain cls t where x: "x = (cls, t)" by (cases x)
  have "\<forall>n \<in> nodes e. head_class (e_head n) \<noteq> cls" using Cons.prems x by auto
  then show ?case using Cons x by (simp add: substitute_nullary_def replace_class_none)
qed (simp add: substitute_nullary_def)

lemma session_call_none: "\<not> asks_session n \<Longrightarrow> session_call sg env w p n = Inr None"
  by (auto simp: session_call_def asks_session_def Let_def split: head.splits)

lemma rmap_const: "(\<And>x. x \<in> set xs \<Longrightarrow> f x = Inr c) \<Longrightarrow> rmap f xs = Inr (map (\<lambda>x. c) xs)"
  by (induction xs) auto

lemma substitute_none:
  assumes "\<forall>n \<in> nodes e. \<not> asks_session n"
  shows "substitute_session_functions sg env w p e = Inr (e, 0, [])"
proof -
  have "\<forall>n \<in> nodes e. head_class (e_head n) \<notin> fst ` set (SESSION_NULLARY_FUNCS w (w_conns w p))"
    using assms by (auto simp: asks_session_def SESSION_NULLARY_FUNCS_def)
  then have n: "substitute_nullary (SESSION_NULLARY_FUNCS w (w_conns w p)) e = (e, 0)" by (rule substitute_nullary_none)
  have c: "session_call sg env w p n = Inr None" if "n \<in> nodes e" for n using assms that session_call_none by blast
  have "rmap (session_call sg env w p) (find_all is_anonymous e) = Inr (map (\<lambda>x. None) (find_all is_anonymous e))"
    by (rule rmap_const) (auto simp: find_all_def c)
  moreover have "concat (map (case_option [] (\<lambda>x. [x]) \<circ> (\<lambda>x. None :: replacement)) xs) = []" for xs :: "expr list"
    by (induction xs) simp_all
  moreover have "subst_tree (\<lambda>n. case session_call sg env w p n of Inr (Some (x, effs)) \<Rightarrow> Some x | _ \<Rightarrow> None) e = e"
    by (rule subst_tree_none) (simp add: c)
  ultimately show ?thesis by (simp add: substitute_session_functions_def n Let_def)
qed

text \<open>The effects of a SELECT: settings and notifications.\<close>

fun deferred :: "effect \<Rightarrow> bool" where
  "deferred (ESetConfig key v) = True" | "deferred (ENotify channel payload) = True" | "deferred _ = False"

lemma session_call_deferred: "session_call sg env w p n = Inr (Some (x, effs)) \<Longrightarrow> list_all deferred effs"
  by (auto simp: session_call_def set_config_call_def pg_notify_call_def Let_def split: head.splits list.splits if_splits elim!: rbind_eq_InrE)

lemma substitute_deferred:
  assumes "substitute_session_functions sg env w p e = Inr (e', count, effs)"
  shows "list_all deferred effs"
proof -
  obtain e1 n rs where rs: "rmap (session_call sg env w p) (find_all is_anonymous e1) = Inr rs"
    and effs: "effs = concat (map snd (concat (map (\<lambda>r. case r of Some x \<Rightarrow> [x] | None \<Rightarrow> []) rs)))"
    using assms by (auto simp: substitute_session_functions_def Let_def split: prod.splits)
  have "list_all deferred (snd x)" if "Some x \<in> set rs" for x
    using rmap_elem[OF rs that] session_call_deferred by (metis prod.collapse)
  then show ?thesis by (auto simp: effs list_all_iff split: option.splits)
qed


text \<open>\<open>SELECT set_config('app.tenant', 'acme', false)\<close>\<close>

definition demo_set_config :: expr where
  "demo_set_config = Expr E_Select None [Expr (E_Anonymous (lit ''set_config'')) None
     [string_literal (lit ''app.tenant''), string_literal (lit ''acme''), leaf (E_Boolean False)]]"

definition demo_session_engine :: session_engine where
  "demo_session_engine = \<lparr>sg_sql = (\<lambda>e. []), sg_alias_or_name = (\<lambda>e. []), sg_number = number_literal_node,
     sg_parse_select = (\<lambda>sql. Some demo_set_config), sg_execute = (\<lambda>e. Inr ([lit ''set_config''], [[PStr (lit ''acme'')]]))\<rparr>"


text \<open>A payload that is no literal is sent as the empty payload.\<close>

lemma notify_loses_payload:
  "pg_notify_call [string_literal c, Expr (E_Func f n) t ks] = Some (string_literal [], [ENotify c []])"
  by (simp add: pg_notify_call_def literal_text_def)

end
