(* ===== verification/Fuzz_Shrink.thy ===== *)
theory Fuzz_Shrink
  imports PyText
begin

text \<open>
  \<open>tools/fuzz/shrink.py\<close>: a failing query reduced to a smaller one that fails the same way. The moves are proposed on a syntax tree with its
  argument names; sqlglot's parser and printer and the two engines behind \<open>check\<close> are the fields of \<open>shrinker\<close>.

  A node is named by its path, the argument keys (with the index in a list) that lead to it, which is what \<open>_path_to\<close> works out and
  \<open>_replaced\<close> follows. A class stands for its subclasses. \<open>sorted\<close> with a key is HOL's \<open>sort_key\<close>, stable as Python's.

  The lemmas: the search ends within its budget at a query that still reproduces the verdict and none of whose smaller variants does.
\<close>

section \<open>Trees\<close>

text \<open>A plain argument is given by its text, empty when Python takes it as false.\<close>

datatype anode = ANode (an_class: string) (an_args: "(string \<times> aarg) list")
and aarg = One anode | Many "anode list" | Plain pystr

type_synonym path = "(string \<times> nat option) list"

definition arg :: "string \<Rightarrow> anode \<Rightarrow> aarg option" where
  "arg k t = map_of (an_args t) k"

fun truthy :: "aarg option \<Rightarrow> bool" where
  "truthy None = False" | "truthy (Some (One n)) = True" | "truthy (Some (Many ns)) = (ns \<noteq> [])" | "truthy (Some (Plain s)) = (s \<noteq> [])"

text \<open>\<open>variant.set(key, value)\<close>; setting nothing removes the argument.\<close>

definition set_to :: "string \<Rightarrow> aarg option \<Rightarrow> anode \<Rightarrow> anode" where
  "set_to k v t =
     ANode (an_class t) (case v of
        None \<Rightarrow> filter (\<lambda>(k', a). k' \<noteq> k) (an_args t)
      | Some a \<Rightarrow> if k \<in> fst ` set (an_args t) then map (\<lambda>(k', b). (k', if k' = k then a else b)) (an_args t) else an_args t @ [(k, a)])"

definition children :: "anode \<Rightarrow> ((string \<times> nat option) \<times> anode) list" where
  "children t =
     concat (map (\<lambda>(k, a). case a of
        One n \<Rightarrow> [((k, None), n)]
      | Many ns \<Rightarrow> map (\<lambda>(i, n). ((k, Some i), n)) (enumerate 0 ns)
      | Plain s \<Rightarrow> []) (an_args t))"

text \<open>The first \<open>n\<close> nodes of \<open>walk()\<close>, which is breadth first, with their paths.\<close>

fun walk_paths :: "nat \<Rightarrow> (path \<times> anode) list \<Rightarrow> (path \<times> anode) list" where
  "walk_paths 0 queue = []"
| "walk_paths (Suc n) [] = []"
| "walk_paths (Suc n) ((p, t) # queue) = (p, t) # walk_paths n (queue @ map (\<lambda>(s, c). (p @ [s], c)) (children t))"

fun replaced :: "path \<Rightarrow> anode \<Rightarrow> anode \<Rightarrow> anode" where
  "replaced [] r t = r"
| "replaced ((k, index) # p) r t =
     ANode (an_class t) (map (\<lambda>(k', a). (k',
       if k' \<noteq> k then a
       else case (index, a) of
         (None, One n) \<Rightarrow> One (replaced p r n)
       | (Some i, Many ns) \<Rightarrow> if i < length ns then Many (ns[i := replaced p r (ns ! i)]) else a
       | _ \<Rightarrow> a)) (an_args t))"

section \<open>Moves\<close>

record shrinker =
  sg_parse :: "pystr \<Rightarrow> anode option"
  sg_print :: "anode \<Rightarrow> pystr option"
  sg_check :: "pystr \<Rightarrow> (pystr \<times> pystr) option"

definition LITERALS :: "pystr list" where
  "LITERALS = [lit ''1'', [39] @ lit ''x'' @ [39], lit ''TRUE'', lit ''NULL'']"

definition DROPPABLE :: "string list" where
  "DROPPABLE = [''where'', ''having'', ''group'', ''limit'', ''offset'', ''distinct'', ''qualify'', ''with'', ''joins'', ''order'']"

definition STRUCTURAL :: "string list" where
  "STRUCTURAL = [''alias'', ''alias_column_names'', ''table'', ''db'', ''catalog'', ''to'', ''kind'', ''unit'', ''format'', ''collate'']"

definition SCAFFOLDING :: "string list" where
  "SCAFFOLDING = [''Identifier'', ''Literal'', ''Boolean'', ''Null'', ''Star'', ''DataType'', ''From'', ''Join'', ''Table'', ''TableAlias'', ''Group'',
     ''Order'', ''Ordered'', ''Limit'', ''Offset'', ''Where'', ''Having'', ''Distinct'', ''With'', ''CTE'', ''Subquery'', ''Lateral'']"

definition SET_OPERATIONS :: "string list" where
  "SET_OPERATIONS = [''Union'', ''Except'', ''Intersect'']"

definition ordinal_order :: "nat \<Rightarrow> pystr" where
  "ordinal_order count = lit ''SELECT 1 ORDER BY '' @ py_join (lit '', '') (map nat_str [1..<Suc count])"

definition dropped_clauses :: "anode \<Rightarrow> bool \<Rightarrow> anode list" where
  "dropped_clauses e keep_order =
     map (\<lambda>k. set_to k None e) (filter (\<lambda>k. \<not> (keep_order \<and> k = ''order'') \<and> truthy (arg k e)) DROPPABLE)"

definition dropped_selects :: "shrinker \<Rightarrow> anode \<Rightarrow> bool \<Rightarrow> anode list" where
  "dropped_selects sg e keep_order =
     (case arg ''expressions'' e of
        Some (Many ns) \<Rightarrow>
          if an_class e = ''Select'' \<and> length ns > 1 \<and> \<not> truthy (arg ''group'' e) then
            map (\<lambda>i.
              let kept = take i ns @ drop (Suc i) ns; variant = set_to ''expressions'' (Some (Many kept)) e in
              if keep_order \<and> truthy (arg ''order'' variant)
              then set_to ''order'' (case sg_parse sg (ordinal_order (length kept)) of Some t \<Rightarrow> arg ''order'' t | None \<Rightarrow> None) variant
              else variant) [0..<length ns]
          else []
      | _ \<Rightarrow> [])"

definition sides :: "anode \<Rightarrow> anode list" where
  "sides e =
     (if an_class e \<in> set SET_OPERATIONS
      then concat (map (\<lambda>k. case arg k e of Some (One n) \<Rightarrow> [n] | _ \<Rightarrow> []) [''this'', ''expression'']) else [])"

definition arg_key :: "path \<Rightarrow> string option" where
  "arg_key p = (if p = [] then None else Some (fst (last p)))"

text \<open>\<open>FROM (SELECT ... FROM t) AS a\<close> to \<open>FROM t AS a\<close>\<close>

definition unwrapped :: "anode \<Rightarrow> path \<times> anode \<Rightarrow> anode list" where
  "unwrapped e pn =
     (case pn of (p, node) \<Rightarrow>
        if an_class node = ''Subquery'' \<and> arg_key p \<in> {Some ''this'', Some ''from''} then
          (case arg ''this'' node of
             Some (One inner) \<Rightarrow>
               (case arg ''from'' inner of
                  Some (One from_clause) \<Rightarrow>
                    (case arg ''this'' from_clause of
                       Some (One relation) \<Rightarrow>
                         if an_class relation = ''Table'' then [replaced p (set_to ''alias'' (arg ''alias'' node) relation) e] else []
                     | _ \<Rightarrow> [])
                | _ \<Rightarrow> [])
           | _ \<Rightarrow> [])
        else [])"

definition hoisted :: "shrinker \<Rightarrow> anode \<Rightarrow> path \<times> anode \<Rightarrow> anode list" where
  "hoisted sg e pn =
     (case pn of (p, node) \<Rightarrow>
        if p = [] \<or> an_class node \<in> set SCAFFOLDING \<or> (case arg_key p of Some k \<Rightarrow> k \<in> set STRUCTURAL | None \<Rightarrow> False) then []
        else map (\<lambda>(s, child). replaced p child e)
               (filter (\<lambda>((k, i), child). an_class child \<notin> {''Identifier'', ''TableAlias'', ''DataType''} \<and> k \<notin> set STRUCTURAL) (children node))
             @ concat (map (\<lambda>l. case sg_parse sg l of Some t \<Rightarrow> [replaced p t e] | None \<Rightarrow> []) LITERALS))"

definition variants :: "shrinker \<Rightarrow> anode \<Rightarrow> bool \<Rightarrow> anode list" where
  "variants sg e keep_order =
     dropped_clauses e keep_order @ dropped_selects sg e keep_order @ sides e
     @ concat (map (\<lambda>pn. unwrapped e pn @ hoisted sg e pn) (walk_paths 400 [([], e)]))"

section \<open>The search\<close>

definition rendered :: "shrinker \<Rightarrow> anode \<Rightarrow> pystr option" where
  "rendered sg t =
     (case sg_print sg t of Some sql \<Rightarrow> if sg_parse sg sql = None then None else Some sql | None \<Rightarrow> None)"

definition smaller_variants :: "shrinker \<Rightarrow> bool \<Rightarrow> anode \<Rightarrow> pystr \<Rightarrow> (anode \<times> pystr) list" where
  "smaller_variants sg keep_order best best_sql =
     sort_key (\<lambda>(t, sql). length sql)
       (concat (map (\<lambda>t. case rendered sg t of Some sql \<Rightarrow> if length sql < length best_sql then [(t, sql)] else [] | None \<Rightarrow> [])
         (variants sg best keep_order)))"

fun first_reproducing ::
    "shrinker \<Rightarrow> pystr \<times> pystr \<Rightarrow> int \<Rightarrow> int \<Rightarrow> (anode \<times> pystr) list \<Rightarrow> (anode \<times> pystr) option \<times> int" where
  "first_reproducing sg verdict budget spent [] = (None, spent)"
| "first_reproducing sg verdict budget spent ((t, sql) # others) =
     (if spent \<ge> budget then (None, spent)
      else if sg_check sg sql = Some verdict then (Some (t, sql), spent + 1)
      else first_reproducing sg verdict budget (spent + 1) others)"

lemma first_reproducing_found:
  "first_reproducing sg verdict budget spent cs = (Some (t, sql), spent') \<Longrightarrow> (t, sql) \<in> set cs \<and> sg_check sg sql = Some verdict"
  by (induction sg verdict budget spent cs rule: first_reproducing.induct) (auto split: if_splits)

lemma smaller_variants_smaller:
  "(t, sql) \<in> set (smaller_variants sg keep_order best best_sql) \<Longrightarrow> length sql < length best_sql"
  by (auto simp: smaller_variants_def split: option.splits if_splits)

function shrink_loop :: "shrinker \<Rightarrow> pystr \<times> pystr \<Rightarrow> bool \<Rightarrow> int \<Rightarrow> anode \<Rightarrow> pystr \<Rightarrow> int \<Rightarrow> pystr \<times> int" where
  "shrink_loop sg verdict keep_order budget best best_sql spent =
     (if spent \<ge> budget then (best_sql, spent)
      else
        (case first_reproducing sg verdict budget spent (smaller_variants sg keep_order best best_sql) of
           (Some (t, sql), spent') \<Rightarrow> shrink_loop sg verdict keep_order budget t sql spent'
         | (None, spent') \<Rightarrow> (best_sql, spent')))"
  by pat_completeness auto

termination
  by (relation "measure (\<lambda>(sg, verdict, keep_order, budget, best, best_sql, spent). length best_sql)")
    (auto dest!: first_reproducing_found[OF sym] smaller_variants_smaller)

declare shrink_loop.simps [simp del]

definition shrink :: "shrinker \<Rightarrow> pystr \<Rightarrow> pystr \<times> pystr \<Rightarrow> bool \<Rightarrow> int \<Rightarrow> pystr \<times> int" where
  "shrink sg sql verdict keep_order budget =
     (case sg_parse sg sql of None \<Rightarrow> (sql, 0) | Some best \<Rightarrow> shrink_loop sg verdict keep_order budget best sql 0)"

section \<open>Lemmas\<close>

text \<open>A replacement is found where the node was.\<close>

fun at :: "path \<Rightarrow> anode \<Rightarrow> anode option" where
  "at [] t = Some t"
| "at ((k, index) # p) t =
     (case (index, arg k t) of
        (None, Some (One n)) \<Rightarrow> at p n
      | (Some i, Some (Many ns)) \<Rightarrow> if i < length ns then at p (ns ! i) else None
      | _ \<Rightarrow> None)"

lemma arg_map: "map_of (map (\<lambda>(k', a). (k', if k' \<noteq> k then a else f a)) args) k = map_option f (map_of args k)"
  by (induction args) auto

lemma replaced_at: "at p t \<noteq> None \<Longrightarrow> at p (replaced p r t) = Some r"
proof (induction p arbitrary: t)
  case (Cons s p)
  obtain k index where s: "s = (k, index)" by (cases s)
  show ?case
  proof (cases index)
    case None
    then obtain n where "arg k t = Some (One n)" "at p n \<noteq> None"
      using Cons.prems s by (auto split: option.splits aarg.splits)
    then show ?thesis using Cons.IH[of n] s None by (simp add: arg_def arg_map)
  next
    case (Some i)
    then obtain ns where "arg k t = Some (Many ns)" "i < length ns" "at p (ns ! i) \<noteq> None"
      using Cons.prems s by (auto split: option.splits aarg.splits if_splits)
    then show ?thesis using Cons.IH[of "ns ! i"] s Some by (simp add: arg_def arg_map)
  qed
qed simp

lemma first_reproducing_spent:
  "first_reproducing sg verdict budget spent cs = (found, spent') \<Longrightarrow> spent \<le> budget \<Longrightarrow> spent' \<le> budget"
  by (induction sg verdict budget spent cs rule: first_reproducing.induct) (auto split: if_splits)

lemma first_reproducing_none:
  "first_reproducing sg verdict budget spent cs = (None, spent') \<Longrightarrow> spent' < budget \<Longrightarrow> (t, sql) \<in> set cs \<Longrightarrow> sg_check sg sql \<noteq> Some verdict"
  by (induction sg verdict budget spent cs rule: first_reproducing.induct) (auto split: if_splits)

text \<open>No smaller variant of \<open>best\<close> reproduces the verdict.\<close>

definition locally_minimal :: "shrinker \<Rightarrow> pystr \<times> pystr \<Rightarrow> bool \<Rightarrow> anode \<Rightarrow> pystr \<Rightarrow> bool" where
  "locally_minimal sg verdict keep_order best best_sql \<longleftrightarrow>
     (\<forall>t \<in> set (variants sg best keep_order). \<forall>sql. rendered sg t = Some sql \<longrightarrow> length sql < length best_sql \<longrightarrow> sg_check sg sql \<noteq> Some verdict)"

lemma shrink_loop_result:
  assumes "shrink_loop sg verdict keep_order budget best best_sql spent = (small, spent')" and "spent \<le> budget"
    and "sg_check sg best_sql = Some verdict"
  shows "sg_check sg small = Some verdict \<and> length small \<le> length best_sql \<and> spent' \<le> budget
    \<and> (spent' < budget \<longrightarrow> (\<exists>t. (t = best \<and> small = best_sql \<or> rendered sg t = Some small) \<and> locally_minimal sg verdict keep_order t small))"
  using assms
proof (induction sg verdict keep_order budget best best_sql spent rule: shrink_loop.induct)
  case (1 sg verdict keep_order budget best best_sql spent)
  let ?cs = "smaller_variants sg keep_order best best_sql"
  show ?case
  proof (cases "spent \<ge> budget")
    case True
    then show ?thesis using "1.prems" by (simp add: shrink_loop.simps)
  next
    case False
    obtain found spent1 where f: "first_reproducing sg verdict budget spent ?cs = (found, spent1)" by fastforce
    have b: "spent1 \<le> budget" using first_reproducing_spent[OF f] "1.prems"(2) by blast
    show ?thesis
    proof (cases found)
      case None
      have "small = best_sql" "spent' = spent1" using "1.prems"(1) False f None by (simp_all add: shrink_loop.simps)
      moreover have "locally_minimal sg verdict keep_order best best_sql" if "spent1 < budget"
      proof -
        have "sg_check sg sql \<noteq> Some verdict" if "t \<in> set (variants sg best keep_order)" "rendered sg t = Some sql" "length sql < length best_sql" for t sql
        proof -
          have "(t, sql) \<in> set ?cs" using that by (auto simp: smaller_variants_def intro!: bexI[of _ t])
          then show ?thesis using first_reproducing_none[of sg verdict budget spent ?cs spent1 t sql] f None \<open>spent1 < budget\<close> by simp
        qed
        then show ?thesis by (simp add: locally_minimal_def)
      qed
      ultimately show ?thesis using b "1.prems"(3) by blast
    next
      case (Some c)
      obtain t sql where c: "c = (t, sql)" by (cases c)
      have t: "(t, sql) \<in> set ?cs" "sg_check sg sql = Some verdict"
        using first_reproducing_found[of sg verdict budget spent ?cs t sql spent1] f Some c by simp_all
      have r: "rendered sg t = Some sql" "length sql < length best_sql"
        using t(1) by (auto simp: smaller_variants_def split: option.splits if_splits)
      have "shrink_loop sg verdict keep_order budget t sql spent1 = (small, spent')"
        using "1.prems"(1) False f Some c by (simp add: shrink_loop.simps)
      from "1.IH"[OF False f[symmetric] Some c[symmetric] this b t(2)] show ?thesis using r by fastforce
    qed
  qed
qed

text \<open>
  C39: shrinking a query that fails ends within its budget with one that fails in the same way and is not longer; when it stopped for any
  other reason than the budget, no smaller variant of the result fails in that way.
\<close>
theorem shrink_reproduces:
  assumes "shrink sg sql verdict keep_order budget = (small, spent)" and "sg_check sg sql = Some verdict" and "0 \<le> budget"
  shows "sg_check sg small = Some verdict \<and> length small \<le> length sql \<and> spent \<le> budget
    \<and> (sg_parse sg sql \<noteq> None \<longrightarrow> spent < budget \<longrightarrow>
        (\<exists>t. (sg_parse sg sql = Some t \<and> small = sql \<or> rendered sg t = Some small) \<and> locally_minimal sg verdict keep_order t small))"
proof (cases "sg_parse sg sql")
  case None
  then show ?thesis using assms by (auto simp: shrink_def)
next
  case (Some best)
  then have "shrink_loop sg verdict keep_order budget best sql 0 = (small, spent)" using assms(1) by (simp add: shrink_def)
  from shrink_loop_result[OF this assms(3,2)] show ?thesis using Some by blast
qed

text \<open>\<open>SELECT a WHERE b\<close> when any query fails; the printer writes the class, and what it printed reads back.\<close>

definition demo_shrinker :: shrinker where
  "demo_shrinker = \<lparr>sg_parse = (\<lambda>s. Some (ANode ''Select'' (if length s > 6 then [(''where'', One (ANode ''Where'' []))] else []))),
     sg_print = (\<lambda>t. Some (if an_args t = [] then lit ''SELECT'' else lit ''SELECT TRUE'')), sg_check = (\<lambda>s. Some ([], []))\<rparr>"

lemma demo_shrink: "shrink demo_shrinker (lit ''SELECT TRUE'') ([], []) False 600 = (lit ''SELECT'', 1)"
proof -
  let ?first = "ANode ''Select'' [(''where'', One (ANode ''Where'' []))]" and ?last = "ANode ''Select'' []"
  have l: "length (lit ''SELECT TRUE'') = 11" "length (lit ''SELECT'') = 6" by (simp_all add: lit_def)
  have w: "walk_paths 400 [([], ?first)] = [([], ?first), ([(''where'', None)], ANode ''Where'' [])]" "walk_paths 400 [([], ?last)] = [([], ?last)]"
    by (simp_all add: numeral_eq_Suc children_def)
  have v: "variants demo_shrinker ?first False = [?last]" "variants demo_shrinker ?last False = []"
    unfolding variants_def w
    by (simp_all add: dropped_clauses_def dropped_selects_def sides_def unwrapped_def hoisted_def arg_def set_to_def arg_key_def
        SCAFFOLDING_def SET_OPERATIONS_def DROPPABLE_def)
  have r: "rendered demo_shrinker ?last = Some (lit ''SELECT'')" by (simp add: rendered_def demo_shrinker_def)
  have c: "smaller_variants demo_shrinker False ?first (lit ''SELECT TRUE'') = [(?last, lit ''SELECT'')]"
    "smaller_variants demo_shrinker False ?last (lit ''SELECT'') = []"
    by (simp_all add: smaller_variants_def v r l)
  have k: "sg_check demo_shrinker q = Some ([], [])" "sg_parse demo_shrinker (lit ''SELECT TRUE'') = Some ?first" for q
    by (simp_all add: demo_shrinker_def l)
  show ?thesis
    by (simp add: shrink_def k(2) shrink_loop.simps[of demo_shrinker _ False 600 ?first] shrink_loop.simps[of demo_shrinker _ False 600 ?last] c k(1))
qed

theorem shrink_reproduces_witness:
  "shrink demo_shrinker (lit ''SELECT TRUE'') ([], []) False 600 = (lit ''SELECT'', 1) \<and> sg_check demo_shrinker (lit ''SELECT TRUE'') = Some ([], [])
   \<and> locally_minimal demo_shrinker ([], []) False (ANode ''Select'' []) (lit ''SELECT'') \<and> length (lit ''SELECT'') \<le> length (lit ''SELECT TRUE'')"
proof -
  have k: "sg_check demo_shrinker (lit ''SELECT TRUE'') = Some ([], [])" by (simp add: demo_shrinker_def)
  have "locally_minimal demo_shrinker ([], []) False (ANode ''Select'' []) (lit ''SELECT'')"
    by (simp add: locally_minimal_def variants_def numeral_eq_Suc children_def dropped_clauses_def dropped_selects_def sides_def unwrapped_def hoisted_def
        arg_def SET_OPERATIONS_def)
  then show ?thesis using shrink_reproduces[OF demo_shrink k] demo_shrink k by simp
qed

end
