(* ===== verification/Fuzz_Compare.thy ===== *)
theory Fuzz_Compare
  imports Py_Order "HOL-Library.Product_Lexorder"
begin

text \<open>
  \<open>tools/fuzz/compare.py\<close>: whether two result sets are the same answer, and how bad the difference is. A row is a tuple of values, and
  \<open>float()\<close> and \<open>int()\<close> of a value may raise. The key rows are sorted by is a tuple of triples; a float in it is compared by its value.

  The lemmas: two answers that pass are the same rows, in whatever order, but for the differences \<open>compare_value\<close> forgives; where the code forgives
  more than it says is shown on values.
\<close>

section \<open>Floats\<close>

definition float_key :: "f64 \<Rightarrow> rat list" where
  "float_key w = (if f64_inf w then [if f64_sign w then - 1 else 1] else [0, f64_val w])"

definition float_abs :: "f64 \<Rightarrow> f64" where
  "float_abs w = (if f64_sign w then f64_neg w else w)"

definition float_le :: "f64 \<Rightarrow> f64 \<Rightarrow> bool" where
  "float_le v w \<longleftrightarrow> \<not> f64_nan v \<and> \<not> f64_nan w \<and> float_key v \<le> float_key w"

text \<open>\<open>v - w\<close> and \<open>v * w\<close> for numbers that are no NaN; the first is not asked of two infinities of one sign, the second of \<open>w\<close> positive.\<close>

definition float_minus :: "f64 \<Rightarrow> f64 \<Rightarrow> f64" where
  "float_minus v w = (if f64_inf v then v else if f64_inf w then f64_neg w else f64_round (f64_val v - f64_val w))"

definition float_times :: "f64 \<Rightarrow> f64 \<Rightarrow> f64" where
  "float_times v w = (if f64_inf w then w else f64_round (f64_val v * f64_val w))"

definition TOLERANCE :: f64 where "TOLERANCE = f64_round (1 / 10 ^ 9)"

definition floats_close :: "f64 \<Rightarrow> f64 \<Rightarrow> bool" where
  "floats_close v w \<longleftrightarrow>
     (if f64_nan v \<and> f64_nan w then True
      else if f64_nan v \<or> f64_nan w then False
      else if float_key v = float_key w then True
      else let scale = (if float_le (float_abs w) (float_abs v) then float_abs v else float_abs w) in
        float_le (float_abs (float_minus v w)) (float_times TOLERANCE scale))"

definition numerically_equal :: "pyval \<Rightarrow> pyval \<Rightarrow> exc + bool" where
  "numerically_equal left right = rbind (py_float left) (\<lambda>v. rbind (py_float right) (\<lambda>w. Inr (floats_close v w)))"

section \<open>Values\<close>

datatype severity = S_COUNT | S_VALUE | S_EXACT | S_TYPE | S_ORDER

definition SEVERITY :: "severity list" where
  "SEVERITY = [S_COUNT, S_VALUE, S_EXACT, S_TYPE]"

fun severity_index :: "severity list \<Rightarrow> severity \<Rightarrow> nat" where
  "severity_index [] s = 0"
| "severity_index (x # xs) s = (if x = s then 0 else Suc (severity_index xs s))"

fun is_number :: "pyval \<Rightarrow> bool" where
  "is_number (PInt i) = True" | "is_number (PFloat w) = True" | "is_number (PDecimal d) = True" | "is_number v = False"

fun is_bool :: "pyval \<Rightarrow> bool" where
  "is_bool (PBool b) = True" | "is_bool v = False"

definition differs_unless :: "bool \<Rightarrow> severity option" where
  "differs_unless same = (if same then None else Some S_VALUE)"

definition compare_numbers :: "pyval \<Rightarrow> pyval \<Rightarrow> exc + severity option" where
  "compare_numbers expected actual =
     rbind (numerically_equal expected actual) (\<lambda>same.
     Inr (if \<not> same then Some S_VALUE
          else case (expected, actual) of
            (PDecimal d, PFloat w) \<Rightarrow> Some S_EXACT
          | _ \<Rightarrow> if type_name expected \<noteq> type_name actual then Some S_TYPE else None))"

definition compare_bools :: "pyval \<Rightarrow> pyval \<Rightarrow> exc + severity option" where
  "compare_bools expected actual =
     (if is_bool expected \<and> is_bool actual then Inr (differs_unless (expected = actual))
      else if is_number actual \<or> is_number expected then
        rbind (py_int expected) (\<lambda>i. rbind (py_int actual) (\<lambda>j. Inr (Some (if i = j then S_TYPE else S_VALUE))))
      else Inr (Some S_VALUE))"

definition compare_value :: "pyval \<Rightarrow> pyval \<Rightarrow> exc + severity option" where
  "compare_value expected actual =
     (if expected = PNone \<and> actual = PNone then Inr None
      else if expected = PNone \<or> actual = PNone then Inr (Some S_VALUE)
      else if is_bool expected \<or> is_bool actual then compare_bools expected actual
      else if is_number expected \<and> is_number actual then compare_numbers expected actual
      else case (expected, actual) of
        (PStr s, PStr t) \<Rightarrow> Inr (differs_unless (s = t))
      | (PDatetime d t z, PDatetime d' t' z') \<Rightarrow>
          Inr (if (d, t) \<noteq> (d', t') then Some S_VALUE else if (z = None) = (z' = None) then None else Some S_TYPE)
      | (PDate d, PDatetime d' t' z') \<Rightarrow> Inr (differs_unless (d' = d \<and> t' = 0))
      | _ \<Rightarrow> Inr (differs_unless (py_eq expected actual)))"

section \<open>Result sets\<close>

type_synonym value_sort_key = "nat \<times> rat list \<times> pystr"

definition value_key :: "pyval \<Rightarrow> exc + value_sort_key" where
  "value_key v =
     (if v = PNone then Inr (0, [0, 0], [])
      else if is_bool v \<or> is_number v then
        rbind (py_float v) (\<lambda>w. Inr (1, (if f64_nan w then [0, 0] else float_key w), []))
      else case v of PStr s \<Rightarrow> Inr (2, [0, 0], s) | _ \<Rightarrow> Inr (3, [0, 0], py_str_val v))"

definition sort_key_of :: "row \<Rightarrow> exc + value_sort_key list" where
  "sort_key_of r = rmap value_key r"

definition sorted_by_key :: "row list \<Rightarrow> exc + row list" where
  "sorted_by_key rs = rbind (rmap sort_key_of rs) (\<lambda>ks. Inr (map snd (sort_key fst (zip ks rs))))"

definition difference_text :: "nat \<Rightarrow> nat \<Rightarrow> pyval \<Rightarrow> pyval \<Rightarrow> pystr" where
  "difference_text index position v w =
     lit ''row '' @ nat_str index @ lit '' column '' @ nat_str position @ lit '': postgres '' @ py_repr_val v @ lit '' ('' @ type_name v
       @ lit ''), executor '' @ py_repr_val w @ lit '' ('' @ type_name w @ lit '')''"

definition worse :: "severity \<Rightarrow> pystr \<Rightarrow> (severity \<times> pystr) option \<Rightarrow> (severity \<times> pystr) option" where
  "worse s detail worst =
     (case worst of
        None \<Rightarrow> Some (s, detail)
      | Some (s', d) \<Rightarrow> if severity_index SEVERITY s < severity_index SEVERITY s' then Some (s, detail) else Some (s', d))"

fun worst_value :: "nat \<Rightarrow> nat \<Rightarrow> (severity \<times> pystr) option \<Rightarrow> (pyval \<times> pyval) list \<Rightarrow> exc + (severity \<times> pystr) option" where
  "worst_value index position worst [] = Inr worst"
| "worst_value index position worst ((v, w) # vs) =
     rbind (compare_value v w) (\<lambda>s.
     worst_value index (Suc position) (case s of None \<Rightarrow> worst | Some x \<Rightarrow> worse x (difference_text index position v w) worst) vs)"

definition width_text :: "nat \<Rightarrow> row \<Rightarrow> row \<Rightarrow> pystr" where
  "width_text index r s =
     lit ''row '' @ nat_str index @ lit '' has '' @ nat_str (length r) @ lit '' columns in postgres, '' @ nat_str (length s) @ lit '' in the executor''"

fun worst_row :: "nat \<Rightarrow> (severity \<times> pystr) option \<Rightarrow> (row \<times> row) list \<Rightarrow> exc + (severity \<times> pystr) option" where
  "worst_row index worst [] = Inr worst"
| "worst_row index worst ((r, s) # rs) =
     (if length r \<noteq> length s then Inr (Some (S_COUNT, width_text index r s))
      else rbind (worst_value index 0 worst (zip r s)) (\<lambda>worst'. worst_row (Suc index) worst' rs))"

definition first_difference :: "row list \<Rightarrow> row list \<Rightarrow> exc + (severity \<times> pystr) option" where
  "first_difference expected actual = worst_row 0 None (zip expected actual)"

text \<open>\<open>repr\<close> of a tuple.\<close>

definition row_repr :: "row \<Rightarrow> pystr" where
  "row_repr r = lit ''('' @ py_join (lit '', '') (map py_repr_val r) @ (if length r = 1 then lit '','' else []) @ lit '')''"

definition first_out_of_order :: "row list \<Rightarrow> row list \<Rightarrow> nat" where
  "first_out_of_order expected actual =
     (case find (\<lambda>i. sort_key_of (expected ! i) \<noteq> sort_key_of (actual ! i)) [0..<min (length expected) (length actual)] of Some i \<Rightarrow> i | None \<Rightarrow> 0)"

definition compare :: "row list \<Rightarrow> row list \<Rightarrow> bool \<Rightarrow> exc + (severity \<times> pystr) option" where
  "compare expected actual ordered =
     (if length expected \<noteq> length actual
      then Inr (Some (S_COUNT, nat_str (length expected) @ lit '' rows from postgres, '' @ nat_str (length actual) @ lit '' from the executor''))
      else
        rbind (if ordered then first_difference expected actual else Inr None) (\<lambda>sequence_difference.
        rbind (sorted_by_key expected) (\<lambda>left.
        rbind (sorted_by_key actual) (\<lambda>right.
        rbind (first_difference left right) (\<lambda>multiset_difference.
        Inr (if multiset_difference \<noteq> None then multiset_difference
             else if ordered \<and> sequence_difference \<noteq> None then
               let index = first_out_of_order expected actual in
               Some (S_ORDER, lit ''same rows, different order: at row '' @ nat_str index @ lit '' postgres has '' @ row_repr (expected ! index)
                 @ lit '', the executor '' @ row_repr (actual ! index))
             else None))))))"

section \<open>Lemmas\<close>

definition same_value :: "pyval \<Rightarrow> pyval \<Rightarrow> bool" where
  "same_value v w \<longleftrightarrow> compare_value v w = Inr None"

definition same_rows :: "row list \<Rightarrow> row list \<Rightarrow> bool" where
  "same_rows rs ss \<longleftrightarrow> list_all2 (list_all2 same_value) rs ss"

lemma worst_value_none:
  "worst_value index position worst vs = Inr None \<Longrightarrow> worst = None \<and> (\<forall>(v, w) \<in> set vs. same_value v w)"
proof (induction index position worst vs rule: worst_value.induct)
  case (2 index position worst v w vs)
  then obtain s where s: "compare_value v w = Inr s"
    and r: "worst_value index (Suc position) (case s of None \<Rightarrow> worst | Some x \<Rightarrow> worse x (difference_text index position v w) worst) vs = Inr None"
    by auto
  from "2.IH"[OF s r] have "(case s of None \<Rightarrow> worst | Some x \<Rightarrow> worse x (difference_text index position v w) worst) = None"
    "\<forall>(v, w) \<in> set vs. same_value v w" by blast+
  then show ?case using s by (auto simp: worse_def same_value_def split: option.splits if_splits)
qed simp

lemma worst_row_none:
  "worst_row index worst rs = Inr None \<Longrightarrow> worst = None \<and> (\<forall>(r, s) \<in> set rs. list_all2 same_value r s)"
proof (induction index worst rs rule: worst_row.induct)
  case (2 index worst r s rs)
  then obtain worst' where l: "length r = length s" and v: "worst_value index 0 worst (zip r s) = Inr worst'" and n: "worst_row (Suc index) worst' rs = Inr None"
    by (auto split: if_splits)
  from "2.IH"[OF _ v n] l have w: "worst' = None" "\<forall>(r, s) \<in> set rs. list_all2 same_value r s" by auto
  then have "worst = None \<and> (\<forall>(v, w) \<in> set (zip r s). same_value v w)" using worst_value_none v by blast
  then show ?case using l w by (auto simp: list_all2_iff)
qed simp

lemma first_difference_none: "first_difference rs ss = Inr None \<Longrightarrow> length rs = length ss \<Longrightarrow> same_rows rs ss"
  using worst_row_none[of 0 None "zip rs ss"] by (auto simp: first_difference_def same_rows_def list_all2_iff)

lemma sorted_by_key_mset: "sorted_by_key rs = Inr ss \<Longrightarrow> mset ss = mset rs"
  by (auto simp: sorted_by_key_def dest!: length_rmap) (metis map_snd_zip mset_map mset_sort)

text \<open>
  C40: an answer that passes is the answer: when the fuzzer sees no difference, the rows of the two engines can be paired off so that every value
  differs by what \<open>compare_value\<close> forgives at most, and row by row where the order was asked for.
\<close>
theorem accepted_answers_agree:
  assumes "compare expected actual ordered = Inr None"
  shows "\<exists>left right. mset left = mset expected \<and> mset right = mset actual \<and> same_rows left right \<and> (ordered \<longrightarrow> same_rows expected actual)"
proof -
  have l: "length expected = length actual" using assms by (auto simp: compare_def split: if_splits)
  obtain seq left right found where q: "(if ordered then first_difference expected actual else Inr None) = Inr seq"
    and s: "sorted_by_key expected = Inr left" "sorted_by_key actual = Inr right" and d: "first_difference left right = Inr found"
    and f: "found = None" "ordered \<longrightarrow> seq = None"
    using assms l by (auto simp: compare_def Let_def simp del: not_None_eq split: if_split_asm elim!: rbind_eq_InrE)
  have m: "first_difference left right = Inr None" and o: "ordered \<longrightarrow> seq = None" using d f by simp_all
  have e: "mset left = mset expected" "mset right = mset actual" using s sorted_by_key_mset by blast+
  then have "length left = length right" using l by (metis size_mset)
  then have "same_rows left right" using first_difference_none[OF m] by blast
  moreover have "ordered \<longrightarrow> same_rows expected actual" using q o first_difference_none l by auto
  ultimately show ?thesis using e by blast
qed

theorem accepted_answers_agree_witness:
  "compare [[PStr [65]], [PNone]] [[PNone], [PStr [65]]] False = Inr None
   \<and> (\<exists>left right. mset left = mset [[PStr [65]], [PNone]] \<and> mset right = mset [[PNone], [PStr [65]]] \<and> same_rows left right)"
proof -
  have c: "compare [[PStr [65]], [PNone]] [[PNone], [PStr [65]]] False = Inr None"
    by (simp add: compare_def sorted_by_key_def sort_key_of_def value_key_def first_difference_def compare_value_def differs_unless_def less_eq_prod_def)
  show ?thesis using accepted_answers_agree[OF c] c by blast
qed

section \<open>What is forgiven too much\<close>

text \<open>An infinity is within the tolerance of everything, since the tolerance of its scale is infinite.\<close>

lemma infinity_passes:
  assumes "f64_inf v" "\<not> f64_sign v" "\<not> f64_nan w" "\<not> f64_sign w"
  shows "floats_close v w"
proof -
  have n: "\<not> f64_nan v" using assms(1) by (simp add: f64_inf_def f64_nan_def)
  have k: "float_key v = [1]" using assms by (simp add: float_key_def)
  have "float_le w v" using assms n k by (simp add: float_le_def) (simp add: float_key_def)
  then show ?thesis using assms n k by (simp add: floats_close_def float_abs_def float_minus_def float_times_def float_le_def)
qed

lemma infinite: "f64_inf f64_pinf" "\<not> f64_sign f64_pinf" "\<not> f64_nan 0" "\<not> f64_sign 0"
  by (simp_all add: f64_inf_def f64_pinf_def f64_sign_def f64_nan_def f64_exp_def f64_frac_def unsigned_of_nat take_bit_nat_def)

lemma infinity_is_zero: "compare_value (PFloat f64_pinf) (PFloat 0) = Inr None"
  using infinity_passes infinite by (simp add: compare_value_def compare_numbers_def numerically_equal_def)

text \<open>NaN is sorted where zero is and differs from it, and the sort is stable: one multiset in two orders can be reported as a wrong value.\<close>

lemma nan_shares_key: "value_key (PDecimal DNan) = value_key (PInt 0)" "compare_value (PDecimal DNan) (PInt 0) = Inr (Some S_VALUE)"
  by (simp_all add: value_key_def float_key_def f64_round_def f64_nan_def f64_exp_def f64_frac_def f64_inf_def unsigned_of_nat take_bit_nat_def f64_val_def f64_abs_def f64_sign_def compare_value_def compare_numbers_def numerically_equal_def floats_close_def)

text \<open>\<open>int()\<close> truncates: 1.5 for TRUE is graded as a difference of type.\<close>

lemma fraction_is_true: "compare_value (PBool True) (PDecimal (DFin False 15 (- 1))) = Inr (Some S_TYPE)" by code_simp

end
