(* ===== verification/Spec2Isabelle.thy ===== *)
theory Spec2Isabelle
  imports Array_Codecs Copy_Roundtrip Streams Notifications Fetch Session_Claims Settings_Claims Prepare_Claims Catalog_Answers Auth_Claims Table_Serving Catalog_Rewrite Session_Functions Fuzz_Shrink Fuzz_Compare
begin

text \<open>
  A verification library for pg_mimic, a server that speaks the PostgreSQL wire protocol for a Python
  session.

  \<^bold>\<open>The program.\<close> A client connects to \<open>PgServer\<close> (\<open>server.py\<close>), which negotiates the protocol, builds a \<open>Connection\<close>
  (\<open>connection.py\<close>) and lets it authenticate the client (\<open>auth.py\<close>). The connection reads framed messages (\<open>stream.py\<close>), parses
  them (\<open>messages.py\<close>), and answers each: the simple protocol, the extended protocol (Parse, Bind, Describe, Execute, Close, Sync) and
  the COPY sub-protocol (\<open>copy.py\<close>). A statement is prepared by the session (\<open>session.py\<close>), whose middleware (\<open>middleware.py\<close>)
  answers client boilerplate: transactions, savepoints, SET and SHOW (values in \<open>settings_values.py\<close>), DISCARD, PREPARE,
  LISTEN and NOTIFY, and answers queries on the catalogues from the tables the author declares (\<open>declared.py\<close>, \<open>catalog.py\<close>,
  \<open>typeinfo.py\<close>); everything else is the author's \<open>describe\<close> and \<open>query\<close>. Per-connection state with its transaction scopes is \<open>state.py\<close>; values
  travel in the text and binary formats of \<open>types.py\<close> and \<open>arrays.py\<close>; notifications cross from one connection to
  another through the server's registry.

  \<^bold>\<open>The theories and what they model.\<close>
    \<^item> \<open>Prelude\<close>: results, state actions, dicts and sets of Python and the lemma collections; \<open>PyText\<close>, \<open>PyFloat\<close>, \<open>PyDate\<close>: the standard
      library that the source uses (str, UTF-8, float parsing and printing, datetime); \<open>Regex\<close>: the part of \<open>re\<close> it uses.
    \<^item> \<open>Wire\<close>, \<open>Messages\<close>, \<open>Stream_IO\<close>: \<open>types.py\<close>'s big-endian integers, every \<open>make_*\<close> and \<open>parse_*\<close> of \<open>messages.py\<close>, framing and
      length limits of \<open>stream.py\<close>.
    \<^item> \<open>Values\<close>, \<open>Numeric_Codec\<close>, \<open>Scalar_Codecs\<close>, \<open>Arrays\<close>, \<open>Array_Codecs\<close>: the text and binary codecs of \<open>types.py\<close> and \<open>arrays.py\<close>.
    \<^item> \<open>Copy_Codec\<close>, \<open>Copy_Parse\<close>, \<open>Copy_Roundtrip\<close>: the COPY formats and the COPY statement parser of \<open>copy.py\<close>.
    \<^item> \<open>Session_State\<close>: \<open>SessionState\<close> and its scope stack.
    \<^item> \<open>World\<close>: the objects of a running server (connections by pid, sessions by number, the registry) and the push half of \<open>connection.py\<close> and
      \<open>server.py\<close>. \<open>Author\<close>: what a session author supplies, as the fields of \<open>env\<close>; \<open>Base_Session\<close>: the class before any override.
    \<^item> \<open>Settings_Values\<close>, \<open>Settings\<close>, \<open>Effects\<close>, \<open>Middleware\<close>: \<open>settings_values.py\<close> and \<open>middleware.py\<close>; the \<open>on_execute\<close> closures are the constructors of
      \<open>effect\<close>, run by \<open>run_effect\<close>.
    \<^item> \<open>Declared\<close>: \<open>Table\<close>, \<open>Schema\<close> and \<open>resolve\<close> of \<open>declared.py\<close>. \<open>Catalog_Data\<close>: the column lists of \<open>catalog_data.py\<close> and
      \<open>information_schema.json\<close>. \<open>Key_Names\<close>: \<open>_key_name\<close> and the rendering of identifiers. \<open>Pg_Types\<close>: Python types to OIDs and the rows of \<open>pg_type\<close>.
      \<open>Typeinfo\<close>: asyncpg's introspection query (\<open>typeinfo.py\<close>). \<open>Catalog\<close>: the rows of \<open>information_schema\<close> and \<open>pg_catalog\<close>. \<open>Catalog_Query\<close>: what
      each outcome of running a catalogue query becomes, and the three catalogue links of the middleware.
    \<^item> \<open>Syntax_Tree\<close>: the syntax trees of sqlglot as far as the code looks at them. \<open>Describe\<close>: \<open>describe.py\<close> and \<open>analysis.py\<close>, the names and
      OIDs of a query's columns. \<open>Table_Session\<close>, \<open>Table_Params\<close>, \<open>Table_Rows\<close>, \<open>Table_Query\<close>, \<open>Table_Serving\<close>: \<open>tables.py\<close>, that is what a
      \<open>TableSession\<close> holds, how it binds parameters, what it does to the executor's rows, how it plans and runs a query, and the
      session it is to the server. \<open>Catalog_Rewrite\<close>: the passes of \<open>catalog_rewrite.py\<close>. \<open>Session_Functions\<close>: the links
      \<open>session_functions\<close> and \<open>static_select\<close>. \<open>Fuzz_Shrink\<close>, \<open>Fuzz_Compare\<close>: \<open>shrink.py\<close> and \<open>compare.py\<close> of
      \<open>tools/fuzz\<close>. \<open>Py_Order\<close>: Python's \<open>==\<close>, \<open><\<close> and \<open>sorted\<close> on values.
    \<^item> \<open>Portals\<close>, \<open>Connection\<close>, \<open>Server\<close>: \<open>session.py\<close> and \<open>results.py\<close>; the handlers, \<open>dispatch\<close> and a turn of the command loop; startup, authentication, the
      life of a connection, and the server as the step relation \<open>server_step\<close> with \<open>reachable\<close>.

  An operation that can raise returns \<open>exc + 'a\<close>; one that also changes state is an action \<open>('s, 'a) act\<close>, which returns the state beside the result, so that
  what was done before an exception stays done. A stream is the list of backend messages written to it, and \<open>render\<close> gives their bytes. A command runs to
  its end in one step; what other tasks do while it waits arrives through the acts of the author's methods.

  \<^bold>\<open>What is proved.\<close>
    \<^item> \<open>Guarantees\<close> holds the locales \<open>world_preorder\<close>, \<open>deliver_guarantee\<close>, \<open>author_guarantee\<close>, \<open>command_guarantee\<close> and \<open>turn_guarantee\<close>: a relation that contains the
      primitive moves holds across every effect, every handler, every command and every turn. The theories below interpret them.
    \<^item> \<open>Registry\<close>: the LISTEN registry and the connections' records agree in every reachable state (locale \<open>channel_registry\<close>).
    \<^item> \<open>Streams\<close>: NotificationResponse never lands inside the response to a command.
    \<^item> \<open>Responses\<close>: one ReadyForQuery per Query and Sync; errors are answered once and skip to the next Sync; a turn touches no other connection.
    \<^item> \<open>Session_Claims\<close>: no two live connections share a session; a trusted client gets its command loop.
    \<^item> \<open>Notifications\<close>: what NOTIFY, COMMIT and ROLLBACK deliver. \<open>Fetch\<close>: fetching in pieces refines one fetch.
    \<^item> \<open>Settings_Claims\<close>: accepted values fit their parameter; a refused SET leaves no trace. \<open>Prepare_Claims\<close>: preparing ends.
    \<^item> \<open>Declared\<close>: a schema that resolves is well formed and its column mapping resolves to itself. \<open>Catalog_Rows\<close> (locale \<open>catalog_invariant\<close>,
      interpreted three times) and \<open>Catalog_Claims\<close>: every row has its declared columns, OIDs link and are unique, the two catalogues agree.
      \<open>Catalog_Answers\<close>: which catalogue queries are answered and how errors are worded. \<open>Typeinfo\<close>: element types come first.
      \<open>Auth_Claims\<close>: the password decides.
    \<^item> \<open>Py_Order\<close> (locale \<open>weak_order\<close>, interpreted in \<open>Table_Rows\<close> on SQL's order of rows): \<open>sorted\<close> orders and is stable. \<open>Table_Session\<close>: the rows, types and
      schema of a TableSession agree. \<open>Table_Rows\<close>: ORDER BY and DISTINCT ON do to the rows what SQL says. \<open>Table_Params\<close>: a bound value becomes a literal and nothing
      else. \<open>Table_Query\<close>: rows are as wide as their description. \<open>Table_Serving\<close>: every placeholder gets a type slot.
    \<^item> \<open>Catalog_Rewrite\<close>: a rewritten query has nothing left of what the executor cannot run. \<open>Session_Functions\<close>: only a SELECT that asks the connection is
      answered for it, and its effects wait for Execute.
    \<^item> \<open>Fuzz_Shrink\<close>: shrinking ends at a query that fails the same way and is locally minimal. \<open>Fuzz_Compare\<close>: answers that pass agree up to order.
    \<^item> \<open>Session_State\<close>: savepoint scopes (locale \<open>scope_stack\<close>). \<open>Messages\<close>, \<open>Stream_IO\<close>, the codec and COPY theories: round trips, bounds and refusals.

  \<^bold>\<open>Fuel.\<close> \<open>prepare_fuel\<close> bounds the nesting of PREPARE by the length of the text (shown to be enough in \<open>Prepare_Claims\<close>); \<open>iterate_copy\<close> and \<open>finish_copy\<close>
  bound the messages of a COPY by the length of the input, each message taking at least five bytes of it; \<open>star_loop\<close> bounds the turns of
  a starred pattern by the length of the text, each turn consuming a character; \<open>strip_brackets\<close> by the length of the type name; the array literal
  parser by the length of the literal (\<open>parse_array_literal_ends\<close>); \<open>walk_paths\<close> takes the first 400 nodes, as the code does.

  \<^bold>\<open>Not modelled.\<close> sqlglot itself. Around it stand parameters: in \<open>env\<close>, \<open>e_parse\<close> (the parsed statement), \<open>e_rewrite\<close> (the
  rewriting of a catalogue query as \<open>query\<close> records show it; \<open>Catalog_Rewrite\<close> has it over trees), \<open>e_execute\<close> (the executor's rows or its error), \<open>e_columns\<close> (the annotated columns), \<open>e_link\<close> (the link
  \<open>session_functions\<close>, which \<open>with_session_functions\<close> puts in, and any the author adds), and the tokenizer as \<open>e_semicolons\<close> and \<open>e_arguments\<close>; in \<open>sqlglot\<close>, \<open>analyzer\<close>, \<open>param_literals\<close>, \<open>engine\<close> and \<open>session_engine\<close>, the
  printer, the parser, the normalizer, \<open>qualify\<close>, the annotator and the executor a TableSession calls. The contents of \<open>pg_settings.json\<close> are the parameter
  \<open>e_catalog\<close>. Hash functions and the SCRAM server are the fields of \<open>auth_env\<close>.
  The functions \<open>catalog_rewrite.py\<close> adds to the executor's environment run inside it. Sockets, signals, task scheduling and draining are asyncio. A session that implements \<open>BaseSession\<close> directly, \<open>testing.py\<close>, \<open>pytest_plugin.py\<close>, the examples and
  the other tools are left out: the query generator draws from a random source, and the rest runs engines or writes generated files.
\<close>

end
